(* ===== verification/Prelude.thy ===== *)
theory Prelude
  imports Main "HOL-Library.AList" "HOL-Library.Multiset" "HOL-Library.List_Lexorder"
    "HOL-Library.Char_ord" "HOL-Library.Sublist"
begin

text \<open>
  Shared ground of the development: what the Go sources use of the language and its standard
  library (strings and \<^verbatim>\<open>strings.TrimSpace\<close>, \<^verbatim>\<open>strings.ToUpper\<close>, decimal printing, instants and
  durations of \<^verbatim>\<open>time\<close>, maps, slices kept under a map key, \<^verbatim>\<open>sort.Slice\<close>), the code equations
  that let concrete runs compute with characters and digits, and the lemma collections every
  component uses. A Go string is its bytes, so it is a HOL \<open>string\<close> and
  \<open>length\<close> is \<^verbatim>\<open>len\<close>.
\<close>

named_theorems enum_defs \<open>definitions of the named string constants\<close>
named_theorems repo_defs \<open>definitions of repository operations\<close>
named_theorems request_defs \<open>definitions of the request builders of the services\<close>
named_theorems zero_defs \<open>Go zero values\<close>

section \<open>Strings\<close>

text \<open>
  The UTF-8 encodings of the code points for which \<^verbatim>\<open>unicode.IsSpace\<close> holds. Trimming a byte
  string by runes removes exactly these sequences at its ends.
\<close>

definition space_encodings :: "string list" where
  "space_encodings =
     [[CHR 0x20], [CHR 0x09], [CHR 0x0A], [CHR 0x0B], [CHR 0x0C], [CHR 0x0D],
      [CHR 0xC2, CHR 0x85], [CHR 0xC2, CHR 0xA0], [CHR 0xE1, CHR 0x9A, CHR 0x80],
      [CHR 0xE2, CHR 0x80, CHR 0x80], [CHR 0xE2, CHR 0x80, CHR 0x81],
      [CHR 0xE2, CHR 0x80, CHR 0x82], [CHR 0xE2, CHR 0x80, CHR 0x83],
      [CHR 0xE2, CHR 0x80, CHR 0x84], [CHR 0xE2, CHR 0x80, CHR 0x85],
      [CHR 0xE2, CHR 0x80, CHR 0x86], [CHR 0xE2, CHR 0x80, CHR 0x87],
      [CHR 0xE2, CHR 0x80, CHR 0x88], [CHR 0xE2, CHR 0x80, CHR 0x89],
      [CHR 0xE2, CHR 0x80, CHR 0x8A], [CHR 0xE2, CHR 0x80, CHR 0xA8],
      [CHR 0xE2, CHR 0x80, CHR 0xA9], [CHR 0xE2, CHR 0x80, CHR 0xAF],
      [CHR 0xE2, CHR 0x81, CHR 0x9F], [CHR 0xE3, CHR 0x80, CHR 0x80]]"

definition leading :: "string list \<Rightarrow> string \<Rightarrow> string option" where
  "leading ws s = find (\<lambda>w. w \<noteq> [] \<and> prefix w s) ws"

lemma leading_SomeD: "leading ws s = Some w \<Longrightarrow> w \<in> set ws \<and> w \<noteq> [] \<and> prefix w s"
  by (auto simp: leading_def find_Some_iff)

lemma leading_NoneD: "leading ws s = None \<Longrightarrow> w \<in> set ws \<Longrightarrow> w \<noteq> [] \<Longrightarrow> \<not> prefix w s"
  by (auto simp: leading_def find_None_iff)

lemma leading_None_iff: "leading ws s = None \<longleftrightarrow> (\<forall>w \<in> set ws. w \<noteq> [] \<longrightarrow> \<not> prefix w s)"
  by (auto simp: leading_def find_None_iff)

function trim_start :: "string list \<Rightarrow> string \<Rightarrow> string" where
  "trim_start ws s =
     (case leading ws s of None \<Rightarrow> s | Some w \<Rightarrow> trim_start ws (drop (length w) s))"
  by pat_completeness auto
termination
proof (relation "measure (\<lambda>(ws, s). length s)")
  fix ws s w
  assume "leading ws s = Some w"
  then have "w \<noteq> []" and "length w \<le> length s"
    by (auto dest!: leading_SomeD dest: prefix_length_le)
  then show "((ws, drop (length w) s), ws, s) \<in> measure (\<lambda>(ws, s). length s)"
    by (cases w) auto
qed simp

declare trim_start.simps [simp del]

definition TrimSpace :: "string \<Rightarrow> string" where
  "TrimSpace s =
     rev (trim_start (map rev space_encodings) (rev (trim_start space_encodings s)))"

lemma trim_start_suffix: "suffix (trim_start ws s) s"
proof (induction ws s rule: trim_start.induct)
  case (1 ws s)
  then show ?case
    by (subst trim_start.simps) (auto split: option.split intro: suffix_order.trans suffix_drop)
qed

lemma leading_trim_start: "leading ws (trim_start ws s) = None"
proof (induction ws s rule: trim_start.induct)
  case (1 ws s)
  then show ?case
    by (subst trim_start.simps) (auto split: option.split)
qed

lemma trim_start_id: "leading ws s = None \<Longrightarrow> trim_start ws s = s"
  by (subst trim_start.simps) simp

lemma leading_prefix_None: "leading ws s = None \<Longrightarrow> prefix t s \<Longrightarrow> leading ws t = None"
  by (auto simp: leading_None_iff intro: prefix_order.trans)

text \<open>Trimming twice is trimming once: cutting the end never uncovers a leading space.\<close>

lemma TrimSpace_idem [simp]: "TrimSpace (TrimSpace s) = TrimSpace s"
proof -
  let ?a = "trim_start space_encodings s"
  let ?b = "trim_start (map rev space_encodings) (rev ?a)"
  have "suffix ?b (rev ?a)" by (rule trim_start_suffix)
  then have "prefix (rev ?b) ?a" by (simp add: suffix_to_prefix)
  then have "leading space_encodings (rev ?b) = None"
    by (rule leading_prefix_None [OF leading_trim_start])
  then show ?thesis
    by (simp add: TrimSpace_def trim_start_id leading_trim_start)
qed

lemma TrimSpace_id:
  assumes "leading space_encodings s = None"
    and "leading (map rev space_encodings) (rev s) = None"
  shows "TrimSpace s = s"
  using assms by (simp add: TrimSpace_def trim_start_id)

text \<open>
  \<^verbatim>\<open>strings.ToUpper\<close> maps an all-ASCII string byte by byte; any other string goes through
  the Unicode tables of package \<^verbatim>\<open>unicode\<close>, which are the parameter \<open>uni\<close>.
\<close>

definition ascii_upper :: "char \<Rightarrow> char" where
  "ascii_upper c =
     (if CHR ''a'' \<le> c \<and> c \<le> CHR ''z'' then char_of (of_char c - (32 :: nat)) else c)"

definition is_ascii :: "string \<Rightarrow> bool" where
  "is_ascii s = list_all (\<lambda>c. of_char c < (128 :: nat)) s"

definition ToUpper :: "(string \<Rightarrow> string) \<Rightarrow> string \<Rightarrow> string" where
  "ToUpper uni s = (if is_ascii s then map ascii_upper s else uni s)"

lemma ToUpper_ascii [simp]: "is_ascii s \<Longrightarrow> ToUpper uni s = map ascii_upper s"
  by (simp add: ToUpper_def)

text \<open>Decimal printing (\<^verbatim>\<open>%d\<close>).\<close>

definition digit :: "nat \<Rightarrow> char" where
  "digit n = char_of (48 + n)"

fun show_nat :: "nat \<Rightarrow> string" where
  "show_nat n = (if n < 10 then [digit n] else show_nat (n div 10) @ [digit (n mod 10)])"

declare show_nat.simps [simp del]

definition show_int :: "int \<Rightarrow> string" where
  "show_int i = (if i < 0 then CHR ''-'' # show_nat (nat (- i)) else show_nat (nat i))"

section \<open>Evaluation\<close>

text \<open>
  Code equations that compare and convert characters by their bits and print numbers on integers, for
  the witnesses to evaluate: the ones of the definitions count in unary.
\<close>

lemma bit_order:
  "(of_bool a + k * 2 \<le> (of_bool b + m * 2 :: nat)) \<longleftrightarrow> k < m \<or> k = m \<and> (a \<longrightarrow> b)"
  "(of_bool a + k * 2 < (of_bool b + m * 2 :: nat)) \<longleftrightarrow> k < m \<or> k = m \<and> \<not> a \<and> b"
  "(of_bool a + k * 2 = (of_bool b + m * 2 :: nat)) \<longleftrightarrow> k = m \<and> a = b"
  by (cases a; cases b; simp; presburger)+

lemma less_eq_char_bits [code]:
  "Char a0 a1 a2 a3 a4 a5 a6 a7 \<le> Char b0 b1 b2 b3 b4 b5 b6 b7 \<longleftrightarrow>
     (if a7 \<noteq> b7 then b7 else if a6 \<noteq> b6 then b6 else if a5 \<noteq> b5 then b5 else if a4 \<noteq> b4 then b4
      else if a3 \<noteq> b3 then b3 else if a2 \<noteq> b2 then b2 else if a1 \<noteq> b1 then b1 else a0 \<longrightarrow> b0)"
  unfolding less_eq_char_simp foldr.simps comp_def id_apply bit_order
  by (cases a7; cases b7; simp add: bit_order) auto

lemma less_char_bits [code]:
  "Char a0 a1 a2 a3 a4 a5 a6 a7 < Char b0 b1 b2 b3 b4 b5 b6 b7 \<longleftrightarrow>
     (if a7 \<noteq> b7 then b7 else if a6 \<noteq> b6 then b6 else if a5 \<noteq> b5 then b5 else if a4 \<noteq> b4 then b4
      else if a3 \<noteq> b3 then b3 else if a2 \<noteq> b2 then b2 else if a1 \<noteq> b1 then b1 else \<not> a0 \<and> b0)"
  using less_eq_char_bits [of b0 b1 b2 b3 b4 b5 b6 b7 a0 a1 a2 a3 a4 a5 a6 a7] unfolding not_le [symmetric]
  by auto

definition alphabetic :: "bool \<Rightarrow> bool \<Rightarrow> bool \<Rightarrow> bool \<Rightarrow> bool \<Rightarrow> bool" where
  "alphabetic b0 b1 b2 b3 b4 \<longleftrightarrow> (b0 \<or> b1 \<or> b2 \<or> b3 \<or> b4) \<and> \<not> (b4 \<and> b3 \<and> (b2 \<or> b1 \<and> b0))"

lemma ascii_upper_bits [code]:
  "ascii_upper (Char b0 b1 b2 b3 b4 b5 b6 b7) =
     Char b0 b1 b2 b3 b4 (b5 \<and> \<not> (b6 \<and> \<not> b7 \<and> alphabetic b0 b1 b2 b3 b4)) b6 b7"
  by (cases b0; cases b1; cases b2; cases b3; cases b4; cases b5; cases b6; cases b7)
    (simp_all add: ascii_upper_def alphabetic_def char_of_def bit_iff_odd)

lemma is_ascii_bits [code]: "is_ascii s = list_all (\<lambda>c. \<not> digit7 c) s"
proof -
  have "of_char c < (128 :: nat) \<longleftrightarrow> \<not> digit7 c" for c by (cases c) simp
  then show ?thesis by (simp add: is_ascii_def)
qed

function show_digits :: "int \<Rightarrow> string" where
  "show_digits i = (if i < 10 then [digit (nat i)] else show_digits (i div 10) @ [digit (nat (i mod 10))])"
  by pat_completeness auto
termination by (relation "measure nat") auto

declare show_digits.simps [simp del]

lemma show_digits: "0 \<le> i \<Longrightarrow> show_digits i = show_nat (nat i)"
proof (induction i rule: show_digits.induct)
  case (1 i)
  show ?case
  proof (cases "i < 10")
    case False
    then have "show_digits (i div 10) = show_nat (nat i div 10)" using 1 by (simp add: nat_div_distrib)
    then show ?thesis using False 1(2)
      by (simp add: show_digits.simps [of i] show_nat.simps [of "nat i"] nat_mod_distrib)
  qed (use 1 in \<open>simp add: show_digits.simps [of i] show_nat.simps [of "nat i"]\<close>)
qed

lemma show_int_code [code]: "show_int i = (if i < 0 then CHR ''-'' # show_digits (- i) else show_digits i)"
  by (simp add: show_int_def show_digits)

section \<open>Instants and durations\<close>

text \<open>
  A \<^verbatim>\<open>time.Time\<close> is its instant: nanoseconds since the zero time (January 1, year 1, UTC).
  \<^verbatim>\<open>UTC()\<close> changes only how an instant is printed. A \<^verbatim>\<open>time.Duration\<close> is a count of
  nanoseconds; every duration the code computes is shown below 2^63, so \<open>int\<close> is exact.
\<close>

type_synonym time = int
type_synonym duration = int

definition zero_time :: time where "zero_time = 0"

definition IsZero :: "time \<Rightarrow> bool" where "IsZero t = (t = 0)"

definition Microsecond :: duration where "Microsecond = 1000"
definition Minute :: duration where "Minute = 60 * 1000000000"
definition Hour :: duration where "Hour = 60 * 60 * 1000000000"

lemmas duration_defs = Microsecond_def Minute_def Hour_def

text \<open>\<^verbatim>\<open>Truncate\<close> rounds down to a multiple of the duration since the zero time.\<close>

definition Truncate :: "time \<Rightarrow> duration \<Rightarrow> time" where
  "Truncate t d = (if d \<le> 0 then t else t - t mod d)"

section \<open>Maps and slices\<close>

text \<open>
  A Go map with string keys is an association list with distinct keys; the order of the list
  stands for one of the iteration orders Go may choose. Properties are stated so that they do
  not depend on it (as sets, or after a sort by a strict total order).
\<close>

type_synonym 'v gomap = "(string \<times> 'v) list"

definition gomap_ok :: "'v gomap \<Rightarrow> bool" where
  "gomap_ok m = distinct (map fst m)"

definition gput :: "string \<Rightarrow> 'v \<Rightarrow> 'v gomap \<Rightarrow> 'v gomap" where
  "gput k v m = AList.update k v m"

definition gvals :: "'v gomap \<Rightarrow> 'v list" where
  "gvals m = map snd m"

lemma map_of_gput [simp]: "map_of (gput k v m) = (map_of m)(k \<mapsto> v)"
  by (simp add: gput_def update_conv')

lemma gomap_ok_Nil [simp]: "gomap_ok []"
  by (simp add: gomap_ok_def)

lemma gvals_Nil [simp]: "gvals [] = []"
  by (simp add: gvals_def)

lemma gomap_ok_gput [simp, intro]: "gomap_ok m \<Longrightarrow> gomap_ok (gput k v m)"
  by (simp add: gomap_ok_def gput_def distinct_update)

lemma set_gvals: "gomap_ok m \<Longrightarrow> set (gvals m) = ran (map_of m)"
  by (simp add: gomap_ok_def gvals_def ran_distinct)

lemma in_gvalsE:
  assumes "gomap_ok m" and "v \<in> set (gvals m)"
  obtains k where "map_of m k = Some v"
  using assms by (auto simp: set_gvals ran_def)

lemma in_gvalsI: "map_of m k = Some v \<Longrightarrow> v \<in> set (gvals m)"
  by (force simp: gvals_def dest: map_of_SomeD)

text \<open>A write to a key that is there replaces its value in place; a new key comes last.\<close>

lemma gvals_gput_new: "map_of m k = None \<Longrightarrow> gvals (gput k v m) = gvals m @ [v]"
  by (induction m) (auto simp: gvals_def gput_def split: if_splits)

lemma map_gvals_gput:
  "map_of m k = Some v \<Longrightarrow> f v' = f v \<Longrightarrow> map f (gvals (gput k v' m)) = map f (gvals m)"
  by (induction m) (auto simp: gvals_def gput_def split: if_splits)

text \<open>A map whose keys are the identifiers of its values.\<close>

definition keyed :: "('v \<Rightarrow> string) \<Rightarrow> 'v gomap \<Rightarrow> bool" where
  "keyed ident m \<longleftrightarrow> gomap_ok m \<and> (\<forall>k v. map_of m k = Some v \<longrightarrow> ident v = k)"

lemma keyed_Nil [simp]: "keyed ident []"
  by (simp add: keyed_def)

lemma keyed_gput [intro]: "keyed ident m \<Longrightarrow> ident v = k \<Longrightarrow> keyed ident (gput k v m)"
  by (auto simp: keyed_def)

lemma keyedD: "keyed ident m \<Longrightarrow> map_of m k = Some v \<Longrightarrow> ident v = k"
  by (simp add: keyed_def)

lemma keyed_okD: "keyed ident m \<Longrightarrow> gomap_ok m"
  by (simp add: keyed_def)

lemma in_gvals_keyed: "keyed ident m \<Longrightarrow> v \<in> set (gvals m) \<longleftrightarrow> map_of m (ident v) = Some v"
  by (metis in_gvalsE in_gvalsI keyed_def)

lemma distinct_idents: "keyed ident m \<Longrightarrow> distinct (map ident (gvals m))"
proof -
  assume k: "keyed ident m"
  then have "map ident (gvals m) = map fst m"
    by (auto simp: keyed_def gomap_ok_def gvals_def map_of_eq_Some_iff)
  with k show ?thesis by (simp add: keyed_def gomap_ok_def)
qed

lemma distinct_map_filter: "distinct (map f xs) \<Longrightarrow> distinct (map f (filter P xs))"
  by (auto simp: distinct_map intro: inj_on_subset)

lemma distinct_mapI: "distinct (map (f \<circ> g) xs) \<Longrightarrow> distinct (map g xs)"
  by (auto simp: distinct_map inj_on_def)

text \<open>Indexing without the second result: a missing key gives the zero value of the type.\<close>

definition gindex :: "'v \<Rightarrow> 'v gomap \<Rightarrow> string \<Rightarrow> 'v" where
  "gindex zero m k = (case map_of m k of None \<Rightarrow> zero | Some v \<Rightarrow> v)"

lemma gindex_Some [simp]: "map_of m k = Some v \<Longrightarrow> gindex zero m k = v"
  by (simp add: gindex_def)

lemma gindex_None [simp]: "map_of m k = None \<Longrightarrow> gindex zero m k = zero"
  by (simp add: gindex_def)

text \<open>A map from keys to slices: a missing key is the nil slice.\<close>

definition gslice :: "'v list gomap \<Rightarrow> string \<Rightarrow> 'v list" where
  "gslice m k = (case map_of m k of None \<Rightarrow> [] | Some xs \<Rightarrow> xs)"

definition gappend :: "string \<Rightarrow> 'v \<Rightarrow> 'v list gomap \<Rightarrow> 'v list gomap" where
  "gappend k x m = gput k (gslice m k @ [x]) m"

lemma gslice_Nil [simp]: "gslice [] k = []"
  by (simp add: gslice_def)

lemma gslice_gappend: "gslice (gappend k x m) k' = (if k' = k then gslice m k @ [x] else gslice m k')"
  by (simp add: gslice_def gappend_def)

lemma gslice_gappend_fun [simp]: "gslice (gappend k x m) = (gslice m)(k := gslice m k @ [x])"
  by (auto simp: fun_eq_iff gslice_gappend)

lemma gomap_ok_gappend [simp, intro]: "gomap_ok m \<Longrightarrow> gomap_ok (gappend k x m)"
  by (simp add: gappend_def)

section \<open>sort.Slice\<close>

text \<open>
  \<^verbatim>\<open>sort.Slice(xs, less)\<close> as the insertion sort Go runs on short slices. Under a strict total
  order on the elements the result is the only sorted permutation, whatever the algorithm
  (\<open>sort_slice_unique\<close>).
\<close>

fun insert_by :: "('a \<Rightarrow> 'a \<Rightarrow> bool) \<Rightarrow> 'a \<Rightarrow> 'a list \<Rightarrow> 'a list" where
  "insert_by lt x [] = [x]"
| "insert_by lt x (y # ys) = (if lt x y then x # y # ys else y # insert_by lt x ys)"

definition sort_slice :: "('a \<Rightarrow> 'a \<Rightarrow> bool) \<Rightarrow> 'a list \<Rightarrow> 'a list" where
  "sort_slice lt xs = fold (insert_by lt) xs []"

lemma mset_insert_by [simp]: "mset (insert_by lt x xs) = add_mset x (mset xs)"
  by (induction xs) auto

lemma mset_fold_insert_by: "mset (fold (insert_by lt) xs ys) = mset xs + mset ys"
  by (induction xs arbitrary: ys) auto

lemma mset_sort_slice [simp]: "mset (sort_slice lt xs) = mset xs"
  by (simp add: sort_slice_def mset_fold_insert_by)

lemma set_sort_slice [simp]: "set (sort_slice lt xs) = set xs"
  by (metis mset_sort_slice set_mset_mset)

lemma length_sort_slice [simp]: "length (sort_slice lt xs) = length xs"
  by (metis mset_sort_slice size_mset)

lemma distinct_sort_slice [simp]: "distinct (sort_slice lt xs) = distinct xs"
  by (metis mset_sort_slice mset_eq_imp_distinct_iff)

lemma distinct_map_sort_slice [simp]: "distinct (map f (sort_slice lt xs)) = distinct (map f xs)"
  by (metis distinct_map distinct_sort_slice set_sort_slice)

text \<open>Sorting by a key in descending order: the only kind of comparison with unique results.\<close>

abbreviation desc_by :: "('a \<Rightarrow> 'k :: linorder) \<Rightarrow> 'a \<Rightarrow> 'a \<Rightarrow> bool" where
  "desc_by key a b \<equiv> key b < key a"

lemma sorted_insert_by:
  fixes key :: "'a \<Rightarrow> 'k :: linorder"
  shows "sorted_wrt (\<lambda>a b. key b \<le> key a) xs \<Longrightarrow>
   sorted_wrt (\<lambda>a b. key b \<le> key a) (insert_by (desc_by key) x xs)"
proof (induction xs)
  case (Cons y ys)
  have "set (insert_by (desc_by key) x ys) = insert x (set ys)"
    by (metis mset_insert_by set_mset_add_mset_insert set_mset_mset)
  with Cons show ?case by (auto intro: order.trans less_imp_le)
qed simp

lemma sorted_sort_slice: "sorted_wrt (\<lambda>a b. key b \<le> key a) (sort_slice (desc_by key) xs)"
proof -
  have "sorted_wrt (\<lambda>a b. key b \<le> key a) ys \<Longrightarrow>
        sorted_wrt (\<lambda>a b. key b \<le> key a) (fold (insert_by (desc_by key)) xs ys)" for ys
    by (induction xs arbitrary: ys) (auto simp: sorted_insert_by)
  from this [of "[]"] show ?thesis by (simp add: sort_slice_def)
qed

lemma sorted_desc_unique:
  fixes key :: "'a \<Rightarrow> 'k :: linorder"
  assumes "sorted_wrt (\<lambda>a b. key b \<le> key a) xs" and "sorted_wrt (\<lambda>a b. key b \<le> key a) ys"
    and "mset xs = mset ys" and "inj_on key (set xs)"
  shows "xs = ys"
  using assms
proof (induction xs arbitrary: ys)
  case Nil
  then show ?case by simp
next
  case (Cons x xs)
  then obtain y zs where ys: "ys = y # zs" by (cases ys) auto
  have sets: "set (x # xs) = set (y # zs)"
    using Cons.prems(3) ys mset_eq_setD by blast
  have in_x: "y \<in> set (x # xs)" and in_y: "x \<in> set (y # zs)"
    using sets by (metis list.set_intros(1))+
  from in_x have "key y \<le> key x" using Cons.prems(1) by auto
  moreover from in_y have "key x \<le> key y" using Cons.prems(2) ys by auto
  ultimately have "key x = key y" by simp
  then have "x = y"
    using inj_onD [OF Cons.prems(4)] in_x by simp
  with Cons.prems ys have "xs = zs" by (intro Cons.IH) auto
  with ys \<open>x = y\<close> show ?case by simp
qed

lemma sort_slice_unique:
  fixes key :: "'a \<Rightarrow> 'k :: linorder"
  assumes "mset xs = mset ys" and "inj_on key (set xs)"
  shows "sort_slice (desc_by key) xs = sort_slice (desc_by key) ys"
  using assms by (intro sorted_desc_unique [where key = key]) (auto simp: sorted_sort_slice)

lemma sort_slice_sorted_id:
  fixes key :: "'a \<Rightarrow> 'k :: linorder"
  assumes "sorted_wrt (\<lambda>a b. key b \<le> key a) xs" and "inj_on key (set xs)"
  shows "sort_slice (desc_by key) xs = xs"
  using assms by (intro sorted_desc_unique [where key = key]) (auto simp: sorted_sort_slice)

lemma filter_sort_slice:
  fixes key :: "'a \<Rightarrow> 'k :: linorder"
  assumes "inj_on key (set xs)"
  shows "filter P (sort_slice (desc_by key) xs) = sort_slice (desc_by key) (filter P xs)"
  by (rule sorted_desc_unique [where key = key])
    (auto simp: sorted_sort_slice sorted_wrt_filter intro: inj_on_subset [OF assms])

section \<open>Searching by identifier\<close>

lemma find_key_None: "k \<notin> f ` set xs \<Longrightarrow> find (\<lambda>x. f x = k) xs = None"
  by (auto simp: find_None_iff)

lemma find_unique: "x \<in> set xs \<Longrightarrow> distinct (map f xs) \<Longrightarrow> find (\<lambda>y. f y = f x) xs = Some x"
  by (induction xs) auto

section \<open>Results\<close>

text \<open>
  A Go function that returns a value and an error is a sum, \<open>Inl\<close> for a non-nil error. A
  repository operation also returns the repository after it, on every branch.
\<close>

lemma sum_case_Inr_iff:
  "(case x of Inl e \<Rightarrow> Inl e | Inr v \<Rightarrow> f v) = Inr y \<longleftrightarrow> (\<exists>v. x = Inr v \<and> f v = Inr y)"
  by (cases x) auto

end
