(* ===== verification/Domain.thy ===== *)
theory Domain
  imports Prelude
begin

text \<open>
  The records and named string constants of \<^verbatim>\<open>internal/domain\<close>, the error values of
  \<^verbatim>\<open>internal/domain\<close> and \<^verbatim>\<open>internal/application\<close>, and
  \<^verbatim>\<open>Transaction.SameIngestionPayload\<close>. A Go type such as \<^verbatim>\<open>CustomerStatus\<close> is a string type
  with named constants, so any string can reach a guard; it is a synonym of \<open>string\<close> here
  and each constant is a definition. Fields carry their struct's name as a prefix.
\<close>

section \<open>Errors\<close>

text \<open>
  The sentinel errors of both packages. \<open>OtherError\<close> is an error made on the spot
  (\<^verbatim>\<open>errors.New\<close>, \<^verbatim>\<open>fmt.Errorf\<close>) or handed over by an external party, with its text.
\<close>

datatype error =
    ErrCustomerNotFound | ErrReviewConflict | ErrMakerCannotReview
  | ErrTransactionNotFound | ErrCustomerNotActive | ErrIdempotencyConflict
  | ErrAlertNotFound | ErrAlertConflict
  | ErrCaseNotFound | ErrCaseConflict | ErrAlertHasCase
  | ErrScreeningScheduleNotFound | ErrNotificationNotFound
  | ErrInvalidCustomer | ErrInvalidTransaction | ErrInvalidAlertReview | ErrInvalidCase
  | ErrInvalidPage | ErrInvalidDueDiligence | ErrInvalidScreening
  | ErrInvalidNotificationPreference
  | OtherError string

text \<open>The \<^verbatim>\<open>Error()\<close> method: the text each error was made with.\<close>

fun error_text :: "error \<Rightarrow> string" where
  "error_text ErrCustomerNotFound = ''customer not found''"
| "error_text ErrReviewConflict = ''customer is not pending approval''"
| "error_text ErrMakerCannotReview = ''maker cannot review own customer''"
| "error_text ErrTransactionNotFound = ''transaction not found''"
| "error_text ErrCustomerNotActive = ''customer is not active''"
| "error_text ErrIdempotencyConflict =
     ''idempotency key was already used for a different transaction''"
| "error_text ErrAlertNotFound = ''alert not found''"
| "error_text ErrAlertConflict = ''alert is not open''"
| "error_text ErrCaseNotFound = ''case not found''"
| "error_text ErrCaseConflict = ''case is already resolved''"
| "error_text ErrAlertHasCase = ''alert already has a case''"
| "error_text ErrScreeningScheduleNotFound = ''screening schedule not found''"
| "error_text ErrNotificationNotFound = ''notification not found''"
| "error_text ErrInvalidCustomer = ''invalid customer''"
| "error_text ErrInvalidTransaction = ''invalid transaction''"
| "error_text ErrInvalidAlertReview = ''invalid alert review''"
| "error_text ErrInvalidCase = ''invalid case data''"
| "error_text ErrInvalidPage = ''invalid page parameters''"
| "error_text ErrInvalidDueDiligence = ''invalid due diligence data''"
| "error_text ErrInvalidScreening = ''invalid screening request''"
| "error_text ErrInvalidNotificationPreference = ''invalid notification preference''"
| "error_text (OtherError s) = s"

type_synonym 'a result = "error + 'a"

text \<open>A repository operation: its result and the repository afterwards.\<close>

type_synonym ('a, 'r) repo_op = "'r \<Rightarrow> 'a result \<times> 'r"

section \<open>Customers and audit events (customer.go)\<close>

type_synonym CustomerType = string
definition CustomerIndividual :: CustomerType where [enum_defs]: "CustomerIndividual = ''individual''"
definition CustomerCompany :: CustomerType where [enum_defs]: "CustomerCompany = ''company''"

type_synonym CountryRisk = string
definition CountryRiskLow :: CountryRisk where [enum_defs]: "CountryRiskLow = ''low''"
definition CountryRiskMedium :: CountryRisk where [enum_defs]: "CountryRiskMedium = ''medium''"
definition CountryRiskHigh :: CountryRisk where [enum_defs]: "CountryRiskHigh = ''high''"

type_synonym RiskRating = string
definition RiskLow :: RiskRating where [enum_defs]: "RiskLow = ''low''"
definition RiskMedium :: RiskRating where [enum_defs]: "RiskMedium = ''medium''"
definition RiskHigh :: RiskRating where [enum_defs]: "RiskHigh = ''high''"

type_synonym DueDiligence = string
definition DueDiligenceStandard :: DueDiligence where
  [enum_defs]: "DueDiligenceStandard = ''standard''"
definition DueDiligenceEnhanced :: DueDiligence where
  [enum_defs]: "DueDiligenceEnhanced = ''enhanced''"
definition DueDiligenceBlocked :: DueDiligence where
  [enum_defs]: "DueDiligenceBlocked = ''blocked_pending_review''"

type_synonym CustomerStatus = string
definition CustomerPendingApproval :: CustomerStatus where
  [enum_defs]: "CustomerPendingApproval = ''pending_approval''"
definition CustomerActive :: CustomerStatus where [enum_defs]: "CustomerActive = ''active''"
definition CustomerRejected :: CustomerStatus where [enum_defs]: "CustomerRejected = ''rejected''"

type_synonym ReviewDecision = string
definition ReviewApprove :: ReviewDecision where [enum_defs]: "ReviewApprove = ''approve''"
definition ReviewReject :: ReviewDecision where [enum_defs]: "ReviewReject = ''reject''"

lemma CustomerStatus_distinct [simp]:
  "CustomerPendingApproval \<noteq> CustomerActive" "CustomerActive \<noteq> CustomerPendingApproval"
  "CustomerPendingApproval \<noteq> CustomerRejected" "CustomerRejected \<noteq> CustomerPendingApproval"
  "CustomerActive \<noteq> CustomerRejected" "CustomerRejected \<noteq> CustomerActive"
  by (simp_all add: enum_defs)

lemma ReviewDecision_distinct [simp]: "ReviewApprove \<noteq> ReviewReject" "ReviewReject \<noteq> ReviewApprove"
  by (simp_all add: enum_defs)

lemma CountryRisk_distinct [simp]:
  "CountryRiskHigh \<noteq> CountryRiskMedium" "CountryRiskMedium \<noteq> CountryRiskHigh"
  "CountryRiskHigh \<noteq> CountryRiskLow" "CountryRiskLow \<noteq> CountryRiskHigh"
  "CountryRiskMedium \<noteq> CountryRiskLow" "CountryRiskLow \<noteq> CountryRiskMedium"
  by (simp_all add: enum_defs)

lemma RiskRating_distinct [simp]:
  "RiskHigh \<noteq> RiskMedium" "RiskMedium \<noteq> RiskHigh" "RiskHigh \<noteq> RiskLow" "RiskLow \<noteq> RiskHigh"
  "RiskMedium \<noteq> RiskLow" "RiskLow \<noteq> RiskMedium"
  by (simp_all add: enum_defs)

lemma DueDiligence_distinct [simp]:
  "DueDiligenceBlocked \<noteq> DueDiligenceEnhanced" "DueDiligenceEnhanced \<noteq> DueDiligenceBlocked"
  "DueDiligenceBlocked \<noteq> DueDiligenceStandard" "DueDiligenceStandard \<noteq> DueDiligenceBlocked"
  "DueDiligenceEnhanced \<noteq> DueDiligenceStandard" "DueDiligenceStandard \<noteq> DueDiligenceEnhanced"
  by (simp_all add: enum_defs)

record RiskFactors =
  Factors_CountryRisk :: CountryRisk
  Factors_PEP :: bool
  Factors_SanctionsPotentialMatch :: bool
  Factors_HighRiskIndustry :: bool
  Factors_ComplexOwnership :: bool
  Factors_SourceOfFundsVerified :: bool

record RiskReason =
  Reason_Code :: string
  Reason_Points :: int
  Reason_Detail :: string

record RiskAssessment =
  Assessment_Score :: int
  Assessment_Rating :: RiskRating
  Assessment_DueDiligence :: DueDiligence
  Assessment_Reasons :: "RiskReason list"
  Assessment_AssessedAt :: time
  Assessment_RuleVersion :: string

record Customer =
  Customer_ID :: string
  Customer_ExternalRef :: string
  Customer_Type :: CustomerType
  Customer_LegalName :: string
  Customer_CountryCode :: string
  Customer_RiskFactors :: RiskFactors
  Customer_RiskAssessment :: RiskAssessment
  Customer_Status :: CustomerStatus
  Customer_CreatedBy :: string
  Customer_ReviewedBy :: string
  Customer_ReviewedAt :: "time option"
  Customer_CreatedAt :: time

text \<open>The switch on a decision both repositories share; a foreign decision has no status.\<close>

definition decided_status :: "ReviewDecision \<Rightarrow> CustomerStatus option" where
  "decided_status decision =
     (if decision = ReviewApprove then Some CustomerActive
      else if decision = ReviewReject then Some CustomerRejected else None)"

lemma decided_status_simps [simp]:
  "decided_status ReviewApprove = Some CustomerActive"
  "decided_status ReviewReject = Some CustomerRejected"
  by (simp_all add: decided_status_def)

lemma decided_statusD: "decided_status d = Some s \<Longrightarrow> s = CustomerActive \<or> s = CustomerRejected"
  by (auto simp: decided_status_def split: if_splits)

text \<open>The values the code puts into an event's \<^verbatim>\<open>map[string]any\<close> payload.\<close>

datatype payload_value =
    PString string | PInt int | PBool bool | PTime time | PNil

type_synonym payload = "(string \<times> payload_value) list"

definition ptime :: "time option \<Rightarrow> payload_value" where
  "ptime t = (case t of None \<Rightarrow> PNil | Some u \<Rightarrow> PTime u)"

record AuditEvent =
  Event_ID :: string
  Event_AggregateType :: string
  Event_AggregateID :: string
  Event_EventType :: string
  Event_Actor :: string
  Event_OccurredAt :: time
  Event_Payload :: payload

section \<open>Transactions (transaction.go)\<close>

type_synonym TransactionDirection = string
definition TransactionInbound :: TransactionDirection where
  [enum_defs]: "TransactionInbound = ''inbound''"
definition TransactionOutbound :: TransactionDirection where
  [enum_defs]: "TransactionOutbound = ''outbound''"

record Transaction =
  Transaction_ID :: string
  Transaction_IdempotencyKey :: string
  Transaction_ExternalRef :: string
  Transaction_CustomerID :: string
  Transaction_Direction :: TransactionDirection
  Transaction_AmountMinor :: int
  Transaction_Currency :: string
  Transaction_CounterpartyCountry :: string
  Transaction_OccurredAt :: time
  Transaction_IngestedAt :: time
  Transaction_IngestedBy :: string

definition SameIngestionPayload :: "Transaction \<Rightarrow> Transaction \<Rightarrow> bool" where
  "SameIngestionPayload t other \<longleftrightarrow>
     Transaction_ExternalRef t = Transaction_ExternalRef other \<and>
     Transaction_CustomerID t = Transaction_CustomerID other \<and>
     Transaction_Direction t = Transaction_Direction other \<and>
     Transaction_AmountMinor t = Transaction_AmountMinor other \<and>
     Transaction_Currency t = Transaction_Currency other \<and>
     Transaction_CounterpartyCountry t = Transaction_CounterpartyCountry other \<and>
     Transaction_OccurredAt t = Transaction_OccurredAt other"

text \<open>It is an equivalence: it compares fields of the two transactions, one by one.\<close>

lemma SameIngestionPayload_refl [simp]: "SameIngestionPayload t t"
  by (simp add: SameIngestionPayload_def)

lemma SameIngestionPayload_sym: "SameIngestionPayload t u \<Longrightarrow> SameIngestionPayload u t"
  by (simp add: SameIngestionPayload_def)

lemma SameIngestionPayload_trans:
  "SameIngestionPayload t u \<Longrightarrow> SameIngestionPayload u v \<Longrightarrow> SameIngestionPayload t v"
  by (simp add: SameIngestionPayload_def)

section \<open>Monitoring findings and alerts (monitoring.go)\<close>

type_synonym AlertSeverity = string
definition AlertMedium :: AlertSeverity where [enum_defs]: "AlertMedium = ''medium''"
definition AlertHigh :: AlertSeverity where [enum_defs]: "AlertHigh = ''high''"

type_synonym AlertStatus = string
definition AlertOpen :: AlertStatus where [enum_defs]: "AlertOpen = ''open''"
definition AlertClosed :: AlertStatus where [enum_defs]: "AlertClosed = ''closed''"

lemma AlertStatus_distinct [simp]:
  "AlertOpen \<noteq> AlertClosed" "AlertClosed \<noteq> AlertOpen" "AlertOpen \<noteq> []" "AlertClosed \<noteq> []"
  "[] \<noteq> AlertOpen" "[] \<noteq> AlertClosed"
  by (simp_all add: enum_defs)

record MonitoringFinding =
  Finding_RuleCode :: string
  Finding_RuleVersion :: string
  Finding_Severity :: AlertSeverity
  Finding_ReasonCode :: string
  Finding_Description :: string

record Alert =
  Alert_ID :: string
  Alert_TransactionID :: string
  Alert_CustomerID :: string
  Alert_RuleCode :: string
  Alert_RuleVersion :: string
  Alert_Severity :: AlertSeverity
  Alert_Status :: AlertStatus
  Alert_ReasonCode :: string
  Alert_Description :: string
  Alert_CreatedAt :: time
  Alert_ClosedAt :: "time option"
  Alert_ClosedBy :: string
  Alert_ClosureReason :: string

definition zero_Alert :: Alert where
  [zero_defs]: "zero_Alert =
     \<lparr>Alert_ID = [], Alert_TransactionID = [], Alert_CustomerID = [], Alert_RuleCode = [],
      Alert_RuleVersion = [], Alert_Severity = [], Alert_Status = [], Alert_ReasonCode = [],
      Alert_Description = [], Alert_CreatedAt = zero_time, Alert_ClosedAt = None,
      Alert_ClosedBy = [], Alert_ClosureReason = []\<rparr>"

definition zero_Transaction :: Transaction where
  [zero_defs]: "zero_Transaction =
     \<lparr>Transaction_ID = [], Transaction_IdempotencyKey = [], Transaction_ExternalRef = [],
      Transaction_CustomerID = [], Transaction_Direction = [], Transaction_AmountMinor = 0,
      Transaction_Currency = [], Transaction_CounterpartyCountry = [],
      Transaction_OccurredAt = zero_time, Transaction_IngestedAt = zero_time,
      Transaction_IngestedBy = []\<rparr>"

section \<open>Investigation cases (case.go)\<close>

type_synonym CasePriority = string
definition CasePriorityLow :: CasePriority where [enum_defs]: "CasePriorityLow = ''low''"
definition CasePriorityMedium :: CasePriority where [enum_defs]: "CasePriorityMedium = ''medium''"
definition CasePriorityHigh :: CasePriority where [enum_defs]: "CasePriorityHigh = ''high''"

type_synonym CaseStatus = string
definition CaseOpen :: CaseStatus where [enum_defs]: "CaseOpen = ''open''"
definition CaseInProgress :: CaseStatus where [enum_defs]: "CaseInProgress = ''in_progress''"
definition CaseResolved :: CaseStatus where [enum_defs]: "CaseResolved = ''resolved''"

lemma CaseStatus_distinct [simp]:
  "CaseOpen \<noteq> CaseInProgress" "CaseInProgress \<noteq> CaseOpen" "CaseOpen \<noteq> CaseResolved"
  "CaseResolved \<noteq> CaseOpen" "CaseInProgress \<noteq> CaseResolved" "CaseResolved \<noteq> CaseInProgress"
  by (simp_all add: enum_defs)

record InvestigationCase =
  Case_ID :: string
  Case_AlertID :: string
  Case_CustomerID :: string
  Case_Title :: string
  Case_Priority :: CasePriority
  Case_Status :: CaseStatus
  Case_AssignedTo :: string
  Case_Resolution :: string
  Case_CreatedBy :: string
  Case_CreatedAt :: time
  Case_UpdatedAt :: time
  Case_ResolvedBy :: string
  Case_ResolvedAt :: "time option"

record CaseComment =
  Comment_ID :: string
  Comment_CaseID :: string
  Comment_Author :: string
  Comment_Body :: string
  Comment_CreatedAt :: time

record CaseDetails =
  Details_Case :: InvestigationCase
  Details_Comments :: "CaseComment list"
  Details_Timeline :: "AuditEvent list"

section \<open>Customer due diligence (due_diligence.go)\<close>

type_synonym CDDStatus = string
definition CDDIncomplete :: CDDStatus where [enum_defs]: "CDDIncomplete = ''incomplete''"
definition CDDInReview :: CDDStatus where [enum_defs]: "CDDInReview = ''in_review''"
definition CDDComplete :: CDDStatus where [enum_defs]: "CDDComplete = ''complete''"

type_synonym DocumentStatus = string
definition DocumentPending :: DocumentStatus where [enum_defs]: "DocumentPending = ''pending''"
definition DocumentVerified :: DocumentStatus where [enum_defs]: "DocumentVerified = ''verified''"
definition DocumentRejected :: DocumentStatus where [enum_defs]: "DocumentRejected = ''rejected''"

lemma DocumentStatus_distinct [simp]:
  "DocumentPending \<noteq> DocumentVerified" "DocumentVerified \<noteq> DocumentPending"
  "DocumentPending \<noteq> DocumentRejected" "DocumentRejected \<noteq> DocumentPending"
  "DocumentVerified \<noteq> DocumentRejected" "DocumentRejected \<noteq> DocumentVerified"
  by (simp_all add: enum_defs)

record CDDProfile =
  Profile_CustomerID :: string
  Profile_SourceOfWealth :: string
  Profile_BusinessPurpose :: string
  Profile_ExpectedMonthlyVolumeMinor :: int
  Profile_Currency :: string
  Profile_Status :: CDDStatus
  Profile_NextReviewAt :: "time option"
  Profile_UpdatedBy :: string
  Profile_UpdatedAt :: time

record BeneficialOwner =
  Owner_ID :: string
  Owner_CustomerID :: string
  Owner_FullName :: string
  Owner_OwnershipPercent :: int
  Owner_CountryCode :: string
  Owner_PEP :: bool
  Owner_CreatedBy :: string
  Owner_CreatedAt :: time

record KYCDocument =
  Document_ID :: string
  Document_CustomerID :: string
  Document_Type :: string
  Document_Reference :: string
  Document_Status :: DocumentStatus
  Document_ExpiresAt :: "time option"
  Document_CreatedBy :: string
  Document_CreatedAt :: time
  Document_VerifiedBy :: string
  Document_VerifiedAt :: "time option"

record DueDiligenceDetails =
  Diligence_Profile :: CDDProfile
  Diligence_BeneficialOwners :: "BeneficialOwner list"
  Diligence_Documents :: "KYCDocument list"

section \<open>Screening (screening.go, ongoing_monitoring.go)\<close>

type_synonym ScreeningSubjectType = string
definition ScreeningCustomer :: ScreeningSubjectType where
  [enum_defs]: "ScreeningCustomer = ''customer''"
definition ScreeningBeneficialOwner :: ScreeningSubjectType where
  [enum_defs]: "ScreeningBeneficialOwner = ''beneficial_owner''"

type_synonym ScreeningListType = string
definition ScreeningSanctions :: ScreeningListType where
  [enum_defs]: "ScreeningSanctions = ''sanctions''"
definition ScreeningPEP :: ScreeningListType where [enum_defs]: "ScreeningPEP = ''pep''"
definition ScreeningAdverseMedia :: ScreeningListType where
  [enum_defs]: "ScreeningAdverseMedia = ''adverse_media''"

type_synonym ScreeningMatchStatus = string
definition MatchPotential :: ScreeningMatchStatus where [enum_defs]: "MatchPotential = ''potential''"
definition MatchConfirmed :: ScreeningMatchStatus where [enum_defs]: "MatchConfirmed = ''confirmed''"
definition MatchFalsePositive :: ScreeningMatchStatus where
  [enum_defs]: "MatchFalsePositive = ''false_positive''"

lemma MatchStatus_distinct [simp]:
  "MatchPotential \<noteq> MatchConfirmed" "MatchConfirmed \<noteq> MatchPotential"
  "MatchPotential \<noteq> MatchFalsePositive" "MatchFalsePositive \<noteq> MatchPotential"
  "MatchConfirmed \<noteq> MatchFalsePositive" "MatchFalsePositive \<noteq> MatchConfirmed"
  by (simp_all add: enum_defs)

record ScreeningRun =
  Run_ID :: string
  Run_CustomerID :: string
  Run_SubjectType :: ScreeningSubjectType
  Run_SubjectID :: string
  Run_QueryName :: string
  Run_Provider :: string
  Run_CreatedBy :: string
  Run_CreatedAt :: time

record ScreeningMatch =
  Match_ID :: string
  Match_RunID :: string
  Match_CustomerID :: string
  Match_SubjectType :: ScreeningSubjectType
  Match_SubjectID :: string
  Match_QueryName :: string
  Match_ListType :: ScreeningListType
  Match_MatchedName :: string
  Match_Score :: int
  Match_Reason :: string
  Match_Status :: ScreeningMatchStatus
  Match_CreatedAt :: time
  Match_ReviewedBy :: string
  Match_ReviewedAt :: "time option"
  Match_DispositionReason :: string

record ScreeningResult =
  Result_Runs :: "ScreeningRun list"
  Result_Matches :: "ScreeningMatch list"

record ScreeningSchedule =
  Schedule_CustomerID :: string
  Schedule_Enabled :: bool
  Schedule_IntervalHours :: int
  Schedule_NextRunAt :: time
  Schedule_LastRunAt :: "time option"
  Schedule_LastError :: string
  Schedule_FailureCount :: int
  Schedule_LeaseOwner :: string
  Schedule_LeaseUntil :: "time option"
  Schedule_UpdatedBy :: string
  Schedule_UpdatedAt :: time

text \<open>The test and the update of the claim loop: enabled, due, and not leased beyond \<open>now\<close>.\<close>

definition schedule_due :: "time \<Rightarrow> ScreeningSchedule \<Rightarrow> bool" where
  "schedule_due now s \<longleftrightarrow> Schedule_Enabled s \<and> \<not> now < Schedule_NextRunAt s \<and>
     (case Schedule_LeaseUntil s of None \<Rightarrow> True | Some u \<Rightarrow> \<not> now < u)"

definition lease :: "string \<Rightarrow> time \<Rightarrow> ScreeningSchedule \<Rightarrow> ScreeningSchedule" where
  "lease owner leaseUntil s =
     s\<lparr>Schedule_LeaseOwner := owner, Schedule_LeaseUntil := Some leaseUntil\<rparr>"

lemma lease_simps [simp]:
  "Schedule_LeaseOwner (lease owner u s) = owner"
  "Schedule_LeaseUntil (lease owner u s) = Some u"
  "Schedule_CustomerID (lease owner u s) = Schedule_CustomerID s"
  "Schedule_Enabled (lease owner u s) = Schedule_Enabled s"
  "Schedule_NextRunAt (lease owner u s) = Schedule_NextRunAt s"
  "Schedule_IntervalHours (lease owner u s) = Schedule_IntervalHours s"
  "Schedule_FailureCount (lease owner u s) = Schedule_FailureCount s"
  by (simp_all add: lease_def)

lemma leased_not_due [simp]: "now < u \<Longrightarrow> \<not> schedule_due now (lease owner u s)"
  by (simp add: schedule_due_def)

section \<open>Notifications and the outbox (notification.go, outbox.go)\<close>

record NotificationPreference =
  Preference_ActorSubject :: string
  Preference_EmailAddress :: string
  Preference_EmailEnabled :: bool
  Preference_UpdatedAt :: time

record Notification =
  Notification_ID :: string
  Notification_CustomerID :: string
  Notification_MatchID :: string
  Notification_Type :: string
  Notification_Title :: string
  Notification_Message :: string
  Notification_Read :: bool
  Notification_CreatedAt :: time
  Notification_ReadBy :: string
  Notification_ReadAt :: "time option"

record OutboxMessage =
  Outbox_ID :: string
  Outbox_NotificationID :: string
  Outbox_Channel :: string
  Outbox_Destination :: string
  Outbox_Payload :: payload
  Outbox_Status :: string
  Outbox_Attempts :: int
  Outbox_NextAttemptAt :: time
  Outbox_LastError :: string
  Outbox_LeaseOwner :: string
  Outbox_LeaseUntil :: "time option"
  Outbox_CreatedAt :: time
  Outbox_DeliveredAt :: "time option"

section \<open>What a service reads from its surroundings\<close>

text \<open>
  One call of a service reads the clock (\<^verbatim>\<open>s.now()\<close>), draws identifiers (\<^verbatim>\<open>newID()\<close>) and
  uses the Unicode upper-case table. \<open>Env_IDs e n\<close> is what the call's \<open>n\<close>-th \<^verbatim>\<open>newID()\<close>
  returned; theory \<open>Identifiers\<close> models how such an identifier is made from random bytes.
\<close>

record call_env =
  Env_Now :: time
  Env_IDs :: "nat \<Rightarrow> string"
  Env_Upper :: "string \<Rightarrow> string"

end
