(* ===== verification/Memory.thy ===== *)
theory Memory
  imports Domain
begin

text \<open>
  The state of \<^verbatim>\<open>internal/infrastructure/memory/repository.go\<close> and its operations on customers,
  transactions, alerts, cases and due diligence, each one the body of the Go method between
  \<^verbatim>\<open>mu.Lock\<close> and its return: an operation runs alone, so it is a function of the repository. An
  operation returns the repository on every branch. After each group come its effect lemmas: what
  success means (an elimination rule ending in \<open>_okE\<close>), and that a failure changes nothing.
  Where a Go method returns a value beside a non-nil error, no caller reads it; the model keeps
  the error only.
\<close>

record Repository =
  repo_customers :: "Customer gomap"
  repo_transactions :: "Transaction gomap"
  repo_alerts :: "Alert gomap"
  repo_idempotency :: "string gomap"
  repo_events :: "AuditEvent list gomap"
  repo_cases :: "InvestigationCase gomap"
  repo_caseComments :: "CaseComment list gomap"
  repo_cddProfiles :: "CDDProfile gomap"
  repo_owners :: "BeneficialOwner list gomap"
  repo_documents :: "KYCDocument gomap"
  repo_screeningMatches :: "ScreeningMatch gomap"
  repo_screeningSchedules :: "ScreeningSchedule gomap"
  repo_notifications :: "Notification gomap"
  repo_notificationPreferences :: "NotificationPreference gomap"

definition NewRepository :: Repository where
  "NewRepository =
     \<lparr>repo_customers = [], repo_transactions = [], repo_alerts = [], repo_idempotency = [],
      repo_events = [], repo_cases = [], repo_caseComments = [], repo_cddProfiles = [],
      repo_owners = [], repo_documents = [], repo_screeningMatches = [],
      repo_screeningSchedules = [], repo_notifications = [], repo_notificationPreferences = []\<rparr>"

text \<open>\<^verbatim>\<open>r.events[key] = append(r.events[key], event)\<close>\<close>

definition append_event :: "string \<Rightarrow> AuditEvent \<Rightarrow> Repository \<Rightarrow> Repository" where
  "append_event key event r = r\<lparr>repo_events := gappend key event (repo_events r)\<rparr>"

text \<open>The audit trail of an aggregate.\<close>

abbreviation trail :: "Repository \<Rightarrow> string \<Rightarrow> AuditEvent list" where
  "trail r \<equiv> gslice (repo_events r)"

lemma append_event_simps [simp]:
  "repo_customers (append_event k e r) = repo_customers r"
  "repo_transactions (append_event k e r) = repo_transactions r"
  "repo_alerts (append_event k e r) = repo_alerts r"
  "repo_idempotency (append_event k e r) = repo_idempotency r"
  "repo_events (append_event k e r) = gappend k e (repo_events r)"
  "repo_cases (append_event k e r) = repo_cases r"
  "repo_caseComments (append_event k e r) = repo_caseComments r"
  "repo_cddProfiles (append_event k e r) = repo_cddProfiles r"
  "repo_owners (append_event k e r) = repo_owners r"
  "repo_documents (append_event k e r) = repo_documents r"
  "repo_screeningMatches (append_event k e r) = repo_screeningMatches r"
  "repo_screeningSchedules (append_event k e r) = repo_screeningSchedules r"
  "repo_notifications (append_event k e r) = repo_notifications r"
  "repo_notificationPreferences (append_event k e r) = repo_notificationPreferences r"
  by (simp_all add: append_event_def)

section \<open>Customers\<close>

definition mem_GetCustomer :: "string \<Rightarrow> Repository \<Rightarrow> Customer result" where
  [repo_defs]: "mem_GetCustomer ident r =
     (case map_of (repo_customers r) ident of None \<Rightarrow> Inl ErrCustomerNotFound | Some c \<Rightarrow> Inr c)"

definition mem_CreateCustomer :: "Customer \<Rightarrow> AuditEvent \<Rightarrow> (unit, Repository) repo_op" where
  [repo_defs]: "mem_CreateCustomer customer event r =
     (Inr (), append_event (Customer_ID customer) event
        (r\<lparr>repo_customers := gput (Customer_ID customer) customer (repo_customers r)\<rparr>))"

definition mem_ListAuditEvents :: "string \<Rightarrow> Repository \<Rightarrow> AuditEvent list result" where
  [repo_defs]: "mem_ListAuditEvents customerID r = Inr (trail r customerID)"

definition mem_ReviewCustomer ::
  "string \<Rightarrow> ReviewDecision \<Rightarrow> string \<Rightarrow> AuditEvent \<Rightarrow> (Customer, Repository) repo_op" where
  [repo_defs]: "mem_ReviewCustomer customerID decision actor event r =
     (case map_of (repo_customers r) customerID of
        None \<Rightarrow> (Inl ErrCustomerNotFound, r)
      | Some customer \<Rightarrow>
          if Customer_CreatedBy customer = actor then (Inl ErrMakerCannotReview, r)
          else if Customer_Status customer \<noteq> CustomerPendingApproval
          then (Inl ErrReviewConflict, r)
          else (case decided_status decision of
                  None \<Rightarrow> (Inl (OtherError ''invalid review decision''), r)
                | Some status \<Rightarrow>
                    (let customer = customer\<lparr>Customer_Status := status,
                           Customer_ReviewedBy := actor,
                           Customer_ReviewedAt := Some (Event_OccurredAt event)\<rparr>
                     in (Inr customer, append_event customerID event
                           (r\<lparr>repo_customers := gput customerID customer (repo_customers r)\<rparr>)))))"

lemma mem_ReviewCustomer_okE:
  assumes "mem_ReviewCustomer customerID decision actor event r = (Inr c', r')"
  obtains c status where "map_of (repo_customers r) customerID = Some c"
    and "Customer_CreatedBy c \<noteq> actor" and "Customer_Status c = CustomerPendingApproval"
    and "decided_status decision = Some status"
    and "c' = c\<lparr>Customer_Status := status, Customer_ReviewedBy := actor,
                 Customer_ReviewedAt := Some (Event_OccurredAt event)\<rparr>"
    and "r' = append_event customerID event
                (r\<lparr>repo_customers := gput customerID c' (repo_customers r)\<rparr>)"
  using assms
  by (auto simp: mem_ReviewCustomer_def Let_def split: option.splits if_splits)

lemma mem_ReviewCustomer_err:
  "mem_ReviewCustomer customerID decision actor event r = (Inl err, r') \<Longrightarrow> r' = r"
  by (auto simp: mem_ReviewCustomer_def Let_def split: option.splits if_splits)

section \<open>Transactions and alerts\<close>

text \<open>The loop over the alerts and their events, of equal length.\<close>

fun store_alerts :: "(Alert \<times> AuditEvent) list \<Rightarrow> Repository \<Rightarrow> Repository" where
  "store_alerts [] r = r"
| "store_alerts ((alert, event) # rest) r =
     store_alerts rest (append_event (Alert_ID alert) event
       (r\<lparr>repo_alerts := gput (Alert_ID alert) alert (repo_alerts r)\<rparr>))"

definition alerts_of_transaction :: "string \<Rightarrow> Repository \<Rightarrow> Alert list" where
  "alerts_of_transaction ident r = filter (\<lambda>a. Alert_TransactionID a = ident) (gvals (repo_alerts r))"

text \<open>The writes of a new transaction, in order.\<close>

definition store_transaction ::
  "Transaction \<Rightarrow> AuditEvent \<Rightarrow> Alert list \<Rightarrow> AuditEvent list \<Rightarrow> Repository \<Rightarrow> Repository" where
  "store_transaction transaction event alrts alertEvents r =
     (let r = r\<lparr>repo_transactions :=
                   gput (Transaction_ID transaction) transaction (repo_transactions r)\<rparr>;
          r = r\<lparr>repo_idempotency :=
                   gput (Transaction_IdempotencyKey transaction) (Transaction_ID transaction)
                     (repo_idempotency r)\<rparr>;
          r = append_event (Transaction_ID transaction) event r
      in store_alerts (zip alrts alertEvents) r)"

definition mem_CreateTransaction ::
  "Transaction \<Rightarrow> AuditEvent \<Rightarrow> Alert list \<Rightarrow> AuditEvent list \<Rightarrow>
   (Transaction \<times> Alert list \<times> bool, Repository) repo_op" where
  [repo_defs]: "mem_CreateTransaction transaction event alrts alertEvents r =
     (if length alrts \<noteq> length alertEvents
      then (Inl (OtherError ''each alert must have one audit event''), r)
      else (case map_of (repo_idempotency r) (Transaction_IdempotencyKey transaction) of
          Some transactionID \<Rightarrow>
            (let stored = gindex zero_Transaction (repo_transactions r) transactionID
             in if \<not> SameIngestionPayload stored transaction
                then (Inl ErrIdempotencyConflict, r)
                else (Inr (stored, alerts_of_transaction (Transaction_ID stored) r, True), r))
        | None \<Rightarrow>
            (case map_of (repo_customers r) (Transaction_CustomerID transaction) of
               None \<Rightarrow> (Inl ErrCustomerNotFound, r)
             | Some customer \<Rightarrow>
                 if Customer_Status customer \<noteq> CustomerActive
                 then (Inl ErrCustomerNotActive, r)
                 else (Inr (transaction, alrts, False),
                   store_transaction transaction event alrts alertEvents r))))"

definition mem_ListAlerts :: "AlertStatus \<Rightarrow> Repository \<Rightarrow> Alert list result" where
  [repo_defs]: "mem_ListAlerts status r =
     Inr (filter (\<lambda>a. status = [] \<or> Alert_Status a = status) (gvals (repo_alerts r)))"

definition mem_CloseAlert ::
  "string \<Rightarrow> string \<Rightarrow> string \<Rightarrow> AuditEvent \<Rightarrow> (Alert, Repository) repo_op" where
  [repo_defs]: "mem_CloseAlert alertID actor reason event r =
     (case map_of (repo_alerts r) alertID of
        None \<Rightarrow> (Inl ErrAlertNotFound, r)
      | Some alert \<Rightarrow>
          if Alert_Status alert \<noteq> AlertOpen then (Inl ErrAlertConflict, r)
          else (let alert = alert\<lparr>Alert_Status := AlertClosed,
                      Alert_ClosedAt := Some (Event_OccurredAt event),
                      Alert_ClosedBy := actor, Alert_ClosureReason := reason\<rparr>
                in (Inr alert, append_event alertID event
                      (r\<lparr>repo_alerts := gput alertID alert (repo_alerts r)\<rparr>))))"

lemma store_alerts_frame [simp]:
  "repo_customers (store_alerts xs r) = repo_customers r"
  "repo_transactions (store_alerts xs r) = repo_transactions r"
  "repo_idempotency (store_alerts xs r) = repo_idempotency r"
  "repo_cases (store_alerts xs r) = repo_cases r"
  "repo_caseComments (store_alerts xs r) = repo_caseComments r"
  "repo_cddProfiles (store_alerts xs r) = repo_cddProfiles r"
  "repo_owners (store_alerts xs r) = repo_owners r"
  "repo_documents (store_alerts xs r) = repo_documents r"
  "repo_screeningMatches (store_alerts xs r) = repo_screeningMatches r"
  "repo_screeningSchedules (store_alerts xs r) = repo_screeningSchedules r"
  "repo_notifications (store_alerts xs r) = repo_notifications r"
  "repo_notificationPreferences (store_alerts xs r) = repo_notificationPreferences r"
  by (induction xs r rule: store_alerts.induct) auto

text \<open>With distinct identifiers the loop is one map update and one event per alert.\<close>

lemma store_alerts_alerts:
  "distinct (map (Alert_ID \<circ> fst) xs) \<Longrightarrow>
   map_of (repo_alerts (store_alerts xs r)) k =
     (case find (\<lambda>x. Alert_ID (fst x) = k) xs of
        None \<Rightarrow> map_of (repo_alerts r) k | Some x \<Rightarrow> Some (fst x))"
proof (induction xs r rule: store_alerts.induct)
  case (2 alert event rest r)
  have "find (\<lambda>x. Alert_ID (fst x) = Alert_ID alert) rest = None"
    by (rule find_key_None) (use "2.prems" in simp)
  with 2 show ?case by (auto split: option.split)
qed simp

lemma store_alerts_trail:
  "distinct (map (Alert_ID \<circ> fst) xs) \<Longrightarrow>
   trail (store_alerts xs r) k =
     trail r k @ (case find (\<lambda>x. Alert_ID (fst x) = k) xs of None \<Rightarrow> [] | Some x \<Rightarrow> [snd x])"
proof (induction xs r rule: store_alerts.induct)
  case (2 alert event rest r)
  have "find (\<lambda>x. Alert_ID (fst x) = Alert_ID alert) rest = None"
    by (rule find_key_None) (use "2.prems" in simp)
  with 2 show ?case by (auto split: option.split)
qed simp

lemma store_alerts_ok:
  "gomap_ok (repo_alerts r) \<Longrightarrow> gomap_ok (repo_alerts (store_alerts xs r))"
  "gomap_ok (repo_events r) \<Longrightarrow> gomap_ok (repo_events (store_alerts xs r))"
  by (induction xs r rule: store_alerts.induct) auto

text \<open>What an operation on a transaction did, by the third component of its answer.\<close>

lemma mem_CreateTransaction_newE:
  assumes "mem_CreateTransaction t e as es r = (Inr (t', as', False), r')"
  obtains c where "length as = length es"
    and "map_of (repo_idempotency r) (Transaction_IdempotencyKey t) = None"
    and "map_of (repo_customers r) (Transaction_CustomerID t) = Some c"
    and "Customer_Status c = CustomerActive" and "t' = t" and "as' = as"
    and "r' = store_transaction t e as es r"
  using assms
  by (auto simp: mem_CreateTransaction_def Let_def split: option.splits if_splits)

lemma mem_CreateTransaction_hit:
  assumes "length as = length es"
    and "map_of (repo_idempotency r) (Transaction_IdempotencyKey t) = Some ident"
    and "stored = gindex zero_Transaction (repo_transactions r) ident"
  shows "mem_CreateTransaction t e as es r =
     (if SameIngestionPayload stored t
      then (Inr (stored, alerts_of_transaction (Transaction_ID stored) r, True), r)
      else (Inl ErrIdempotencyConflict, r))"
  using assms by (simp add: mem_CreateTransaction_def Let_def)

lemma mem_CreateTransaction_replayE:
  assumes "mem_CreateTransaction t e as es r = (Inr (t', as', True), r')"
  obtains ident where "map_of (repo_idempotency r) (Transaction_IdempotencyKey t) = Some ident"
    and "t' = gindex zero_Transaction (repo_transactions r) ident"
    and "SameIngestionPayload t' t" and "as' = alerts_of_transaction (Transaction_ID t') r"
    and "r' = r"
proof (cases "map_of (repo_idempotency r) (Transaction_IdempotencyKey t)")
  case None
  with assms show ?thesis
    by (simp add: mem_CreateTransaction_def split: option.splits if_splits)
next
  case (Some ident)
  have len: "length as = length es"
    using assms by (simp add: mem_CreateTransaction_def split: if_splits)
  show ?thesis
    using assms that [OF Some] mem_CreateTransaction_hit [OF len Some refl, of e]
    by (metis Inl_Inr_False Inr_inject prod.inject)
qed

lemma mem_CreateTransaction_err:
  "mem_CreateTransaction t e as es r = (Inl err, r') \<Longrightarrow> r' = r"
  by (auto simp: mem_CreateTransaction_def Let_def split: option.splits if_splits)

lemma mem_CloseAlert_okE:
  assumes "mem_CloseAlert alertID actor reason event r = (Inr a', r')"
  obtains a where "map_of (repo_alerts r) alertID = Some a" and "Alert_Status a = AlertOpen"
    and "a' = a\<lparr>Alert_Status := AlertClosed, Alert_ClosedAt := Some (Event_OccurredAt event),
                 Alert_ClosedBy := actor, Alert_ClosureReason := reason\<rparr>"
    and "r' = append_event alertID event (r\<lparr>repo_alerts := gput alertID a' (repo_alerts r)\<rparr>)"
  using assms by (auto simp: mem_CloseAlert_def Let_def split: option.splits if_splits)

lemma mem_CloseAlert_err: "mem_CloseAlert alertID actor reason event r = (Inl err, r') \<Longrightarrow> r' = r"
  by (auto simp: mem_CloseAlert_def Let_def split: option.splits if_splits)

section \<open>Investigation cases\<close>

definition mem_CreateCase ::
  "InvestigationCase \<Rightarrow> AuditEvent \<Rightarrow> (InvestigationCase, Repository) repo_op" where
  [repo_defs]: "mem_CreateCase item event r =
     (case map_of (repo_alerts r) (Case_AlertID item) of
        None \<Rightarrow> (Inl ErrAlertNotFound, r)
      | Some alert \<Rightarrow>
          if Alert_Status alert \<noteq> AlertOpen then (Inl ErrAlertConflict, r)
          else if list_ex (\<lambda>existing. Case_AlertID existing = Case_AlertID item)
                    (gvals (repo_cases r))
          then (Inl ErrAlertHasCase, r)
          else (let item = item\<lparr>Case_CustomerID := Alert_CustomerID alert\<rparr>
                in (Inr item, append_event (Case_ID item) event
                      (r\<lparr>repo_cases := gput (Case_ID item) item (repo_cases r)\<rparr>))))"

definition mem_GetCase :: "string \<Rightarrow> Repository \<Rightarrow> InvestigationCase result" where
  [repo_defs]: "mem_GetCase ident r =
     (case map_of (repo_cases r) ident of None \<Rightarrow> Inl ErrCaseNotFound | Some item \<Rightarrow> Inr item)"

definition mem_ListCaseComments :: "string \<Rightarrow> Repository \<Rightarrow> CaseComment list result" where
  [repo_defs]: "mem_ListCaseComments ident r = Inr (gslice (repo_caseComments r) ident)"

definition mem_AssignCase ::
  "string \<Rightarrow> string \<Rightarrow> AuditEvent \<Rightarrow> (InvestigationCase, Repository) repo_op" where
  [repo_defs]: "mem_AssignCase ident assignee event r =
     (case map_of (repo_cases r) ident of
        None \<Rightarrow> (Inl ErrCaseNotFound, r)
      | Some item \<Rightarrow>
          if Case_Status item = CaseResolved then (Inl ErrCaseConflict, r)
          else (let item = item\<lparr>Case_AssignedTo := assignee, Case_Status := CaseInProgress,
                      Case_UpdatedAt := Event_OccurredAt event\<rparr>
                in (Inr item, append_event ident event
                      (r\<lparr>repo_cases := gput ident item (repo_cases r)\<rparr>))))"

definition mem_AddCaseComment ::
  "CaseComment \<Rightarrow> AuditEvent \<Rightarrow> (CaseComment, Repository) repo_op" where
  [repo_defs]: "mem_AddCaseComment comment event r =
     (case map_of (repo_cases r) (Comment_CaseID comment) of
        None \<Rightarrow> (Inl ErrCaseNotFound, r)
      | Some item \<Rightarrow>
          if Case_Status item = CaseResolved then (Inl ErrCaseConflict, r)
          else (let item = item\<lparr>Case_UpdatedAt := Comment_CreatedAt comment\<rparr>
                in (Inr comment, append_event (Case_ID item) event
                      (r\<lparr>repo_cases := gput (Case_ID item) item (repo_cases r),
                         repo_caseComments :=
                           gappend (Case_ID item) comment (repo_caseComments r)\<rparr>))))"

definition mem_ResolveCase ::
  "string \<Rightarrow> string \<Rightarrow> string \<Rightarrow> AuditEvent \<Rightarrow> AuditEvent \<Rightarrow> (InvestigationCase, Repository) repo_op"
where
  [repo_defs]: "mem_ResolveCase ident resolution actor caseEvent alertEvent r =
     (case map_of (repo_cases r) ident of
        None \<Rightarrow> (Inl ErrCaseNotFound, r)
      | Some item \<Rightarrow>
          if Case_Status item = CaseResolved then (Inl ErrCaseConflict, r)
          else
            (let alert = gindex zero_Alert (repo_alerts r) (Case_AlertID item)
             in if Alert_Status alert \<noteq> AlertOpen then (Inl ErrAlertConflict, r)
                else
                  (let item = item\<lparr>Case_Status := CaseResolved, Case_Resolution := resolution,
                         Case_ResolvedBy := actor,
                         Case_ResolvedAt := Some (Event_OccurredAt caseEvent),
                         Case_UpdatedAt := Event_OccurredAt caseEvent\<rparr>;
                       alert = alert\<lparr>Alert_Status := AlertClosed,
                         Alert_ClosedAt := Some (Event_OccurredAt caseEvent),
                         Alert_ClosedBy := actor, Alert_ClosureReason := resolution\<rparr>;
                       alertEvent = alertEvent\<lparr>Event_AggregateID := Alert_ID alert\<rparr>
                   in (Inr item, append_event (Alert_ID alert) alertEvent
                         (append_event ident caseEvent
                           (r\<lparr>repo_cases := gput ident item (repo_cases r),
                              repo_alerts := gput (Alert_ID alert) alert (repo_alerts r)\<rparr>))))))"

lemma mem_CreateCase_okE:
  assumes "mem_CreateCase item event r = (Inr c', r')"
  obtains a where "map_of (repo_alerts r) (Case_AlertID item) = Some a"
    and "Alert_Status a = AlertOpen"
    and "\<forall>c \<in> set (gvals (repo_cases r)). Case_AlertID c \<noteq> Case_AlertID item"
    and "c' = item\<lparr>Case_CustomerID := Alert_CustomerID a\<rparr>"
    and "r' = append_event (Case_ID item) event
                (r\<lparr>repo_cases := gput (Case_ID item) c' (repo_cases r)\<rparr>)"
  using assms
  by (auto simp: mem_CreateCase_def Let_def list_ex_iff split: option.splits if_splits)

lemma mem_CreateCase_err: "mem_CreateCase item event r = (Inl err, r') \<Longrightarrow> r' = r"
  by (auto simp: mem_CreateCase_def Let_def split: option.splits if_splits)

lemma mem_AssignCase_okE:
  assumes "mem_AssignCase ident assignee event r = (Inr c', r')"
  obtains c where "map_of (repo_cases r) ident = Some c" and "Case_Status c \<noteq> CaseResolved"
    and "c' = c\<lparr>Case_AssignedTo := assignee, Case_Status := CaseInProgress,
                 Case_UpdatedAt := Event_OccurredAt event\<rparr>"
    and "r' = append_event ident event (r\<lparr>repo_cases := gput ident c' (repo_cases r)\<rparr>)"
  using assms by (auto simp: mem_AssignCase_def Let_def split: option.splits if_splits)

lemma mem_AssignCase_err: "mem_AssignCase ident assignee event r = (Inl err, r') \<Longrightarrow> r' = r"
  by (auto simp: mem_AssignCase_def Let_def split: option.splits if_splits)

lemma mem_AddCaseComment_okE:
  assumes "mem_AddCaseComment comment event r = (Inr x, r')"
  obtains c where "map_of (repo_cases r) (Comment_CaseID comment) = Some c"
    and "Case_Status c \<noteq> CaseResolved" and "x = comment"
    and "r' = append_event (Case_ID c) event
                (r\<lparr>repo_cases := gput (Case_ID c)
                     (c\<lparr>Case_UpdatedAt := Comment_CreatedAt comment\<rparr>) (repo_cases r),
                   repo_caseComments := gappend (Case_ID c) comment (repo_caseComments r)\<rparr>)"
  using assms by (auto simp: mem_AddCaseComment_def Let_def split: option.splits if_splits)

lemma mem_AddCaseComment_err: "mem_AddCaseComment comment event r = (Inl err, r') \<Longrightarrow> r' = r"
  by (auto simp: mem_AddCaseComment_def Let_def split: option.splits if_splits)

lemma mem_ResolveCase_okE:
  assumes "mem_ResolveCase ident resolution actor ce ae r = (Inr c', r')"
  obtains c a a' where "map_of (repo_cases r) ident = Some c" and "Case_Status c \<noteq> CaseResolved"
    and "map_of (repo_alerts r) (Case_AlertID c) = Some a" and "Alert_Status a = AlertOpen"
    and "c' = c\<lparr>Case_Status := CaseResolved, Case_Resolution := resolution,
                 Case_ResolvedBy := actor, Case_ResolvedAt := Some (Event_OccurredAt ce),
                 Case_UpdatedAt := Event_OccurredAt ce\<rparr>"
    and "a' = a\<lparr>Alert_Status := AlertClosed, Alert_ClosedAt := Some (Event_OccurredAt ce),
                 Alert_ClosedBy := actor, Alert_ClosureReason := resolution\<rparr>"
    and "r' = append_event (Alert_ID a) (ae\<lparr>Event_AggregateID := Alert_ID a\<rparr>)
                (append_event ident ce
                  (r\<lparr>repo_cases := gput ident c' (repo_cases r),
                     repo_alerts := gput (Alert_ID a) a' (repo_alerts r)\<rparr>))"
  using assms
  by (auto simp: mem_ResolveCase_def Let_def gindex_def zero_Alert_def split: option.splits if_splits)

lemma mem_ResolveCase_err:
  "mem_ResolveCase ident resolution actor ce ae r = (Inl err, r') \<Longrightarrow> r' = r"
  by (auto simp: mem_ResolveCase_def Let_def split: option.splits if_splits)

end
