(* ===== verification/Memory_Screening.thy ===== *)
theory Memory_Screening
  imports Memory
begin

text \<open>
  The rest of \<^verbatim>\<open>internal/infrastructure/memory/repository.go\<close> that changes state: due diligence,
  screening matches, recurring screening schedules with their leases, notifications and
  notification preferences.
\<close>

section \<open>Due diligence\<close>

definition zero_CDDProfile :: CDDProfile where
  [zero_defs]: "zero_CDDProfile =
     \<lparr>Profile_CustomerID = [], Profile_SourceOfWealth = [], Profile_BusinessPurpose = [],
      Profile_ExpectedMonthlyVolumeMinor = 0, Profile_Currency = [], Profile_Status = [],
      Profile_NextReviewAt = None, Profile_UpdatedBy = [], Profile_UpdatedAt = zero_time\<rparr>"

definition mem_GetDueDiligence :: "string \<Rightarrow> Repository \<Rightarrow> DueDiligenceDetails result" where
  [repo_defs]: "mem_GetDueDiligence ident r =
     (case map_of (repo_customers r) ident of
        None \<Rightarrow> Inl ErrCustomerNotFound
      | Some _ \<Rightarrow>
          (let profile = (case map_of (repo_cddProfiles r) ident of
                 None \<Rightarrow> zero_CDDProfile\<lparr>Profile_CustomerID := ident, Profile_Status := CDDIncomplete\<rparr>
               | Some p \<Rightarrow> p);
               docs = filter (\<lambda>d. Document_CustomerID d = ident) (gvals (repo_documents r))
           in Inr \<lparr>Diligence_Profile = profile,
                   Diligence_BeneficialOwners = gslice (repo_owners r) ident,
                   Diligence_Documents = docs\<rparr>))"

definition mem_UpsertCDDProfile :: "CDDProfile \<Rightarrow> AuditEvent \<Rightarrow> (CDDProfile, Repository) repo_op" where
  [repo_defs]: "mem_UpsertCDDProfile p event r =
     (case map_of (repo_customers r) (Profile_CustomerID p) of
        None \<Rightarrow> (Inl ErrCustomerNotFound, r)
      | Some _ \<Rightarrow> (Inr p, append_event (Profile_CustomerID p) event
           (r\<lparr>repo_cddProfiles := gput (Profile_CustomerID p) p (repo_cddProfiles r)\<rparr>)))"

definition mem_AddBeneficialOwner ::
  "BeneficialOwner \<Rightarrow> AuditEvent \<Rightarrow> (BeneficialOwner, Repository) repo_op" where
  [repo_defs]: "mem_AddBeneficialOwner o' event r =
     (case map_of (repo_customers r) (Owner_CustomerID o') of
        None \<Rightarrow> (Inl ErrCustomerNotFound, r)
      | Some _ \<Rightarrow> (Inr o', append_event (Owner_CustomerID o') event
           (r\<lparr>repo_owners := gappend (Owner_CustomerID o') o' (repo_owners r)\<rparr>)))"

definition mem_AddKYCDocument :: "KYCDocument \<Rightarrow> AuditEvent \<Rightarrow> (KYCDocument, Repository) repo_op" where
  [repo_defs]: "mem_AddKYCDocument d event r =
     (case map_of (repo_customers r) (Document_CustomerID d) of
        None \<Rightarrow> (Inl ErrCustomerNotFound, r)
      | Some _ \<Rightarrow> (Inr d, append_event (Document_CustomerID d) event
           (r\<lparr>repo_documents := gput (Document_ID d) d (repo_documents r)\<rparr>)))"

definition mem_ReviewKYCDocument ::
  "string \<Rightarrow> DocumentStatus \<Rightarrow> string \<Rightarrow> AuditEvent \<Rightarrow> (KYCDocument, Repository) repo_op" where
  [repo_defs]: "mem_ReviewKYCDocument ident status actor event r =
     (case map_of (repo_documents r) ident of
        None \<Rightarrow> (Inl ErrReviewConflict, r)
      | Some d \<Rightarrow>
          if Document_Status d \<noteq> DocumentPending then (Inl ErrReviewConflict, r)
          else (let d = d\<lparr>Document_Status := status, Document_VerifiedBy := actor,
                      Document_VerifiedAt := Some (Event_OccurredAt event)\<rparr>;
                    event = event\<lparr>Event_AggregateID := Document_CustomerID d\<rparr>
                in (Inr d, append_event (Document_CustomerID d) event
                      (r\<lparr>repo_documents := gput ident d (repo_documents r)\<rparr>))))"

lemma mem_UpsertCDDProfile_okE:
  assumes "mem_UpsertCDDProfile p event r = (Inr p', r')"
  obtains c where "map_of (repo_customers r) (Profile_CustomerID p) = Some c" and "p' = p"
    and "r' = append_event (Profile_CustomerID p) event
                (r\<lparr>repo_cddProfiles := gput (Profile_CustomerID p) p (repo_cddProfiles r)\<rparr>)"
  using assms by (auto simp: mem_UpsertCDDProfile_def split: option.splits)

lemma mem_AddBeneficialOwner_okE:
  assumes "mem_AddBeneficialOwner p event r = (Inr p', r')"
  obtains c where "map_of (repo_customers r) (Owner_CustomerID p) = Some c" and "p' = p"
    and "r' = append_event (Owner_CustomerID p) event
                (r\<lparr>repo_owners := gappend (Owner_CustomerID p) p (repo_owners r)\<rparr>)"
  using assms by (auto simp: mem_AddBeneficialOwner_def split: option.splits)

lemma mem_AddKYCDocument_okE:
  assumes "mem_AddKYCDocument d event r = (Inr d', r')"
  obtains c where "map_of (repo_customers r) (Document_CustomerID d) = Some c" and "d' = d"
    and "r' = append_event (Document_CustomerID d) event
                (r\<lparr>repo_documents := gput (Document_ID d) d (repo_documents r)\<rparr>)"
  using assms by (auto simp: mem_AddKYCDocument_def split: option.splits)

lemma mem_ReviewKYCDocument_okE:
  assumes "mem_ReviewKYCDocument ident status actor event r = (Inr d', r')"
  obtains d where "map_of (repo_documents r) ident = Some d" and "Document_Status d = DocumentPending"
    and "d' = d\<lparr>Document_Status := status, Document_VerifiedBy := actor,
                 Document_VerifiedAt := Some (Event_OccurredAt event)\<rparr>"
    and "r' = append_event (Document_CustomerID d)
                (event\<lparr>Event_AggregateID := Document_CustomerID d\<rparr>)
                (r\<lparr>repo_documents := gput ident d' (repo_documents r)\<rparr>)"
  using assms by (auto simp: mem_ReviewKYCDocument_def Let_def split: option.splits if_splits)

lemma diligence_err:
  "mem_UpsertCDDProfile p event r = (Inl err, r') \<Longrightarrow> r' = r"
  "mem_AddBeneficialOwner o' event r = (Inl err, r') \<Longrightarrow> r' = r"
  "mem_AddKYCDocument d event r = (Inl err, r') \<Longrightarrow> r' = r"
  "mem_ReviewKYCDocument ident status actor event r = (Inl err, r') \<Longrightarrow> r' = r"
  by (auto simp: mem_UpsertCDDProfile_def mem_AddBeneficialOwner_def mem_AddKYCDocument_def
      mem_ReviewKYCDocument_def Let_def split: option.splits if_splits)

section \<open>Screening schedules and their leases\<close>

definition mem_UpsertScreeningSchedule ::
  "ScreeningSchedule \<Rightarrow> AuditEvent \<Rightarrow> (ScreeningSchedule, Repository) repo_op" where
  [repo_defs]: "mem_UpsertScreeningSchedule schedule event r =
     (case map_of (repo_customers r) (Schedule_CustomerID schedule) of
        None \<Rightarrow> (Inl ErrCustomerNotFound, r)
      | Some _ \<Rightarrow>
          (let schedule = (case map_of (repo_screeningSchedules r) (Schedule_CustomerID schedule) of
                 None \<Rightarrow> schedule
               | Some previous \<Rightarrow>
                   schedule\<lparr>Schedule_LastRunAt := Schedule_LastRunAt previous\<rparr>)
           in (Inr schedule, append_event (Schedule_CustomerID schedule) event
                 (r\<lparr>repo_screeningSchedules :=
                      gput (Schedule_CustomerID schedule) schedule (repo_screeningSchedules r)\<rparr>))))"

definition mem_GetScreeningSchedule :: "string \<Rightarrow> Repository \<Rightarrow> ScreeningSchedule result" where
  [repo_defs]: "mem_GetScreeningSchedule customerID r =
     (case map_of (repo_screeningSchedules r) customerID of
        None \<Rightarrow> Inl ErrScreeningScheduleNotFound | Some s \<Rightarrow> Inr s)"

text \<open>
  The generic \<^verbatim>\<open>limitItems\<close> and \<^verbatim>\<open>limit\<close>: cut a slice that is longer than \<open>n\<close>. It is
  positive wherever the code calls them; a negative one would panic in \<^verbatim>\<open>items[:size]\<close>.
\<close>

definition limitItems :: "'a list \<Rightarrow> int \<Rightarrow> 'a list" where
  "limitItems items n = (if n < int (length items) then take (nat n) items else items)"

definition mem_ClaimDueScreeningSchedules ::
  "time \<Rightarrow> int \<Rightarrow> string \<Rightarrow> time \<Rightarrow> (ScreeningSchedule list, Repository) repo_op" where
  [repo_defs]: "mem_ClaimDueScreeningSchedules now limit owner leaseUntil r =
     (let result = map (lease owner leaseUntil)
                     (filter (schedule_due now) (gvals (repo_screeningSchedules r)));
          r = r\<lparr>repo_screeningSchedules :=
                 map (\<lambda>(ident, s). (ident, if schedule_due now s then lease owner leaseUntil s else s))
                   (repo_screeningSchedules r)\<rparr>;
          result = sort_slice (\<lambda>a b. Schedule_NextRunAt a < Schedule_NextRunAt b) result
      in (Inr (limitItems result limit), r))"

definition mem_CompleteScreeningSchedule ::
  "string \<Rightarrow> string \<Rightarrow> time \<Rightarrow> time \<Rightarrow> string \<Rightarrow> (unit, Repository) repo_op" where
  [repo_defs]: "mem_CompleteScreeningSchedule customerID owner ranAt nextRun lastError r =
     (case map_of (repo_screeningSchedules r) customerID of
        None \<Rightarrow> (Inl ErrScreeningScheduleNotFound, r)
      | Some schedule \<Rightarrow>
          if Schedule_LeaseOwner schedule \<noteq> owner then (Inl ErrScreeningScheduleNotFound, r)
          else (let schedule = schedule\<lparr>Schedule_LastRunAt := Some ranAt,
                      Schedule_LastError := lastError, Schedule_NextRunAt := nextRun,
                      Schedule_FailureCount :=
                        (if lastError = [] then 0 else Schedule_FailureCount schedule + 1),
                      Schedule_LeaseOwner := [], Schedule_LeaseUntil := None,
                      Schedule_UpdatedAt := ranAt\<rparr>
                in (Inr (), r\<lparr>repo_screeningSchedules :=
                      gput customerID schedule (repo_screeningSchedules r)\<rparr>)))"

lemma mem_UpsertScreeningSchedule_okE:
  assumes "mem_UpsertScreeningSchedule s event r = (Inr s', r')"
  obtains c where "map_of (repo_customers r) (Schedule_CustomerID s) = Some c"
    and "s' = (case map_of (repo_screeningSchedules r) (Schedule_CustomerID s) of
                 None \<Rightarrow> s | Some p \<Rightarrow> s\<lparr>Schedule_LastRunAt := Schedule_LastRunAt p\<rparr>)"
    and "r' = append_event (Schedule_CustomerID s) event
                (r\<lparr>repo_screeningSchedules :=
                     gput (Schedule_CustomerID s) s' (repo_screeningSchedules r)\<rparr>)"
  using assms
  by (auto simp: mem_UpsertScreeningSchedule_def Let_def split: option.splits)

lemma mem_CompleteScreeningSchedule_okE:
  assumes "mem_CompleteScreeningSchedule customerID owner ranAt nextRun lastError r = (Inr x, r')"
  obtains s where "map_of (repo_screeningSchedules r) customerID = Some s"
    and "Schedule_LeaseOwner s = owner"
    and "r' = r\<lparr>repo_screeningSchedules := gput customerID
                  (s\<lparr>Schedule_LastRunAt := Some ranAt, Schedule_LastError := lastError,
                     Schedule_NextRunAt := nextRun,
                     Schedule_FailureCount :=
                       (if lastError = [] then 0 else Schedule_FailureCount s + 1),
                     Schedule_LeaseOwner := [], Schedule_LeaseUntil := None,
                     Schedule_UpdatedAt := ranAt\<rparr>) (repo_screeningSchedules r)\<rparr>"
  using assms
  by (auto simp: mem_CompleteScreeningSchedule_def Let_def split: option.splits if_splits)

lemma schedule_err:
  "mem_UpsertScreeningSchedule s event r = (Inl err, r') \<Longrightarrow> r' = r"
  "mem_CompleteScreeningSchedule customerID owner ranAt nextRun lastError r = (Inl err, r') \<Longrightarrow> r' = r"
  by (auto simp: mem_UpsertScreeningSchedule_def mem_CompleteScreeningSchedule_def Let_def
      split: option.splits if_splits)

lemma set_limitItems: "set (limitItems xs n) \<subseteq> set xs"
  by (simp add: limitItems_def set_take_subset)

lemma length_limitItems: "0 \<le> n \<Longrightarrow> length (limitItems xs n) = min (length xs) (nat n)"
  by (auto simp: limitItems_def)

text \<open>After a claim each schedule is what it was, or a leased copy if it was due.\<close>

lemma map_of_map_snd: "map_of (map (\<lambda>(k, v). (k, f v)) m) k = map_option f (map_of m k)"
  by (induction m) auto

lemma mem_Claim_lookup:
  assumes "mem_ClaimDueScreeningSchedules now limit owner leaseUntil r = (Inr xs, r')"
  shows "map_of (repo_screeningSchedules r') k =
     map_option (\<lambda>s. if schedule_due now s then lease owner leaseUntil s else s)
       (map_of (repo_screeningSchedules r) k)"
  using assms by (auto simp: mem_ClaimDueScreeningSchedules_def Let_def map_of_map_snd)

lemma mem_Claim_result:
  assumes "mem_ClaimDueScreeningSchedules now limit owner leaseUntil r = (Inr xs, r')"
    and "x \<in> set xs"
  obtains s where "s \<in> set (gvals (repo_screeningSchedules r))" and "schedule_due now s"
    and "x = lease owner leaseUntil s"
  using assms set_limitItems
  by (fastforce simp: mem_ClaimDueScreeningSchedules_def Let_def)

section \<open>Matches, notifications, preferences\<close>

text \<open>The memory repository keeps no screening runs and no outbox: both arguments are unused.\<close>

definition store_matches :: "ScreeningMatch list \<Rightarrow> Repository \<Rightarrow> Repository" where
  "store_matches matches r =
     fold (\<lambda>m r. r\<lparr>repo_screeningMatches := gput (Match_ID m) m (repo_screeningMatches r)\<rparr>) matches r"

definition store_notifications :: "Notification list \<Rightarrow> Repository \<Rightarrow> Repository" where
  "store_notifications ns r =
     fold (\<lambda>n r. r\<lparr>repo_notifications := gput (Notification_ID n) n (repo_notifications r)\<rparr>) ns r"

definition store_events :: "AuditEvent list \<Rightarrow> Repository \<Rightarrow> Repository" where
  "store_events es r = fold (\<lambda>e r. append_event (Event_AggregateID e) e r) es r"

definition mem_SaveScreening ::
  "ScreeningRun list \<Rightarrow> ScreeningMatch list \<Rightarrow> Notification list \<Rightarrow> OutboxMessage list \<Rightarrow>
   AuditEvent list \<Rightarrow> (unit, Repository) repo_op" where
  [repo_defs]: "mem_SaveScreening runs matches ns outbox es r =
     (Inr (), store_events es (store_notifications ns (store_matches matches r)))"

definition mem_ListNotifications :: "int \<Rightarrow> Repository \<Rightarrow> Notification list result" where
  [repo_defs]: "mem_ListNotifications limit r =
     Inr (limitItems (sort_slice (\<lambda>a b. Notification_CreatedAt b < Notification_CreatedAt a)
            (gvals (repo_notifications r))) limit)"

definition mem_ReadNotification ::
  "string \<Rightarrow> string \<Rightarrow> time \<Rightarrow> (Notification, Repository) repo_op" where
  [repo_defs]: "mem_ReadNotification ident actor at r =
     (case map_of (repo_notifications r) ident of
        None \<Rightarrow> (Inl ErrNotificationNotFound, r)
      | Some n \<Rightarrow>
          (let n = n\<lparr>Notification_Read := True, Notification_ReadBy := actor,
                     Notification_ReadAt := Some at\<rparr>
           in (Inr n, r\<lparr>repo_notifications := gput ident n (repo_notifications r)\<rparr>)))"

definition mem_GetNotificationPreference :: "string \<Rightarrow> Repository \<Rightarrow> NotificationPreference result" where
  [repo_defs]: "mem_GetNotificationPreference actor r =
     (case map_of (repo_notificationPreferences r) actor of
        None \<Rightarrow> Inl ErrNotificationNotFound | Some p \<Rightarrow> Inr p)"

definition mem_UpsertNotificationPreference ::
  "NotificationPreference \<Rightarrow> (NotificationPreference, Repository) repo_op" where
  [repo_defs]: "mem_UpsertNotificationPreference preference r =
     (Inr preference, r\<lparr>repo_notificationPreferences :=
        gput (Preference_ActorSubject preference) preference (repo_notificationPreferences r)\<rparr>)"

definition mem_ListEmailNotificationRecipients :: "Repository \<Rightarrow> string list result" where
  [repo_defs]: "mem_ListEmailNotificationRecipients r =
     Inr (sort (map Preference_EmailAddress
            (filter Preference_EmailEnabled (gvals (repo_notificationPreferences r)))))"

definition mem_ListScreeningMatches :: "string \<Rightarrow> Repository \<Rightarrow> ScreeningMatch list result" where
  [repo_defs]: "mem_ListScreeningMatches customerID r =
     Inr (filter (\<lambda>m. Match_CustomerID m = customerID) (gvals (repo_screeningMatches r)))"

definition mem_DispositionScreeningMatch ::
  "string \<Rightarrow> ScreeningMatchStatus \<Rightarrow> string \<Rightarrow> string \<Rightarrow> AuditEvent \<Rightarrow>
   (ScreeningMatch, Repository) repo_op" where
  [repo_defs]: "mem_DispositionScreeningMatch ident status reason actor event r =
     (case map_of (repo_screeningMatches r) ident of
        None \<Rightarrow> (Inl ErrReviewConflict, r)
      | Some m \<Rightarrow>
          if Match_Status m \<noteq> MatchPotential then (Inl ErrReviewConflict, r)
          else (let m = m\<lparr>Match_Status := status, Match_ReviewedBy := actor,
                      Match_ReviewedAt := Some (Event_OccurredAt event),
                      Match_DispositionReason := reason\<rparr>;
                    event = event\<lparr>Event_AggregateID := Match_CustomerID m\<rparr>
                in (Inr m, append_event (Match_CustomerID m) event
                      (r\<lparr>repo_screeningMatches := gput ident m (repo_screeningMatches r)\<rparr>))))"

lemma mem_DispositionScreeningMatch_okE:
  assumes "mem_DispositionScreeningMatch ident status reason actor event r = (Inr m', r')"
  obtains m where "map_of (repo_screeningMatches r) ident = Some m"
    and "Match_Status m = MatchPotential"
    and "m' = m\<lparr>Match_Status := status, Match_ReviewedBy := actor,
                 Match_ReviewedAt := Some (Event_OccurredAt event),
                 Match_DispositionReason := reason\<rparr>"
    and "r' = append_event (Match_CustomerID m)
                (event\<lparr>Event_AggregateID := Match_CustomerID m\<rparr>)
                (r\<lparr>repo_screeningMatches := gput ident m' (repo_screeningMatches r)\<rparr>)"
  using assms
  by (auto simp: mem_DispositionScreeningMatch_def Let_def split: option.splits if_splits)

lemma mem_DispositionScreeningMatch_err:
  "mem_DispositionScreeningMatch ident status reason actor event r = (Inl err, r') \<Longrightarrow> r' = r"
  by (auto simp: mem_DispositionScreeningMatch_def Let_def split: option.splits if_splits)

text \<open>What the three loops of \<^verbatim>\<open>SaveScreening\<close> write, field by field.\<close>

lemma store_matches_eq:
  "store_matches ms r =
     r\<lparr>repo_screeningMatches := fold (\<lambda>m. gput (Match_ID m) m) ms (repo_screeningMatches r)\<rparr>"
  by (induction ms arbitrary: r) (simp_all add: store_matches_def)

lemma store_notifications_eq:
  "store_notifications ns r =
     r\<lparr>repo_notifications := fold (\<lambda>n. gput (Notification_ID n) n) ns (repo_notifications r)\<rparr>"
  by (induction ns arbitrary: r) (simp_all add: store_notifications_def)

lemma store_events_eq:
  "store_events es r =
     r\<lparr>repo_events := fold (\<lambda>e. gappend (Event_AggregateID e) e) es (repo_events r)\<rparr>"
  by (induction es arbitrary: r) (simp_all add: store_events_def append_event_def)

lemma gslice_fold_gappend:
  "gslice (fold (\<lambda>e. gappend (key e) e) es m) k = gslice m k @ filter (\<lambda>e. key e = k) es"
  by (induction es arbitrary: m) auto

lemma map_of_fold_gput:
  "distinct (map key xs) \<Longrightarrow>
   map_of (fold (\<lambda>x. gput (key x) x) xs m) k =
     (case find (\<lambda>x. key x = k) xs of None \<Rightarrow> map_of m k | Some x \<Rightarrow> Some x)"
proof (induction xs arbitrary: m)
  case (Cons x xs)
  then have "find (\<lambda>y. key y = key x) xs = None" by (simp add: find_key_None)
  with Cons show ?case by (auto split: option.split)
qed simp

lemma gomap_ok_fold_gput: "gomap_ok m \<Longrightarrow> gomap_ok (fold (\<lambda>x. gput (key x) x) xs m)"
  by (induction xs arbitrary: m) auto

lemma gomap_ok_fold_gappend: "gomap_ok m \<Longrightarrow> gomap_ok (fold (\<lambda>x. gappend (key x) x) xs m)"
  by (induction xs arbitrary: m) auto

lemmas store_eqs = store_matches_eq store_notifications_eq store_events_eq

end
