(* ===== verification/Risk.thy ===== *)
theory Risk
  imports Domain
begin

text \<open>
  \<^verbatim>\<open>internal/domain/risk.go\<close>: the customer risk engine. \<open>Assess\<close> follows the Go method: a
  result with no reasons, one guarded \<open>risk_add\<close> per factor, then the switch on the sanctions
  flag and the score. The lemmas give its score and reasons in closed form, its bounds, that the
  reasons explain the factors, and that a worse factor never improves the outcome.
\<close>

definition RiskRuleVersion :: string where
  "RiskRuleVersion = ''customer-risk-v1''"

text \<open>The closure \<^verbatim>\<open>add\<close> of the method, on the result it updates.\<close>

definition risk_add :: "string \<Rightarrow> int \<Rightarrow> string \<Rightarrow> RiskAssessment \<Rightarrow> RiskAssessment" where
  "risk_add code points detail result =
     result\<lparr>Assessment_Score := Assessment_Score result + points,
            Assessment_Reasons := Assessment_Reasons result @
              [\<lparr>Reason_Code = code, Reason_Points = points, Reason_Detail = detail\<rparr>]\<rparr>"

text \<open>\<^verbatim>\<open>if cond { add(...) }\<close>, and the switch on the country risk.\<close>

definition add_if :: "bool \<Rightarrow> string \<Rightarrow> int \<Rightarrow> string \<Rightarrow> RiskAssessment \<Rightarrow> RiskAssessment" where
  "add_if cond code points detail result =
     (if cond then risk_add code points detail result else result)"

definition add_country :: "CountryRisk \<Rightarrow> RiskAssessment \<Rightarrow> RiskAssessment" where
  "add_country c result =
     (if c = CountryRiskHigh
      then risk_add ''HIGH_RISK_COUNTRY'' 35 ''Customer is associated with a high-risk country'' result
      else if c = CountryRiskMedium
      then risk_add ''MEDIUM_RISK_COUNTRY'' 15 ''Customer is associated with a medium-risk country'' result
      else result)"

definition collect_reasons :: "RiskFactors \<Rightarrow> time \<Rightarrow> RiskAssessment" where
  "collect_reasons f now =
     (let result = \<lparr>Assessment_Score = 0, Assessment_Rating = [], Assessment_DueDiligence = [],
                    Assessment_Reasons = [], Assessment_AssessedAt = now,
                    Assessment_RuleVersion = RiskRuleVersion\<rparr>;
          result = add_country (Factors_CountryRisk f) result;
          result = add_if (Factors_PEP f) ''PEP'' 35
                     ''Customer is a politically exposed person'' result;
          result = add_if (Factors_SanctionsPotentialMatch f) ''SANCTIONS_POTENTIAL_MATCH'' 100
                     ''Potential sanctions match requires human review'' result;
          result = add_if (Factors_HighRiskIndustry f) ''HIGH_RISK_INDUSTRY'' 20
                     ''Customer operates in a higher-risk industry'' result;
          result = add_if (Factors_ComplexOwnership f) ''COMPLEX_OWNERSHIP'' 20
                     ''Ownership structure requires additional verification'' result
      in add_if (\<not> Factors_SourceOfFundsVerified f) ''SOURCE_OF_FUNDS_UNVERIFIED'' 20
           ''Source of funds has not been verified'' result)"

definition Assess :: "RiskFactors \<Rightarrow> time \<Rightarrow> RiskAssessment" where
  "Assess f now =
     (let result = collect_reasons f now
      in if Factors_SanctionsPotentialMatch f
         then result\<lparr>Assessment_Rating := RiskHigh, Assessment_DueDiligence := DueDiligenceBlocked\<rparr>
         else if 50 \<le> Assessment_Score result
         then result\<lparr>Assessment_Rating := RiskHigh, Assessment_DueDiligence := DueDiligenceEnhanced\<rparr>
         else if 20 \<le> Assessment_Score result
         then result\<lparr>Assessment_Rating := RiskMedium, Assessment_DueDiligence := DueDiligenceStandard\<rparr>
         else result\<lparr>Assessment_Rating := RiskLow, Assessment_DueDiligence := DueDiligenceStandard\<rparr>)"

section \<open>Closed forms\<close>

text \<open>The weights of the README's risk table, and the score they add up to.\<close>

definition country_points :: "CountryRisk \<Rightarrow> int" where
  "country_points c = (if c = CountryRiskHigh then 35 else if c = CountryRiskMedium then 15 else 0)"

definition risk_points :: "RiskFactors \<Rightarrow> int" where
  "risk_points f =
     country_points (Factors_CountryRisk f) + (if Factors_PEP f then 35 else 0) +
     (if Factors_SanctionsPotentialMatch f then 100 else 0) +
     (if Factors_HighRiskIndustry f then 20 else 0) +
     (if Factors_ComplexOwnership f then 20 else 0) +
     (if Factors_SourceOfFundsVerified f then 0 else 20)"

lemma risk_add_simps [simp]:
  "Assessment_Score (risk_add c p d a) = Assessment_Score a + p"
  "Assessment_Reasons (risk_add c p d a) =
     Assessment_Reasons a @ [\<lparr>Reason_Code = c, Reason_Points = p, Reason_Detail = d\<rparr>]"
  "Assessment_AssessedAt (risk_add c p d a) = Assessment_AssessedAt a"
  "Assessment_RuleVersion (risk_add c p d a) = Assessment_RuleVersion a"
  by (simp_all add: risk_add_def)

lemma add_if_simps [simp]:
  "Assessment_Score (add_if b c p d a) = Assessment_Score a + (if b then p else 0)"
  "map Reason_Code (Assessment_Reasons (add_if b c p d a)) =
     map Reason_Code (Assessment_Reasons a) @ (if b then [c] else [])"
  "map Reason_Points (Assessment_Reasons (add_if b c p d a)) =
     map Reason_Points (Assessment_Reasons a) @ (if b then [p] else [])"
  "Assessment_AssessedAt (add_if b c p d a) = Assessment_AssessedAt a"
  "Assessment_RuleVersion (add_if b c p d a) = Assessment_RuleVersion a"
  by (simp_all add: add_if_def)

lemma add_country_simps [simp]:
  "Assessment_Score (add_country c a) = Assessment_Score a + country_points c"
  "map Reason_Code (Assessment_Reasons (add_country c a)) =
     map Reason_Code (Assessment_Reasons a) @
     (if c = CountryRiskHigh then [''HIGH_RISK_COUNTRY'']
      else if c = CountryRiskMedium then [''MEDIUM_RISK_COUNTRY''] else [])"
  "map Reason_Points (Assessment_Reasons (add_country c a)) =
     map Reason_Points (Assessment_Reasons a) @
     (if c = CountryRiskHigh then [35] else if c = CountryRiskMedium then [15] else [])"
  "Assessment_AssessedAt (add_country c a) = Assessment_AssessedAt a"
  "Assessment_RuleVersion (add_country c a) = Assessment_RuleVersion a"
  by (simp_all add: add_country_def country_points_def)

lemma collect_score: "Assessment_Score (collect_reasons f now) = risk_points f"
  by (simp add: collect_reasons_def Let_def risk_points_def split del: if_split)
    (simp split: if_split)

lemma Assess_score: "Assessment_Score (Assess f now) = risk_points f"
  by (simp add: Assess_def Let_def collect_score)

lemma Assess_rating:
  "Assessment_Rating (Assess f now) =
     (if Factors_SanctionsPotentialMatch f \<or> 50 \<le> risk_points f then RiskHigh
      else if 20 \<le> risk_points f then RiskMedium else RiskLow)"
  by (simp add: Assess_def Let_def collect_score)

lemma Assess_due_diligence:
  "Assessment_DueDiligence (Assess f now) =
     (if Factors_SanctionsPotentialMatch f then DueDiligenceBlocked
      else if 50 \<le> risk_points f then DueDiligenceEnhanced else DueDiligenceStandard)"
  by (simp add: Assess_def Let_def collect_score)

lemma Assess_reasons: "Assessment_Reasons (Assess f now) = Assessment_Reasons (collect_reasons f now)"
  by (simp add: Assess_def Let_def)

lemma Assess_stamp [simp]:
  "Assessment_AssessedAt (Assess f now) = now"
  "Assessment_RuleVersion (Assess f now) = RiskRuleVersion"
  by (simp_all add: Assess_def Let_def collect_reasons_def)

text \<open>The reason codes and their points, each with the factor that puts it there.\<close>

lemma Assess_codes:
  "map Reason_Code (Assessment_Reasons (Assess f now)) =
     (if Factors_CountryRisk f = CountryRiskHigh then [''HIGH_RISK_COUNTRY'']
      else if Factors_CountryRisk f = CountryRiskMedium then [''MEDIUM_RISK_COUNTRY''] else []) @
     (if Factors_PEP f then [''PEP''] else []) @
     (if Factors_SanctionsPotentialMatch f then [''SANCTIONS_POTENTIAL_MATCH''] else []) @
     (if Factors_HighRiskIndustry f then [''HIGH_RISK_INDUSTRY''] else []) @
     (if Factors_ComplexOwnership f then [''COMPLEX_OWNERSHIP''] else []) @
     (if \<not> Factors_SourceOfFundsVerified f then [''SOURCE_OF_FUNDS_UNVERIFIED''] else [])"
  by (simp add: Assess_reasons collect_reasons_def Let_def split del: if_split)

lemma Assess_points:
  "map Reason_Points (Assessment_Reasons (Assess f now)) =
     (if Factors_CountryRisk f = CountryRiskHigh then [35]
      else if Factors_CountryRisk f = CountryRiskMedium then [15] else []) @
     (if Factors_PEP f then [35] else []) @
     (if Factors_SanctionsPotentialMatch f then [100] else []) @
     (if Factors_HighRiskIndustry f then [20] else []) @
     (if Factors_ComplexOwnership f then [20] else []) @
     (if \<not> Factors_SourceOfFundsVerified f then [20] else [])"
  by (simp add: Assess_reasons collect_reasons_def Let_def split del: if_split)

lemma sum_list_if: "sum_list (if b then [x] else []) = (if b then x else (0 :: int))"
  by simp

lemma Assess_sum: "sum_list (map Reason_Points (Assessment_Reasons (Assess f now))) = risk_points f"
  unfolding Assess_points sum_list_append sum_list_if
  by (simp add: risk_points_def country_points_def)

lemma Assess_codes_distinct: "distinct (map Reason_Code (Assessment_Reasons (Assess f now)))"
  unfolding Assess_codes by (simp split del: if_split) (simp split: if_split)

lemma Assess_length: "length (Assessment_Reasons (Assess f now)) \<le> 6"
proof -
  have "length (map Reason_Code (Assessment_Reasons (Assess f now))) \<le> 6"
    unfolding Assess_codes length_append by (simp split: if_split)
  then show ?thesis by simp
qed

lemma country_points_bounds: "0 \<le> country_points c" "country_points c \<le> 35"
  by (simp_all add: country_points_def)

lemma risk_points_bounds: "0 \<le> risk_points f" "risk_points f \<le> 230"
  using country_points_bounds [of "Factors_CountryRisk f"] by (simp_all add: risk_points_def)

lemma Assess_code_iff:
  defines "codes f now \<equiv> set (map Reason_Code (Assessment_Reasons (Assess f now)))"
  shows "''HIGH_RISK_COUNTRY'' \<in> codes f now \<longleftrightarrow> Factors_CountryRisk f = CountryRiskHigh"
    and "''MEDIUM_RISK_COUNTRY'' \<in> codes f now \<longleftrightarrow> Factors_CountryRisk f = CountryRiskMedium"
    and "''PEP'' \<in> codes f now \<longleftrightarrow> Factors_PEP f"
    and "''SANCTIONS_POTENTIAL_MATCH'' \<in> codes f now \<longleftrightarrow> Factors_SanctionsPotentialMatch f"
    and "''HIGH_RISK_INDUSTRY'' \<in> codes f now \<longleftrightarrow> Factors_HighRiskIndustry f"
    and "''COMPLEX_OWNERSHIP'' \<in> codes f now \<longleftrightarrow> Factors_ComplexOwnership f"
    and "''SOURCE_OF_FUNDS_UNVERIFIED'' \<in> codes f now \<longleftrightarrow> \<not> Factors_SourceOfFundsVerified f"
  unfolding codes_def Assess_codes by simp_all

section \<open>An order on factors\<close>

text \<open>Country risk as the code ranks it: an unnamed value scores like the low one.\<close>

definition country_rank :: "CountryRisk \<Rightarrow> nat" where
  "country_rank c = (if c = CountryRiskHigh then 2 else if c = CountryRiskMedium then 1 else 0)"

definition factors_le :: "RiskFactors \<Rightarrow> RiskFactors \<Rightarrow> bool" where
  "factors_le f g \<longleftrightarrow>
     country_rank (Factors_CountryRisk f) \<le> country_rank (Factors_CountryRisk g) \<and>
     (Factors_PEP f \<longrightarrow> Factors_PEP g) \<and>
     (Factors_SanctionsPotentialMatch f \<longrightarrow> Factors_SanctionsPotentialMatch g) \<and>
     (Factors_HighRiskIndustry f \<longrightarrow> Factors_HighRiskIndustry g) \<and>
     (Factors_ComplexOwnership f \<longrightarrow> Factors_ComplexOwnership g) \<and>
     (Factors_SourceOfFundsVerified g \<longrightarrow> Factors_SourceOfFundsVerified f)"

definition rating_rank :: "RiskRating \<Rightarrow> nat" where
  "rating_rank r = (if r = RiskHigh then 2 else if r = RiskMedium then 1 else 0)"

definition diligence_rank :: "DueDiligence \<Rightarrow> nat" where
  "diligence_rank d =
     (if d = DueDiligenceBlocked then 2 else if d = DueDiligenceEnhanced then 1 else 0)"

lemma country_points_mono:
  "country_rank c \<le> country_rank d \<Longrightarrow> country_points c \<le> country_points d"
  by (auto simp: country_rank_def country_points_def split: if_splits)

lemma risk_points_mono: "factors_le f g \<Longrightarrow> risk_points f \<le> risk_points g"
  using country_points_mono [of "Factors_CountryRisk f" "Factors_CountryRisk g"]
  by (auto simp: factors_le_def risk_points_def)

lemma rating_rank_mono:
  assumes "factors_le f g"
  shows "rating_rank (Assessment_Rating (Assess f now)) \<le>
         rating_rank (Assessment_Rating (Assess g now'))"
  using risk_points_mono [OF assms] assms
  by (simp add: Assess_rating rating_rank_def factors_le_def)

lemma diligence_rank_mono:
  assumes "factors_le f g"
  shows "diligence_rank (Assessment_DueDiligence (Assess f now)) \<le>
         diligence_rank (Assessment_DueDiligence (Assess g now'))"
  using risk_points_mono [OF assms] assms
  by (simp add: Assess_due_diligence diligence_rank_def factors_le_def)

section \<open>Properties\<close>

text \<open>
The score is the sum of the weights of the risk factors that are present, lies between 0 and
  230, and is fully explained by the reasons: their points add up to it, no reason code is listed
  twice, and each is listed exactly when its factor is present.
\<close>

theorem score_explained:
  "Assessment_Score (Assess f now) = risk_points f \<and>
   0 \<le> Assessment_Score (Assess f now) \<and> Assessment_Score (Assess f now) \<le> 230 \<and>
   sum_list (map Reason_Points (Assessment_Reasons (Assess f now))) = Assessment_Score (Assess f now) \<and>
   distinct (map Reason_Code (Assessment_Reasons (Assess f now))) \<and>
   set (map Reason_Code (Assessment_Reasons (Assess f now))) =
     {code. code = ''HIGH_RISK_COUNTRY'' \<and> Factors_CountryRisk f = CountryRiskHigh \<or>
            code = ''MEDIUM_RISK_COUNTRY'' \<and> Factors_CountryRisk f = CountryRiskMedium \<or>
            code = ''PEP'' \<and> Factors_PEP f \<or>
            code = ''SANCTIONS_POTENTIAL_MATCH'' \<and> Factors_SanctionsPotentialMatch f \<or>
            code = ''HIGH_RISK_INDUSTRY'' \<and> Factors_HighRiskIndustry f \<or>
            code = ''COMPLEX_OWNERSHIP'' \<and> Factors_ComplexOwnership f \<or>
            code = ''SOURCE_OF_FUNDS_UNVERIFIED'' \<and> \<not> Factors_SourceOfFundsVerified f}"
proof (intro conjI)
  show "set (map Reason_Code (Assessment_Reasons (Assess f now))) =
     {code. code = ''HIGH_RISK_COUNTRY'' \<and> Factors_CountryRisk f = CountryRiskHigh \<or>
            code = ''MEDIUM_RISK_COUNTRY'' \<and> Factors_CountryRisk f = CountryRiskMedium \<or>
            code = ''PEP'' \<and> Factors_PEP f \<or>
            code = ''SANCTIONS_POTENTIAL_MATCH'' \<and> Factors_SanctionsPotentialMatch f \<or>
            code = ''HIGH_RISK_INDUSTRY'' \<and> Factors_HighRiskIndustry f \<or>
            code = ''COMPLEX_OWNERSHIP'' \<and> Factors_ComplexOwnership f \<or>
            code = ''SOURCE_OF_FUNDS_UNVERIFIED'' \<and> \<not> Factors_SourceOfFundsVerified f}"
    unfolding Assess_codes set_append by (auto split: if_splits)
qed (simp_all add: Assess_score Assess_sum Assess_codes_distinct risk_points_bounds)

text \<open>
  C20. The rating and the level of due diligence follow the sanctions flag and the score: a
  potential sanctions match is always high risk and blocked, otherwise 50 points or more are high
  with enhanced due diligence, 20 to 49 medium and fewer low, both with standard due diligence.
\<close>

theorem rating_table:
  "(Assessment_DueDiligence (Assess f now) = DueDiligenceBlocked \<longleftrightarrow> Factors_SanctionsPotentialMatch f) \<and>
   (Assessment_DueDiligence (Assess f now) = DueDiligenceEnhanced \<longleftrightarrow>
      \<not> Factors_SanctionsPotentialMatch f \<and> 50 \<le> risk_points f) \<and>
   (Assessment_DueDiligence (Assess f now) = DueDiligenceStandard \<longleftrightarrow>
      \<not> Factors_SanctionsPotentialMatch f \<and> risk_points f < 50) \<and>
   (Assessment_Rating (Assess f now) = RiskHigh \<longleftrightarrow>
      Factors_SanctionsPotentialMatch f \<or> 50 \<le> risk_points f) \<and>
   (Assessment_Rating (Assess f now) = RiskMedium \<longleftrightarrow>
      \<not> Factors_SanctionsPotentialMatch f \<and> 20 \<le> risk_points f \<and> risk_points f < 50) \<and>
   (Assessment_Rating (Assess f now) = RiskLow \<longleftrightarrow>
      \<not> Factors_SanctionsPotentialMatch f \<and> risk_points f < 20)"
  by (simp add: Assess_rating Assess_due_diligence)

text \<open>
  C21. Worse facts never help: if one set of factors is at least as risky as another in every
  respect, its score, its rating and its level of due diligence are at least as high.
\<close>

theorem assessment_monotone:
  assumes "factors_le f g"
  shows "Assessment_Score (Assess f now) \<le> Assessment_Score (Assess g now') \<and>
    rating_rank (Assessment_Rating (Assess f now)) \<le> rating_rank (Assessment_Rating (Assess g now')) \<and>
    diligence_rank (Assessment_DueDiligence (Assess f now)) \<le>
      diligence_rank (Assessment_DueDiligence (Assess g now'))"
  using risk_points_mono [OF assms] rating_rank_mono [OF assms] diligence_rank_mono [OF assms]
  by (simp add: Assess_score)

definition plain_factors :: RiskFactors where
  "plain_factors = \<lparr>Factors_CountryRisk = CountryRiskLow, Factors_PEP = False,
     Factors_SanctionsPotentialMatch = False, Factors_HighRiskIndustry = True,
     Factors_ComplexOwnership = False, Factors_SourceOfFundsVerified = True\<rparr>"

theorem assessment_monotone_witness:
  "Assessment_Score (Assess plain_factors 0) \<le>
   Assessment_Score (Assess (plain_factors\<lparr>Factors_PEP := True\<rparr>) 0)"
  using assessment_monotone [of plain_factors "plain_factors\<lparr>Factors_PEP := True\<rparr>" 0 0]
  by (simp add: factors_le_def plain_factors_def)

end
