(* ===== verification/Onboarding.thy ===== *)
theory Onboarding
  imports Risk
begin

text \<open>
  \<^verbatim>\<open>internal/application/onboarding.go\<close>. Each service method is a request builder (the
  validation and the records it makes) followed by one repository call; the repository method is
  an argument, as the Go service holds it behind the interface \<^verbatim>\<open>Repository\<close>. The locale
  \<open>customer_repository\<close> is what that interface promises, and its lemmas are what the service
  guarantees over any such repository: validated customers enter pending with their assessment,
  and nobody decides on their own submission.
\<close>

record OnboardCustomerCommand =
  Onboard_ExternalRef :: string
  Onboard_Type :: CustomerType
  Onboard_LegalName :: string
  Onboard_CountryCode :: string
  Onboard_RiskFactors :: RiskFactors
  Onboard_Actor :: string

definition Onboard_request ::
  "call_env \<Rightarrow> OnboardCustomerCommand \<Rightarrow> (Customer \<times> AuditEvent) result" where
  [request_defs]: "Onboard_request env cmd =
     (let legalName = TrimSpace (Onboard_LegalName cmd);
          countryCode = ToUpper (Env_Upper env) (TrimSpace (Onboard_CountryCode cmd));
          factors = Onboard_RiskFactors cmd
      in if legalName = [] \<or> length countryCode \<noteq> 2 \<or>
            (Onboard_Type cmd \<noteq> CustomerIndividual \<and> Onboard_Type cmd \<noteq> CustomerCompany)
         then Inl ErrInvalidCustomer
         else if Factors_CountryRisk factors \<noteq> CountryRiskLow \<and>
                 Factors_CountryRisk factors \<noteq> CountryRiskMedium \<and>
                 Factors_CountryRisk factors \<noteq> CountryRiskHigh
         then Inl ErrInvalidCustomer
         else
           (let now = Env_Now env;
                assessment = Assess factors now;
                customerID = Env_IDs env 0;
                actor = TrimSpace (Onboard_Actor cmd)
            in if actor = [] then Inl ErrInvalidCustomer
               else Inr
                 (\<lparr>Customer_ID = customerID,
                   Customer_ExternalRef = TrimSpace (Onboard_ExternalRef cmd),
                   Customer_Type = Onboard_Type cmd, Customer_LegalName = legalName,
                   Customer_CountryCode = countryCode, Customer_RiskFactors = factors,
                   Customer_RiskAssessment = assessment,
                   Customer_Status = CustomerPendingApproval, Customer_CreatedBy = actor,
                   Customer_ReviewedBy = [], Customer_ReviewedAt = None,
                   Customer_CreatedAt = now\<rparr>,
                  \<lparr>Event_ID = Env_IDs env 1, Event_AggregateType = ''customer'',
                   Event_AggregateID = customerID, Event_EventType = ''customer.submitted'',
                   Event_Actor = actor, Event_OccurredAt = now,
                   Event_Payload =
                     [(''risk_score'', PInt (Assessment_Score assessment)),
                      (''risk_rating'', PString (Assessment_Rating assessment)),
                      (''due_diligence'', PString (Assessment_DueDiligence assessment)),
                      (''rule_version'', PString (Assessment_RuleVersion assessment))]\<rparr>)))"

definition Onboard ::
  "(Customer \<Rightarrow> AuditEvent \<Rightarrow> (unit, 'r) repo_op) \<Rightarrow> call_env \<Rightarrow> OnboardCustomerCommand \<Rightarrow>
   (Customer, 'r) repo_op" where
  "Onboard create env cmd r =
     (case Onboard_request env cmd of
        Inl err \<Rightarrow> (Inl err, r)
      | Inr (customer, event) \<Rightarrow>
          (case create customer event r of
             (Inl err, r') \<Rightarrow> (Inl err, r')
           | (Inr _, r') \<Rightarrow> (Inr customer, r')))"

definition Review_request ::
  "call_env \<Rightarrow> string \<Rightarrow> ReviewDecision \<Rightarrow> string \<Rightarrow> string \<Rightarrow>
   (string \<times> string \<times> AuditEvent) result" where
  [request_defs]: "Review_request env customerID decision actor reason =
     (let customerID = TrimSpace customerID; actor = TrimSpace actor; reason = TrimSpace reason
      in if customerID = [] \<or> actor = [] \<or>
            (decision \<noteq> ReviewApprove \<and> decision \<noteq> ReviewReject)
         then Inl ErrInvalidCustomer
         else Inr (customerID, actor,
           \<lparr>Event_ID = Env_IDs env 0, Event_AggregateType = ''customer'',
            Event_AggregateID = customerID,
            Event_EventType = (if decision = ReviewReject then ''customer.rejected''
                               else ''customer.approved''),
            Event_Actor = actor, Event_OccurredAt = Env_Now env,
            Event_Payload = [(''reason'', PString reason)]\<rparr>))"

definition Review ::
  "(string \<Rightarrow> ReviewDecision \<Rightarrow> string \<Rightarrow> AuditEvent \<Rightarrow> (Customer, 'r) repo_op) \<Rightarrow>
   call_env \<Rightarrow> string \<Rightarrow> ReviewDecision \<Rightarrow> string \<Rightarrow> string \<Rightarrow> (Customer, 'r) repo_op" where
  "Review review env customerID decision actor reason r =
     (case Review_request env customerID decision actor reason of
        Inl err \<Rightarrow> (Inl err, r)
      | Inr (customerID, actor, event) \<Rightarrow> review customerID decision actor event r)"

section \<open>The requests\<close>

lemma Onboard_requestE:
  assumes "Onboard_request env cmd = Inr (c, e)"
  obtains "Customer_ID c = Env_IDs env 0" and "Customer_Status c = CustomerPendingApproval"
    and "Customer_CreatedBy c = TrimSpace (Onboard_Actor cmd)" and "Customer_CreatedBy c \<noteq> []"
    and "Customer_ReviewedBy c = []" and "Customer_ReviewedAt c = None"
    and "Customer_CreatedAt c = Env_Now env"
    and "Customer_RiskFactors c = Onboard_RiskFactors cmd"
    and "Customer_RiskAssessment c = Assess (Onboard_RiskFactors cmd) (Env_Now env)"
    and "Customer_LegalName c \<noteq> []" and "length (Customer_CountryCode c) = 2"
    and "Customer_Type c \<in> {CustomerIndividual, CustomerCompany}"
    and "Factors_CountryRisk (Customer_RiskFactors c)
           \<in> {CountryRiskLow, CountryRiskMedium, CountryRiskHigh}"
    and "Event_ID e = Env_IDs env 1" and "Event_AggregateID e = Customer_ID c"
    and "Event_EventType e = ''customer.submitted''" and "Event_Actor e = Customer_CreatedBy c"
    and "Event_OccurredAt e = Env_Now env" and "Event_AggregateType e = ''customer''"
    and "Event_Payload e =
       [(''risk_score'', PInt (Assessment_Score (Customer_RiskAssessment c))),
        (''risk_rating'', PString (Assessment_Rating (Customer_RiskAssessment c))),
        (''due_diligence'', PString (Assessment_DueDiligence (Customer_RiskAssessment c))),
        (''rule_version'', PString (Assessment_RuleVersion (Customer_RiskAssessment c)))]"
  using assms by (auto simp: Onboard_request_def Let_def split: if_splits)

lemma Onboard_request_iff:
  "(\<exists>c e. Onboard_request env cmd = Inr (c, e)) \<longleftrightarrow>
     TrimSpace (Onboard_LegalName cmd) \<noteq> [] \<and> TrimSpace (Onboard_Actor cmd) \<noteq> [] \<and>
     length (ToUpper (Env_Upper env) (TrimSpace (Onboard_CountryCode cmd))) = 2 \<and>
     Onboard_Type cmd \<in> {CustomerIndividual, CustomerCompany} \<and>
     Factors_CountryRisk (Onboard_RiskFactors cmd)
       \<in> {CountryRiskLow, CountryRiskMedium, CountryRiskHigh}"
  by (auto simp: Onboard_request_def Let_def)

lemma Onboard_request_err: "Onboard_request env cmd = Inl err \<Longrightarrow> err = ErrInvalidCustomer"
  by (auto simp: Onboard_request_def Let_def split: if_splits)

lemma Review_requestE:
  assumes "Review_request env customerID decision actor reason = Inr (i, a, e)"
  obtains "i = TrimSpace customerID" and "i \<noteq> []" and "a = TrimSpace actor" and "a \<noteq> []"
    and "decision \<in> {ReviewApprove, ReviewReject}"
    and "Event_ID e = Env_IDs env 0" and "Event_AggregateID e = i" and "Event_Actor e = a"
    and "Event_OccurredAt e = Env_Now env" and "Event_AggregateType e = ''customer''"
    and "Event_EventType e =
      (if decision = ReviewReject then ''customer.rejected'' else ''customer.approved'')"
    and "Event_Payload e = [(''reason'', PString (TrimSpace reason))]"
  using assms by (auto simp: Review_request_def Let_def split: if_splits)

lemma Onboard_okE:
  assumes "Onboard create env cmd r = (Inr c, r')"
  obtains e u where "Onboard_request env cmd = Inr (c, e)" and "create c e r = (Inr u, r')"
  using assms by (auto simp: Onboard_def split: sum.splits prod.splits)

lemma Review_okE:
  assumes "Review review env customerID decision actor reason r = (Inr c, r')"
  obtains e where
    "Review_request env customerID decision actor reason = Inr (TrimSpace customerID, TrimSpace actor, e)"
    and "review (TrimSpace customerID) decision (TrimSpace actor) e r = (Inr c, r')"
  using assms
  by (auto simp: Review_def split: sum.splits prod.splits elim!: Review_requestE)

section \<open>The contract of the customer repository\<close>

locale customer_repository =
  fixes find_customer :: "'r \<Rightarrow> string \<Rightarrow> Customer option"
    and history :: "'r \<Rightarrow> string \<Rightarrow> AuditEvent list"
    and create :: "Customer \<Rightarrow> AuditEvent \<Rightarrow> (unit, 'r) repo_op"
    and review :: "string \<Rightarrow> ReviewDecision \<Rightarrow> string \<Rightarrow> AuditEvent \<Rightarrow> (Customer, 'r) repo_op"
  assumes create_ok: "create c e r = (Inr u, r') \<Longrightarrow>
      find_customer r' = (find_customer r)(Customer_ID c \<mapsto> c) \<and>
      history r' = (history r)(Customer_ID c := history r (Customer_ID c) @ [e])"
    and create_err: "create c e r = (Inl err, r') \<Longrightarrow> r' = r"
    and review_ok: "review i d a e r = (Inr c', r') \<Longrightarrow>
      \<exists>c status. find_customer r i = Some c \<and> Customer_CreatedBy c \<noteq> a \<and>
        Customer_Status c = CustomerPendingApproval \<and> decided_status d = Some status \<and>
        c' = c\<lparr>Customer_Status := status, Customer_ReviewedBy := a,
               Customer_ReviewedAt := Some (Event_OccurredAt e)\<rparr> \<and>
        find_customer r' = (find_customer r)(i \<mapsto> c') \<and>
        history r' = (history r)(i := history r i @ [e])"
    and review_err: "review i d a e r = (Inl err, r') \<Longrightarrow> r' = r"
begin

lemma Onboard_err: "Onboard create env cmd r = (Inl err, r') \<Longrightarrow> r' = r"
  by (auto simp: Onboard_def dest: create_err split: sum.splits prod.splits)

lemma Review_err: "Review review env i d a reason r = (Inl err, r') \<Longrightarrow> r' = r"
  by (auto simp: Review_def dest: review_err split: sum.splits prod.splits)

lemma Onboard_stored:
  assumes "Onboard create env cmd r = (Inr c, r')"
  obtains e where "Onboard_request env cmd = Inr (c, e)"
    and "find_customer r' = (find_customer r)(Customer_ID c \<mapsto> c)"
    and "history r' = (history r)(Customer_ID c := history r (Customer_ID c) @ [e])"
proof (rule Onboard_okE [OF assms])
  fix e u
  assume "Onboard_request env cmd = Inr (c, e)" and "create c e r = (Inr u, r')"
  then show thesis using create_ok that by blast
qed

lemma Review_stored:
  assumes "Review review env i d a reason r = (Inr c', r')"
  obtains c status e where "Review_request env i d a reason = Inr (TrimSpace i, TrimSpace a, e)"
    and "find_customer r (TrimSpace i) = Some c" and "Customer_CreatedBy c \<noteq> TrimSpace a"
    and "Customer_Status c = CustomerPendingApproval" and "decided_status d = Some status"
    and "c' = c\<lparr>Customer_Status := status, Customer_ReviewedBy := TrimSpace a,
                 Customer_ReviewedAt := Some (Env_Now env)\<rparr>"
    and "find_customer r' = (find_customer r)(TrimSpace i \<mapsto> c')"
    and "history r' = (history r)(TrimSpace i := history r (TrimSpace i) @ [e])"
proof (rule Review_okE [OF assms])
  fix e
  assume req: "Review_request env i d a reason = Inr (TrimSpace i, TrimSpace a, e)"
    and res: "review (TrimSpace i) d (TrimSpace a) e r = (Inr c', r')"
  have "Event_OccurredAt e = Env_Now env" using req by (rule Review_requestE)
  with review_ok [OF res] show thesis by (metis that [OF req])
qed

text \<open>A review that cannot be decided changes nothing and reports an error.\<close>

lemma Review_refused:
  assumes "\<And>c. find_customer r (TrimSpace i) = Some c \<Longrightarrow>
      Customer_CreatedBy c = TrimSpace a \<or> Customer_Status c \<noteq> CustomerPendingApproval"
  shows "\<exists>err. Review review env i d a reason r = (Inl err, r)"
proof (cases "Review review env i d a reason r")
  case (Pair x r')
  show ?thesis
  proof (cases x)
    case (Inl err)
    with Pair Review_err show ?thesis by blast
  next
    case (Inr c')
    show ?thesis
      by (rule Review_stored [OF Pair [unfolded Inr]]) (use assms in blast)
  qed
qed

text \<open>The four-eyes rule: whoever submitted a customer cannot decide on it.\<close>

lemma four_eyes:
  assumes "Onboard create env cmd r = (Inr c, r')"
    and "TrimSpace i = Customer_ID c" and "TrimSpace a = TrimSpace (Onboard_Actor cmd)"
  shows "\<exists>err. Review review env' i d a reason r' = (Inl err, r')"
proof (rule Onboard_stored [OF assms(1)])
  fix e
  assume "Onboard_request env cmd = Inr (c, e)"
    and "find_customer r' = (find_customer r)(Customer_ID c \<mapsto> c)"
  then show ?thesis using assms(2,3)
    by (intro Review_refused) (auto elim!: Onboard_requestE)
qed

text \<open>A decision is final.\<close>

lemma decided_once:
  assumes "Review review env i d a reason r = (Inr c, r')" and "TrimSpace i' = TrimSpace i"
  shows "\<exists>err. Review review env' i' d' a' reason' r' = (Inl err, r')"
proof (rule Review_stored [OF assms(1)])
  fix c0 status e
  assume "decided_status d = Some status"
    and "c = c0\<lparr>Customer_Status := status, Customer_ReviewedBy := TrimSpace a,
                 Customer_ReviewedAt := Some (Env_Now env)\<rparr>"
    and "find_customer r' = (find_customer r)(TrimSpace i \<mapsto> c)"
  then show ?thesis using assms(2)
    by (intro Review_refused) (auto dest: decided_statusD)
qed

end

end
