(* ===== verification/Monitoring.thy ===== *)
theory Monitoring
  imports Domain
begin

text \<open>
  \<^verbatim>\<open>internal/domain/monitoring.go\<close>: the transaction-monitoring engine, which turns a
  transaction into findings, in rule order. The lemmas say when each rule fires.
\<close>

definition TransactionMonitoringRuleVersion :: string where
  "TransactionMonitoringRuleVersion = ''transaction-monitoring-v1''"

definition highRiskCounterpartyCountries :: "bool gomap" where
  "highRiskCounterpartyCountries = [(''IR'', True), (''KP'', True), (''SY'', True)]"

abbreviation is_high_risk_country :: "string \<Rightarrow> bool" where
  "is_high_risk_country c \<equiv> gindex False highRiskCounterpartyCountries c"

definition Evaluate :: "Transaction \<Rightarrow> MonitoringFinding list" where
  "Evaluate t =
     (let findings = [];
          findings = (if 1000000 \<le> Transaction_AmountMinor t
            then findings @
              [\<lparr>Finding_RuleCode = ''large_transaction'',
                Finding_RuleVersion = TransactionMonitoringRuleVersion,
                Finding_Severity = AlertHigh, Finding_ReasonCode = ''amount_threshold_exceeded'',
                Finding_Description = ''Transaction amount '' @ show_int (Transaction_AmountMinor t) @
                  '' minor units meets or exceeds the 1000000 threshold''\<rparr>]
            else findings);
          findings = (if is_high_risk_country (Transaction_CounterpartyCountry t)
            then findings @
              [\<lparr>Finding_RuleCode = ''high_risk_counterparty_country'',
                Finding_RuleVersion = TransactionMonitoringRuleVersion,
                Finding_Severity = AlertHigh,
                Finding_ReasonCode = ''counterparty_country_high_risk'',
                Finding_Description = ''Counterparty country '' @ Transaction_CounterpartyCountry t @
                  '' is configured as high risk''\<rparr>]
            else findings)
      in findings)"

lemma is_high_risk_country_iff: "is_high_risk_country c \<longleftrightarrow> c \<in> {''IR'', ''KP'', ''SY''}"
  by (auto simp: gindex_def highRiskCounterpartyCountries_def)

text \<open>The rule codes of the findings, in order: all an alert's audit trail needs.\<close>

definition rule_codes :: "Transaction \<Rightarrow> string list" where
  "rule_codes t = map Finding_RuleCode (Evaluate t)"

lemma rule_codes_eq:
  "rule_codes t =
     (if 1000000 \<le> Transaction_AmountMinor t then [''large_transaction''] else []) @
     (if Transaction_CounterpartyCountry t \<in> {''IR'', ''KP'', ''SY''}
      then [''high_risk_counterparty_country''] else [])"
  by (simp add: rule_codes_def Evaluate_def is_high_risk_country_iff)

lemma distinct_rule_codes [simp]: "distinct (rule_codes t)"
  by (simp add: rule_codes_eq)

lemma Evaluate_fields:
  "x \<in> set (Evaluate t) \<Longrightarrow>
   Finding_Severity x = AlertHigh \<and> Finding_RuleVersion x = TransactionMonitoringRuleVersion"
  by (auto simp: Evaluate_def Let_def split: if_splits)

lemma length_Evaluate: "length (Evaluate t) = length (rule_codes t)"
  by (simp add: rule_codes_def)

text \<open>The engine reads two fields only.\<close>

lemma Evaluate_cong:
  "Transaction_AmountMinor t = Transaction_AmountMinor u \<Longrightarrow>
   Transaction_CounterpartyCountry t = Transaction_CounterpartyCountry u \<Longrightarrow>
   Evaluate t = Evaluate u"
  by (simp add: Evaluate_def)

lemma Evaluate_id [simp]:
  "Evaluate (t\<lparr>Transaction_ID := i\<rparr>) = Evaluate t"
  by (simp add: Evaluate_def)

section \<open>Properties\<close>


end
