(* ===== verification/Transactions.thy ===== *)
theory Transactions
  imports Monitoring
begin

text \<open>
  \<^verbatim>\<open>internal/application/transactions.go\<close>: ingestion of transactions with monitoring, and the
  closing of alerts. As in theory \<open>Onboarding\<close> each method is a request builder and one
  repository call behind an interface; the locale \<open>transaction_repository\<close> is the contract of
  \<^verbatim>\<open>TransactionRepository\<close>, and its lemmas are the guarantees of the service: a retry returns
  what the first call stored and changes nothing, a reused key is refused, and the alerts of a
  new transaction are exactly the findings of the engine.
\<close>

record IngestTransactionCommand =
  Ingest_ExternalRef :: string
  Ingest_CustomerID :: string
  Ingest_Direction :: TransactionDirection
  Ingest_AmountMinor :: int
  Ingest_Currency :: string
  Ingest_CounterpartyCountry :: string
  Ingest_OccurredAt :: time
  Ingest_Actor :: string
  Ingest_IdempotencyKey :: string

record IngestTransactionResult =
  Ingested_Transaction :: Transaction
  Ingested_Alerts :: "Alert list"
  Ingested_Replayed :: bool

text \<open>The body of the loop over the findings; the \<open>n\<close>-th turn draws two identifiers.\<close>

definition new_alert :: "call_env \<Rightarrow> Transaction \<Rightarrow> nat \<times> MonitoringFinding \<Rightarrow> Alert" where
  "new_alert env t = (\<lambda>(n, finding).
     \<lparr>Alert_ID = Env_IDs env (2 + 2 * n), Alert_TransactionID = Transaction_ID t,
      Alert_CustomerID = Transaction_CustomerID t, Alert_RuleCode = Finding_RuleCode finding,
      Alert_RuleVersion = Finding_RuleVersion finding,
      Alert_Severity = Finding_Severity finding, Alert_Status = AlertOpen,
      Alert_ReasonCode = Finding_ReasonCode finding,
      Alert_Description = Finding_Description finding, Alert_CreatedAt = Env_Now env,
      Alert_ClosedAt = None, Alert_ClosedBy = [], Alert_ClosureReason = []\<rparr>)"

definition new_alert_event :: "call_env \<Rightarrow> Transaction \<Rightarrow> nat \<times> MonitoringFinding \<Rightarrow> AuditEvent" where
  "new_alert_event env t = (\<lambda>(n, finding).
     (let alert = new_alert env t (n, finding)
      in \<lparr>Event_ID = Env_IDs env (3 + 2 * n), Event_AggregateType = ''alert'',
          Event_AggregateID = Alert_ID alert, Event_EventType = ''alert.created'',
          Event_Actor = ''transaction-monitoring-engine'', Event_OccurredAt = Env_Now env,
          Event_Payload =
            [(''transaction_id'', PString (Transaction_ID t)),
             (''rule_code'', PString (Alert_RuleCode alert)),
             (''rule_version'', PString (Alert_RuleVersion alert)),
             (''reason_code'', PString (Alert_ReasonCode alert))]\<rparr>))"

definition Ingest_request ::
  "call_env \<Rightarrow> IngestTransactionCommand \<Rightarrow>
   (Transaction \<times> AuditEvent \<times> Alert list \<times> AuditEvent list) result" where
  [request_defs]: "Ingest_request env cmd =
     (let externalRef = TrimSpace (Ingest_ExternalRef cmd);
          customerID = TrimSpace (Ingest_CustomerID cmd);
          currency = ToUpper (Env_Upper env) (TrimSpace (Ingest_Currency cmd));
          country = ToUpper (Env_Upper env) (TrimSpace (Ingest_CounterpartyCountry cmd));
          actor = TrimSpace (Ingest_Actor cmd);
          idempotencyKey = TrimSpace (Ingest_IdempotencyKey cmd)
      in if customerID = [] \<or> Ingest_AmountMinor cmd \<le> 0 \<or> length currency \<noteq> 3 \<or>
            length country \<noteq> 2 \<or> IsZero (Ingest_OccurredAt cmd) \<or> actor = [] \<or>
            idempotencyKey = [] \<or> 200 < length idempotencyKey
         then Inl ErrInvalidTransaction
         else if Ingest_Direction cmd \<noteq> TransactionInbound \<and>
                 Ingest_Direction cmd \<noteq> TransactionOutbound
         then Inl ErrInvalidTransaction
         else
           (let now = Env_Now env;
                transaction =
                  \<lparr>Transaction_ID = Env_IDs env 0, Transaction_IdempotencyKey = idempotencyKey,
                   Transaction_ExternalRef = externalRef, Transaction_CustomerID = customerID,
                   Transaction_Direction = Ingest_Direction cmd,
                   Transaction_AmountMinor = Ingest_AmountMinor cmd,
                   Transaction_Currency = currency,
                   Transaction_CounterpartyCountry = country,
                   Transaction_OccurredAt = Truncate (Ingest_OccurredAt cmd) Microsecond,
                   Transaction_IngestedAt = now, Transaction_IngestedBy = actor\<rparr>;
                transactionEvent =
                  \<lparr>Event_ID = Env_IDs env 1, Event_AggregateType = ''transaction'',
                   Event_AggregateID = Transaction_ID transaction,
                   Event_EventType = ''transaction.ingested'', Event_Actor = actor,
                   Event_OccurredAt = now,
                   Event_Payload =
                     [(''customer_id'', PString (Transaction_CustomerID transaction)),
                      (''amount_minor'', PInt (Transaction_AmountMinor transaction)),
                      (''currency'', PString (Transaction_Currency transaction)),
                      (''direction'', PString (Transaction_Direction transaction))]\<rparr>;
                findings = enumerate 0 (Evaluate transaction)
            in Inr (transaction, transactionEvent, map (new_alert env transaction) findings,
                    map (new_alert_event env transaction) findings)))"

definition Ingest ::
  "(Transaction \<Rightarrow> AuditEvent \<Rightarrow> Alert list \<Rightarrow> AuditEvent list \<Rightarrow>
    (Transaction \<times> Alert list \<times> bool, 'r) repo_op) \<Rightarrow>
   call_env \<Rightarrow> IngestTransactionCommand \<Rightarrow> (IngestTransactionResult, 'r) repo_op" where
  "Ingest create env cmd r =
     (case Ingest_request env cmd of
        Inl err \<Rightarrow> (Inl err, r)
      | Inr (transaction, transactionEvent, alrts, alertEvents) \<Rightarrow>
          (case create transaction transactionEvent alrts alertEvents r of
             (Inl err, r') \<Rightarrow> (Inl err, r')
           | (Inr (stored, storedAlerts, replayed), r') \<Rightarrow>
               (Inr \<lparr>Ingested_Transaction = stored, Ingested_Alerts = storedAlerts,
                     Ingested_Replayed = replayed\<rparr>, r')))"

definition ListAlerts ::
  "(AlertStatus \<Rightarrow> 'r \<Rightarrow> Alert list result) \<Rightarrow> AlertStatus \<Rightarrow> 'r \<Rightarrow> Alert list result" where
  "ListAlerts list_alerts status r =
     (if status \<noteq> [] \<and> status \<noteq> AlertOpen \<and> status \<noteq> AlertClosed then Inl ErrInvalidAlertReview
      else list_alerts status r)"

definition CloseAlert_request ::
  "call_env \<Rightarrow> string \<Rightarrow> string \<Rightarrow> string \<Rightarrow> (string \<times> string \<times> string \<times> AuditEvent) result"
where
  [request_defs]: "CloseAlert_request env alertID actor reason =
     (let alertID = TrimSpace alertID; actor = TrimSpace actor; reason = TrimSpace reason
      in if alertID = [] \<or> actor = [] \<or> reason = [] then Inl ErrInvalidAlertReview
         else Inr (alertID, actor, reason,
           \<lparr>Event_ID = Env_IDs env 0, Event_AggregateType = ''alert'', Event_AggregateID = alertID,
            Event_EventType = ''alert.closed'', Event_Actor = actor, Event_OccurredAt = Env_Now env,
            Event_Payload = [(''reason'', PString reason)]\<rparr>))"

definition CloseAlert ::
  "(string \<Rightarrow> string \<Rightarrow> string \<Rightarrow> AuditEvent \<Rightarrow> (Alert, 'r) repo_op) \<Rightarrow>
   call_env \<Rightarrow> string \<Rightarrow> string \<Rightarrow> string \<Rightarrow> (Alert, 'r) repo_op" where
  "CloseAlert close env alertID actor reason r =
     (case CloseAlert_request env alertID actor reason of
        Inl err \<Rightarrow> (Inl err, r)
      | Inr (alertID, actor, reason, event) \<Rightarrow> close alertID actor reason event r)"

section \<open>The requests\<close>

lemma Ingest_requestE:
  assumes "Ingest_request env cmd = Inr (t, e, as, es)"
  obtains "Transaction_ID t = Env_IDs env 0"
    and "Transaction_IdempotencyKey t = TrimSpace (Ingest_IdempotencyKey cmd)"
    and "Transaction_IdempotencyKey t \<noteq> []" and "length (Transaction_IdempotencyKey t) \<le> 200"
    and "Transaction_CustomerID t = TrimSpace (Ingest_CustomerID cmd)"
    and "Transaction_CustomerID t \<noteq> []" and "0 < Transaction_AmountMinor t"
    and "Transaction_AmountMinor t = Ingest_AmountMinor cmd"
    and "length (Transaction_Currency t) = 3" and "length (Transaction_CounterpartyCountry t) = 2"
    and "Transaction_Direction t \<in> {TransactionInbound, TransactionOutbound}"
    and "Transaction_IngestedBy t = TrimSpace (Ingest_Actor cmd)" and "Transaction_IngestedBy t \<noteq> []"
    and "Transaction_OccurredAt t = Truncate (Ingest_OccurredAt cmd) Microsecond"
    and "Event_ID e = Env_IDs env 1" and "Event_AggregateID e = Transaction_ID t"
    and "Event_EventType e = ''transaction.ingested''"
    and "Event_Actor e = Transaction_IngestedBy t" and "Event_OccurredAt e = Env_Now env"
    and "Event_AggregateType e = ''transaction''"
    and "as = map (new_alert env t) (enumerate 0 (Evaluate t))"
    and "es = map (new_alert_event env t) (enumerate 0 (Evaluate t))"
  using assms by (auto simp: Ingest_request_def Let_def split: if_splits)

text \<open>Two calls with the same normalised command build the same payload, whatever their clocks.\<close>

lemma Ingest_request_same:
  assumes "Ingest_request env cmd = Inr (t, e, as, es)" and "Env_Upper env' = Env_Upper env"
  obtains t' e' as' es' where "Ingest_request env' cmd = Inr (t', e', as', es')"
    and "SameIngestionPayload t t'"
    and "Transaction_IdempotencyKey t' = Transaction_IdempotencyKey t"
proof -
  have "\<exists>t' e' as' es'. Ingest_request env' cmd = Inr (t', e', as', es') \<and>
      SameIngestionPayload t t' \<and> Transaction_IdempotencyKey t' = Transaction_IdempotencyKey t"
    using assms(1) unfolding Ingest_request_def Let_def assms(2)
    by (simp split: if_split_asm) (clarsimp simp: SameIngestionPayload_def)
  then show thesis using that by blast
qed

lemma new_alert_simps [simp]:
  "Alert_ID (new_alert env t (n, f)) = Env_IDs env (2 + 2 * n)"
  "Alert_RuleCode (new_alert env t (n, f)) = Finding_RuleCode f"
  "Alert_Severity (new_alert env t (n, f)) = Finding_Severity f"
  "Alert_RuleVersion (new_alert env t (n, f)) = Finding_RuleVersion f"
  by (simp_all add: new_alert_def)

lemma new_alert_fields [simp]:
  "Alert_TransactionID (new_alert env t nf) = Transaction_ID t"
  "Alert_CustomerID (new_alert env t nf) = Transaction_CustomerID t"
  "Alert_Status (new_alert env t nf) = AlertOpen"
  "Alert_CreatedAt (new_alert env t nf) = Env_Now env"
  "Alert_ClosedAt (new_alert env t nf) = None"
  "Alert_ClosedBy (new_alert env t nf) = []"
  by (simp_all add: new_alert_def case_prod_unfold)

lemma new_alert_event_fields [simp]:
  "Event_AggregateID (new_alert_event env t nf) = Alert_ID (new_alert env t nf)"
  "Event_EventType (new_alert_event env t nf) = ''alert.created''"
  "Event_OccurredAt (new_alert_event env t nf) = Env_Now env"
  by (simp_all add: new_alert_event_def Let_def new_alert_def case_prod_unfold)

text \<open>One alert per finding, in the engine's order.\<close>

lemma map_enumerate: "map (\<lambda>nf. f (snd nf)) (enumerate n xs) = map f xs"
proof -
  have "map f (map snd (enumerate n xs)) = map f xs" by simp
  then show ?thesis by (simp only: map_map comp_def)
qed

lemma new_alerts_codes:
  "map Alert_RuleCode (map (new_alert env t) (enumerate n (Evaluate t))) = rule_codes t"
proof -
  have "Alert_RuleCode (new_alert env t nf) = Finding_RuleCode (snd nf)" for nf
    by (cases nf) simp
  then show ?thesis by (simp add: comp_def map_enumerate rule_codes_def)
qed

lemma new_alerts_ids:
  "map Alert_ID (map (new_alert env t) (enumerate n xs)) =
     map (\<lambda>i. Env_IDs env (2 + 2 * i)) [n..<n + length xs]"
proof -
  have "Alert_ID (new_alert env t nf) = Env_IDs env (2 + 2 * fst nf)" for nf
    by (cases nf) simp
  moreover have "map (\<lambda>i. Env_IDs env (2 + 2 * i)) (map fst (enumerate n xs)) =
      map (\<lambda>i. Env_IDs env (2 + 2 * i)) [n..<n + length xs]"
    by (simp del: add_2_eq_Suc add_2_eq_Suc')
  ultimately show ?thesis by (simp only: map_map comp_def)
qed

lemma CloseAlert_requestE:
  assumes "CloseAlert_request env alertID actor reason = Inr (i, a, x, e)"
  obtains "i = TrimSpace alertID" and "i \<noteq> []" and "a = TrimSpace actor" and "a \<noteq> []"
    and "x = TrimSpace reason" and "x \<noteq> []" and "Event_ID e = Env_IDs env 0"
    and "Event_AggregateID e = i" and "Event_Actor e = a" and "Event_OccurredAt e = Env_Now env"
    and "Event_EventType e = ''alert.closed''" and "Event_AggregateType e = ''alert''"
    and "Event_Payload e = [(''reason'', PString x)]"
  using assms by (auto simp: CloseAlert_request_def Let_def split: if_splits)

section \<open>The contract of the transaction repository\<close>

text \<open>
  \<open>recorded r k\<close> is the transaction stored under the idempotency key \<open>k\<close>, \<open>fresh r i\<close> says that
  no record of the repository has the identifier \<open>i\<close>, and \<open>wf\<close> is the provider's invariant.
\<close>

definition active :: "Customer option \<Rightarrow> bool" where
  "active c = (case c of None \<Rightarrow> False | Some c \<Rightarrow> Customer_Status c = CustomerActive)"

locale transaction_repository =
  fixes wf :: "'r \<Rightarrow> bool"
    and fresh :: "'r \<Rightarrow> string \<Rightarrow> bool"
    and find_customer :: "'r \<Rightarrow> string \<Rightarrow> Customer option"
    and recorded :: "'r \<Rightarrow> string \<Rightarrow> Transaction option"
    and find_alert :: "'r \<Rightarrow> string \<Rightarrow> Alert option"
    and alerts_of :: "'r \<Rightarrow> string \<Rightarrow> Alert list"
    and create :: "Transaction \<Rightarrow> AuditEvent \<Rightarrow> Alert list \<Rightarrow> AuditEvent list \<Rightarrow>
      (Transaction \<times> Alert list \<times> bool, 'r) repo_op"
    and close :: "string \<Rightarrow> string \<Rightarrow> string \<Rightarrow> AuditEvent \<Rightarrow> (Alert, 'r) repo_op"
  assumes create_known: "wf r \<Longrightarrow> length as = length es \<Longrightarrow>
      recorded r (Transaction_IdempotencyKey t) = Some t0 \<Longrightarrow>
      create t e as es r =
        (if SameIngestionPayload t0 t then (Inr (t0, alerts_of r (Transaction_ID t0), True), r)
         else (Inl ErrIdempotencyConflict, r))"
    and create_inactive: "wf r \<Longrightarrow> length as = length es \<Longrightarrow>
      recorded r (Transaction_IdempotencyKey t) = None \<Longrightarrow>
      \<not> active (find_customer r (Transaction_CustomerID t)) \<Longrightarrow>
      create t e as es r =
        (Inl (if find_customer r (Transaction_CustomerID t) = None then ErrCustomerNotFound
              else ErrCustomerNotActive), r)"
    and create_new: "wf r \<Longrightarrow> length as = length es \<Longrightarrow>
      recorded r (Transaction_IdempotencyKey t) = None \<Longrightarrow>
      active (find_customer r (Transaction_CustomerID t)) \<Longrightarrow>
      distinct (Transaction_ID t # map Alert_ID as) \<Longrightarrow>
      (\<And>i. i \<in> insert (Transaction_ID t) (Alert_ID ` set as) \<Longrightarrow> fresh r i) \<Longrightarrow>
      (\<And>a. a \<in> set as \<Longrightarrow> Alert_TransactionID a = Transaction_ID t) \<Longrightarrow>
      \<exists>r'. create t e as es r = (Inr (t, as, False), r') \<and> wf r' \<and>
        recorded r' = (recorded r)(Transaction_IdempotencyKey t \<mapsto> t) \<and>
        (\<forall>k. find_alert r' k =
           (case find (\<lambda>a. Alert_ID a = k) as of None \<Rightarrow> find_alert r k | Some a \<Rightarrow> Some a)) \<and>
        set (alerts_of r' (Transaction_ID t)) = set as"
    and close_missing: "find_alert r i = None \<Longrightarrow> close i a x e r = (Inl ErrAlertNotFound, r)"
    and close_conflict: "find_alert r i = Some alert \<Longrightarrow> Alert_Status alert \<noteq> AlertOpen \<Longrightarrow>
      close i a x e r = (Inl ErrAlertConflict, r)"
    and close_open: "find_alert r i = Some alert \<Longrightarrow> Alert_Status alert = AlertOpen \<Longrightarrow>
      alert' = alert\<lparr>Alert_Status := AlertClosed, Alert_ClosedAt := Some (Event_OccurredAt e),
                      Alert_ClosedBy := a, Alert_ClosureReason := x\<rparr> \<Longrightarrow>
      \<exists>r'. close i a x e r = (Inr alert', r') \<and> find_alert r' = (find_alert r)(i \<mapsto> alert')"
begin

text \<open>The identifiers one ingestion may draw are new and pairwise different.\<close>

definition fresh_ids :: "'r \<Rightarrow> call_env \<Rightarrow> bool" where
  "fresh_ids r env \<longleftrightarrow> inj (Env_IDs env) \<and> (\<forall>n. fresh r (Env_IDs env n))"

lemma new_ids:
  assumes "fresh_ids r env" and req: "Ingest_request env cmd = Inr (t, e, as, es)"
  shows new_ids_distinct: "distinct (Transaction_ID t # map Alert_ID as)"
    and new_ids_fresh: "\<And>i. i \<in> insert (Transaction_ID t) (Alert_ID ` set as) \<Longrightarrow> fresh r i"
proof -
  have t: "Transaction_ID t = Env_IDs env 0"
    and as: "as = map (new_alert env t) (enumerate 0 (Evaluate t))"
    using req by (auto elim: Ingest_requestE)
  have ids: "map Alert_ID as = map (\<lambda>i. Env_IDs env (2 + 2 * i)) [0..<length (Evaluate t)]"
    unfolding as new_alerts_ids by simp
  have "inj (\<lambda>i. Env_IDs env (2 + 2 * i))"
    using assms(1) by (intro injI) (auto simp: fresh_ids_def dest: injD)
  then show "distinct (Transaction_ID t # map Alert_ID as)"
    using assms(1) unfolding ids t
    by (auto simp: fresh_ids_def distinct_map inj_def inj_on_def)
  have "set (map Alert_ID as) \<subseteq> range (Env_IDs env)" unfolding ids by auto
  then show "\<And>i. i \<in> insert (Transaction_ID t) (Alert_ID ` set as) \<Longrightarrow> fresh r i"
    using assms(1) unfolding t fresh_ids_def by auto
qed

lemma Ingest_new:
  assumes wf: "wf r" and "fresh_ids r env" and req: "Ingest_request env cmd = Inr (t, e, as, es)"
    and unused: "recorded r (Transaction_IdempotencyKey t) = None"
    and "active (find_customer r (Transaction_CustomerID t))"
  obtains r' where "Ingest create env cmd r =
      (Inr \<lparr>Ingested_Transaction = t, Ingested_Alerts = as, Ingested_Replayed = False\<rparr>, r')"
    and "wf r'" and "recorded r' = (recorded r)(Transaction_IdempotencyKey t \<mapsto> t)"
    and "\<And>k. find_alert r' k =
           (case find (\<lambda>a. Alert_ID a = k) as of None \<Rightarrow> find_alert r k | Some a \<Rightarrow> Some a)"
    and "set (alerts_of r' (Transaction_ID t)) = set as"
proof -
  have t: "Transaction_ID t = Env_IDs env 0"
    and as: "as = map (new_alert env t) (enumerate 0 (Evaluate t))"
    and es: "es = map (new_alert_event env t) (enumerate 0 (Evaluate t))"
    using req by (auto elim: Ingest_requestE)
  have dist: "distinct (Transaction_ID t # map Alert_ID as)"
    by (rule new_ids_distinct [OF assms(2) req])
  moreover have "\<And>i. i \<in> insert (Transaction_ID t) (Alert_ID ` set as) \<Longrightarrow> fresh r i"
    by (rule new_ids_fresh [OF assms(2) req])
  moreover have "\<And>a. a \<in> set as \<Longrightarrow> Alert_TransactionID a = Transaction_ID t"
    by (auto simp: as)
  moreover have "length as = length es" by (simp add: as es)
  ultimately obtain r' where "create t e as es r = (Inr (t, as, False), r')" and "wf r'"
    and "recorded r' = (recorded r)(Transaction_IdempotencyKey t \<mapsto> t)"
    and "\<And>k. find_alert r' k =
           (case find (\<lambda>a. Alert_ID a = k) as of None \<Rightarrow> find_alert r k | Some a \<Rightarrow> Some a)"
    and "set (alerts_of r' (Transaction_ID t)) = set as"
    using create_new [OF wf _ unused assms(5) dist, of es e] by metis
  with req show thesis by (intro that) (auto simp: Ingest_def)
qed

text \<open>A key that is known never writes: a retry or a refusal.\<close>

lemma Ingest_known:
  assumes "wf r" and req: "Ingest_request env cmd = Inr (t, e, as, es)"
    and "recorded r (Transaction_IdempotencyKey t) = Some t0"
  shows "Ingest create env cmd r =
     (if SameIngestionPayload t0 t
      then (Inr \<lparr>Ingested_Transaction = t0, Ingested_Alerts = alerts_of r (Transaction_ID t0),
                 Ingested_Replayed = True\<rparr>, r)
      else (Inl ErrIdempotencyConflict, r))"
proof -
  have "length as = length es" using req by (auto elim: Ingest_requestE)
  with assms show ?thesis by (simp add: Ingest_def create_known)
qed

lemma Ingest_inactive:
  assumes "wf r" and req: "Ingest_request env cmd = Inr (t, e, as, es)"
    and "recorded r (Transaction_IdempotencyKey t) = None"
    and "\<not> active (find_customer r (Transaction_CustomerID t))"
  shows "Ingest create env cmd r =
        (Inl (if find_customer r (Transaction_CustomerID t) = None then ErrCustomerNotFound
              else ErrCustomerNotActive), r)"
proof -
  have "length as = length es" using req by (auto elim: Ingest_requestE)
  with assms show ?thesis by (simp add: Ingest_def create_inactive)
qed

text \<open>A retry of an ingestion that succeeded: same transaction, same alerts, nothing written.\<close>

lemma Ingest_retry:
  assumes "wf r" and "fresh_ids r env"
    and first: "Ingest create env cmd r = (Inr res, r')" and new: "\<not> Ingested_Replayed res"
    and "Env_Upper env' = Env_Upper env"
  obtains as where "Ingest create env' cmd r' =
      (Inr \<lparr>Ingested_Transaction = Ingested_Transaction res, Ingested_Alerts = as,
            Ingested_Replayed = True\<rparr>, r')"
    and "set as = set (Ingested_Alerts res)"
proof -
  obtain t e as es where req: "Ingest_request env cmd = Inr (t, e, as, es)"
    using first by (auto simp: Ingest_def split: sum.splits prod.splits)
  have unused: "recorded r (Transaction_IdempotencyKey t) = None"
    using Ingest_known [OF assms(1) req] first new by (cases "recorded r (Transaction_IdempotencyKey t)")
      (auto split: if_splits)
  have act: "active (find_customer r (Transaction_CustomerID t))"
    using Ingest_inactive [OF assms(1) req unused] first by auto
  obtain t' e' as' es' where req': "Ingest_request env' cmd = Inr (t', e', as', es')"
    and same: "SameIngestionPayload t t'"
    and key: "Transaction_IdempotencyKey t' = Transaction_IdempotencyKey t"
    using Ingest_request_same [OF req assms(5)] .
  show thesis
  proof (rule Ingest_new [OF assms(1,2) req unused act])
    fix r2
    assume ing: "Ingest create env cmd r =
        (Inr \<lparr>Ingested_Transaction = t, Ingested_Alerts = as, Ingested_Replayed = False\<rparr>, r2)"
      and "wf r2" and "recorded r2 = (recorded r)(Transaction_IdempotencyKey t \<mapsto> t)"
      and "set (alerts_of r2 (Transaction_ID t)) = set as"
    then show thesis
      using first Ingest_known [of r2, OF _ req'] same key
      by (intro that [of "alerts_of r2 (Transaction_ID t)"]) auto
  qed
qed

lemma CloseAlert_closed:
  assumes "CloseAlert close env i a x r = (Inr alert, r')"
  obtains old where "find_alert r (TrimSpace i) = Some old" and "Alert_Status old = AlertOpen"
    and "alert = old\<lparr>Alert_Status := AlertClosed, Alert_ClosedAt := Some (Env_Now env),
                     Alert_ClosedBy := TrimSpace a, Alert_ClosureReason := TrimSpace x\<rparr>"
    and "find_alert r' = (find_alert r)(TrimSpace i \<mapsto> alert)"
proof -
  obtain e where req: "CloseAlert_request env i a x = Inr (TrimSpace i, TrimSpace a, TrimSpace x, e)"
    and run: "close (TrimSpace i) (TrimSpace a) (TrimSpace x) e r = (Inr alert, r')"
    using assms by (auto simp: CloseAlert_def split: sum.splits prod.splits elim!: CloseAlert_requestE)
  have now: "Event_OccurredAt e = Env_Now env" using req by (rule CloseAlert_requestE)
  obtain old where old: "find_alert r (TrimSpace i) = Some old"
    using close_missing run by (cases "find_alert r (TrimSpace i)") fastforce+
  moreover have "Alert_Status old = AlertOpen"
    using close_conflict [OF old] run by fastforce
  ultimately show thesis
    using close_open [OF _ _ refl, of r "TrimSpace i" old "TrimSpace a" "TrimSpace x" e] run now
    by (intro that [of old]) auto
qed

text \<open>An alert is closed once: any later attempt reports a conflict and changes nothing.\<close>

lemma closed_once:
  assumes "CloseAlert close env i a x r = (Inr alert, r')" and "TrimSpace i' = TrimSpace i"
    and "TrimSpace a' \<noteq> []" and "TrimSpace x' \<noteq> []"
  shows "CloseAlert close env' i' a' x' r' = (Inl ErrAlertConflict, r')"
proof (rule CloseAlert_closed [OF assms(1)])
  fix old
  assume closed: "alert = old\<lparr>Alert_Status := AlertClosed, Alert_ClosedAt := Some (Env_Now env),
                     Alert_ClosedBy := TrimSpace a, Alert_ClosureReason := TrimSpace x\<rparr>"
    and found: "find_alert r' = (find_alert r)(TrimSpace i \<mapsto> alert)"
  have "TrimSpace i \<noteq> []"
    using assms(1) by (auto simp: CloseAlert_def CloseAlert_request_def Let_def split: if_splits)
  then obtain e where
    "CloseAlert_request env' i' a' x' = Inr (TrimSpace i, TrimSpace a', TrimSpace x', e)"
    using assms(2-4) by (auto simp: CloseAlert_request_def Let_def)
  then show ?thesis
    using closed found by (simp add: CloseAlert_def close_conflict)
qed

end

end
