(* ===== verification/Cases.thy ===== *)
theory Cases
  imports Domain
begin

text \<open>
  \<^verbatim>\<open>internal/application/cases.go\<close>: investigation cases over alerts. The locale
  \<open>case_repository\<close> is the contract of \<^verbatim>\<open>CaseRepository\<close>; its lemmas: one case per alert, a
  resolution closes case and alert together, a resolved case is final, and a case whose alert was
  closed by other means can never be resolved.
\<close>

definition validCasePriority :: "CasePriority \<Rightarrow> bool" where
  "validCasePriority priority \<longleftrightarrow>
     priority = CasePriorityLow \<or> priority = CasePriorityMedium \<or> priority = CasePriorityHigh"

definition Create_request ::
  "call_env \<Rightarrow> string \<Rightarrow> string \<Rightarrow> CasePriority \<Rightarrow> string \<Rightarrow> (InvestigationCase \<times> AuditEvent) result"
where
  [request_defs]: "Create_request env alertID title priority actor =
     (let alertID = TrimSpace alertID; title = TrimSpace title; actor = TrimSpace actor
      in if alertID = [] \<or> title = [] \<or> 200 < length title \<or> actor = [] \<or>
            \<not> validCasePriority priority
         then Inl ErrInvalidCase
         else
           (let now = Env_Now env; ident = Env_IDs env 0
            in Inr
              (\<lparr>Case_ID = ident, Case_AlertID = alertID, Case_CustomerID = [], Case_Title = title,
                Case_Priority = priority, Case_Status = CaseOpen, Case_AssignedTo = [],
                Case_Resolution = [], Case_CreatedBy = actor, Case_CreatedAt = now,
                Case_UpdatedAt = now, Case_ResolvedBy = [], Case_ResolvedAt = None\<rparr>,
               \<lparr>Event_ID = Env_IDs env 1, Event_AggregateType = ''case'', Event_AggregateID = ident,
                Event_EventType = ''case.created'', Event_Actor = actor, Event_OccurredAt = now,
                Event_Payload = [(''alert_id'', PString alertID), (''priority'', PString priority)]\<rparr>)))"

definition Create ::
  "(InvestigationCase \<Rightarrow> AuditEvent \<Rightarrow> (InvestigationCase, 'r) repo_op) \<Rightarrow>
   call_env \<Rightarrow> string \<Rightarrow> string \<Rightarrow> CasePriority \<Rightarrow> string \<Rightarrow> (InvestigationCase, 'r) repo_op" where
  "Create create env alertID title priority actor r =
     (case Create_request env alertID title priority actor of
        Inl err \<Rightarrow> (Inl err, r)
      | Inr (item, event) \<Rightarrow> create item event r)"

definition Details ::
  "(string \<Rightarrow> 'r \<Rightarrow> InvestigationCase result) \<Rightarrow> (string \<Rightarrow> 'r \<Rightarrow> CaseComment list result) \<Rightarrow>
   (string \<Rightarrow> 'r \<Rightarrow> AuditEvent list result) \<Rightarrow> string \<Rightarrow> 'r \<Rightarrow> CaseDetails result" where
  "Details get comments audit caseID r =
     (case get (TrimSpace caseID) r of Inl err \<Rightarrow> Inl err
      | Inr item \<Rightarrow>
          (case comments (Case_ID item) r of Inl err \<Rightarrow> Inl err
           | Inr cs \<Rightarrow>
               (case audit (Case_ID item) r of Inl err \<Rightarrow> Inl err
                | Inr timeline \<Rightarrow>
                    Inr \<lparr>Details_Case = item, Details_Comments = cs, Details_Timeline = timeline\<rparr>)))"

definition Assign_request ::
  "call_env \<Rightarrow> string \<Rightarrow> string \<Rightarrow> string \<Rightarrow> (string \<times> string \<times> AuditEvent) result" where
  [request_defs]: "Assign_request env caseID assignee actor =
     (let caseID = TrimSpace caseID; assignee = TrimSpace assignee; actor = TrimSpace actor
      in if caseID = [] \<or> assignee = [] \<or> 200 < length assignee \<or> actor = [] then Inl ErrInvalidCase
         else Inr (caseID, assignee,
           \<lparr>Event_ID = Env_IDs env 0, Event_AggregateType = ''case'', Event_AggregateID = caseID,
            Event_EventType = ''case.assigned'', Event_Actor = actor,
            Event_OccurredAt = Env_Now env,
            Event_Payload = [(''assigned_to'', PString assignee)]\<rparr>))"

definition Assign ::
  "(string \<Rightarrow> string \<Rightarrow> AuditEvent \<Rightarrow> (InvestigationCase, 'r) repo_op) \<Rightarrow>
   call_env \<Rightarrow> string \<Rightarrow> string \<Rightarrow> string \<Rightarrow> (InvestigationCase, 'r) repo_op" where
  "Assign assign env caseID assignee actor r =
     (case Assign_request env caseID assignee actor of
        Inl err \<Rightarrow> (Inl err, r)
      | Inr (caseID, assignee, event) \<Rightarrow> assign caseID assignee event r)"

definition Comment_request ::
  "call_env \<Rightarrow> string \<Rightarrow> string \<Rightarrow> string \<Rightarrow> (CaseComment \<times> AuditEvent) result" where
  [request_defs]: "Comment_request env caseID body actor =
     (let caseID = TrimSpace caseID; body = TrimSpace body; actor = TrimSpace actor
      in if caseID = [] \<or> body = [] \<or> 4000 < length body \<or> actor = [] then Inl ErrInvalidCase
         else
           (let now = Env_Now env; ident = Env_IDs env 0
            in Inr
              (\<lparr>Comment_ID = ident, Comment_CaseID = caseID, Comment_Author = actor,
                Comment_Body = body, Comment_CreatedAt = now\<rparr>,
               \<lparr>Event_ID = Env_IDs env 1, Event_AggregateType = ''case'', Event_AggregateID = caseID,
                Event_EventType = ''case.comment_added'', Event_Actor = actor,
                Event_OccurredAt = now, Event_Payload = [(''comment_id'', PString ident)]\<rparr>)))"

definition Comment ::
  "(CaseComment \<Rightarrow> AuditEvent \<Rightarrow> (CaseComment, 'r) repo_op) \<Rightarrow>
   call_env \<Rightarrow> string \<Rightarrow> string \<Rightarrow> string \<Rightarrow> (CaseComment, 'r) repo_op" where
  "Comment add env caseID body actor r =
     (case Comment_request env caseID body actor of
        Inl err \<Rightarrow> (Inl err, r)
      | Inr (comment, event) \<Rightarrow> add comment event r)"

text \<open>The alert's event is built without an aggregate; the repository fills it in.\<close>

definition Resolve_request ::
  "call_env \<Rightarrow> string \<Rightarrow> string \<Rightarrow> string \<Rightarrow>
   (string \<times> string \<times> string \<times> AuditEvent \<times> AuditEvent) result" where
  [request_defs]: "Resolve_request env caseID resolution actor =
     (let caseID = TrimSpace caseID; resolution = TrimSpace resolution; actor = TrimSpace actor
      in if caseID = [] \<or> resolution = [] \<or> 4000 < length resolution \<or> actor = []
         then Inl ErrInvalidCase
         else
           (let now = Env_Now env
            in Inr (caseID, resolution, actor,
              \<lparr>Event_ID = Env_IDs env 0, Event_AggregateType = ''case'', Event_AggregateID = caseID,
               Event_EventType = ''case.resolved'', Event_Actor = actor, Event_OccurredAt = now,
               Event_Payload = [(''resolution'', PString resolution)]\<rparr>,
              \<lparr>Event_ID = Env_IDs env 1, Event_AggregateType = ''alert'', Event_AggregateID = [],
               Event_EventType = ''alert.closed'', Event_Actor = actor, Event_OccurredAt = now,
               Event_Payload = [(''reason'', PString resolution),
                                (''source'', PString ''case_resolution'')]\<rparr>)))"

definition Resolve ::
  "(string \<Rightarrow> string \<Rightarrow> string \<Rightarrow> AuditEvent \<Rightarrow> AuditEvent \<Rightarrow> (InvestigationCase, 'r) repo_op) \<Rightarrow>
   call_env \<Rightarrow> string \<Rightarrow> string \<Rightarrow> string \<Rightarrow> (InvestigationCase, 'r) repo_op" where
  "Resolve resolve env caseID resolution actor r =
     (case Resolve_request env caseID resolution actor of
        Inl err \<Rightarrow> (Inl err, r)
      | Inr (caseID, resolution, actor, caseEvent, alertEvent) \<Rightarrow>
          resolve caseID resolution actor caseEvent alertEvent r)"

section \<open>The requests\<close>

lemma Create_requestE:
  assumes "Create_request env alertID title priority actor = Inr (item, e)"
  obtains "Case_ID item = Env_IDs env 0" and "Case_AlertID item = TrimSpace alertID"
    and "Case_Status item = CaseOpen" and "Case_CreatedBy item = TrimSpace actor"
    and "Case_CreatedBy item \<noteq> []" and "Case_CreatedAt item = Env_Now env"
    and "Case_Title item \<noteq> []" and "length (Case_Title item) \<le> 200"
    and "Case_Priority item = priority" and "validCasePriority priority"
    and "Event_ID e = Env_IDs env 1" and "Event_AggregateID e = Case_ID item"
    and "Event_EventType e = ''case.created''" and "Event_Actor e = Case_CreatedBy item"
    and "Event_OccurredAt e = Env_Now env"
  using assms by (auto simp: Create_request_def Let_def split: if_splits)

lemma Assign_requestE:
  assumes "Assign_request env caseID assignee actor = Inr (i, a, e)"
  obtains "i = TrimSpace caseID" and "i \<noteq> []" and "a = TrimSpace assignee" and "a \<noteq> []"
    and "length a \<le> 200" and "Event_ID e = Env_IDs env 0" and "Event_AggregateID e = i"
    and "Event_EventType e = ''case.assigned''" and "Event_Actor e = TrimSpace actor"
    and "Event_OccurredAt e = Env_Now env"
  using assms by (auto simp: Assign_request_def Let_def split: if_splits)

lemma Comment_requestE:
  assumes "Comment_request env caseID body actor = Inr (c, e)"
  obtains "Comment_CaseID c = TrimSpace caseID" and "Comment_ID c = Env_IDs env 0"
    and "Comment_Author c = TrimSpace actor" and "Comment_Body c = TrimSpace body"
    and "Comment_Body c \<noteq> []" and "length (Comment_Body c) \<le> 4000"
    and "Comment_CreatedAt c = Env_Now env"
    and "Event_ID e = Env_IDs env 1" and "Event_AggregateID e = Comment_CaseID c"
    and "Event_EventType e = ''case.comment_added''" and "Event_Actor e = TrimSpace actor"
    and "Event_OccurredAt e = Env_Now env"
  using assms by (auto simp: Comment_request_def Let_def split: if_splits)

lemma Resolve_requestE:
  assumes "Resolve_request env caseID resolution actor = Inr (i, x, a, ce, ae)"
  obtains "i = TrimSpace caseID" and "i \<noteq> []" and "x = TrimSpace resolution" and "x \<noteq> []"
    and "length x \<le> 4000" and "a = TrimSpace actor" and "a \<noteq> []"
    and "Event_ID ce = Env_IDs env 0" and "Event_AggregateID ce = i"
    and "Event_EventType ce = ''case.resolved''" and "Event_Actor ce = a"
    and "Event_OccurredAt ce = Env_Now env" and "Event_ID ae = Env_IDs env 1"
    and "Event_EventType ae = ''alert.closed''" and "Event_Actor ae = a"
    and "Event_OccurredAt ae = Env_Now env"
  using assms by (auto simp: Resolve_request_def Let_def split: if_splits)

section \<open>The contract of the case repository\<close>

locale case_repository =
  fixes wf :: "'r \<Rightarrow> bool"
    and find_case :: "'r \<Rightarrow> string \<Rightarrow> InvestigationCase option"
    and find_alert :: "'r \<Rightarrow> string \<Rightarrow> Alert option"
    and create :: "InvestigationCase \<Rightarrow> AuditEvent \<Rightarrow> (InvestigationCase, 'r) repo_op"
    and assign :: "string \<Rightarrow> string \<Rightarrow> AuditEvent \<Rightarrow> (InvestigationCase, 'r) repo_op"
    and comment :: "CaseComment \<Rightarrow> AuditEvent \<Rightarrow> (CaseComment, 'r) repo_op"
    and resolve :: "string \<Rightarrow> string \<Rightarrow> string \<Rightarrow> AuditEvent \<Rightarrow> AuditEvent \<Rightarrow>
      (InvestigationCase, 'r) repo_op"
  assumes create_ok: "wf r \<Longrightarrow> create item e r = (Inr c, r') \<Longrightarrow>
      \<exists>a. find_alert r (Case_AlertID item) = Some a \<and> Alert_Status a = AlertOpen \<and>
        (\<forall>k c. find_case r k = Some c \<longrightarrow> Case_AlertID c \<noteq> Case_AlertID item) \<and>
        c = item\<lparr>Case_CustomerID := Alert_CustomerID a\<rparr> \<and>
        find_case r' = (find_case r)(Case_ID item \<mapsto> c) \<and> find_alert r' = find_alert r"
    and create_err: "create item e r = (Inl err, r') \<Longrightarrow> r' = r"
    and resolved_conflict: "find_case r i = Some c \<Longrightarrow> Case_Status c = CaseResolved \<Longrightarrow>
      assign i assignee e r = (Inl ErrCaseConflict, r) \<and>
      (Comment_CaseID m = i \<longrightarrow> comment m e r = (Inl ErrCaseConflict, r)) \<and>
      resolve i x a ce ae r = (Inl ErrCaseConflict, r)"
    and alert_conflict: "find_case r i = Some c \<Longrightarrow> Case_Status c \<noteq> CaseResolved \<Longrightarrow>
      find_alert r (Case_AlertID c) = Some al \<Longrightarrow> Alert_Status al \<noteq> AlertOpen \<Longrightarrow>
      resolve i x a ce ae r = (Inl ErrAlertConflict, r)"
    and resolve_ok: "wf r \<Longrightarrow> find_case r i = Some c \<Longrightarrow> Case_Status c \<noteq> CaseResolved \<Longrightarrow>
      find_alert r (Case_AlertID c) = Some al \<Longrightarrow> Alert_Status al = AlertOpen \<Longrightarrow>
      c' = c\<lparr>Case_Status := CaseResolved, Case_Resolution := x, Case_ResolvedBy := a,
             Case_ResolvedAt := Some (Event_OccurredAt ce), Case_UpdatedAt := Event_OccurredAt ce\<rparr> \<Longrightarrow>
      al' = al\<lparr>Alert_Status := AlertClosed, Alert_ClosedAt := Some (Event_OccurredAt ce),
               Alert_ClosedBy := a, Alert_ClosureReason := x\<rparr> \<Longrightarrow>
      \<exists>r'. resolve i x a ce ae r = (Inr c', r') \<and> find_case r' = (find_case r)(i \<mapsto> c') \<and>
        find_alert r' = (find_alert r)(Case_AlertID c \<mapsto> al')"
begin

lemma Create_err: "Create create env al title priority actor r = (Inl err, r') \<Longrightarrow> r' = r"
  by (auto simp: Create_def dest: create_err split: sum.splits prod.splits)

lemma Create_ok:
  assumes "wf r" and "Create create env al title priority actor r = (Inr c, r')"
  obtains a where "find_alert r (TrimSpace al) = Some a" and "Alert_Status a = AlertOpen"
    and "\<And>k c. find_case r k = Some c \<Longrightarrow> Case_AlertID c \<noteq> TrimSpace al"
    and "Case_AlertID c = TrimSpace al" and "Case_CustomerID c = Alert_CustomerID a"
    and "Case_Status c = CaseOpen" and "find_case r' = (find_case r)(Case_ID c \<mapsto> c)"
    and "find_alert r' = find_alert r"
proof -
  obtain item e where req: "Create_request env al title priority actor = Inr (item, e)"
    and run: "create item e r = (Inr c, r')"
    using assms(2) by (auto simp: Create_def split: sum.splits prod.splits)
  have item: "Case_AlertID item = TrimSpace al" "Case_Status item = CaseOpen"
    using req by (auto elim: Create_requestE)
  obtain a where "find_alert r (Case_AlertID item) = Some a" and "Alert_Status a = AlertOpen"
    and "\<And>k c. find_case r k = Some c \<Longrightarrow> Case_AlertID c \<noteq> Case_AlertID item"
    and "c = item\<lparr>Case_CustomerID := Alert_CustomerID a\<rparr>"
    and "find_case r' = (find_case r)(Case_ID item \<mapsto> c)" and "find_alert r' = find_alert r"
    using create_ok [OF assms(1) run] by metis
  with item show thesis by (intro that [of a]) simp_all
qed

text \<open>At most one case per alert: a second one is refused and nothing changes.\<close>

lemma one_case_per_alert:
  assumes "wf r" and "Create create env al title priority actor r = (Inr c, r')" and "wf r'"
    and "TrimSpace al' = TrimSpace al"
  shows "\<exists>err. Create create env' al' title' priority' actor' r' = (Inl err, r')"
proof (cases "Create create env' al' title' priority' actor' r'")
  case (Pair x r2)
  show ?thesis
  proof (cases x)
    case (Inl err)
    with Pair Create_err show ?thesis by blast
  next
    case (Inr c2)
    have "find_case r' (Case_ID c) = Some c"
      by (rule Create_ok [OF assms(1,2)]) simp
    moreover have "Case_AlertID c = TrimSpace al'"
      by (rule Create_ok [OF assms(1,2)]) (simp add: assms(4))
    moreover have "find_case r' k = Some c' \<Longrightarrow> Case_AlertID c' \<noteq> TrimSpace al'" for k c'
      by (rule Create_ok [OF assms(3) Pair [unfolded Inr]])
    ultimately show ?thesis by blast
  qed
qed

text \<open>A resolution closes the case and its alert in one step, with one actor, time and text.\<close>

lemma Resolve_ok:
  assumes "wf r" and "Resolve_request env i x a = Inr (i', x', a', ce, ae)"
    and "find_case r i' = Some c" and "Case_Status c \<noteq> CaseResolved"
    and "find_alert r (Case_AlertID c) = Some al" and "Alert_Status al = AlertOpen"
  obtains c' al' r' where "Resolve resolve env i x a r = (Inr c', r')"
    and "c' = c\<lparr>Case_Status := CaseResolved, Case_Resolution := x', Case_ResolvedBy := a',
             Case_ResolvedAt := Some (Env_Now env), Case_UpdatedAt := Env_Now env\<rparr>"
    and "al' = al\<lparr>Alert_Status := AlertClosed, Alert_ClosedAt := Some (Env_Now env),
               Alert_ClosedBy := a', Alert_ClosureReason := x'\<rparr>"
    and "find_case r' = (find_case r)(i' \<mapsto> c')"
    and "find_alert r' = (find_alert r)(Case_AlertID c \<mapsto> al')"
proof -
  have "Event_OccurredAt ce = Env_Now env" using assms(2) by (rule Resolve_requestE)
  with resolve_ok [OF assms(1,3-6) refl refl, of x' a' ce ae] assms(2) show thesis
    by (auto simp: Resolve_def intro: that)
qed

lemma resolved_final:
  assumes "find_case r (TrimSpace i) = Some c" and "Case_Status c = CaseResolved"
  shows "\<exists>err. Assign assign env i assignee actor r = (Inl err, r)"
    and "\<exists>err. Comment comment env i body actor r = (Inl err, r)"
    and "\<exists>err. Resolve resolve env i x actor r = (Inl err, r)"
  using resolved_conflict [OF assms]
  by (auto simp: Assign_def Comment_def Resolve_def split: sum.splits prod.splits
      elim!: Assign_requestE Comment_requestE Resolve_requestE)

text \<open>
  A case whose alert is closed already cannot be resolved: every attempt is refused. Alerts never
  reopen, so the case stays unresolved for good.
\<close>

lemma Resolve_stuck:
  assumes "find_case r (TrimSpace i) = Some c" and "Case_Status c \<noteq> CaseResolved"
    and "find_alert r (Case_AlertID c) = Some al" and "Alert_Status al \<noteq> AlertOpen"
  shows "\<exists>err. Resolve resolve env i x a r = (Inl err, r)"
  using alert_conflict [OF assms]
  by (auto simp: Resolve_def split: sum.splits prod.splits elim!: Resolve_requestE)

end

end
