(* ===== verification/Due_Diligence.thy ===== *)
theory Due_Diligence
  imports Domain
begin

text \<open>
  \<^verbatim>\<open>internal/application/due_diligence.go\<close>: the CDD profile, beneficial owners and KYC
  documents of a customer. On a validation error the Go methods return the normalised record
  beside the error, which no caller reads. The locale \<open>diligence_repository\<close> is the contract of
  \<^verbatim>\<open>DueDiligenceRepository\<close> for owners and documents; its lemmas: what is stored is validated, a
  document starts pending and is reviewed once.
\<close>

definition Get ::
  "(string \<Rightarrow> 'r \<Rightarrow> DueDiligenceDetails result) \<Rightarrow> string \<Rightarrow> 'r \<Rightarrow> DueDiligenceDetails result" where
  "Get get customerID r = get (TrimSpace customerID) r"

definition UpdateProfile_request ::
  "call_env \<Rightarrow> CDDProfile \<Rightarrow> string \<Rightarrow> (CDDProfile \<times> AuditEvent) result" where
  [request_defs]: "UpdateProfile_request env p actor =
     (let p = p\<lparr>Profile_CustomerID := TrimSpace (Profile_CustomerID p),
                Profile_SourceOfWealth := TrimSpace (Profile_SourceOfWealth p),
                Profile_BusinessPurpose := TrimSpace (Profile_BusinessPurpose p),
                Profile_Currency := ToUpper (Env_Upper env) (TrimSpace (Profile_Currency p))\<rparr>;
          actor = TrimSpace actor
      in if Profile_CustomerID p = [] \<or> Profile_SourceOfWealth p = [] \<or>
            Profile_BusinessPurpose p = [] \<or> Profile_ExpectedMonthlyVolumeMinor p < 0 \<or>
            length (Profile_Currency p) \<noteq> 3 \<or> actor = [] \<or>
            (Profile_Status p \<noteq> CDDIncomplete \<and> Profile_Status p \<noteq> CDDInReview \<and>
             Profile_Status p \<noteq> CDDComplete)
         then Inl ErrInvalidDueDiligence
         else
           (let p = p\<lparr>Profile_UpdatedBy := actor, Profile_UpdatedAt := Env_Now env\<rparr>
            in Inr (p,
              \<lparr>Event_ID = Env_IDs env 0, Event_AggregateType = ''customer'',
               Event_AggregateID = Profile_CustomerID p, Event_EventType = ''cdd.profile_updated'',
               Event_Actor = actor, Event_OccurredAt = Profile_UpdatedAt p,
               Event_Payload = [(''status'', PString (Profile_Status p)),
                                (''next_review_at'', ptime (Profile_NextReviewAt p))]\<rparr>)))"

definition UpdateProfile ::
  "(CDDProfile \<Rightarrow> AuditEvent \<Rightarrow> (CDDProfile, 'r) repo_op) \<Rightarrow>
   call_env \<Rightarrow> CDDProfile \<Rightarrow> string \<Rightarrow> (CDDProfile, 'r) repo_op" where
  "UpdateProfile upsert env p actor r =
     (case UpdateProfile_request env p actor of
        Inl err \<Rightarrow> (Inl err, r)
      | Inr (p, event) \<Rightarrow> upsert p event r)"

definition AddOwner_request ::
  "call_env \<Rightarrow> BeneficialOwner \<Rightarrow> string \<Rightarrow> (BeneficialOwner \<times> AuditEvent) result" where
  [request_defs]: "AddOwner_request env o' actor =
     (let o' = o'\<lparr>Owner_CustomerID := TrimSpace (Owner_CustomerID o'),
                  Owner_FullName := TrimSpace (Owner_FullName o'),
                  Owner_CountryCode := ToUpper (Env_Upper env) (TrimSpace (Owner_CountryCode o'))\<rparr>;
          actor = TrimSpace actor
      in if Owner_CustomerID o' = [] \<or> Owner_FullName o' = [] \<or> Owner_OwnershipPercent o' < 1 \<or>
            100 < Owner_OwnershipPercent o' \<or> length (Owner_CountryCode o') \<noteq> 2 \<or> actor = []
         then Inl ErrInvalidDueDiligence
         else
           (let o' = o'\<lparr>Owner_ID := Env_IDs env 0, Owner_CreatedBy := actor,
                        Owner_CreatedAt := Env_Now env\<rparr>
            in Inr (o',
              \<lparr>Event_ID = Env_IDs env 1, Event_AggregateType = ''customer'',
               Event_AggregateID = Owner_CustomerID o',
               Event_EventType = ''cdd.beneficial_owner_added'', Event_Actor = actor,
               Event_OccurredAt = Owner_CreatedAt o',
               Event_Payload = [(''owner_id'', PString (Owner_ID o')),
                                (''ownership_percent'', PInt (Owner_OwnershipPercent o')),
                                (''pep'', PBool (Owner_PEP o'))]\<rparr>)))"

definition AddOwner ::
  "(BeneficialOwner \<Rightarrow> AuditEvent \<Rightarrow> (BeneficialOwner, 'r) repo_op) \<Rightarrow>
   call_env \<Rightarrow> BeneficialOwner \<Rightarrow> string \<Rightarrow> (BeneficialOwner, 'r) repo_op" where
  "AddOwner add env o' actor r =
     (case AddOwner_request env o' actor of
        Inl err \<Rightarrow> (Inl err, r)
      | Inr (o', event) \<Rightarrow> add o' event r)"

definition AddDocument_request ::
  "call_env \<Rightarrow> KYCDocument \<Rightarrow> string \<Rightarrow> (KYCDocument \<times> AuditEvent) result" where
  [request_defs]: "AddDocument_request env d actor =
     (let d = d\<lparr>Document_CustomerID := TrimSpace (Document_CustomerID d),
                Document_Type := TrimSpace (Document_Type d),
                Document_Reference := TrimSpace (Document_Reference d)\<rparr>;
          actor = TrimSpace actor
      in if Document_CustomerID d = [] \<or> Document_Type d = [] \<or> Document_Reference d = [] \<or> actor = []
         then Inl ErrInvalidDueDiligence
         else
           (let d = d\<lparr>Document_ID := Env_IDs env 0, Document_Status := DocumentPending,
                      Document_CreatedBy := actor, Document_CreatedAt := Env_Now env\<rparr>
            in Inr (d,
              \<lparr>Event_ID = Env_IDs env 1, Event_AggregateType = ''customer'',
               Event_AggregateID = Document_CustomerID d,
               Event_EventType = ''cdd.document_added'', Event_Actor = actor,
               Event_OccurredAt = Document_CreatedAt d,
               Event_Payload = [(''document_id'', PString (Document_ID d)),
                                (''type'', PString (Document_Type d))]\<rparr>)))"

definition AddDocument ::
  "(KYCDocument \<Rightarrow> AuditEvent \<Rightarrow> (KYCDocument, 'r) repo_op) \<Rightarrow>
   call_env \<Rightarrow> KYCDocument \<Rightarrow> string \<Rightarrow> (KYCDocument, 'r) repo_op" where
  "AddDocument add env d actor r =
     (case AddDocument_request env d actor of
        Inl err \<Rightarrow> (Inl err, r)
      | Inr (d, event) \<Rightarrow> add d event r)"

definition ReviewDocument_request ::
  "call_env \<Rightarrow> string \<Rightarrow> DocumentStatus \<Rightarrow> string \<Rightarrow> (string \<times> string \<times> AuditEvent) result" where
  [request_defs]: "ReviewDocument_request env ident status actor =
     (let ident = TrimSpace ident; actor = TrimSpace actor
      in if ident = [] \<or> actor = [] \<or> (status \<noteq> DocumentVerified \<and> status \<noteq> DocumentRejected)
         then Inl ErrInvalidDueDiligence
         else Inr (ident, actor,
           \<lparr>Event_ID = Env_IDs env 0, Event_AggregateType = ''customer'', Event_AggregateID = [],
            Event_EventType = ''cdd.document_'' @ status, Event_Actor = actor,
            Event_OccurredAt = Env_Now env, Event_Payload = [(''document_id'', PString ident)]\<rparr>))"

definition ReviewDocument ::
  "(string \<Rightarrow> DocumentStatus \<Rightarrow> string \<Rightarrow> AuditEvent \<Rightarrow> (KYCDocument, 'r) repo_op) \<Rightarrow>
   call_env \<Rightarrow> string \<Rightarrow> DocumentStatus \<Rightarrow> string \<Rightarrow> (KYCDocument, 'r) repo_op" where
  "ReviewDocument review env ident status actor r =
     (case ReviewDocument_request env ident status actor of
        Inl err \<Rightarrow> (Inl err, r)
      | Inr (ident, actor, event) \<Rightarrow> review ident status actor event r)"

section \<open>The requests\<close>

lemma UpdateProfile_requestE:
  assumes "UpdateProfile_request env p actor = Inr (q, e)"
  obtains "Profile_CustomerID q = TrimSpace (Profile_CustomerID p)" and "Profile_CustomerID q \<noteq> []"
    and "Profile_SourceOfWealth q \<noteq> []" and "Profile_BusinessPurpose q \<noteq> []"
    and "0 \<le> Profile_ExpectedMonthlyVolumeMinor q" and "length (Profile_Currency q) = 3"
    and "Profile_Status q \<in> {CDDIncomplete, CDDInReview, CDDComplete}"
    and "Profile_UpdatedBy q = TrimSpace actor" and "Profile_UpdatedBy q \<noteq> []"
    and "Profile_UpdatedAt q = Env_Now env"
    and "Event_ID e = Env_IDs env 0" and "Event_AggregateID e = Profile_CustomerID q"
    and "Event_Actor e = Profile_UpdatedBy q" and "Event_OccurredAt e = Env_Now env"
    and "Event_EventType e = ''cdd.profile_updated''"
  using assms by (auto simp: UpdateProfile_request_def Let_def split: if_splits)

lemma AddOwner_requestE:
  assumes "AddOwner_request env p actor = Inr (q, e)"
  obtains "Owner_CustomerID q = TrimSpace (Owner_CustomerID p)" and "Owner_CustomerID q \<noteq> []"
    and "Owner_FullName q \<noteq> []" and "1 \<le> Owner_OwnershipPercent q"
    and "Owner_OwnershipPercent q \<le> 100" and "length (Owner_CountryCode q) = 2"
    and "Owner_ID q = Env_IDs env 0" and "Owner_CreatedBy q = TrimSpace actor"
    and "Owner_CreatedBy q \<noteq> []" and "Owner_CreatedAt q = Env_Now env"
    and "Event_ID e = Env_IDs env 1" and "Event_AggregateID e = Owner_CustomerID q"
    and "Event_Actor e = Owner_CreatedBy q" and "Event_OccurredAt e = Env_Now env"
    and "Event_EventType e = ''cdd.beneficial_owner_added''"
  using assms by (auto simp: AddOwner_request_def Let_def split: if_splits)

lemma AddDocument_requestE:
  assumes "AddDocument_request env d actor = Inr (q, e)"
  obtains "Document_CustomerID q = TrimSpace (Document_CustomerID d)" and "Document_CustomerID q \<noteq> []"
    and "Document_Type q \<noteq> []" and "Document_Reference q \<noteq> []"
    and "Document_ID q = Env_IDs env 0" and "Document_Status q = DocumentPending"
    and "Document_CreatedBy q = TrimSpace actor" and "Document_CreatedBy q \<noteq> []"
    and "Document_CreatedAt q = Env_Now env"
    and "Event_ID e = Env_IDs env 1" and "Event_AggregateID e = Document_CustomerID q"
    and "Event_Actor e = Document_CreatedBy q" and "Event_OccurredAt e = Env_Now env"
    and "Event_EventType e = ''cdd.document_added''"
  using assms by (auto simp: AddDocument_request_def Let_def split: if_splits)

lemma ReviewDocument_requestE:
  assumes "ReviewDocument_request env ident status actor = Inr (i, a, e)"
  obtains "i = TrimSpace ident" and "i \<noteq> []" and "a = TrimSpace actor" and "a \<noteq> []"
    and "status \<in> {DocumentVerified, DocumentRejected}"
    and "Event_ID e = Env_IDs env 0" and "Event_Actor e = a" and "Event_OccurredAt e = Env_Now env"
    and "Event_EventType e = ''cdd.document_'' @ status"
  using assms by (auto simp: ReviewDocument_request_def Let_def split: if_splits)

section \<open>The contract of the due diligence repository\<close>

locale diligence_repository =
  fixes known :: "'r \<Rightarrow> string \<Rightarrow> bool"
    and owners :: "'r \<Rightarrow> string \<Rightarrow> BeneficialOwner list"
    and find_document :: "'r \<Rightarrow> string \<Rightarrow> KYCDocument option"
    and add_owner :: "BeneficialOwner \<Rightarrow> AuditEvent \<Rightarrow> (BeneficialOwner, 'r) repo_op"
    and add_document :: "KYCDocument \<Rightarrow> AuditEvent \<Rightarrow> (KYCDocument, 'r) repo_op"
    and review :: "string \<Rightarrow> DocumentStatus \<Rightarrow> string \<Rightarrow> AuditEvent \<Rightarrow> (KYCDocument, 'r) repo_op"
  assumes add_owner_ok: "add_owner p e r = (Inr p', r') \<Longrightarrow> p' = p \<and> known r (Owner_CustomerID p) \<and>
      owners r' = (owners r)(Owner_CustomerID p := owners r (Owner_CustomerID p) @ [p])"
    and add_document_ok: "add_document d e r = (Inr q, r') \<Longrightarrow> q = d \<and> known r (Document_CustomerID d) \<and>
      find_document r' = (find_document r)(Document_ID d \<mapsto> d)"
    and review_ok: "review i status a e r = (Inr q, r') \<Longrightarrow>
      \<exists>d. find_document r i = Some d \<and> Document_Status d = DocumentPending \<and>
        q = d\<lparr>Document_Status := status, Document_VerifiedBy := a,
               Document_VerifiedAt := Some (Event_OccurredAt e)\<rparr> \<and>
        find_document r' = (find_document r)(i \<mapsto> q)"
    and review_err: "review i status a e r = (Inl err, r') \<Longrightarrow> r' = r"
begin

text \<open>An accepted owner holds between one and a hundred percent; nothing bounds their sum.\<close>

lemma AddOwner_ok:
  assumes "AddOwner add_owner env p actor r = (Inr q, r')"
  shows "1 \<le> Owner_OwnershipPercent q" and "Owner_OwnershipPercent q \<le> 100"
    and "Owner_CreatedBy q = TrimSpace actor" and "known r (Owner_CustomerID q)"
    and "owners r' (Owner_CustomerID q) = owners r (Owner_CustomerID q) @ [q]"
proof -
  obtain p' e where req: "AddOwner_request env p actor = Inr (p', e)"
    and run: "add_owner p' e r = (Inr q, r')"
    using assms by (auto simp: AddOwner_def split: sum.splits prod.splits)
  have "q = p'" using add_owner_ok [OF run] by simp
  then show "1 \<le> Owner_OwnershipPercent q" and "Owner_OwnershipPercent q \<le> 100"
    and "Owner_CreatedBy q = TrimSpace actor"
    using req by (auto elim: AddOwner_requestE)
  show "known r (Owner_CustomerID q)"
    and "owners r' (Owner_CustomerID q) = owners r (Owner_CustomerID q) @ [q]"
    using add_owner_ok [OF run] by auto
qed

lemma ReviewDocument_ok:
  assumes "ReviewDocument review env i status actor r = (Inr q, r')"
  obtains d where "find_document r (TrimSpace i) = Some d" and "Document_Status d = DocumentPending"
    and "status \<in> {DocumentVerified, DocumentRejected}" and "Document_Status q = status"
    and "Document_VerifiedBy q = TrimSpace actor" and "Document_VerifiedAt q = Some (Env_Now env)"
    and "find_document r' = (find_document r)(TrimSpace i \<mapsto> q)"
proof -
  obtain e where req: "ReviewDocument_request env i status actor = Inr (TrimSpace i, TrimSpace actor, e)"
    and run: "review (TrimSpace i) status (TrimSpace actor) e r = (Inr q, r')"
    using assms
    by (auto simp: ReviewDocument_def split: sum.splits prod.splits elim!: ReviewDocument_requestE)
  have "status \<in> {DocumentVerified, DocumentRejected}" and "Event_OccurredAt e = Env_Now env"
    using req by (auto elim: ReviewDocument_requestE)
  with review_ok [OF run] show thesis by (auto intro: that)
qed

text \<open>A document is reviewed once.\<close>

lemma reviewed_once:
  assumes "ReviewDocument review env i status actor r = (Inr q, r')" and "TrimSpace i' = TrimSpace i"
  shows "\<exists>err. ReviewDocument review env' i' status' actor' r' = (Inl err, r')"
proof (cases "ReviewDocument review env' i' status' actor' r'")
  case (Pair x r2)
  have found: "find_document r' (TrimSpace i') = Some q" and "Document_Status q \<noteq> DocumentPending"
    by (rule ReviewDocument_ok [OF assms(1)], use assms(2) in auto)+
  show ?thesis
  proof (cases x)
    case (Inl err)
    with Pair review_err show ?thesis
      by (auto simp: ReviewDocument_def split: sum.splits prod.splits)
  next
    case (Inr q2)
    show ?thesis
      by (rule ReviewDocument_ok [OF Pair [unfolded Inr]])
        (use found \<open>Document_Status q \<noteq> DocumentPending\<close> in auto)
  qed
qed

end

end
