(* ===== verification/Backoff.thy ===== *)
theory Backoff
  imports Prelude
begin

text \<open>
  The two retry delays, \<^verbatim>\<open>screeningRetryBackoff\<close> of \<^verbatim>\<open>internal/application/screening.go\<close> and
  \<^verbatim>\<open>deliveryBackoff\<close> of \<^verbatim>\<open>internal/application/delivery.go\<close>: a delay is doubled once per earlier
  failure until it reaches a cap. The locale \<open>capped_doubling\<close> is the contract both keep; the
  doubling stops below twice the cap, so no \<^verbatim>\<open>int64\<close> overflows.
\<close>

text \<open>\<^verbatim>\<open>for i := 1; i < attempt && delay < cap; i++ { delay *= 2 }\<close>\<close>

function double_until :: "duration \<Rightarrow> int \<Rightarrow> int \<Rightarrow> duration \<Rightarrow> duration" where
  "double_until cap attempt i delay =
     (if i < attempt \<and> delay < cap then double_until cap attempt (i + 1) (delay * 2) else delay)"
  by pat_completeness auto
termination by (relation "measure (\<lambda>(cap, attempt, i, delay). nat (attempt - i))") auto

declare double_until.simps [simp del]

definition screeningRetryBackoff :: "int \<Rightarrow> duration" where
  "screeningRetryBackoff failures0 =
     (let failures = (if failures0 < 1 then 1 else failures0);
          backoff = double_until (24 * Hour) failures 1 (5 * Minute)
      in if 24 * Hour < backoff then 24 * Hour else backoff)"

definition deliveryBackoff :: "int \<Rightarrow> duration" where
  "deliveryBackoff attempt =
     (let delay = double_until Hour attempt 1 Minute
      in if Hour < delay then Hour else delay)"

text \<open>The loop in closed form, up to the cut at the cap that follows it.\<close>

lemma pow2_step: "i < attempt \<Longrightarrow> (2 :: int) ^ nat (attempt - i) = 2 * 2 ^ nat (attempt - (i + 1))"
proof -
  assume "i < attempt"
  then have "nat (attempt - i) = Suc (nat (attempt - (i + 1)))" by simp
  then show ?thesis by simp
qed

lemma min_double_until:
  "0 < delay \<Longrightarrow> min cap (double_until cap attempt i delay) = min cap (delay * 2 ^ nat (attempt - i))"
proof (induction cap attempt i delay rule: double_until.induct)
  case (1 cap attempt i delay)
  show ?case
  proof (cases "i < attempt \<and> delay < cap")
    case True
    with 1 show ?thesis by (subst double_until.simps) (simp add: pow2_step mult.assoc)
  next
    case False
    have "delay \<le> delay * 2 ^ nat (attempt - i)" using "1.prems" by simp
    with False show ?thesis by (subst double_until.simps) (auto simp: min_def)
  qed
qed

text \<open>What the loop returns is below twice the cap: the product never overflows.\<close>

lemma double_until_bound:
  "delay < 2 * cap \<Longrightarrow> double_until cap attempt i delay < 2 * cap"
  by (induction cap attempt i delay rule: double_until.induct) (subst double_until.simps, auto)

lemma screeningRetryBackoff_min:
  "screeningRetryBackoff n = min (24 * Hour) (5 * Minute * 2 ^ nat (max 1 n - 1))"
proof -
  have "screeningRetryBackoff n = min (24 * Hour) (double_until (24 * Hour) (max 1 n) 1 (5 * Minute))"
    by (auto simp: screeningRetryBackoff_def Let_def min_def max_def)
  then show ?thesis by (simp add: min_double_until Minute_def)
qed

lemma deliveryBackoff_min: "deliveryBackoff n = min Hour (Minute * 2 ^ nat (n - 1))"
proof -
  have "deliveryBackoff n = min Hour (double_until Hour n 1 Minute)"
    by (auto simp: deliveryBackoff_def Let_def min_def)
  then show ?thesis by (simp add: min_double_until Minute_def)
qed

section \<open>The contract of a capped doubling delay\<close>

locale capped_doubling =
  fixes delay :: "int \<Rightarrow> duration" and start cap :: duration
  assumes start_pos: "0 < start" and start_cap: "start \<le> cap"
    and closed: "delay n = min cap (start * 2 ^ nat (max 1 n - 1))"
begin

lemma bounds: "start \<le> delay n" "delay n \<le> cap"
proof -
  have "start * 1 \<le> start * 2 ^ nat (max 1 n - 1)" using start_pos by (intro mult_left_mono) simp_all
  then show "start \<le> delay n" using start_cap by (simp add: closed)
  show "delay n \<le> cap" by (simp add: closed)
qed

lemma first: "n \<le> 1 \<Longrightarrow> delay n = start"
  using start_cap by (simp add: closed max_def)

lemma doubles:
  assumes "1 \<le> n"
  shows "delay (n + 1) = min cap (2 * delay n)"
proof -
  have "nat (max 1 (n + 1) - 1) = Suc (nat (max 1 n - 1))" using assms by simp
  then have "delay (n + 1) = min cap (2 * (start * 2 ^ nat (max 1 n - 1)))"
    unfolding closed by (simp only: power_Suc mult.left_commute)
  then show ?thesis using start_pos start_cap unfolding closed [of n] min_def by auto
qed

lemma mono: "m \<le> n \<Longrightarrow> delay m \<le> delay n"
proof -
  assume "m \<le> n"
  then have "nat (max 1 m - 1) \<le> nat (max 1 n - 1)" by (intro nat_mono) simp
  then have "(2 :: int) ^ nat (max 1 m - 1) \<le> 2 ^ nat (max 1 n - 1)" by (intro power_increasing) simp_all
  then have "start * 2 ^ nat (max 1 m - 1) \<le> start * 2 ^ nat (max 1 n - 1)"
    using start_pos by (intro mult_left_mono) simp_all
  then show ?thesis by (simp add: closed min_le_iff_disj)
qed

end

interpretation screening_retry: capped_doubling screeningRetryBackoff "5 * Minute" "24 * Hour"
  by unfold_locales (simp_all add: duration_defs screeningRetryBackoff_min)

interpretation delivery_retry: capped_doubling deliveryBackoff Minute Hour
proof
  show "deliveryBackoff n = min Hour (Minute * 2 ^ nat (max 1 n - 1))" for n
    by (cases "1 \<le> n") (simp_all add: deliveryBackoff_min max_def)
qed (simp_all add: duration_defs)

section \<open>Properties\<close>

lemma pow2_ge_512: "(512 :: int) \<le> 2 ^ k \<longleftrightarrow> 9 \<le> k"
proof -
  have "(2 :: int) ^ 9 \<le> 2 ^ k \<longleftrightarrow> 9 \<le> k" by (rule power_increasing_iff) simp
  then show ?thesis by simp
qed

lemma screening_cap: "screeningRetryBackoff n = 24 * Hour \<longleftrightarrow> 10 \<le> n"
proof -
  have "(24 * Hour \<le> 5 * Minute * 2 ^ k) = ((288 :: int) \<le> 2 ^ k)" for k
    by (simp add: duration_defs)
  moreover have "(288 :: int) \<le> 2 ^ k \<longleftrightarrow> 9 \<le> k" for k
  proof (cases "9 \<le> k")
    case True
    then show ?thesis using pow2_ge_512 [of k] by simp
  next
    case False
    then have "(2 :: int) ^ k \<le> 2 ^ 8" by (intro power_increasing) simp_all
    then show ?thesis using False by simp
  qed
  ultimately have "screeningRetryBackoff n = 24 * Hour \<longleftrightarrow> 9 \<le> nat (max 1 n - 1)"
    unfolding screeningRetryBackoff_min by (metis min.absorb_iff1)
  then show ?thesis by linarith
qed

text \<open>
  C23. The delay before a failed screening is retried starts at five minutes, doubles with every
  further failure, never exceeds 24 hours, reaches them exactly from the tenth failure on, and
  does not shrink as failures accumulate.
\<close>

theorem screening_backoff:
  "screeningRetryBackoff 1 = 5 * Minute \<and>
   5 * Minute \<le> screeningRetryBackoff n \<and> screeningRetryBackoff n \<le> 24 * Hour \<and>
   screeningRetryBackoff n \<le> screeningRetryBackoff (n + 1) \<and>
   (screeningRetryBackoff n = 24 * Hour \<longleftrightarrow> 10 \<le> n) \<and>
   screeningRetryBackoff (max 1 n + 1) = min (24 * Hour) (2 * screeningRetryBackoff (max 1 n))"
  using screening_retry.first [of 1] screening_retry.bounds [of n] screening_retry.mono [of n "n + 1"]
    screening_cap [of n] screening_retry.doubles [of "max 1 n"]
  by simp

lemma delivery_cap: "deliveryBackoff n = Hour \<longleftrightarrow> 7 \<le> n"
proof -
  have "(Hour \<le> Minute * 2 ^ k) = ((60 :: int) \<le> 2 ^ k)" for k
    by (simp add: duration_defs)
  moreover have "(60 :: int) \<le> 2 ^ k \<longleftrightarrow> 6 \<le> k" for k
  proof (cases "6 \<le> k")
    case True
    then have "(2 :: int) ^ 6 \<le> 2 ^ k" by (intro power_increasing) simp_all
    then show ?thesis using True by simp
  next
    case False
    then have "(2 :: int) ^ k \<le> 2 ^ 5" by (intro power_increasing) simp_all
    then show ?thesis using False by simp
  qed
  ultimately have "deliveryBackoff n = Hour \<longleftrightarrow> 6 \<le> nat (n - 1)"
    unfolding deliveryBackoff_min by (metis min.absorb_iff1)
  then show ?thesis by linarith
qed

text \<open>
The delay before a failed delivery is retried starts at one minute, doubles with every
  further attempt, never exceeds one hour, and reaches it exactly from the seventh attempt on.
\<close>

theorem delivery_backoff:
  "deliveryBackoff 1 = Minute \<and> Minute \<le> deliveryBackoff n \<and> deliveryBackoff n \<le> Hour \<and>
   deliveryBackoff n \<le> deliveryBackoff (n + 1) \<and> (deliveryBackoff n = Hour \<longleftrightarrow> 7 \<le> n) \<and>
   deliveryBackoff (max 1 n + 1) = min Hour (2 * deliveryBackoff (max 1 n))"
  using delivery_retry.first [of 1] delivery_retry.bounds [of n] delivery_retry.mono [of n "n + 1"]
    delivery_cap [of n] delivery_retry.doubles [of "max 1 n"]
  by simp

end
