(* ===== verification/Screening.thy ===== *)
theory Screening
  imports Backoff Domain
begin

text \<open>
  \<^verbatim>\<open>internal/application/screening.go\<close>: screening of a customer and its beneficial owners,
  recurring schedules, notifications and their preferences. The service's collaborators are
  values here as they are in Go: \<open>ScreeningRepository\<close> is the interface value with its methods,
  \<open>ScreeningProvider\<close> a provider (\<open>Provider_Screen p k\<close> is its answer to the \<open>k\<close>-th query of a
  run, so a provider may change its mind or fail at any point), \<open>ScreeningService\<close> the settings
  of the service. \<^verbatim>\<open>mail.ParseAddress\<close> is a parameter. Tracing spans are left out.
\<close>

record ScreeningCandidate =
  Candidate_ListType :: ScreeningListType
  Candidate_Name :: string
  Candidate_Score :: int
  Candidate_Reason :: string

record ScreeningProvider =
  Provider_Name :: string
  Provider_Screen :: "nat \<Rightarrow> string \<Rightarrow> ScreeningCandidate list result"

record 'r ScreeningRepository =
  do_GetCustomer :: "string \<Rightarrow> 'r \<Rightarrow> Customer result"
  do_GetDueDiligence :: "string \<Rightarrow> 'r \<Rightarrow> DueDiligenceDetails result"
  do_SaveScreening :: "ScreeningRun list \<Rightarrow> ScreeningMatch list \<Rightarrow> Notification list \<Rightarrow>
    OutboxMessage list \<Rightarrow> AuditEvent list \<Rightarrow> (unit, 'r) repo_op"
  do_ListScreeningMatches :: "string \<Rightarrow> 'r \<Rightarrow> ScreeningMatch list result"
  do_DispositionScreeningMatch :: "string \<Rightarrow> ScreeningMatchStatus \<Rightarrow> string \<Rightarrow> string \<Rightarrow> AuditEvent \<Rightarrow>
    (ScreeningMatch, 'r) repo_op"
  do_UpsertScreeningSchedule :: "ScreeningSchedule \<Rightarrow> AuditEvent \<Rightarrow> (ScreeningSchedule, 'r) repo_op"
  do_GetScreeningSchedule :: "string \<Rightarrow> 'r \<Rightarrow> ScreeningSchedule result"
  do_ClaimDueScreeningSchedules :: "time \<Rightarrow> int \<Rightarrow> string \<Rightarrow> time \<Rightarrow> (ScreeningSchedule list, 'r) repo_op"
  do_CompleteScreeningSchedule :: "string \<Rightarrow> string \<Rightarrow> time \<Rightarrow> time \<Rightarrow> string \<Rightarrow> (unit, 'r) repo_op"
  do_ListNotifications :: "int \<Rightarrow> 'r \<Rightarrow> Notification list result"
  do_ReadNotification :: "string \<Rightarrow> string \<Rightarrow> time \<Rightarrow> (Notification, 'r) repo_op"
  do_GetNotificationPreference :: "string \<Rightarrow> 'r \<Rightarrow> NotificationPreference result"
  do_UpsertNotificationPreference :: "NotificationPreference \<Rightarrow> (NotificationPreference, 'r) repo_op"
  do_ListEmailNotificationRecipients :: "'r \<Rightarrow> string list result"

record ScreeningService =
  Service_workerID :: string
  Service_leaseDuration :: duration
  Service_webhookURL :: string

definition NewScreeningService :: "string \<Rightarrow> ScreeningService" where
  "NewScreeningService workerID =
     \<lparr>Service_workerID = workerID, Service_leaseDuration = 5 * Minute, Service_webhookURL = []\<rparr>"

definition SetLeaseDuration :: "duration \<Rightarrow> ScreeningService \<Rightarrow> ScreeningService" where
  "SetLeaseDuration d s = (if 0 < d then s\<lparr>Service_leaseDuration := d\<rparr> else s)"

definition SetNotificationWebhook :: "string \<Rightarrow> ScreeningService \<Rightarrow> ScreeningService" where
  "SetNotificationWebhook url s = s\<lparr>Service_webhookURL := TrimSpace url\<rparr>"

section \<open>Schedules, notifications and preferences\<close>

definition ConfigureSchedule ::
  "'r ScreeningRepository \<Rightarrow> call_env \<Rightarrow> string \<Rightarrow> bool \<Rightarrow> int \<Rightarrow> string \<Rightarrow> (ScreeningSchedule, 'r) repo_op"
where
  "ConfigureSchedule repo env customerID enabled intervalHours actor r =
     (let customerID = TrimSpace customerID; actor = TrimSpace actor
      in if customerID = [] \<or> actor = [] \<or> intervalHours < 1 \<or> 8760 < intervalHours
         then (Inl ErrInvalidScreening, r)
         else (case do_GetCustomer repo customerID r of
             Inl err \<Rightarrow> (Inl err, r)
           | Inr _ \<Rightarrow>
               (let now = Env_Now env;
                    schedule = \<lparr>Schedule_CustomerID = customerID, Schedule_Enabled = enabled,
                      Schedule_IntervalHours = intervalHours,
                      Schedule_NextRunAt = now + intervalHours * Hour,
                      Schedule_LastRunAt = None, Schedule_LastError = [],
                      Schedule_FailureCount = 0, Schedule_LeaseOwner = [],
                      Schedule_LeaseUntil = None, Schedule_UpdatedBy = actor,
                      Schedule_UpdatedAt = now\<rparr>;
                    event = \<lparr>Event_ID = Env_IDs env 0, Event_AggregateType = ''customer'',
                      Event_AggregateID = customerID,
                      Event_EventType = ''screening.schedule_updated'', Event_Actor = actor,
                      Event_OccurredAt = now,
                      Event_Payload = [(''enabled'', PBool enabled),
                        (''interval_hours'', PInt intervalHours),
                        (''next_run_at'', PTime (Schedule_NextRunAt schedule))]\<rparr>
                in do_UpsertScreeningSchedule repo schedule event r)))"

definition GetSchedule ::
  "'r ScreeningRepository \<Rightarrow> string \<Rightarrow> 'r \<Rightarrow> ScreeningSchedule result" where
  "GetSchedule repo customerID r = do_GetScreeningSchedule repo (TrimSpace customerID) r"

definition ListNotifications ::
  "'r ScreeningRepository \<Rightarrow> int \<Rightarrow> 'r \<Rightarrow> Notification list result" where
  "ListNotifications repo n r =
     (let n = (if n < 1 \<or> 100 < n then 100 else n) in do_ListNotifications repo n r)"

definition ReadNotification ::
  "'r ScreeningRepository \<Rightarrow> call_env \<Rightarrow> string \<Rightarrow> string \<Rightarrow> (Notification, 'r) repo_op" where
  "ReadNotification repo env ident actor r =
     (let ident = TrimSpace ident; actor = TrimSpace actor
      in if ident = [] \<or> actor = [] then (Inl ErrInvalidScreening, r)
         else do_ReadNotification repo ident actor (Env_Now env) r)"

definition GetNotificationPreference ::
  "'r ScreeningRepository \<Rightarrow> string \<Rightarrow> 'r \<Rightarrow> NotificationPreference result" where
  "GetNotificationPreference repo actor r =
     (let actor = TrimSpace actor
      in if actor = [] then Inl ErrInvalidNotificationPreference
         else (case do_GetNotificationPreference repo actor r of
             Inl err \<Rightarrow>
               if err = ErrNotificationNotFound
               then Inr \<lparr>Preference_ActorSubject = actor, Preference_EmailAddress = [],
                         Preference_EmailEnabled = False, Preference_UpdatedAt = zero_time\<rparr>
               else Inl err
           | Inr preference \<Rightarrow> Inr preference))"

text \<open>\<open>parse\<close> is \<^verbatim>\<open>mail.ParseAddress\<close>: the bare address of a mailbox, or nothing.\<close>

definition validEmail :: "(string \<Rightarrow> string option) \<Rightarrow> string \<Rightarrow> bool" where
  "validEmail parse value \<longleftrightarrow> parse value = Some value"

definition ConfigureNotificationPreference ::
  "'r ScreeningRepository \<Rightarrow> (string \<Rightarrow> string option) \<Rightarrow> call_env \<Rightarrow> string \<Rightarrow> string \<Rightarrow> bool \<Rightarrow>
   (NotificationPreference, 'r) repo_op" where
  "ConfigureNotificationPreference repo parse env actor email enabled r =
     (let actor = TrimSpace actor; email = TrimSpace email
      in if actor = [] \<or> (enabled \<and> \<not> validEmail parse email)
         then (Inl ErrInvalidNotificationPreference, r)
         else if email \<noteq> [] \<and> \<not> validEmail parse email
         then (Inl ErrInvalidNotificationPreference, r)
         else do_UpsertNotificationPreference repo
           \<lparr>Preference_ActorSubject = actor, Preference_EmailAddress = email,
            Preference_EmailEnabled = enabled, Preference_UpdatedAt = Env_Now env\<rparr> r)"

definition List :: "'r ScreeningRepository \<Rightarrow> string \<Rightarrow> 'r \<Rightarrow> ScreeningMatch list result" where
  "List repo customerID r = do_ListScreeningMatches repo (TrimSpace customerID) r"

definition Disposition_request ::
  "call_env \<Rightarrow> string \<Rightarrow> ScreeningMatchStatus \<Rightarrow> string \<Rightarrow> string \<Rightarrow>
   (string \<times> string \<times> string \<times> AuditEvent) result" where
  [request_defs]: "Disposition_request env ident status reason actor =
     (let ident = TrimSpace ident; reason = TrimSpace reason; actor = TrimSpace actor
      in if ident = [] \<or> reason = [] \<or> actor = [] \<or>
            (status \<noteq> MatchConfirmed \<and> status \<noteq> MatchFalsePositive)
         then Inl ErrInvalidScreening
         else Inr (ident, reason, actor,
           \<lparr>Event_ID = Env_IDs env 0, Event_AggregateType = ''customer'', Event_AggregateID = [],
            Event_EventType = ''screening.match_'' @ status, Event_Actor = actor,
            Event_OccurredAt = Env_Now env,
            Event_Payload = [(''match_id'', PString ident), (''reason'', PString reason)]\<rparr>))"

definition Disposition ::
  "'r ScreeningRepository \<Rightarrow> call_env \<Rightarrow> string \<Rightarrow> ScreeningMatchStatus \<Rightarrow> string \<Rightarrow> string \<Rightarrow>
   (ScreeningMatch, 'r) repo_op" where
  "Disposition repo env ident status reason actor r =
     (case Disposition_request env ident status reason actor of
        Inl err \<Rightarrow> (Inl err, r)
      | Inr (ident, reason, actor, event) \<Rightarrow>
          do_DispositionScreeningMatch repo ident status reason actor event r)"

lemma Disposition_requestE:
  assumes "Disposition_request env ident status reason actor = Inr (i, x, a, e)"
  obtains "i = TrimSpace ident" and "i \<noteq> []" and "x = TrimSpace reason" and "x \<noteq> []"
    and "a = TrimSpace actor" and "a \<noteq> []" and "status \<in> {MatchConfirmed, MatchFalsePositive}"
    and "Event_ID e = Env_IDs env 0" and "Event_Actor e = a" and "Event_OccurredAt e = Env_Now env"
    and "Event_EventType e = ''screening.match_'' @ status"
  using assms by (auto simp: Disposition_request_def Let_def split: if_splits)

section \<open>Screening one customer\<close>

record subject =
  subject_kind :: ScreeningSubjectType
  subject_id :: string
  subject_name :: string

text \<open>What the loop has drawn and collected so far.\<close>

record screening_loop =
  loop_drawn :: nat
  loop_runs :: "ScreeningRun list"
  loop_matches :: "ScreeningMatch list"
  loop_notifications :: "Notification list"
  loop_outbox :: "OutboxMessage list"
  loop_events :: "AuditEvent list"

definition loop_start :: screening_loop where
  "loop_start = \<lparr>loop_drawn = 0, loop_runs = [], loop_matches = [], loop_notifications = [],
     loop_outbox = [], loop_events = []\<rparr>"

definition outbox_message ::
  "string \<Rightarrow> string \<Rightarrow> string \<Rightarrow> Notification \<Rightarrow> time \<Rightarrow> OutboxMessage" where
  "outbox_message ident channel destination notification now =
     \<lparr>Outbox_ID = ident, Outbox_NotificationID = Notification_ID notification,
      Outbox_Channel = channel, Outbox_Destination = destination,
      Outbox_Payload = [(''id'', PString (Notification_ID notification)),
        (''customer_id'', PString (Notification_CustomerID notification)),
        (''match_id'', PString (Notification_MatchID notification)),
        (''title'', PString (Notification_Title notification)),
        (''message'', PString (Notification_Message notification)), (''created_at'', PTime now)],
      Outbox_Status = ''pending'', Outbox_Attempts = 0, Outbox_NextAttemptAt = now,
      Outbox_LastError = [], Outbox_LeaseOwner = [], Outbox_LeaseUntil = None,
      Outbox_CreatedAt = now, Outbox_DeliveredAt = None\<rparr>"

definition enqueue ::
  "call_env \<Rightarrow> string \<Rightarrow> Notification \<Rightarrow> string \<Rightarrow> screening_loop \<Rightarrow> screening_loop" where
  "enqueue env channel notification destination st =
     st\<lparr>loop_drawn := loop_drawn st + 1,
        loop_outbox := loop_outbox st @
          [outbox_message (Env_IDs env (loop_drawn st)) channel destination notification (Env_Now env)]\<rparr>"

definition screen_candidate ::
  "ScreeningService \<Rightarrow> call_env \<Rightarrow> string \<Rightarrow> string list \<Rightarrow> subject \<Rightarrow> string \<Rightarrow> ScreeningCandidate \<Rightarrow>
   screening_loop \<Rightarrow> screening_loop" where
  "screen_candidate svc env customerID emailRecipients sub runID candidate st =
     (let now = Env_Now env;
          m = \<lparr>Match_ID = Env_IDs env (loop_drawn st), Match_RunID = runID,
               Match_CustomerID = customerID, Match_SubjectType = subject_kind sub,
               Match_SubjectID = subject_id sub, Match_QueryName = subject_name sub,
               Match_ListType = Candidate_ListType candidate,
               Match_MatchedName = Candidate_Name candidate,
               Match_Score = Candidate_Score candidate, Match_Reason = Candidate_Reason candidate,
               Match_Status = MatchPotential, Match_CreatedAt = now, Match_ReviewedBy = [],
               Match_ReviewedAt = None, Match_DispositionReason = []\<rparr>;
          notification =
            \<lparr>Notification_ID = Env_IDs env (loop_drawn st + 1), Notification_CustomerID = customerID,
             Notification_MatchID = Match_ID m, Notification_Type = ''screening_match'',
             Notification_Title = ''Potential '' @ Candidate_ListType candidate @ '' match'',
             Notification_Message = subject_name sub @ '' matched '' @ Candidate_Name candidate,
             Notification_Read = False, Notification_CreatedAt = now, Notification_ReadBy = [],
             Notification_ReadAt = None\<rparr>;
          st = st\<lparr>loop_drawn := loop_drawn st + 2, loop_matches := loop_matches st @ [m],
                  loop_notifications := loop_notifications st @ [notification]\<rparr>;
          st = (if Service_webhookURL svc \<noteq> []
                then enqueue env ''webhook'' notification (Service_webhookURL svc) st else st)
      in fold (enqueue env ''email'' notification) emailRecipients st)"

definition screen_subject ::
  "ScreeningService \<Rightarrow> call_env \<Rightarrow> ScreeningProvider \<Rightarrow> string \<Rightarrow> string \<Rightarrow> string list \<Rightarrow> nat \<Rightarrow> subject \<Rightarrow>
   screening_loop \<Rightarrow> screening_loop result" where
  "screen_subject svc env provider customerID actor emailRecipients k sub st =
     (case Provider_Screen provider k (subject_name sub) of
        Inl err \<Rightarrow> Inl err
      | Inr candidates \<Rightarrow>
          (let now = Env_Now env;
               run = \<lparr>Run_ID = Env_IDs env (loop_drawn st), Run_CustomerID = customerID,
                      Run_SubjectType = subject_kind sub, Run_SubjectID = subject_id sub,
                      Run_QueryName = subject_name sub, Run_Provider = Provider_Name provider,
                      Run_CreatedBy = actor, Run_CreatedAt = now\<rparr>;
               st = st\<lparr>loop_drawn := loop_drawn st + 1, loop_runs := loop_runs st @ [run]\<rparr>;
               st = fold (screen_candidate svc env customerID emailRecipients sub (Run_ID run))
                      candidates st
           in Inr (st\<lparr>loop_drawn := loop_drawn st + 1, loop_events := loop_events st @
                [\<lparr>Event_ID = Env_IDs env (loop_drawn st), Event_AggregateType = ''customer'',
                  Event_AggregateID = customerID, Event_EventType = ''screening.completed'',
                  Event_Actor = actor, Event_OccurredAt = now,
                  Event_Payload = [(''run_id'', PString (Run_ID run)),
                    (''subject_type'', PString (subject_kind sub)),
                    (''subject_id'', PString (subject_id sub)),
                    (''match_count'', PInt (int (length candidates))),
                    (''provider'', PString (Provider_Name provider))]\<rparr>]\<rparr>)))"

fun screen_subjects ::
  "ScreeningService \<Rightarrow> call_env \<Rightarrow> ScreeningProvider \<Rightarrow> string \<Rightarrow> string \<Rightarrow> string list \<Rightarrow> nat \<Rightarrow>
   subject list \<Rightarrow> screening_loop \<Rightarrow> screening_loop result" where
  "screen_subjects svc env provider customerID actor emailRecipients k [] st = Inr st"
| "screen_subjects svc env provider customerID actor emailRecipients k (sub # subs) st =
     (case screen_subject svc env provider customerID actor emailRecipients k sub st of
        Inl err \<Rightarrow> Inl err
      | Inr st' \<Rightarrow>
          screen_subjects svc env provider customerID actor emailRecipients (k + 1) subs st')"

definition subjects_of :: "Customer \<Rightarrow> DueDiligenceDetails \<Rightarrow> subject list" where
  "subjects_of customer cdd =
     \<lparr>subject_kind = ScreeningCustomer, subject_id = Customer_ID customer,
      subject_name = Customer_LegalName customer\<rparr> #
     map (\<lambda>owner. \<lparr>subject_kind = ScreeningBeneficialOwner, subject_id = Owner_ID owner,
                    subject_name = Owner_FullName owner\<rparr>) (Diligence_BeneficialOwners cdd)"

definition ScreenCustomer ::
  "'r ScreeningRepository \<Rightarrow> ScreeningService \<Rightarrow> call_env \<Rightarrow> ScreeningProvider \<Rightarrow> string \<Rightarrow> string \<Rightarrow>
   (ScreeningResult, 'r) repo_op" where
  "ScreenCustomer repo svc env provider customerID actor r =
     (let customerID = TrimSpace customerID; actor = TrimSpace actor
      in if customerID = [] \<or> actor = [] then (Inl ErrInvalidScreening, r)
         else (case do_GetCustomer repo customerID r of
             Inl err \<Rightarrow> (Inl err, r)
           | Inr customer \<Rightarrow>
         (case do_GetDueDiligence repo customerID r of
             Inl err \<Rightarrow> (Inl err, r)
           | Inr cdd \<Rightarrow>
         (case do_ListEmailNotificationRecipients repo r of
             Inl err \<Rightarrow> (Inl err, r)
           | Inr emailRecipients \<Rightarrow>
         (case screen_subjects svc env provider customerID actor emailRecipients 0
                 (subjects_of customer cdd) loop_start of
             Inl err \<Rightarrow> (Inl err, r)
           | Inr st \<Rightarrow>
         (case do_SaveScreening repo (loop_runs st) (loop_matches st) (loop_notifications st)
                 (loop_outbox st) (loop_events st) r of
             (Inl err, r') \<Rightarrow> (Inl err, r')
           | (Inr _, r') \<Rightarrow>
               (Inr \<lparr>Result_Runs = loop_runs st, Result_Matches = loop_matches st\<rparr>, r')))))))"

section \<open>The monitoring worker\<close>

text \<open>
  The loop over the claimed schedules. Job \<open>k\<close> has its own clock and identifiers (\<open>envs k\<close>) and
  its own provider answers (\<open>providers k\<close>). The result is the number of completed jobs, the
  number of failed ones and the error that stopped the loop, if one did.
\<close>

fun run_schedules ::
  "'r ScreeningRepository \<Rightarrow> ScreeningService \<Rightarrow> time \<Rightarrow> (nat \<Rightarrow> call_env) \<Rightarrow>
   (nat \<Rightarrow> ScreeningProvider) \<Rightarrow> nat \<Rightarrow> ScreeningSchedule list \<Rightarrow> int \<Rightarrow> int \<Rightarrow> 'r \<Rightarrow>
   (int \<times> int \<times> error option) \<times> 'r" where
  "run_schedules repo svc now envs providers k [] completed failed r = ((completed, failed, None), r)"
| "run_schedules repo svc now envs providers k (schedule # rest) completed failed r =
     (let (run, r1) = ScreenCustomer repo svc (envs k) (providers k) (Schedule_CustomerID schedule)
                        ''ongoing-monitoring-worker'' r;
          errorText = (case run of Inl err \<Rightarrow> error_text err | Inr _ \<Rightarrow> []);
          nextRun = (case run of
              Inl _ \<Rightarrow> now + screeningRetryBackoff (Schedule_FailureCount schedule + 1)
            | Inr _ \<Rightarrow> now + Schedule_IntervalHours schedule * Hour)
      in case do_CompleteScreeningSchedule repo (Schedule_CustomerID schedule)
                (Service_workerID svc) now nextRun errorText r1 of
           (Inl err, r2) \<Rightarrow> ((completed, failed, Some err), r2)
         | (Inr _, r2) \<Rightarrow>
             (case run of
                Inl _ \<Rightarrow> run_schedules repo svc now envs providers (k + 1) rest completed (failed + 1) r2
              | Inr _ \<Rightarrow> run_schedules repo svc now envs providers (k + 1) rest (completed + 1) failed r2))"

text \<open>\<^verbatim>\<open>RunDue\<close> returns a count and an error; both are read.\<close>

definition RunDue ::
  "'r ScreeningRepository \<Rightarrow> ScreeningService \<Rightarrow> time \<Rightarrow> (nat \<Rightarrow> call_env) \<Rightarrow>
   (nat \<Rightarrow> ScreeningProvider) \<Rightarrow> int \<Rightarrow> 'r \<Rightarrow> (int \<times> error option) \<times> 'r" where
  "RunDue repo svc now envs providers limit0 r =
     (let limit = (if limit0 < 1 then 25 else limit0)
      in case do_ClaimDueScreeningSchedules repo now limit (Service_workerID svc)
                (now + Service_leaseDuration svc) r of
           (Inl err, r') \<Rightarrow> ((0, Some err), r')
         | (Inr schedules, r') \<Rightarrow>
             (case run_schedules repo svc now envs providers 0 schedules 0 0 r' of
                ((completed, failed, Some err), r2) \<Rightarrow> ((completed, Some err), r2)
              | ((completed, failed, None), r2) \<Rightarrow>
                  ((completed,
                    if 0 < failed
                    then Some (OtherError (show_int failed @ '' ongoing screening jobs failed''))
                    else None), r2)))"

section \<open>What a run collects\<close>

lemma enqueue_simps [simp]:
  "loop_drawn (enqueue env ch n d st) = loop_drawn st + 1"
  "loop_runs (enqueue env ch n d st) = loop_runs st"
  "loop_matches (enqueue env ch n d st) = loop_matches st"
  "loop_notifications (enqueue env ch n d st) = loop_notifications st"
  "loop_outbox (enqueue env ch n d st) = loop_outbox st @
     [outbox_message (Env_IDs env (loop_drawn st)) ch d n (Env_Now env)]"
  "loop_events (enqueue env ch n d st) = loop_events st"
  by (simp_all add: enqueue_def)

lemma fold_enqueue [simp]:
  "loop_runs (fold (enqueue env ch n) ds st) = loop_runs st"
  "loop_matches (fold (enqueue env ch n) ds st) = loop_matches st"
  "loop_notifications (fold (enqueue env ch n) ds st) = loop_notifications st"
  "loop_events (fold (enqueue env ch n) ds st) = loop_events st"
  "length (loop_outbox (fold (enqueue env ch n) ds st)) = length (loop_outbox st) + length ds"
  by (induction ds arbitrary: st) simp_all

text \<open>A match seen as the candidate it came from.\<close>

definition candidate_of :: "ScreeningMatch \<Rightarrow> ScreeningCandidate" where
  "candidate_of m = \<lparr>Candidate_ListType = Match_ListType m, Candidate_Name = Match_MatchedName m,
     Candidate_Score = Match_Score m, Candidate_Reason = Match_Reason m\<rparr>"

definition fan_out :: "ScreeningService \<Rightarrow> string list \<Rightarrow> nat" where
  "fan_out svc emailRecipients =
     (if Service_webhookURL svc = [] then 0 else 1) + length emailRecipients"

lemma screen_candidate_simps [simp]:
  "loop_runs (screen_candidate svc env c rs sub i cand st) = loop_runs st"
  "loop_events (screen_candidate svc env c rs sub i cand st) = loop_events st"
  "map candidate_of (loop_matches (screen_candidate svc env c rs sub i cand st)) =
     map candidate_of (loop_matches st) @ [cand]"
  "map Notification_MatchID (loop_notifications (screen_candidate svc env c rs sub i cand st)) =
     map Notification_MatchID (loop_notifications st) @ [Env_IDs env (loop_drawn st)]"
  "map Match_ID (loop_matches (screen_candidate svc env c rs sub i cand st)) =
     map Match_ID (loop_matches st) @ [Env_IDs env (loop_drawn st)]"
  "map Match_RunID (loop_matches (screen_candidate svc env c rs sub i cand st)) =
     map Match_RunID (loop_matches st) @ [i]"
  "length (loop_outbox (screen_candidate svc env c rs sub i cand st)) =
     length (loop_outbox st) + fan_out svc rs"
  by (simp_all add: screen_candidate_def Let_def candidate_of_def fan_out_def)

lemma fold_screen_candidate [simp]:
  "loop_runs (fold (screen_candidate svc env c rs sub i) cands st) = loop_runs st"
  "loop_events (fold (screen_candidate svc env c rs sub i) cands st) = loop_events st"
  "map candidate_of (loop_matches (fold (screen_candidate svc env c rs sub i) cands st)) =
     map candidate_of (loop_matches st) @ cands"
  "map Match_RunID (loop_matches (fold (screen_candidate svc env c rs sub i) cands st)) =
     map Match_RunID (loop_matches st) @ replicate (length cands) i"
  "length (loop_outbox (fold (screen_candidate svc env c rs sub i) cands st)) =
     length (loop_outbox st) + length cands * fan_out svc rs"
  by (induction cands arbitrary: st) (simp_all add: replicate_append_same [symmetric])

text \<open>Every notification is about one match, in the same order.\<close>

definition notified :: "screening_loop \<Rightarrow> bool" where
  "notified st \<longleftrightarrow> map Notification_MatchID (loop_notifications st) = map Match_ID (loop_matches st)"

lemma notified_candidates:
  "notified st \<Longrightarrow> notified (fold (screen_candidate svc env c rs sub i) cands st)"
  by (induction cands arbitrary: st) (simp_all add: notified_def)

text \<open>The provider's answers to the queries of a run, in order.\<close>

fun answers :: "ScreeningProvider \<Rightarrow> nat \<Rightarrow> subject list \<Rightarrow> ScreeningCandidate list list result" where
  "answers provider k [] = Inr []"
| "answers provider k (sub # subs) =
     (case Provider_Screen provider k (subject_name sub) of
        Inl err \<Rightarrow> Inl err
      | Inr cands \<Rightarrow> (case answers provider (k + 1) subs of
                        Inl err \<Rightarrow> Inl err | Inr rest \<Rightarrow> Inr (cands # rest)))"

lemma screen_subjects_err:
  "screen_subjects svc env provider c a rs k subs st = Inl err \<longleftrightarrow> answers provider k subs = Inl err"
  by (induction subs arbitrary: k st) (auto simp: screen_subject_def Let_def split: sum.splits)

lemma screen_subject_okE:
  assumes "screen_subject svc env provider c a rs k sub st = Inr st'"
  obtains cands where "Provider_Screen provider k (subject_name sub) = Inr cands"
    and "map Run_SubjectID (loop_runs st') = map Run_SubjectID (loop_runs st) @ [subject_id sub]"
    and "map Run_QueryName (loop_runs st') = map Run_QueryName (loop_runs st) @ [subject_name sub]"
    and "map candidate_of (loop_matches st') = map candidate_of (loop_matches st) @ cands"
    and "length (loop_outbox st') = length (loop_outbox st) + length cands * fan_out svc rs"
    and "map Event_Payload (loop_events st') = map Event_Payload (loop_events st) @
      [[(''run_id'', PString (Env_IDs env (loop_drawn st))),
        (''subject_type'', PString (subject_kind sub)), (''subject_id'', PString (subject_id sub)),
        (''match_count'', PInt (int (length cands))),
        (''provider'', PString (Provider_Name provider))]]"
    and "notified st \<Longrightarrow> notified st'"
proof -
  obtain cands where cands: "Provider_Screen provider k (subject_name sub) = Inr cands"
    using assms by (auto simp: screen_subject_def split: sum.splits)
  show thesis
  proof (rule that [OF cands])
    assume "notified st"
    then have "notified (st\<lparr>loop_drawn := n, loop_runs := xs\<rparr>)" for n xs
      by (simp add: notified_def)
    then show "notified st'"
      using assms cands notified_candidates
      by (auto simp: screen_subject_def Let_def) (simp add: notified_def)
  qed (use assms cands in \<open>auto simp: screen_subject_def Let_def\<close>)
qed

lemma screen_subjects_ok:
  assumes "screen_subjects svc env provider c a rs k subs st = Inr st'"
    and "answers provider k subs = Inr css"
  shows "map Run_SubjectID (loop_runs st') = map Run_SubjectID (loop_runs st) @ map subject_id subs"
    and "map Run_QueryName (loop_runs st') = map Run_QueryName (loop_runs st) @ map subject_name subs"
    and "map candidate_of (loop_matches st') = map candidate_of (loop_matches st) @ concat css"
    and "length (loop_outbox st') = length (loop_outbox st) + length (concat css) * fan_out svc rs"
    and "length (loop_events st') = length (loop_events st) + length subs"
    and "notified st \<Longrightarrow> notified st'"
proof -
  have "map Run_SubjectID (loop_runs st') = map Run_SubjectID (loop_runs st) @ map subject_id subs \<and>
    map Run_QueryName (loop_runs st') = map Run_QueryName (loop_runs st) @ map subject_name subs \<and>
    map candidate_of (loop_matches st') = map candidate_of (loop_matches st) @ concat css \<and>
    length (loop_outbox st') = length (loop_outbox st) + length (concat css) * fan_out svc rs \<and>
    length (loop_events st') = length (loop_events st) + length subs \<and>
    (notified st \<longrightarrow> notified st')"
    using assms
  proof (induction subs arbitrary: k st css)
    case (Cons sub subs)
    then obtain st1 where one: "screen_subject svc env provider c a rs k sub st = Inr st1"
      and rest: "screen_subjects svc env provider c a rs (k + 1) subs st1 = Inr st'"
      by (auto split: sum.splits)
    obtain cands css' where css: "css = cands # css'" and ans: "answers provider (k + 1) subs = Inr css'"
      and cands: "Provider_Screen provider k (subject_name sub) = Inr cands"
      using Cons.prems(2) by (auto split: sum.splits)
    have len: "length (loop_events st1) = length (loop_events st) + 1"
      using one by (auto simp: screen_subject_def Let_def split: sum.splits)
    show ?case
      by (rule screen_subject_okE [OF one])
        (use Cons.IH [OF rest ans] css cands len in \<open>auto simp: add_mult_distrib\<close>)
  qed simp
  then show "map Run_SubjectID (loop_runs st') = map Run_SubjectID (loop_runs st) @ map subject_id subs"
    and "map Run_QueryName (loop_runs st') = map Run_QueryName (loop_runs st) @ map subject_name subs"
    and "map candidate_of (loop_matches st') = map candidate_of (loop_matches st) @ concat css"
    and "length (loop_outbox st') = length (loop_outbox st) + length (concat css) * fan_out svc rs"
    and "length (loop_events st') = length (loop_events st) + length subs"
    and "notified st \<Longrightarrow> notified st'"
    by simp_all
qed

lemma screen_subjects_runs:
  "screen_subjects svc env provider c a rs k subs st = Inr st' \<Longrightarrow>
   map (\<lambda>run. \<lparr>subject_kind = Run_SubjectType run, subject_id = Run_SubjectID run,
      subject_name = Run_QueryName run\<rparr>) (loop_runs st') =
   map (\<lambda>run. \<lparr>subject_kind = Run_SubjectType run, subject_id = Run_SubjectID run,
      subject_name = Run_QueryName run\<rparr>) (loop_runs st) @ subs"
proof (induction subs arbitrary: k st)
  case (Cons sub subs)
  then obtain st1 where "screen_subject svc env provider c a rs k sub st = Inr st1"
    and "screen_subjects svc env provider c a rs (k + 1) subs st1 = Inr st'"
    by (auto split: sum.splits)
  with Cons.IH [of "k + 1" st1] show ?case
    by (auto simp: screen_subject_def Let_def split: sum.splits)
qed simp

section \<open>Identifiers of a run\<close>

text \<open>All identifiers of the collected records; they are the ones drawn, each used once.\<close>

definition loop_ids :: "screening_loop \<Rightarrow> string list" where
  "loop_ids st = map Run_ID (loop_runs st) @ map Match_ID (loop_matches st) @
     map Notification_ID (loop_notifications st) @ map Outbox_ID (loop_outbox st) @
     map Event_ID (loop_events st)"

definition ids_used :: "call_env \<Rightarrow> screening_loop \<Rightarrow> bool" where
  "ids_used env st \<longleftrightarrow> mset (loop_ids st) = mset (map (Env_IDs env) [0..<loop_drawn st])"

lemma drawn_Suc: "mset_set {0..<Suc n} = add_mset n (mset_set {0..<n})"
  by (simp add: atLeast0_lessThan_Suc)

lemma ids_used_start [simp]: "ids_used env loop_start"
  by (simp add: ids_used_def loop_ids_def loop_start_def)

lemma ids_used_enqueue: "ids_used env st \<Longrightarrow> ids_used env (enqueue env ch n d st)"
  by (simp add: ids_used_def loop_ids_def outbox_message_def drawn_Suc)

lemma ids_used_fold_enqueue: "ids_used env st \<Longrightarrow> ids_used env (fold (enqueue env ch n) ds st)"
  by (induction ds arbitrary: st) (simp_all add: ids_used_enqueue)

lemma ids_used_candidate:
  assumes "ids_used env st"
  shows "ids_used env (screen_candidate svc env c rs sub i cand st)"
  unfolding screen_candidate_def Let_def
proof (rule ids_used_fold_enqueue, goal_cases)
  case 1
  show ?case using assms
    by (simp add: ids_used_enqueue) (simp add: ids_used_def loop_ids_def drawn_Suc outbox_message_def)
qed

lemma ids_used_candidates:
  "ids_used env st \<Longrightarrow> ids_used env (fold (screen_candidate svc env c rs sub i) cands st)"
  by (induction cands arbitrary: st) (simp_all add: ids_used_candidate)

lemma ids_used_subject:
  assumes "screen_subject svc env provider c a rs k sub st = Inr st'" and "ids_used env st"
  shows "ids_used env st'"
proof -
  obtain cands where "Provider_Screen provider k (subject_name sub) = Inr cands"
    using assms(1) by (auto simp: screen_subject_def split: sum.splits)
  moreover define run where "run = \<lparr>Run_ID = Env_IDs env (loop_drawn st), Run_CustomerID = c,
      Run_SubjectType = subject_kind sub, Run_SubjectID = subject_id sub,
      Run_QueryName = subject_name sub, Run_Provider = Provider_Name provider,
      Run_CreatedBy = a, Run_CreatedAt = Env_Now env\<rparr>"
  moreover define st1 where "st1 = fold (screen_candidate svc env c rs sub (Run_ID run)) cands
      (st\<lparr>loop_drawn := loop_drawn st + 1, loop_runs := loop_runs st @ [run]\<rparr>)"
  moreover have "ids_used env st1"
    unfolding st1_def
    by (rule ids_used_candidates) (use assms(2) in \<open>simp add: ids_used_def loop_ids_def run_def drawn_Suc\<close>)
  ultimately show ?thesis
    using assms(1) by (auto simp: screen_subject_def Let_def ids_used_def loop_ids_def drawn_Suc)
qed

lemma ids_used_subjects:
  "screen_subjects svc env provider c a rs k subs st = Inr st' \<Longrightarrow> ids_used env st \<Longrightarrow> ids_used env st'"
  by (induction subs arbitrary: k st) (auto dest: ids_used_subject split: sum.splits)

lemma distinct_loop_ids:
  assumes "ids_used env st" and "inj (Env_IDs env)"
  shows "distinct (loop_ids st)"
proof -
  have "distinct (map (Env_IDs env) [0..<loop_drawn st])"
    using assms(2) by (simp add: distinct_map inj_on_subset [OF _ subset_UNIV])
  then show ?thesis using assms(1) by (metis ids_used_def mset_eq_imp_distinct_iff)
qed

lemma loop_ids_drawn:
  assumes "ids_used env st"
  shows "set (loop_ids st) = Env_IDs env ` {0..<loop_drawn st}"
proof -
  have "set_mset (mset (loop_ids st)) = set_mset (mset (map (Env_IDs env) [0..<loop_drawn st]))"
    using assms by (simp add: ids_used_def)
  then show ?thesis by simp
qed

text \<open>Fields every record of a run shares.\<close>

definition undecided :: "ScreeningMatch \<Rightarrow> bool" where
  "undecided m \<longleftrightarrow> Match_ReviewedBy m = [] \<and> Match_ReviewedAt m = None \<and> Match_DispositionReason m = []"

definition unread :: "Notification \<Rightarrow> bool" where
  "unread n \<longleftrightarrow> \<not> Notification_Read n \<and> Notification_ReadBy n = [] \<and> Notification_ReadAt n = None"

definition belongs :: "call_env \<Rightarrow> string \<Rightarrow> string \<Rightarrow> screening_loop \<Rightarrow> bool" where
  "belongs env customerID actor st \<longleftrightarrow>
     (\<forall>m \<in> set (loop_matches st). Match_CustomerID m = customerID \<and>
        Match_Status m = MatchPotential \<and> Match_CreatedAt m = Env_Now env \<and>
        Match_RunID m \<in> Run_ID ` set (loop_runs st) \<and> undecided m) \<and>
     (\<forall>n \<in> set (loop_notifications st). Notification_CustomerID n = customerID \<and> unread n \<and> Notification_CreatedAt n = Env_Now env) \<and>
     (\<forall>e \<in> set (loop_events st). Event_AggregateID e = customerID \<and>
        Event_EventType e = ''screening.completed'' \<and> Event_Actor e = actor \<and>
        Event_OccurredAt e = Env_Now env)"

lemma belongs_start [simp]: "belongs env c a loop_start"
  by (simp add: belongs_def loop_start_def)

lemma belongs_candidate:
  assumes "belongs env c a st" and "i \<in> Run_ID ` set (loop_runs st)"
  shows "belongs env c a (screen_candidate svc env c rs sub i cand st)"
  using assms by (auto simp: belongs_def screen_candidate_def undecided_def unread_def Let_def)

lemma belongs_candidates:
  "belongs env c a st \<Longrightarrow> i \<in> Run_ID ` set (loop_runs st) \<Longrightarrow>
   belongs env c a (fold (screen_candidate svc env c rs sub i) cands st)"
  by (induction cands arbitrary: st) (simp_all add: belongs_candidate)

lemma belongs_subject:
  assumes "screen_subject svc env provider c a rs k sub st = Inr st'" and "belongs env c a st"
  shows "belongs env c a st'"
proof -
  obtain cands where "Provider_Screen provider k (subject_name sub) = Inr cands"
    using assms(1) by (auto simp: screen_subject_def split: sum.splits)
  moreover define run where "run = \<lparr>Run_ID = Env_IDs env (loop_drawn st), Run_CustomerID = c,
      Run_SubjectType = subject_kind sub, Run_SubjectID = subject_id sub,
      Run_QueryName = subject_name sub, Run_Provider = Provider_Name provider,
      Run_CreatedBy = a, Run_CreatedAt = Env_Now env\<rparr>"
  moreover define st1 where "st1 = fold (screen_candidate svc env c rs sub (Run_ID run)) cands
      (st\<lparr>loop_drawn := loop_drawn st + 1, loop_runs := loop_runs st @ [run]\<rparr>)"
  moreover have "belongs env c a st1"
    unfolding st1_def
    by (rule belongs_candidates) (use assms(2) in \<open>auto simp: belongs_def\<close>)
  ultimately show ?thesis
    using assms(1) by (auto simp: screen_subject_def Let_def belongs_def)
qed

lemma belongs_subjects:
  "screen_subjects svc env provider c a rs k subs st = Inr st' \<Longrightarrow> belongs env c a st \<Longrightarrow>
   belongs env c a st'"
  by (induction subs arbitrary: k st) (auto dest: belongs_subject split: sum.splits)

end
