(* ===== verification/Ongoing_Monitoring.thy ===== *)
theory Ongoing_Monitoring
  imports Screening
begin

text \<open>
  The contract of \<^verbatim>\<open>ScreeningRepository\<close> (\<^verbatim>\<open>internal/application/screening.go\<close>) as the locale
  \<open>screening_repository\<close>, and what the screening service guarantees over any repository that
  keeps it: a screening is stored as a whole or not at all, a match is decided once, a schedule
  leased to one worker is not handed to another before the lease ends, and a worker's run leaves
  every schedule it claimed released and planned for a later time.
\<close>

text \<open>What completing a job writes into its schedule.\<close>

definition completed :: "time \<Rightarrow> time \<Rightarrow> string \<Rightarrow> ScreeningSchedule \<Rightarrow> ScreeningSchedule" where
  "completed ranAt nextRun lastError s =
     s\<lparr>Schedule_LastRunAt := Some ranAt, Schedule_LastError := lastError,
       Schedule_NextRunAt := nextRun,
       Schedule_FailureCount := (if lastError = [] then 0 else Schedule_FailureCount s + 1),
       Schedule_LeaseOwner := [], Schedule_LeaseUntil := None, Schedule_UpdatedAt := ranAt\<rparr>"

text \<open>How the worker plans the next run, from the outcome of this one.\<close>

definition rescheduled :: "time \<Rightarrow> error option \<Rightarrow> ScreeningSchedule \<Rightarrow> ScreeningSchedule" where
  "rescheduled now outcome s =
     (case outcome of
        None \<Rightarrow> completed now (now + Schedule_IntervalHours s * Hour) [] s
      | Some err \<Rightarrow>
          completed now (now + screeningRetryBackoff (Schedule_FailureCount s + 1)) (error_text err) s)"

lemma rescheduled_released [simp]:
  "Schedule_LeaseOwner (rescheduled now out s) = []"
  "Schedule_LeaseUntil (rescheduled now out s) = None"
  "Schedule_LastRunAt (rescheduled now out s) = Some now"
  "Schedule_Enabled (rescheduled now out s) = Schedule_Enabled s"
  "Schedule_IntervalHours (rescheduled now out s) = Schedule_IntervalHours s"
  by (simp_all add: rescheduled_def completed_def split: option.split)

lemma rescheduled_later:
  assumes "1 \<le> Schedule_IntervalHours s"
  shows "now + 5 * Minute \<le> Schedule_NextRunAt (rescheduled now out s)"
proof (cases out)
  case None
  then show ?thesis using assms by (simp add: rescheduled_def completed_def duration_defs)
next
  case (Some err)
  then show ?thesis
    using screening_retry.bounds(1) by (simp add: rescheduled_def completed_def)
qed

locale screening_repository =
  fixes repo :: "'r ScreeningRepository"
    and wf :: "'r \<Rightarrow> bool"
    and find_match :: "'r \<Rightarrow> string \<Rightarrow> ScreeningMatch option"
    and find_schedule :: "'r \<Rightarrow> string \<Rightarrow> ScreeningSchedule option"
    and history :: "'r \<Rightarrow> string \<Rightarrow> AuditEvent list"
  assumes save_ok: "do_SaveScreening repo runs ms ns ob es r = (Inr u, r') \<Longrightarrow>
      (distinct (map Match_ID ms) \<longrightarrow>
        (\<forall>k. find_match r' k =
          (case find (\<lambda>m. Match_ID m = k) ms of None \<Rightarrow> find_match r k | Some m \<Rightarrow> Some m))) \<and>
      (\<forall>k. history r' k = history r k @ filter (\<lambda>e. Event_AggregateID e = k) es) \<and>
      find_schedule r' = find_schedule r"
    and save_err: "do_SaveScreening repo runs ms ns ob es r = (Inl err, r') \<Longrightarrow> r' = r"
    and decide_ok: "do_DispositionScreeningMatch repo i status reason a e r = (Inr m', r') \<Longrightarrow>
      \<exists>m. find_match r i = Some m \<and> Match_Status m = MatchPotential \<and>
        m' = m\<lparr>Match_Status := status, Match_ReviewedBy := a,
               Match_ReviewedAt := Some (Event_OccurredAt e), Match_DispositionReason := reason\<rparr> \<and>
        find_match r' = (find_match r)(i \<mapsto> m')"
    and decide_err: "do_DispositionScreeningMatch repo i status reason a e r = (Inl err, r') \<Longrightarrow> r' = r"
    and claim_ok: "wf r \<Longrightarrow> do_ClaimDueScreeningSchedules repo now n owner until r = (Inr xs, r') \<Longrightarrow>
      wf r' \<and> distinct (map Schedule_CustomerID xs) \<and>
      (\<forall>x \<in> set xs. \<exists>s. find_schedule r (Schedule_CustomerID x) = Some s \<and> schedule_due now s \<and>
         x = lease owner until s \<and> find_schedule r' (Schedule_CustomerID x) = Some x) \<and>
      (\<forall>k s. find_schedule r k = Some s \<and> \<not> schedule_due now s \<longrightarrow> find_schedule r' k = Some s)"
    and claim_err: "do_ClaimDueScreeningSchedules repo now n owner until r = (Inl err, r') \<Longrightarrow> r' = r"
    and complete_refused: "(\<And>s. find_schedule r k = Some s \<Longrightarrow> Schedule_LeaseOwner s \<noteq> owner) \<Longrightarrow>
      do_CompleteScreeningSchedule repo k owner ranAt next lastError r =
        (Inl ErrScreeningScheduleNotFound, r)"
    and complete_ok: "find_schedule r k = Some s \<Longrightarrow> Schedule_LeaseOwner s = owner \<Longrightarrow>
      \<exists>r'. do_CompleteScreeningSchedule repo k owner ranAt next lastError r = (Inr (), r') \<and>
        find_schedule r' = (find_schedule r)(k \<mapsto> completed ranAt next lastError s)"
begin

section \<open>Screening and dispositions\<close>

lemma ScreenCustomer_err:
  "ScreenCustomer repo svc env provider c a r = (Inl err, r') \<Longrightarrow> r' = r"
  by (auto simp: ScreenCustomer_def Let_def dest: save_err split: if_splits sum.splits prod.splits)

lemma ScreenCustomer_okE:
  assumes "ScreenCustomer repo svc env provider c a r = (Inr result, r')"
  obtains customer cdd rs st where "do_GetCustomer repo (TrimSpace c) r = Inr customer"
    and "do_GetDueDiligence repo (TrimSpace c) r = Inr cdd"
    and "do_ListEmailNotificationRecipients repo r = Inr rs"
    and "screen_subjects svc env provider (TrimSpace c) (TrimSpace a) rs 0
           (subjects_of customer cdd) loop_start = Inr st"
    and "do_SaveScreening repo (loop_runs st) (loop_matches st) (loop_notifications st)
           (loop_outbox st) (loop_events st) r = (Inr (), r')"
    and "result = \<lparr>Result_Runs = loop_runs st, Result_Matches = loop_matches st\<rparr>"
  using assms
  by (auto simp: ScreenCustomer_def Let_def split: if_splits sum.splits prod.splits)

lemma ScreenCustomer_schedules:
  assumes "ScreenCustomer repo svc env provider c a r = (x, r')"
  shows "find_schedule r' = find_schedule r"
proof (cases x)
  case (Inl err)
  then show ?thesis using assms ScreenCustomer_err by blast
next
  case (Inr result)
  show ?thesis
    by (rule ScreenCustomer_okE [OF assms [unfolded Inr]]) (use save_ok in blast)
qed

text \<open>Every match of the result is stored as it is returned, pending a decision.\<close>

lemma ScreenCustomer_stored:
  assumes "ScreenCustomer repo svc env provider c a r = (Inr result, r')" and "inj (Env_IDs env)"
    and "m \<in> set (Result_Matches result)"
  shows "find_match r' (Match_ID m) = Some m" and "Match_Status m = MatchPotential"
    and "Match_CustomerID m = TrimSpace c" and "Match_RunID m \<in> Run_ID ` set (Result_Runs result)"
proof -
  obtain customer cdd rs st where run: "screen_subjects svc env provider (TrimSpace c) (TrimSpace a) rs 0
           (subjects_of customer cdd) loop_start = Inr st"
    and save: "do_SaveScreening repo (loop_runs st) (loop_matches st) (loop_notifications st)
           (loop_outbox st) (loop_events st) r = (Inr (), r')"
    and res: "result = \<lparr>Result_Runs = loop_runs st, Result_Matches = loop_matches st\<rparr>"
    by (rule ScreenCustomer_okE [OF assms(1)])
  have "distinct (loop_ids st)"
    by (rule distinct_loop_ids [OF ids_used_subjects [OF run ids_used_start] assms(2)])
  then have dist: "distinct (map Match_ID (loop_matches st))" by (simp add: loop_ids_def)
  have m: "m \<in> set (loop_matches st)" using assms(3) res by simp
  then have "find (\<lambda>x. Match_ID x = Match_ID m) (loop_matches st) = Some m"
    using dist by (rule find_unique)
  then show "find_match r' (Match_ID m) = Some m" using save_ok [OF save] dist by simp
  have "belongs env (TrimSpace c) (TrimSpace a) st"
    by (rule belongs_subjects [OF run belongs_start])
  then show "Match_Status m = MatchPotential" and "Match_CustomerID m = TrimSpace c"
    and "Match_RunID m \<in> Run_ID ` set (Result_Runs result)"
    using m by (auto simp: belongs_def res)
qed

lemma Disposition_err: "Disposition repo env i status reason a r = (Inl err, r') \<Longrightarrow> r' = r"
  by (auto simp: Disposition_def dest: decide_err split: sum.splits prod.splits)

lemma Disposition_okE:
  assumes "Disposition repo env i status reason a r = (Inr m', r')"
  obtains m where "find_match r (TrimSpace i) = Some m" and "Match_Status m = MatchPotential"
    and "status \<in> {MatchConfirmed, MatchFalsePositive}"
    and "m' = m\<lparr>Match_Status := status, Match_ReviewedBy := TrimSpace a,
               Match_ReviewedAt := Some (Env_Now env), Match_DispositionReason := TrimSpace reason\<rparr>"
    and "find_match r' = (find_match r)(TrimSpace i \<mapsto> m')"
proof -
  obtain e where req: "Disposition_request env i status reason a =
      Inr (TrimSpace i, TrimSpace reason, TrimSpace a, e)"
    and run: "do_DispositionScreeningMatch repo (TrimSpace i) status (TrimSpace reason) (TrimSpace a) e r
           = (Inr m', r')"
    using assms
    by (auto simp: Disposition_def split: sum.splits prod.splits elim!: Disposition_requestE)
  have "Event_OccurredAt e = Env_Now env" and "status \<in> {MatchConfirmed, MatchFalsePositive}"
    using req by (auto elim: Disposition_requestE)
  with decide_ok [OF run] show thesis using that by metis
qed

text \<open>A match is decided once.\<close>

lemma decided_once:
  assumes "Disposition repo env i status reason a r = (Inr m, r')" and "TrimSpace i' = TrimSpace i"
  shows "\<exists>err. Disposition repo env' i' status' reason' a' r' = (Inl err, r')"
proof (cases "Disposition repo env' i' status' reason' a' r'")
  case (Pair x r2)
  have "find_match r' (TrimSpace i') = Some m" and "Match_Status m \<noteq> MatchPotential"
    by (rule Disposition_okE [OF assms(1)], use assms(2) in auto)+
  then have "x \<noteq> Inr m2" for m2
    using Disposition_okE [of env' i' status' reason' a' r' m2 r2] Pair by fastforce
  then show ?thesis using Pair Disposition_err by (cases x) auto
qed

section \<open>Leases\<close>

text \<open>Within a lease no second worker gets a schedule that was handed out.\<close>

lemma lease_exclusive:
  assumes "wf r" and "do_ClaimDueScreeningSchedules repo now n owner until r = (Inr xs, r1)"
    and "do_ClaimDueScreeningSchedules repo now' n' owner' until' r1 = (Inr ys, r2)"
    and "now' < until"
  shows "Schedule_CustomerID ` set xs \<inter> Schedule_CustomerID ` set ys = {}"
proof -
  have False if "x \<in> set xs" and "y \<in> set ys" and "Schedule_CustomerID x = Schedule_CustomerID y" for x y
  proof -
    obtain s where "x = lease owner until s" and "find_schedule r1 (Schedule_CustomerID x) = Some x"
      using claim_ok [OF assms(1,2)] \<open>x \<in> set xs\<close> by blast
    moreover obtain s' where "find_schedule r1 (Schedule_CustomerID y) = Some s'"
      and "schedule_due now' s'"
      using claim_ok [OF _ assms(3)] claim_ok [OF assms(1,2)] \<open>y \<in> set ys\<close> by blast
    ultimately show False using assms(4) that(3) by (auto simp del: lease_simps(3))
  qed
  then show ?thesis by auto
qed

text \<open>Only the worker that holds the lease can complete the job.\<close>

lemma complete_foreign:
  assumes "find_schedule r k = Some s" and "Schedule_LeaseOwner s \<noteq> owner"
  shows "do_CompleteScreeningSchedule repo k owner ranAt next lastError r =
    (Inl ErrScreeningScheduleNotFound, r)"
  using assms by (intro complete_refused) simp

section \<open>A run of the worker\<close>

lemma run_schedules_ok:
  assumes "distinct (map Schedule_CustomerID xs)"
    and "\<And>x. x \<in> set xs \<Longrightarrow> find_schedule r (Schedule_CustomerID x) = Some x \<and>
           Schedule_LeaseOwner x = Service_workerID svc"
  shows "\<exists>outcome r'. run_schedules repo svc now envs providers k xs c f r =
      ((c + int (length (filter (\<lambda>x. outcome (Schedule_CustomerID x) = None) xs)),
        f + int (length (filter (\<lambda>x. outcome (Schedule_CustomerID x) \<noteq> None) xs)), None), r') \<and>
      (\<forall>x \<in> set xs. find_schedule r' (Schedule_CustomerID x) =
         Some (rescheduled now (outcome (Schedule_CustomerID x)) x)) \<and>
      (\<forall>i. i \<notin> Schedule_CustomerID ` set xs \<longrightarrow> find_schedule r' i = find_schedule r i)"
  using assms
proof (induction xs arbitrary: k c f r)
  case (Cons x xs)
  let ?i = "Schedule_CustomerID x"
  obtain run r1 where screen: "ScreenCustomer repo svc (envs k) (providers k) ?i
      ''ongoing-monitoring-worker'' r = (run, r1)" by fastforce
  define out where "out = (case run of Inl err \<Rightarrow> Some err | Inr _ \<Rightarrow> None)"
  have same: "find_schedule r1 = find_schedule r" by (rule ScreenCustomer_schedules [OF screen])
  have held: "find_schedule r1 ?i = Some x" "Schedule_LeaseOwner x = Service_workerID svc"
    using Cons.prems(2) same by simp_all
  define next_at where "next_at =
      (case run of Inl _ \<Rightarrow> now + screeningRetryBackoff (Schedule_FailureCount x + 1)
       | Inr _ \<Rightarrow> now + Schedule_IntervalHours x * Hour)"
  define msg where "msg = (case run of Inl err \<Rightarrow> error_text err | Inr _ \<Rightarrow> [])"
  have plan: "completed now next_at msg x = rescheduled now out x"
    by (cases run) (simp_all add: next_at_def msg_def out_def rescheduled_def)
  obtain r2 where complete: "do_CompleteScreeningSchedule repo ?i (Service_workerID svc) now next_at
        msg r1 = (Inr (), r2)"
    and r2: "find_schedule r2 = (find_schedule r)(?i \<mapsto> rescheduled now out x)"
    using complete_ok [OF held, of now next_at msg] unfolding plan same by blast
  have apart: "Schedule_CustomerID y \<noteq> ?i" if "y \<in> set xs" for y
    using Cons.prems(1) that by (auto simp: image_iff)
  have claimed: "find_schedule r2 (Schedule_CustomerID y) = Some y \<and>
      Schedule_LeaseOwner y = Service_workerID svc" if "y \<in> set xs" for y
    using Cons.prems(2) [of y] that apart [OF that] r2 by simp
  define c' f' where "c' = (if out = None then c + 1 else c)" and "f' = (if out = None then f else f + 1)"
  have dist: "distinct (map Schedule_CustomerID xs)" using Cons.prems(1) by simp
  obtain outcome r' where rest: "run_schedules repo svc now envs providers (k + 1) xs c' f' r2 =
      ((c' + int (length (filter (\<lambda>x. outcome (Schedule_CustomerID x) = None) xs)),
        f' + int (length (filter (\<lambda>x. outcome (Schedule_CustomerID x) \<noteq> None) xs)), None), r')"
    and finished: "\<forall>y \<in> set xs. find_schedule r' (Schedule_CustomerID y) =
         Some (rescheduled now (outcome (Schedule_CustomerID y)) y)"
    and others: "\<forall>i. i \<notin> Schedule_CustomerID ` set xs \<longrightarrow> find_schedule r' i = find_schedule r2 i"
    using Cons.IH [OF dist claimed, of "k + 1" c' f'] by blast
  have counts: "filter (\<lambda>y. P ((outcome(?i := out)) (Schedule_CustomerID y))) xs =
      filter (\<lambda>y. P (outcome (Schedule_CustomerID y))) xs" for P
    using apart by (intro filter_cong) auto
  have "run_schedules repo svc now envs providers k (x # xs) c f r =
      run_schedules repo svc now envs providers (k + 1) xs c' f' r2"
    using complete by (cases run) (simp_all add: screen out_def next_at_def msg_def c'_def f'_def)
  then have "run_schedules repo svc now envs providers k (x # xs) c f r =
      ((c + int (length (filter (\<lambda>y. (outcome(?i := out)) (Schedule_CustomerID y) = None) (x # xs))),
        f + int (length (filter (\<lambda>y. (outcome(?i := out)) (Schedule_CustomerID y) \<noteq> None) (x # xs))),
        None), r')"
    unfolding rest
    using counts [of "\<lambda>z. z = None"] counts [of "\<lambda>z. z \<noteq> None"] by (simp add: c'_def f'_def)
  moreover have "find_schedule r' (Schedule_CustomerID y) =
      Some (rescheduled now ((outcome(?i := out)) (Schedule_CustomerID y)) y)"
    if "y \<in> set (x # xs)" for y
    using that finished others apart r2 Cons.prems(1) by (cases "y \<in> set xs") auto
  moreover have "find_schedule r' i = find_schedule r i" if "i \<notin> Schedule_CustomerID ` set (x # xs)" for i
    using that others r2 by auto
  ultimately show ?case by blast
qed simp

text \<open>
  The whole call: every claimed schedule is run, released and planned again, whatever the provider
  answers; the count and the error report exactly the outcomes.
\<close>

lemma RunDue_ok:
  assumes "wf r"
    and claim: "do_ClaimDueScreeningSchedules repo now (if n < 1 then 25 else n)
        (Service_workerID svc) (now + Service_leaseDuration svc) r = (Inr xs, r1)"
  shows "\<exists>outcome failed r'. failed = length (filter (\<lambda>x. outcome (Schedule_CustomerID x) \<noteq> None) xs) \<and>
      RunDue repo svc now envs providers n r =
        ((int (length xs - failed),
          if failed = 0 then None
          else Some (OtherError (show_int (int failed) @ '' ongoing screening jobs failed''))), r') \<and>
      (\<forall>x \<in> set xs. find_schedule r' (Schedule_CustomerID x) =
         Some (rescheduled now (outcome (Schedule_CustomerID x)) x)) \<and>
      (\<forall>i. i \<notin> Schedule_CustomerID ` set xs \<longrightarrow> find_schedule r' i = find_schedule r1 i)"
proof -
  have dist: "distinct (map Schedule_CustomerID xs)" using claim_ok [OF assms(1) claim] by simp
  have held: "find_schedule r1 (Schedule_CustomerID x) = Some x \<and>
      Schedule_LeaseOwner x = Service_workerID svc" if "x \<in> set xs" for x
    using claim_ok [OF assms(1) claim] that by fastforce
  obtain outcome r' where run: "run_schedules repo svc now envs providers 0 xs 0 0 r1 =
      ((0 + int (length (filter (\<lambda>x. outcome (Schedule_CustomerID x) = None) xs)),
        0 + int (length (filter (\<lambda>x. outcome (Schedule_CustomerID x) \<noteq> None) xs)), None), r')"
    and after: "\<forall>x \<in> set xs. find_schedule r' (Schedule_CustomerID x) =
         Some (rescheduled now (outcome (Schedule_CustomerID x)) x)"
      "\<forall>i. i \<notin> Schedule_CustomerID ` set xs \<longrightarrow> find_schedule r' i = find_schedule r1 i"
    using run_schedules_ok [OF dist held, of now envs providers 0 0 0] by blast
  have "length (filter (\<lambda>x. outcome (Schedule_CustomerID x) = None) xs) =
      length xs - length (filter (\<lambda>x. outcome (Schedule_CustomerID x) \<noteq> None) xs)"
    using sum_length_filter_compl [of "\<lambda>x. outcome (Schedule_CustomerID x) \<noteq> None" xs] by simp
  then have "RunDue repo svc now envs providers n r =
        ((int (length xs - length (filter (\<lambda>x. outcome (Schedule_CustomerID x) \<noteq> None) xs)),
          if length (filter (\<lambda>x. outcome (Schedule_CustomerID x) \<noteq> None) xs) = 0 then None
          else Some (OtherError (show_int (int (length (filter
            (\<lambda>x. outcome (Schedule_CustomerID x) \<noteq> None) xs))) @ '' ongoing screening jobs failed''))), r')"
    using claim by (simp add: RunDue_def Let_def run split del: if_split)
      (simp split: if_split)
  with after show ?thesis by blast
qed

end

end
