(* ===== verification/Memory_Contracts.thy ===== *)
theory Memory_Contracts
  imports Memory Memory_Screening Onboarding Transactions Cases Due_Diligence Ongoing_Monitoring
begin

text \<open>
  The memory repository keeps the contracts of all five repository interfaces: one
  interpretation per locale, on the operations of \<^verbatim>\<open>internal/infrastructure/memory/repository.go\<close>.
  Each proof discharges the contract's laws from the effect lemmas of theories \<open>Memory\<close> and
  \<open>Memory_Screening\<close>. The well-formedness predicates say that the maps are keyed by the
  identifiers of their values and that references between maps are not dangling.
\<close>

section \<open>Customers\<close>

abbreviation mem_customer :: "Repository \<Rightarrow> string \<Rightarrow> Customer option" where
  "mem_customer r \<equiv> map_of (repo_customers r)"

interpretation mem_customers:
  customer_repository mem_customer trail mem_CreateCustomer mem_ReviewCustomer
proof
  fix i d a e r c' r'
  assume "mem_ReviewCustomer i d a e r = (Inr c', r')"
  then show "\<exists>c status. mem_customer r i = Some c \<and> Customer_CreatedBy c \<noteq> a \<and>
      Customer_Status c = CustomerPendingApproval \<and> decided_status d = Some status \<and>
      c' = c\<lparr>Customer_Status := status, Customer_ReviewedBy := a,
             Customer_ReviewedAt := Some (Event_OccurredAt e)\<rparr> \<and>
      mem_customer r' = (mem_customer r)(i \<mapsto> c') \<and>
      trail r' = (trail r)(i := trail r i @ [e])"
    by (elim mem_ReviewCustomer_okE) auto
qed (auto simp: mem_CreateCustomer_def dest: mem_ReviewCustomer_err)

section \<open>Transactions\<close>

text \<open>The transaction stored under an idempotency key.\<close>

definition mem_recorded :: "Repository \<Rightarrow> string \<Rightarrow> Transaction option" where
  "mem_recorded r k = Option.bind (map_of (repo_idempotency r) k) (map_of (repo_transactions r))"

abbreviation mem_alert :: "Repository \<Rightarrow> string \<Rightarrow> Alert option" where
  "mem_alert r \<equiv> map_of (repo_alerts r)"

definition transactions_wf :: "Repository \<Rightarrow> bool" where
  "transactions_wf r \<longleftrightarrow>
     keyed Transaction_ID (repo_transactions r) \<and> keyed Alert_ID (repo_alerts r) \<and>
     gomap_ok (repo_idempotency r) \<and>
     (\<forall>k i. map_of (repo_idempotency r) k = Some i \<longrightarrow>
        (\<exists>t. map_of (repo_transactions r) i = Some t \<and> Transaction_IdempotencyKey t = k)) \<and>
     (\<forall>i t. map_of (repo_transactions r) i = Some t \<longrightarrow>
        map_of (repo_idempotency r) (Transaction_IdempotencyKey t) = Some i) \<and>
     (\<forall>i a. mem_alert r i = Some a \<longrightarrow> Alert_TransactionID a \<in> dom (map_of (repo_transactions r)))"

definition mem_fresh :: "Repository \<Rightarrow> string \<Rightarrow> bool" where
  "mem_fresh r i \<longleftrightarrow> i \<notin> dom (mem_customer r) \<and> i \<notin> dom (map_of (repo_transactions r)) \<and>
     i \<notin> dom (mem_alert r) \<and> i \<notin> dom (map_of (repo_cases r)) \<and>
     i \<notin> dom (map_of (repo_documents r)) \<and> i \<notin> dom (map_of (repo_screeningMatches r)) \<and>
     i \<notin> dom (map_of (repo_notifications r))"

lemma transactions_wfD:
  assumes "transactions_wf r"
  shows "map_of (repo_idempotency r) k = Some i \<Longrightarrow>
      \<exists>t. map_of (repo_transactions r) i = Some t \<and> Transaction_IdempotencyKey t = k"
    and "map_of (repo_transactions r) i = Some t \<Longrightarrow>
      map_of (repo_idempotency r) (Transaction_IdempotencyKey t) = Some i"
    and "mem_alert r j = Some a \<Longrightarrow> Alert_TransactionID a \<in> dom (map_of (repo_transactions r))"
    and "keyed Transaction_ID (repo_transactions r)" and "keyed Alert_ID (repo_alerts r)"
    and "gomap_ok (repo_idempotency r)"
  using assms unfolding transactions_wf_def by blast+

lemma transactions_wf_new [simp]: "transactions_wf NewRepository"
  by (simp add: transactions_wf_def NewRepository_def)

lemma recorded_None_iff:
  "transactions_wf r \<Longrightarrow> mem_recorded r k = None \<longleftrightarrow> map_of (repo_idempotency r) k = None"
  by (cases "map_of (repo_idempotency r) k") (fastforce simp: mem_recorded_def transactions_wf_def)+

lemma recorded_SomeE:
  assumes "mem_recorded r k = Some t"
  obtains i where "map_of (repo_idempotency r) k = Some i" and "map_of (repo_transactions r) i = Some t"
  using assms by (auto simp: mem_recorded_def bind_eq_Some_conv)

lemma find_zip:
  "length as = length es \<Longrightarrow>
   map_option fst (find (\<lambda>x. P (fst x)) (zip as es)) = find P as"
  by (induction as es rule: list_induct2) auto

text \<open>What storing a new transaction does to each map.\<close>

lemma store_transaction_effects:
  assumes "length as = length es" and "distinct (map Alert_ID as)"
    and r': "r' = store_transaction t e as es r"
  shows "repo_customers r' = repo_customers r"
    and "map_of (repo_transactions r') = (map_of (repo_transactions r))(Transaction_ID t \<mapsto> t)"
    and "map_of (repo_idempotency r') =
           (map_of (repo_idempotency r))(Transaction_IdempotencyKey t \<mapsto> Transaction_ID t)"
    and "mem_alert r' k =
           (case find (\<lambda>a. Alert_ID a = k) as of None \<Rightarrow> mem_alert r k | Some a \<Rightarrow> Some a)"
    and "trail r' k = trail r k @ (if k = Transaction_ID t then [e] else []) @
           (case find (\<lambda>x. Alert_ID (fst x) = k) (zip as es) of None \<Rightarrow> [] | Some x \<Rightarrow> [snd x])"
    and "repo_cases r' = repo_cases r" and "repo_caseComments r' = repo_caseComments r"
    and "repo_cddProfiles r' = repo_cddProfiles r" and "repo_owners r' = repo_owners r"
    and "repo_documents r' = repo_documents r"
    and "repo_screeningMatches r' = repo_screeningMatches r"
    and "repo_screeningSchedules r' = repo_screeningSchedules r"
    and "repo_notifications r' = repo_notifications r"
    and "repo_notificationPreferences r' = repo_notificationPreferences r"
proof -
  have dist: "distinct (map (Alert_ID \<circ> fst) (zip as es))"
    using assms(1,2) by (metis map_fst_zip map_map)
  have eq: "find (\<lambda>a. Alert_ID a = k) as =
      map_option fst (find (\<lambda>x. Alert_ID (fst x) = k) (zip as es))"
    using find_zip [OF assms(1), of "\<lambda>a. Alert_ID a = k"] by simp
  show "mem_alert r' k =
           (case find (\<lambda>a. Alert_ID a = k) as of None \<Rightarrow> mem_alert r k | Some a \<Rightarrow> Some a)"
    unfolding r' store_transaction_def Let_def store_alerts_alerts [OF dist] eq
    by (cases "find (\<lambda>x. Alert_ID (fst x) = k) (zip as es)") simp_all
  show "trail r' k = trail r k @ (if k = Transaction_ID t then [e] else []) @
           (case find (\<lambda>x. Alert_ID (fst x) = k) (zip as es) of None \<Rightarrow> [] | Some x \<Rightarrow> [snd x])"
    unfolding r' store_transaction_def Let_def store_alerts_trail [OF dist] by simp
qed (simp_all add: r' store_transaction_def Let_def)

lemma find_key_Some: "find (\<lambda>a. f a = k) xs = Some x \<Longrightarrow> x \<in> set xs \<and> f x = k"
  by (auto simp: find_Some_iff)

lemma store_transaction_wf:
  assumes wf: "transactions_wf r" and len: "length as = length es"
    and dist: "distinct (map Alert_ID as)"
    and unused: "map_of (repo_idempotency r) (Transaction_IdempotencyKey t) = None"
    and fresh: "Transaction_ID t \<notin> dom (map_of (repo_transactions r))"
    and own: "\<And>a. a \<in> set as \<Longrightarrow> Alert_TransactionID a = Transaction_ID t"
  shows "transactions_wf (store_transaction t e as es r)"
proof -
  let ?r' = "store_transaction t e as es r"
  note eff = store_transaction_effects [OF len dist refl, of t e r]
  have "keyed Transaction_ID (repo_transactions ?r')" and "gomap_ok (repo_idempotency ?r')"
    using wf by (auto simp: transactions_wf_def store_transaction_def Let_def intro: keyed_gput)
  moreover have "keyed Alert_ID (repo_alerts ?r')"
    using wf eff(4) store_alerts_ok(1)
    by (auto simp: transactions_wf_def keyed_def store_transaction_def Let_def
        split: option.splits dest: find_key_Some)
  moreover have "Alert_TransactionID a \<in> dom (map_of (repo_transactions ?r'))"
    if "mem_alert ?r' i = Some a" for i a
    using that wf own unfolding eff(4) eff(2)
    by (auto simp: transactions_wf_def split: option.splits dest: find_key_Some)
  moreover have "\<exists>t'. map_of (repo_transactions ?r') i = Some t' \<and> Transaction_IdempotencyKey t' = k"
    if "map_of (repo_idempotency ?r') k = Some i" for k i
    using that transactions_wfD(1) [OF wf, of k i] fresh unfolding eff(2,3) by (auto split: if_splits)
  moreover have "map_of (repo_idempotency ?r') (Transaction_IdempotencyKey t') = Some i"
    if "map_of (repo_transactions ?r') i = Some t'" for i t'
    using that transactions_wfD(2) [OF wf, of i t'] unused unfolding eff(2,3) by (auto split: if_splits)
  ultimately show ?thesis by (simp add: transactions_wf_def)
qed

lemma alerts_of_new:
  assumes wf: "transactions_wf r" and "length as = length es" and "distinct (map Alert_ID as)"
    and fresh: "Transaction_ID t \<notin> dom (map_of (repo_transactions r))"
    and own: "\<And>a. a \<in> set as \<Longrightarrow> Alert_TransactionID a = Transaction_ID t"
  shows "set (alerts_of_transaction (Transaction_ID t) (store_transaction t e as es r)) = set as"
proof -
  let ?r' = "store_transaction t e as es r"
  note eff = store_transaction_effects [OF assms(2,3) refl, of t e r]
  have ok: "gomap_ok (repo_alerts ?r')"
    using wf store_alerts_ok(1)
    by (auto simp: transactions_wf_def keyed_def store_transaction_def Let_def)
  have "a \<in> set as" if "mem_alert ?r' k = Some a" and "Alert_TransactionID a = Transaction_ID t" for k a
    using that transactions_wfD(3) [OF wf, of k a] fresh unfolding eff(4)
    by (auto split: option.splits dest: find_key_Some)
  moreover have "mem_alert ?r' (Alert_ID a) = Some a" if "a \<in> set as" for a
    using that assms(3) unfolding eff(4) by (simp add: find_unique)
  ultimately show ?thesis
    using own by (auto simp: alerts_of_transaction_def elim!: in_gvalsE [OF ok] intro: in_gvalsI)
qed

interpretation mem_transactions:
  transaction_repository transactions_wf mem_fresh mem_customer mem_recorded mem_alert
    "\<lambda>r i. alerts_of_transaction i r" mem_CreateTransaction mem_CloseAlert
proof (unfold_locales, goal_cases)
  case (1 r as es t t0)
  from 1(3) obtain i where i: "map_of (repo_idempotency r) (Transaction_IdempotencyKey t) = Some i"
    and t0: "map_of (repo_transactions r) i = Some t0" by (rule recorded_SomeE)
  show ?case using mem_CreateTransaction_hit [OF 1(2) i, of t0] t0 by simp
next
  case (2 r as es t e)
  then show ?case
    by (auto simp: mem_CreateTransaction_def recorded_None_iff active_def split: option.splits)
next
  case (3 r as es t e)
  let ?r' = "store_transaction t e as es r"
  have dist: "distinct (map Alert_ID as)" and fresh: "Transaction_ID t \<notin> dom (map_of (repo_transactions r))"
    using 3 by (auto simp: mem_fresh_def)
  have unused: "map_of (repo_idempotency r) (Transaction_IdempotencyKey t) = None"
    using 3(1,3) by (simp add: recorded_None_iff)
  note eff = store_transaction_effects [OF 3(2) dist refl, of t e r]
  have "mem_CreateTransaction t e as es r = (Inr (t, as, False), ?r')"
    using 3(2,4) unused by (auto simp: mem_CreateTransaction_def active_def split: option.splits)
  moreover have "transactions_wf ?r'"
    by (rule store_transaction_wf [OF 3(1,2) dist unused fresh]) (use 3(7) in blast)
  moreover have "mem_recorded ?r' k = ((mem_recorded r)(Transaction_IdempotencyKey t \<mapsto> t)) k" for k
    using transactions_wfD(1) [OF 3(1), of k] fresh unfolding mem_recorded_def eff(2,3)
    by (cases "map_of (repo_idempotency r) k") auto
  moreover have "set (alerts_of_transaction (Transaction_ID t) ?r') = set as"
    by (rule alerts_of_new [OF 3(1,2) dist fresh]) (use 3(7) in blast)
  ultimately show ?case using eff(4) by blast
next
  case (6 r i alert alert' e a x)
  then show ?case by (auto simp: mem_CloseAlert_def Let_def)
qed (simp_all add: mem_CloseAlert_def)

section \<open>Cases\<close>

abbreviation mem_case :: "Repository \<Rightarrow> string \<Rightarrow> InvestigationCase option" where
  "mem_case r \<equiv> map_of (repo_cases r)"

definition cases_wf :: "Repository \<Rightarrow> bool" where
  "cases_wf r \<longleftrightarrow> keyed Case_ID (repo_cases r) \<and> keyed Alert_ID (repo_alerts r)"

interpretation mem_cases:
  case_repository cases_wf mem_case mem_alert mem_CreateCase mem_AssignCase mem_AddCaseComment
    mem_ResolveCase
proof (unfold_locales, goal_cases)
  case (1 r item e c r')
  then show ?case by (elim mem_CreateCase_okE) (auto dest: in_gvalsI)
next
  case (5 r i c al c' x a ce al' ae)
  have "Alert_ID al = Case_AlertID c"
    using 5(1,4) by (auto simp: cases_wf_def dest: keyedD)
  with 5 show ?case by (auto simp: mem_ResolveCase_def Let_def)
qed (auto simp: mem_AssignCase_def mem_AddCaseComment_def mem_ResolveCase_def Let_def
    dest: mem_CreateCase_err split: option.splits)

section \<open>Due diligence\<close>

interpretation mem_diligence:
  diligence_repository "\<lambda>r i. mem_customer r i \<noteq> None" "\<lambda>r. gslice (repo_owners r)"
    "\<lambda>r. map_of (repo_documents r)" mem_AddBeneficialOwner mem_AddKYCDocument mem_ReviewKYCDocument
  by unfold_locales
    (auto elim!: mem_AddBeneficialOwner_okE mem_AddKYCDocument_okE mem_ReviewKYCDocument_okE
      dest: diligence_err)

section \<open>Screening\<close>

definition mem_screening :: "Repository ScreeningRepository" where
  "mem_screening =
     \<lparr>do_GetCustomer = mem_GetCustomer, do_GetDueDiligence = mem_GetDueDiligence,
      do_SaveScreening = mem_SaveScreening, do_ListScreeningMatches = mem_ListScreeningMatches,
      do_DispositionScreeningMatch = mem_DispositionScreeningMatch,
      do_UpsertScreeningSchedule = mem_UpsertScreeningSchedule,
      do_GetScreeningSchedule = mem_GetScreeningSchedule,
      do_ClaimDueScreeningSchedules = mem_ClaimDueScreeningSchedules,
      do_CompleteScreeningSchedule = mem_CompleteScreeningSchedule,
      do_ListNotifications = mem_ListNotifications, do_ReadNotification = mem_ReadNotification,
      do_GetNotificationPreference = mem_GetNotificationPreference,
      do_UpsertNotificationPreference = mem_UpsertNotificationPreference,
      do_ListEmailNotificationRecipients = mem_ListEmailNotificationRecipients\<rparr>"

lemma mem_screening_sel [simp]:
  "do_GetCustomer mem_screening = mem_GetCustomer"
  "do_GetDueDiligence mem_screening = mem_GetDueDiligence"
  "do_SaveScreening mem_screening = mem_SaveScreening"
  "do_ListScreeningMatches mem_screening = mem_ListScreeningMatches"
  "do_DispositionScreeningMatch mem_screening = mem_DispositionScreeningMatch"
  "do_UpsertScreeningSchedule mem_screening = mem_UpsertScreeningSchedule"
  "do_GetScreeningSchedule mem_screening = mem_GetScreeningSchedule"
  "do_ClaimDueScreeningSchedules mem_screening = mem_ClaimDueScreeningSchedules"
  "do_CompleteScreeningSchedule mem_screening = mem_CompleteScreeningSchedule"
  "do_ListNotifications mem_screening = mem_ListNotifications"
  "do_ReadNotification mem_screening = mem_ReadNotification"
  "do_GetNotificationPreference mem_screening = mem_GetNotificationPreference"
  "do_UpsertNotificationPreference mem_screening = mem_UpsertNotificationPreference"
  "do_ListEmailNotificationRecipients mem_screening = mem_ListEmailNotificationRecipients"
  by (simp_all add: mem_screening_def)

abbreviation mem_match :: "Repository \<Rightarrow> string \<Rightarrow> ScreeningMatch option" where
  "mem_match r \<equiv> map_of (repo_screeningMatches r)"

abbreviation mem_schedule :: "Repository \<Rightarrow> string \<Rightarrow> ScreeningSchedule option" where
  "mem_schedule r \<equiv> map_of (repo_screeningSchedules r)"

definition schedules_wf :: "Repository \<Rightarrow> bool" where
  "schedules_wf r \<longleftrightarrow> keyed Schedule_CustomerID (repo_screeningSchedules r)"

lemma distinct_limitItems: "distinct (map f xs) \<Longrightarrow> distinct (map f (limitItems xs n))"
  by (simp add: limitItems_def take_map [symmetric])

lemma mem_Claim_contract:
  assumes wf: "schedules_wf r"
    and claim: "mem_ClaimDueScreeningSchedules now n owner until r = (Inr xs, r')"
  shows "schedules_wf r'" and "distinct (map Schedule_CustomerID xs)"
    and "\<forall>x \<in> set xs. \<exists>s. mem_schedule r (Schedule_CustomerID x) = Some s \<and> schedule_due now s \<and>
         x = lease owner until s \<and> mem_schedule r' (Schedule_CustomerID x) = Some x"
    and "\<forall>k s. mem_schedule r k = Some s \<and> \<not> schedule_due now s \<longrightarrow> mem_schedule r' k = Some s"
proof -
  note look = mem_Claim_lookup [OF claim]
  have k: "keyed Schedule_CustomerID (repo_screeningSchedules r)" using wf by (simp add: schedules_wf_def)
  have "map fst (repo_screeningSchedules r') = map fst (repo_screeningSchedules r)"
    using claim by (auto simp: mem_ClaimDueScreeningSchedules_def Let_def)
  with k show "schedules_wf r'"
    by (auto simp: schedules_wf_def keyed_def gomap_ok_def look)
  have "map Schedule_CustomerID (map (lease owner until) ys) = map Schedule_CustomerID ys" for ys
    by simp
  then have "distinct (map Schedule_CustomerID (map (lease owner until)
      (filter (schedule_due now) (gvals (repo_screeningSchedules r)))))"
    using distinct_idents [OF k] by (simp only:) (rule distinct_map_filter)
  then have "distinct (map Schedule_CustomerID (sort_slice
      (\<lambda>a b. Schedule_NextRunAt a < Schedule_NextRunAt b)
      (map (lease owner until) (filter (schedule_due now) (gvals (repo_screeningSchedules r))))))"
    by (metis distinct_map_sort_slice)
  then show "distinct (map Schedule_CustomerID xs)"
    using claim by (auto simp: mem_ClaimDueScreeningSchedules_def Let_def intro: distinct_limitItems)
  show "\<forall>x \<in> set xs. \<exists>s. mem_schedule r (Schedule_CustomerID x) = Some s \<and> schedule_due now s \<and>
         x = lease owner until s \<and> mem_schedule r' (Schedule_CustomerID x) = Some x"
  proof
    fix x
    assume "x \<in> set xs"
    then obtain s where s: "s \<in> set (gvals (repo_screeningSchedules r))" "schedule_due now s"
      "x = lease owner until s"
      using mem_Claim_result [OF claim] by blast
    moreover have "mem_schedule r (Schedule_CustomerID s) = Some s"
      using s(1) in_gvals_keyed [OF k] by simp
    ultimately show "\<exists>s. mem_schedule r (Schedule_CustomerID x) = Some s \<and> schedule_due now s \<and>
         x = lease owner until s \<and> mem_schedule r' (Schedule_CustomerID x) = Some x"
      by (auto simp: look)
  qed
  show "\<forall>k s. mem_schedule r k = Some s \<and> \<not> schedule_due now s \<longrightarrow> mem_schedule r' k = Some s"
    by (simp add: look)
qed

interpretation mem_screenings:
  screening_repository mem_screening schedules_wf mem_match mem_schedule trail
proof (unfold_locales, goal_cases)
  case (1 runs ms ns ob es r u r')
  then show ?case
    by (auto simp: mem_SaveScreening_def store_eqs gslice_fold_gappend map_of_fold_gput)
next
  case (3 i status reason a e r m' r')
  then show ?case by (auto elim!: mem_DispositionScreeningMatch_okE)
next
  case (5 r now n owner until xs r')
  then show ?case using mem_Claim_contract by simp
next
  case (7 r k owner ranAt later lastError)
  then show ?case by (auto simp: mem_CompleteScreeningSchedule_def split: option.split)
next
  case (8 r k s owner ranAt later lastError)
  then show ?case
    by (auto simp: mem_CompleteScreeningSchedule_def completed_def Let_def)
qed (auto simp: mem_SaveScreening_def mem_ClaimDueScreeningSchedules_def Let_def
    dest: mem_DispositionScreeningMatch_err)

end
