(* ===== verification/Workflow.thy ===== *)
theory Workflow
  imports Memory_Contracts
begin

text \<open>
  The system as a whole over the memory repository: the states reachable from an empty repository
  by calls of the services, in any order and with any arguments. A service method makes one
  repository call under the repository's lock, so it is one step; a screening reads first and
  saves later, so its save is a step of its own, with whatever was read before. New records get
  identifiers no record of the repository has (theory \<open>Identifiers\<close> shows they are random).
  \<open>stepE\<close> sorts the steps into the few kinds of change that matter to customers, transactions,
  alerts and cases; the invariants are proved over these kinds.
\<close>

section \<open>Steps\<close>

abbreviation fresh_ids :: "Repository \<Rightarrow> call_env \<Rightarrow> bool" where
  "fresh_ids \<equiv> mem_transactions.fresh_ids"

lemma fresh_ids_def: "fresh_ids r env \<longleftrightarrow> inj (Env_IDs env) \<and> (\<forall>n. mem_fresh r (Env_IDs env n))"
  by (simp add: mem_transactions.fresh_ids_def)

inductive step :: "Repository \<Rightarrow> Repository \<Rightarrow> bool" where
  onboard: "fresh_ids r env \<Longrightarrow> Onboard mem_CreateCustomer env cmd r = (x, r') \<Longrightarrow> step r r'"
| review: "Review mem_ReviewCustomer env i d a reason r = (x, r') \<Longrightarrow> step r r'"
| ingest: "fresh_ids r env \<Longrightarrow> Ingest mem_CreateTransaction env icmd r = (y, r') \<Longrightarrow> step r r'"
| close_alert: "CloseAlert mem_CloseAlert env i a reason r = (z, r') \<Longrightarrow> step r r'"
| create_case: "fresh_ids r env \<Longrightarrow> Create mem_CreateCase env al title p a r = (u, r') \<Longrightarrow> step r r'"
| assign_case: "Assign mem_AssignCase env i assignee a r = (u, r') \<Longrightarrow> step r r'"
| comment_case: "Comment mem_AddCaseComment env i body a r = (v, r') \<Longrightarrow> step r r'"
| resolve_case: "Resolve mem_ResolveCase env i text a r = (u, r') \<Longrightarrow> step r r'"
| update_profile: "UpdateProfile mem_UpsertCDDProfile env prof a r = (w, r') \<Longrightarrow> step r r'"
| add_owner: "AddOwner mem_AddBeneficialOwner env own a r = (o', r') \<Longrightarrow> step r r'"
| add_document: "AddDocument mem_AddKYCDocument env doc a r = (d', r') \<Longrightarrow> step r r'"
| review_document: "ReviewDocument mem_ReviewKYCDocument env i status a r = (d', r') \<Longrightarrow> step r r'"
| configure_schedule: "ConfigureSchedule mem_screening env i enabled hours a r = (s', r') \<Longrightarrow> step r r'"
| claim: "mem_ClaimDueScreeningSchedules now n owner until r = (ss, r') \<Longrightarrow> step r r'"
| complete: "mem_CompleteScreeningSchedule i owner ranAt nextRun err r = (un, r') \<Longrightarrow> step r r'"
| save_screening: "fresh_ids r env \<Longrightarrow> mem_customer r i \<noteq> None \<Longrightarrow>
    screen_subjects svc env provider i a rs 0 subs loop_start = Inr st \<Longrightarrow>
    mem_SaveScreening (loop_runs st) (loop_matches st) (loop_notifications st) (loop_outbox st)
      (loop_events st) r = (un, r') \<Longrightarrow> step r r'"
| dispose: "Disposition mem_screening env i status reason a r = (m', r') \<Longrightarrow> step r r'"
| read_notification: "ReadNotification mem_screening env i a r = (n', r') \<Longrightarrow> step r r'"
| preference: "ConfigureNotificationPreference mem_screening parse env a email on r = (pr, r') \<Longrightarrow>
    step r r'"

inductive reachable :: "Repository \<Rightarrow> bool" where
  start: "reachable NewRepository"
| more: "reachable r \<Longrightarrow> step r r' \<Longrightarrow> reachable r'"

section \<open>Well-formed repositories\<close>

definition repo_wf :: "Repository \<Rightarrow> bool" where
  "repo_wf r \<longleftrightarrow> transactions_wf r \<and> schedules_wf r \<and> keyed Customer_ID (repo_customers r) \<and>
     keyed Case_ID (repo_cases r) \<and> keyed Document_ID (repo_documents r) \<and>
     keyed Match_ID (repo_screeningMatches r) \<and> keyed Notification_ID (repo_notifications r) \<and>
     (\<forall>i d. map_of (repo_documents r) i = Some d \<longrightarrow> mem_customer r (Document_CustomerID d) \<noteq> None) \<and>
     (\<forall>i m. mem_match r i = Some m \<longrightarrow> mem_customer r (Match_CustomerID m) \<noteq> None)"

lemma repo_wfD:
  assumes "repo_wf r"
  shows "transactions_wf r" and "schedules_wf r" and "keyed Customer_ID (repo_customers r)"
    and "keyed Case_ID (repo_cases r)" and "keyed Alert_ID (repo_alerts r)"
    and "keyed Transaction_ID (repo_transactions r)" and "keyed Document_ID (repo_documents r)"
    and "keyed Match_ID (repo_screeningMatches r)" and "keyed Notification_ID (repo_notifications r)"
    and "cases_wf r"
    and "map_of (repo_documents r) i = Some d \<Longrightarrow> mem_customer r (Document_CustomerID d) \<noteq> None"
    and "mem_match r i = Some m \<Longrightarrow> mem_customer r (Match_CustomerID m) \<noteq> None"
  using assms by (auto simp: repo_wf_def transactions_wf_def cases_wf_def)

lemma repo_wf_new: "repo_wf NewRepository"
  by (simp add: repo_wf_def transactions_wf_def schedules_wf_def NewRepository_def)

text \<open>
  A side step leaves customers, transactions, alerts and cases alone; trails of customers may
  grow, by events about that customer other than its submission and decision.
\<close>

definition side_event :: "AuditEvent \<Rightarrow> bool" where
  "side_event e \<longleftrightarrow> \<not> prefix ''customer.'' (Event_EventType e)"

definition grows :: "Repository \<Rightarrow> Repository \<Rightarrow> bool" where
  "grows r r' \<longleftrightarrow> (\<forall>k. \<exists>es. trail r' k = trail r k @ es \<and>
     (\<forall>e \<in> set es. Event_AggregateID e = k \<and> side_event e) \<and>
     (es \<noteq> [] \<longrightarrow> mem_customer r k \<noteq> None))"

definition side :: "Repository \<Rightarrow> Repository \<Rightarrow> bool" where
  "side r r' \<longleftrightarrow> repo_customers r' = repo_customers r \<and> repo_transactions r' = repo_transactions r \<and>
     repo_idempotency r' = repo_idempotency r \<and> repo_alerts r' = repo_alerts r \<and>
     repo_cases r' = repo_cases r \<and> repo_caseComments r' = repo_caseComments r \<and>
     repo_wf r' \<and> grows r r'"

lemma grows_same: "repo_events r' = repo_events r \<Longrightarrow> grows r r'"
  by (simp add: grows_def)

lemma grows_one:
  assumes "repo_events r' = gappend k e (repo_events r)" and "Event_AggregateID e = k"
    and "side_event e" and "mem_customer r k \<noteq> None"
  shows "grows r r'"
  unfolding grows_def
proof
  fix j
  show "\<exists>es. trail r' j = trail r j @ es \<and> (\<forall>e \<in> set es. Event_AggregateID e = j \<and> side_event e) \<and>
      (es \<noteq> [] \<longrightarrow> mem_customer r j \<noteq> None)"
    using assms by (cases "j = k") auto
qed

lemma side_refl: "repo_wf r \<Longrightarrow> side r r"
  by (simp add: side_def grows_same)

section \<open>Side steps\<close>

lemmas wf_defs = repo_wf_def transactions_wf_def schedules_wf_def

lemma keyed_update: "keyed f m \<Longrightarrow> map_of m k = Some v \<Longrightarrow> f v' = f v \<Longrightarrow> keyed f (gput k v' m)"
  by (auto simp: keyed_def)

lemma UpdateProfile_side:
  assumes wf: "repo_wf r" and "UpdateProfile mem_UpsertCDDProfile env p a r = (w, r')"
  shows "side r r'"
proof (cases w)
  case (Inl err)
  then have "r' = r"
    using assms(2) diligence_err(1) by (auto simp: UpdateProfile_def split: sum.splits prod.splits)
  then show ?thesis using side_refl [OF wf] by simp
next
  case (Inr q)
  obtain p' e where req: "UpdateProfile_request env p a = Inr (p', e)"
    and run: "mem_UpsertCDDProfile p' e r = (Inr q, r')"
    using assms(2) Inr by (auto simp: UpdateProfile_def split: sum.splits prod.splits)
  have ev: "Event_AggregateID e = Profile_CustomerID p'" "side_event e"
    using req by (auto simp: side_event_def elim: UpdateProfile_requestE)
  show ?thesis
    by (rule mem_UpsertCDDProfile_okE [OF run])
      (use wf ev in \<open>auto simp: side_def wf_defs intro!: grows_one\<close>)
qed

lemma AddOwner_side:
  assumes wf: "repo_wf r" and "AddOwner mem_AddBeneficialOwner env p a r = (w, r')"
  shows "side r r'"
proof (cases w)
  case (Inl err)
  then have "r' = r"
    using assms(2) diligence_err(2) by (auto simp: AddOwner_def split: sum.splits prod.splits)
  then show ?thesis using side_refl [OF wf] by simp
next
  case (Inr q)
  obtain p' e where req: "AddOwner_request env p a = Inr (p', e)"
    and run: "mem_AddBeneficialOwner p' e r = (Inr q, r')"
    using assms(2) Inr by (auto simp: AddOwner_def split: sum.splits prod.splits)
  have ev: "Event_AggregateID e = Owner_CustomerID p'" "side_event e"
    using req by (auto simp: side_event_def elim: AddOwner_requestE)
  show ?thesis
    by (rule mem_AddBeneficialOwner_okE [OF run])
      (use wf ev in \<open>auto simp: side_def wf_defs intro!: grows_one\<close>)
qed

lemma AddDocument_side:
  assumes wf: "repo_wf r" and "AddDocument mem_AddKYCDocument env d a r = (w, r')"
  shows "side r r'"
proof (cases w)
  case (Inl err)
  then have "r' = r"
    using assms(2) diligence_err(3) by (auto simp: AddDocument_def split: sum.splits prod.splits)
  then show ?thesis using side_refl [OF wf] by simp
next
  case (Inr q)
  obtain d' e where req: "AddDocument_request env d a = Inr (d', e)"
    and run: "mem_AddKYCDocument d' e r = (Inr q, r')"
    using assms(2) Inr by (auto simp: AddDocument_def split: sum.splits prod.splits)
  have ev: "Event_AggregateID e = Document_CustomerID d'" "side_event e"
    using req by (auto simp: side_event_def elim: AddDocument_requestE)
  show ?thesis
    by (rule mem_AddKYCDocument_okE [OF run])
      (use wf ev in \<open>auto simp: side_def wf_defs keyed_gput intro!: grows_one\<close>)
qed

lemma ReviewDocument_side:
  assumes wf: "repo_wf r" and "ReviewDocument mem_ReviewKYCDocument env i status a r = (w, r')"
  shows "side r r'"
proof (cases w)
  case (Inl err)
  then have "r' = r"
    using assms(2) diligence_err(4) by (auto simp: ReviewDocument_def split: sum.splits prod.splits)
  then show ?thesis using side_refl [OF wf] by simp
next
  case (Inr q)
  obtain i' a' e where run: "mem_ReviewKYCDocument i' status a' e r = (Inr q, r')"
    and ev: "side_event e"
    using assms(2) Inr
    by (auto simp: ReviewDocument_def side_event_def split: sum.splits prod.splits
        elim!: ReviewDocument_requestE)
  show ?thesis
  proof (rule mem_ReviewKYCDocument_okE [OF run])
    fix d
    assume d: "map_of (repo_documents r) i' = Some d"
      and "q = d\<lparr>Document_Status := status, Document_VerifiedBy := a',
                 Document_VerifiedAt := Some (Event_OccurredAt e)\<rparr>"
      and "r' = append_event (Document_CustomerID d) (e\<lparr>Event_AggregateID := Document_CustomerID d\<rparr>)
                  (r\<lparr>repo_documents := gput i' q (repo_documents r)\<rparr>)"
    moreover have "mem_customer r (Document_CustomerID d) \<noteq> None" by (rule repo_wfD(11) [OF wf d])
    moreover have "keyed Document_ID (gput i' q (repo_documents r))"
      by (rule keyed_update [OF repo_wfD(7) [OF wf] d]) (simp add: calculation(2))
    ultimately show ?thesis
      using wf ev by (auto simp: side_def wf_defs side_event_def intro!: grows_one)
  qed
qed

lemma ConfigureSchedule_side:
  assumes wf: "repo_wf r" and "ConfigureSchedule mem_screening env i enabled hours a r = (w, r')"
  shows "side r r'"
proof (cases "r' = r")
  case True
  then show ?thesis using side_refl [OF wf] by simp
next
  case False
  then obtain s e where run: "mem_UpsertScreeningSchedule s e r = (w, r')"
    and ev: "Event_AggregateID e = Schedule_CustomerID s" "side_event e"
    using assms(2)
    by (auto simp: ConfigureSchedule_def side_event_def Let_def split: if_splits sum.splits)
  obtain s' where ok: "w = Inr s'" using run False schedule_err(1) by (cases w) auto
  show ?thesis
    by (rule mem_UpsertScreeningSchedule_okE [OF run [unfolded ok]])
      (use wf ev in \<open>auto simp: side_def wf_defs keyed_gput intro!: grows_one split: option.split\<close>)
qed

lemma claim_side:
  assumes wf: "repo_wf r" and run: "mem_ClaimDueScreeningSchedules now n owner until r = (ss, r')"
  shows "side r r'"
proof -
  obtain xs where ok: "ss = Inr xs" using run by (auto simp: mem_ClaimDueScreeningSchedules_def Let_def)
  obtain m where r': "r' = r\<lparr>repo_screeningSchedules := m\<rparr>"
    using run by (auto simp: mem_ClaimDueScreeningSchedules_def Let_def)
  have "schedules_wf r'" using mem_Claim_contract(1) [OF repo_wfD(2) [OF wf] run [unfolded ok]] .
  then show ?thesis using wf unfolding r' by (simp add: side_def wf_defs grows_same)
qed

lemma complete_side:
  assumes wf: "repo_wf r"
    and run: "mem_CompleteScreeningSchedule i owner ranAt nextRun err r = (un, r')"
  shows "side r r'"
proof (cases un)
  case (Inl x)
  then show ?thesis using run schedule_err(2) side_refl [OF wf] by blast
next
  case (Inr x)
  show ?thesis
    by (rule mem_CompleteScreeningSchedule_okE [OF run [unfolded Inr]])
      (use wf in \<open>auto simp: side_def wf_defs intro!: grows_same keyed_update\<close>)
qed

lemma keyed_fold_gput: "keyed f m \<Longrightarrow> keyed f (fold (\<lambda>x. gput (f x) x) xs m)"
  by (induction xs arbitrary: m) (auto intro: keyed_gput)

lemma map_of_fold_gput_cases:
  "map_of (fold (\<lambda>x. gput (f x) x) xs m) k = Some v \<Longrightarrow> v \<in> set xs \<or> map_of m k = Some v"
  by (induction xs arbitrary: m) (auto split: if_splits, fastforce split: if_splits)

lemma save_side:
  assumes wf: "repo_wf r" and known: "mem_customer r i \<noteq> None"
    and screened: "screen_subjects svc env provider i a rs 0 subs loop_start = Inr st"
    and run: "mem_SaveScreening (loop_runs st) (loop_matches st) (loop_notifications st)
      (loop_outbox st) (loop_events st) r = (un, r')"
  shows "side r r'"
proof -
  have bel: "belongs env i a st" by (rule belongs_subjects [OF screened belongs_start])
  have r': "r' = store_events (loop_events st) (store_notifications (loop_notifications st)
      (store_matches (loop_matches st) r))"
    using run by (simp add: mem_SaveScreening_def)
  have "\<forall>j m. mem_match r' j = Some m \<longrightarrow> mem_customer r (Match_CustomerID m) \<noteq> None"
    using known bel repo_wfD(12) [OF wf]
    by (fastforce simp: r' store_eqs belongs_def dest: map_of_fold_gput_cases)
  moreover have "grows r r'"
    unfolding grows_def
  proof
    fix k
    show "\<exists>es. trail r' k = trail r k @ es \<and>
      (\<forall>e \<in> set es. Event_AggregateID e = k \<and> side_event e) \<and>
      (es \<noteq> [] \<longrightarrow> mem_customer r k \<noteq> None)"
      using known bel
      by (intro exI [of _ "filter (\<lambda>e. Event_AggregateID e = k) (loop_events st)"])
        (auto simp: r' store_eqs gslice_fold_gappend belongs_def filter_empty_conv side_event_def)
  qed
  ultimately show ?thesis
    using wf by (simp add: r' store_eqs side_def wf_defs keyed_fold_gput)
qed

lemma dispose_side:
  assumes wf: "repo_wf r" and "Disposition mem_screening env i status reason a r = (w, r')"
  shows "side r r'"
proof (cases w)
  case (Inl err)
  then show ?thesis using assms(2) mem_screenings.Disposition_err side_refl [OF wf] by blast
next
  case (Inr q)
  obtain i' x a' e where run: "mem_DispositionScreeningMatch i' status x a' e r = (Inr q, r')"
    and ev: "side_event e"
    using assms(2) Inr
    by (auto simp: Disposition_def side_event_def split: sum.splits prod.splits
        elim!: Disposition_requestE)
  show ?thesis
  proof (rule mem_DispositionScreeningMatch_okE [OF run])
    fix m
    assume m: "mem_match r i' = Some m"
      and q: "q = m\<lparr>Match_Status := status, Match_ReviewedBy := a',
                 Match_ReviewedAt := Some (Event_OccurredAt e), Match_DispositionReason := x\<rparr>"
      and r': "r' = append_event (Match_CustomerID m) (e\<lparr>Event_AggregateID := Match_CustomerID m\<rparr>)
                  (r\<lparr>repo_screeningMatches := gput i' q (repo_screeningMatches r)\<rparr>)"
    have known: "mem_customer r (Match_CustomerID m) \<noteq> None" by (rule repo_wfD(12) [OF wf m])
    have "keyed Match_ID (gput i' q (repo_screeningMatches r))"
      by (rule keyed_update [OF repo_wfD(8) [OF wf] m]) (simp add: q)
    with wf known ev show ?thesis
      unfolding r' by (auto simp: side_def wf_defs q side_event_def intro!: grows_one)
  qed
qed

lemma read_side:
  assumes wf: "repo_wf r" and "ReadNotification mem_screening env i a r = (w, r')"
  shows "side r r'"
proof (cases "r' = r")
  case True
  then show ?thesis using side_refl [OF wf] by simp
next
  case False
  then obtain n where n: "map_of (repo_notifications r) (TrimSpace i) = Some n"
    and r': "r' = r\<lparr>repo_notifications := gput (TrimSpace i) (n\<lparr>Notification_Read := True,
        Notification_ReadBy := TrimSpace a, Notification_ReadAt := Some (Env_Now env)\<rparr>)
        (repo_notifications r)\<rparr>"
    using assms(2)
    by (auto simp: ReadNotification_def mem_ReadNotification_def Let_def split: if_splits option.splits)
  show ?thesis
    using wf keyed_update [OF repo_wfD(9) [OF wf] n]
    unfolding r' by (simp add: side_def wf_defs grows_same)
qed

lemma preference_side:
  assumes wf: "repo_wf r"
    and "ConfigureNotificationPreference mem_screening parse env a email on r = (w, r')"
  shows "side r r'"
proof (cases "r' = r")
  case True
  then show ?thesis using side_refl [OF wf] by simp
next
  case False
  then obtain m where r': "r' = r\<lparr>repo_notificationPreferences := m\<rparr>"
    using assms(2)
    by (auto simp: ConfigureNotificationPreference_def mem_UpsertNotificationPreference_def Let_def
        split: if_splits)
  show ?thesis using wf unfolding r' by (simp add: side_def wf_defs grows_same)
qed

lemmas side_steps = UpdateProfile_side AddOwner_side AddDocument_side ReviewDocument_side
  ConfigureSchedule_side claim_side complete_side save_side dispose_side read_side preference_side

section \<open>The kinds of change\<close>

text \<open>The event type of a decision.\<close>

definition decision_event :: "CustomerStatus \<Rightarrow> string" where
  "decision_event status =
     (if status = CustomerActive then ''customer.approved'' else ''customer.rejected'')"

inductive change :: "Repository \<Rightarrow> Repository \<Rightarrow> bool" where
  side: "side r r' \<Longrightarrow> change r r'"
| submit: "fresh_ids r env \<Longrightarrow> Onboard_request env cmd = Inr (c, e) \<Longrightarrow>
    r' = append_event (Customer_ID c) e
           (r\<lparr>repo_customers := gput (Customer_ID c) c (repo_customers r)\<rparr>) \<Longrightarrow> change r r'"
| decide: "mem_customer r i = Some c \<Longrightarrow> Customer_CreatedBy c \<noteq> actor \<Longrightarrow> actor \<noteq> [] \<Longrightarrow>
    Customer_Status c = CustomerPendingApproval \<Longrightarrow> status \<in> {CustomerActive, CustomerRejected} \<Longrightarrow>
    Event_AggregateID e = i \<Longrightarrow> Event_Actor e = actor \<Longrightarrow> Event_EventType e = decision_event status \<Longrightarrow>
    c' = c\<lparr>Customer_Status := status, Customer_ReviewedBy := actor,
           Customer_ReviewedAt := Some (Event_OccurredAt e)\<rparr> \<Longrightarrow>
    r' = append_event i e (r\<lparr>repo_customers := gput i c' (repo_customers r)\<rparr>) \<Longrightarrow> change r r'"
| ingest: "fresh_ids r env \<Longrightarrow> Ingest_request env icmd = Inr (t, te, as, es) \<Longrightarrow>
    map_of (repo_idempotency r) (Transaction_IdempotencyKey t) = None \<Longrightarrow>
    active (mem_customer r (Transaction_CustomerID t)) \<Longrightarrow>
    r' = store_transaction t te as es r \<Longrightarrow> change r r'"
| close: "mem_alert r i = Some al \<Longrightarrow> Alert_Status al = AlertOpen \<Longrightarrow> Event_AggregateID e = i \<Longrightarrow>
    Event_EventType e = ''alert.closed'' \<Longrightarrow> Event_Actor e = actor \<Longrightarrow> actor \<noteq> [] \<Longrightarrow> why \<noteq> [] \<Longrightarrow>
    al' = al\<lparr>Alert_Status := AlertClosed, Alert_ClosedAt := Some (Event_OccurredAt e),
             Alert_ClosedBy := actor, Alert_ClosureReason := why\<rparr> \<Longrightarrow>
    r' = append_event i e (r\<lparr>repo_alerts := gput i al' (repo_alerts r)\<rparr>) \<Longrightarrow> change r r'"
| open_case: "fresh_ids r env \<Longrightarrow> Case_ID cs = Env_IDs env 0 \<Longrightarrow> mem_alert r (Case_AlertID cs) = Some al \<Longrightarrow>
    Alert_Status al = AlertOpen \<Longrightarrow> Case_Status cs = CaseOpen \<Longrightarrow>
    Case_CustomerID cs = Alert_CustomerID al \<Longrightarrow>
    (\<And>k c. mem_case r k = Some c \<Longrightarrow> Case_AlertID c \<noteq> Case_AlertID cs) \<Longrightarrow>
    Event_AggregateID e = Case_ID cs \<Longrightarrow> Event_EventType e = ''case.created'' \<Longrightarrow>
    r' = append_event (Case_ID cs) e (r\<lparr>repo_cases := gput (Case_ID cs) cs (repo_cases r)\<rparr>) \<Longrightarrow>
    change r r'"
| touch_case: "mem_case r i = Some cs \<Longrightarrow> Case_Status cs \<noteq> CaseResolved \<Longrightarrow>
    Case_ID cs' = i \<Longrightarrow> Case_AlertID cs' = Case_AlertID cs \<Longrightarrow>
    Case_CustomerID cs' = Case_CustomerID cs \<Longrightarrow> Case_Status cs' \<in> {Case_Status cs, CaseInProgress} \<Longrightarrow>
    Event_AggregateID e = i \<Longrightarrow>
    r' = append_event i e (r\<lparr>repo_cases := gput i cs' (repo_cases r), repo_caseComments := m\<rparr>) \<Longrightarrow>
    change r r'"
| resolve: "mem_case r i = Some cs \<Longrightarrow> Case_Status cs \<noteq> CaseResolved \<Longrightarrow>
    mem_alert r (Case_AlertID cs) = Some al \<Longrightarrow> Alert_Status al = AlertOpen \<Longrightarrow>
    Alert_ID al = Case_AlertID cs \<Longrightarrow> actor \<noteq> [] \<Longrightarrow> why \<noteq> [] \<Longrightarrow>
    Event_AggregateID ce = i \<Longrightarrow> Event_EventType ce = ''case.resolved'' \<Longrightarrow> Event_Actor ce = actor \<Longrightarrow>
    Event_AggregateID ae = Case_AlertID cs \<Longrightarrow> Event_EventType ae = ''alert.closed'' \<Longrightarrow>
    Event_Actor ae = actor \<Longrightarrow> Event_OccurredAt ae = Event_OccurredAt ce \<Longrightarrow>
    cs' = cs\<lparr>Case_Status := CaseResolved, Case_Resolution := why, Case_ResolvedBy := actor,
             Case_ResolvedAt := Some (Event_OccurredAt ce), Case_UpdatedAt := Event_OccurredAt ce\<rparr> \<Longrightarrow>
    al' = al\<lparr>Alert_Status := AlertClosed, Alert_ClosedAt := Some (Event_OccurredAt ce),
             Alert_ClosedBy := actor, Alert_ClosureReason := why\<rparr> \<Longrightarrow>
    r' = append_event (Case_AlertID cs) ae (append_event i ce
           (r\<lparr>repo_cases := gput i cs' (repo_cases r),
              repo_alerts := gput (Case_AlertID cs) al' (repo_alerts r)\<rparr>)) \<Longrightarrow> change r r'"

text \<open>Every call of a service is one of these changes.\<close>

lemma Onboard_change:
  assumes wf: "repo_wf r" and "fresh_ids r env" and run: "Onboard mem_CreateCustomer env cmd r = (x, r')"
  shows "change r r'"
proof (cases x)
  case (Inl err)
  then show ?thesis using run mem_customers.Onboard_err side_refl [OF wf] change.side by blast
next
  case (Inr c)
  obtain e u where "Onboard_request env cmd = Inr (c, e)" and "mem_CreateCustomer c e r = (Inr u, r')"
    using Onboard_okE [OF run [unfolded Inr]] by metis
  then show ?thesis using assms(2) by (intro change.submit) (auto simp: mem_CreateCustomer_def)
qed

lemma decided_event:
  assumes "decided_status d = Some status" and "d \<in> {ReviewApprove, ReviewReject}"
  shows "status \<in> {CustomerActive, CustomerRejected}"
    and "(if d = ReviewReject then ''customer.rejected'' else ''customer.approved'') = decision_event status"
  using assms by (auto simp: decision_event_def)

lemma Review_change:
  assumes wf: "repo_wf r" and run: "Review mem_ReviewCustomer env i d a reason r = (x, r')"
  shows "change r r'"
proof (cases x)
  case (Inl err)
  then show ?thesis using run mem_customers.Review_err side_refl [OF wf] change.side by blast
next
  case (Inr c)
  obtain e where req: "Review_request env i d a reason = Inr (TrimSpace i, TrimSpace a, e)"
    and rev: "mem_ReviewCustomer (TrimSpace i) d (TrimSpace a) e r = (Inr c, r')"
    using Review_okE [OF run [unfolded Inr]] by metis
  have ev: "Event_AggregateID e = TrimSpace i" "Event_Actor e = TrimSpace a" "TrimSpace a \<noteq> []"
    "d \<in> {ReviewApprove, ReviewReject}"
    "Event_EventType e = (if d = ReviewReject then ''customer.rejected'' else ''customer.approved'')"
    using req by (auto elim: Review_requestE)
  show ?thesis
  proof (rule mem_ReviewCustomer_okE [OF rev])
    fix c0 status
    assume "mem_customer r (TrimSpace i) = Some c0" and "Customer_CreatedBy c0 \<noteq> TrimSpace a"
      and "Customer_Status c0 = CustomerPendingApproval" and st: "decided_status d = Some status"
      and "c = c0\<lparr>Customer_Status := status, Customer_ReviewedBy := TrimSpace a,
                 Customer_ReviewedAt := Some (Event_OccurredAt e)\<rparr>"
      and "r' = append_event (TrimSpace i) e
                (r\<lparr>repo_customers := gput (TrimSpace i) c (repo_customers r)\<rparr>)"
    then show ?thesis
      using ev decided_event [OF st ev(4)] by (intro change.decide) auto
  qed
qed

lemma Ingest_change:
  assumes wf: "repo_wf r" and "fresh_ids r env"
    and run: "Ingest mem_CreateTransaction env icmd r = (x, r')"
  shows "change r r'"
proof (cases "r' = r")
  case True
  then show ?thesis using side_refl [OF wf] change.side by simp
next
  case False
  then obtain t e as es y where req: "Ingest_request env icmd = Inr (t, e, as, es)"
    and create: "mem_CreateTransaction t e as es r = (y, r')"
    using run by (auto simp: Ingest_def split: sum.splits prod.splits)
  obtain t' as' b where y: "y = Inr (t', as', b)"
    using create False mem_CreateTransaction_err by (cases y) auto
  have "\<not> b" using create False y by (auto elim: mem_CreateTransaction_replayE)
  with create y have "mem_CreateTransaction t e as es r = (Inr (t', as', False), r')" by simp
  then show ?thesis
    by (rule mem_CreateTransaction_newE)
      (use req assms(2) in \<open>auto simp: active_def intro: change.ingest\<close>)
qed

lemma CloseAlert_change:
  assumes wf: "repo_wf r" and run: "CloseAlert mem_CloseAlert env i a why r = (x, r')"
  shows "change r r'"
proof (cases "r' = r")
  case True
  then show ?thesis using side_refl [OF wf] change.side by simp
next
  case False
  then obtain e where req: "CloseAlert_request env i a why = Inr (TrimSpace i, TrimSpace a, TrimSpace why, e)"
    and close: "mem_CloseAlert (TrimSpace i) (TrimSpace a) (TrimSpace why) e r = (x, r')"
    using run by (auto simp: CloseAlert_def split: sum.splits prod.splits elim!: CloseAlert_requestE)
  have ev: "Event_AggregateID e = TrimSpace i" "Event_Actor e = TrimSpace a" "TrimSpace a \<noteq> []"
    "TrimSpace why \<noteq> []" "Event_EventType e = ''alert.closed''"
    using req by (auto elim: CloseAlert_requestE)
  obtain al where "x = Inr al" using close False mem_CloseAlert_err by (cases x) auto
  with close show ?thesis
    by (auto elim!: mem_CloseAlert_okE intro!: change.close [OF _ _ ev(1,5,2,3,4) refl refl])
qed

lemma Create_change:
  assumes wf: "repo_wf r" and fresh: "fresh_ids r env"
    and run: "Create mem_CreateCase env al title p a r = (x, r')"
  shows "change r r'"
proof (cases x)
  case (Inl err)
  then show ?thesis using run mem_cases.Create_err side_refl [OF wf] change.side by blast
next
  case (Inr c)
  obtain item e where req: "Create_request env al title p a = Inr (item, e)"
    and create: "mem_CreateCase item e r = (Inr c, r')"
    using run Inr by (auto simp: Create_def split: sum.splits prod.splits)
  have item: "Case_ID item = Env_IDs env 0" "Case_Status item = CaseOpen"
    "Event_AggregateID e = Case_ID item" "Event_EventType e = ''case.created''"
    using req by (auto elim: Create_requestE)
  show ?thesis
  proof (rule mem_CreateCase_okE [OF create])
    fix alert
    assume "mem_alert r (Case_AlertID item) = Some alert" and "Alert_Status alert = AlertOpen"
      and none: "\<forall>c \<in> set (gvals (repo_cases r)). Case_AlertID c \<noteq> Case_AlertID item"
      and "c = item\<lparr>Case_CustomerID := Alert_CustomerID alert\<rparr>"
      and "r' = append_event (Case_ID item) e (r\<lparr>repo_cases := gput (Case_ID item) c (repo_cases r)\<rparr>)"
    moreover have "mem_case r k = Some c' \<Longrightarrow> Case_AlertID c' \<noteq> Case_AlertID item" for k c'
      using none by (auto dest: in_gvalsI)
    ultimately show ?thesis
      using item by (intro change.open_case [OF fresh, of c alert]) auto
  qed
qed

lemma Assign_change:
  assumes wf: "repo_wf r" and run: "Assign mem_AssignCase env i assignee a r = (x, r')"
  shows "change r r'"
proof (cases "r' = r")
  case True
  then show ?thesis using side_refl [OF wf] change.side by simp
next
  case False
  then obtain b e where ev: "Event_AggregateID e = TrimSpace i"
    and assign: "mem_AssignCase (TrimSpace i) b e r = (x, r')"
    using run by (auto simp: Assign_def split: sum.splits prod.splits elim!: Assign_requestE)
  obtain c where c: "x = Inr c" using assign False mem_AssignCase_err by (cases x) auto
  show ?thesis
  proof (rule mem_AssignCase_okE [OF assign [unfolded c]])
    fix c0
    assume c0: "mem_case r (TrimSpace i) = Some c0" and "Case_Status c0 \<noteq> CaseResolved"
      and "c = c0\<lparr>Case_AssignedTo := b, Case_Status := CaseInProgress,
                 Case_UpdatedAt := Event_OccurredAt e\<rparr>"
      and "r' = append_event (TrimSpace i) e (r\<lparr>repo_cases := gput (TrimSpace i) c (repo_cases r)\<rparr>)"
    moreover have "Case_ID c0 = TrimSpace i" by (rule keyedD [OF repo_wfD(4) [OF wf] c0])
    ultimately show ?thesis
      using ev by (intro change.touch_case [OF c0, of c e r' "repo_caseComments r"]) auto
  qed
qed

lemma Comment_change:
  assumes wf: "repo_wf r" and run: "Comment mem_AddCaseComment env i body a r = (x, r')"
  shows "change r r'"
proof (cases "r' = r")
  case True
  then show ?thesis using side_refl [OF wf] change.side by simp
next
  case False
  then obtain m e where ev: "Event_AggregateID e = Comment_CaseID m"
    and add: "mem_AddCaseComment m e r = (x, r')"
    using run by (auto simp: Comment_def split: sum.splits prod.splits elim!: Comment_requestE)
  obtain y where y: "x = Inr y" using add False mem_AddCaseComment_err by (cases x) auto
  show ?thesis
  proof (rule mem_AddCaseComment_okE [OF add [unfolded y]])
    fix c
    assume c: "mem_case r (Comment_CaseID m) = Some c" and "Case_Status c \<noteq> CaseResolved"
      and "r' = append_event (Case_ID c) e
                (r\<lparr>repo_cases := gput (Case_ID c)
                     (c\<lparr>Case_UpdatedAt := Comment_CreatedAt m\<rparr>) (repo_cases r),
                   repo_caseComments := gappend (Case_ID c) m (repo_caseComments r)\<rparr>)"
    moreover have "Case_ID c = Comment_CaseID m" by (rule keyedD [OF repo_wfD(4) [OF wf] c])
    ultimately show ?thesis
      using ev by (intro change.touch_case [OF c, of "c\<lparr>Case_UpdatedAt := Comment_CreatedAt m\<rparr>" e]) auto
  qed
qed

lemma Resolve_change:
  assumes wf: "repo_wf r" and run: "Resolve mem_ResolveCase env i text a r = (x, r')"
  shows "change r r'"
proof (cases "r' = r")
  case True
  then show ?thesis using side_refl [OF wf] change.side by simp
next
  case False
  then obtain ce ae where req: "Resolve_request env i text a =
      Inr (TrimSpace i, TrimSpace text, TrimSpace a, ce, ae)"
    and resolve: "mem_ResolveCase (TrimSpace i) (TrimSpace text) (TrimSpace a) ce ae r = (x, r')"
    using run by (auto simp: Resolve_def split: sum.splits prod.splits elim!: Resolve_requestE)
  have ev: "Event_AggregateID ce = TrimSpace i" "Event_EventType ce = ''case.resolved''"
    "Event_Actor ce = TrimSpace a" "Event_EventType ae = ''alert.closed''" "Event_Actor ae = TrimSpace a"
    "Event_OccurredAt ae = Event_OccurredAt ce" "TrimSpace a \<noteq> []" "TrimSpace text \<noteq> []"
    using req by (auto elim: Resolve_requestE)
  obtain c where c: "x = Inr c" using resolve False mem_ResolveCase_err by (cases x) auto
  show ?thesis
  proof (rule mem_ResolveCase_okE [OF resolve [unfolded c]])
    fix c0 al al'
    assume al: "mem_alert r (Case_AlertID c0) = Some al"
      and rest: "mem_case r (TrimSpace i) = Some c0" "Case_Status c0 \<noteq> CaseResolved" "Alert_Status al = AlertOpen"
      "c = c0\<lparr>Case_Status := CaseResolved, Case_Resolution := TrimSpace text,
             Case_ResolvedBy := TrimSpace a, Case_ResolvedAt := Some (Event_OccurredAt ce),
             Case_UpdatedAt := Event_OccurredAt ce\<rparr>"
      "al' = al\<lparr>Alert_Status := AlertClosed, Alert_ClosedAt := Some (Event_OccurredAt ce),
               Alert_ClosedBy := TrimSpace a, Alert_ClosureReason := TrimSpace text\<rparr>"
      "r' = append_event (Alert_ID al) (ae\<lparr>Event_AggregateID := Alert_ID al\<rparr>)
              (append_event (TrimSpace i) ce
                (r\<lparr>repo_cases := gput (TrimSpace i) c (repo_cases r),
                   repo_alerts := gput (Alert_ID al) al' (repo_alerts r)\<rparr>))"
    have "Alert_ID al = Case_AlertID c0" by (rule keyedD [OF repo_wfD(5) [OF wf] al])
    then show ?thesis
      using ev rest
      by (intro change.resolve [OF rest(1,2) al rest(3), of "TrimSpace a" "TrimSpace text" ce
            "ae\<lparr>Event_AggregateID := Alert_ID al\<rparr>" c al']) auto
  qed
qed

lemma step_change:
  assumes "step r r'" and wf: "repo_wf r"
  shows "change r r'"
  using assms(1)
proof (cases rule: step.cases)
  case onboard
  then show ?thesis by (rule Onboard_change [OF wf])
next
  case review
  then show ?thesis by (rule Review_change [OF wf])
next
  case ingest
  then show ?thesis by (rule Ingest_change [OF wf])
next
  case close_alert
  then show ?thesis by (rule CloseAlert_change [OF wf])
next
  case create_case
  then show ?thesis by (rule Create_change [OF wf])
next
  case assign_case
  then show ?thesis by (rule Assign_change [OF wf])
next
  case comment_case
  then show ?thesis by (rule Comment_change [OF wf])
next
  case resolve_case
  then show ?thesis by (rule Resolve_change [OF wf])
qed (blast intro: change.side side_steps wf)+

end
