(* ===== verification/Invariants.thy ===== *)
theory Invariants
  imports Workflow
begin

text \<open>
  What holds in every reachable state of the memory repository: the audit trail only grows and
  speaks about its own aggregate; a decided customer was decided by somebody else than its maker,
  and the trail says so; a stored transaction belongs to an active customer and carries exactly
  the alerts its rules demand; an alert is closed at most once; an alert has at most one case,
  and a resolved case closed its alert with the same actor, time and text.
\<close>

section \<open>Well-formedness and the audit trail\<close>

lemma change_trail:
  assumes "change r r'" and wf: "repo_wf r"
  shows "\<exists>es. trail r' k = trail r k @ es \<and> (\<forall>e \<in> set es. Event_AggregateID e = k)"
  using assms(1)
proof (cases rule: change.cases)
  case side
  then show ?thesis unfolding side_def grows_def by blast
next
  case (submit env cmd c e)
  have "Event_AggregateID e = Customer_ID c" using submit(2) by (rule Onboard_requestE)
  then show ?thesis by (auto simp: submit)
next
  case (ingest env icmd t te as es)
  have te: "Event_AggregateID te = Transaction_ID t" using ingest(2) by (rule Ingest_requestE)
  have as: "as = map (new_alert env t) (enumerate 0 (Evaluate t))"
    and es: "es = map (new_alert_event env t) (enumerate 0 (Evaluate t))"
    using ingest(2) by (auto elim: Ingest_requestE)
  have ids: "distinct (map Alert_ID as)" using mem_transactions.new_ids_distinct [OF ingest(1,2)] by simp
  have own: "Event_AggregateID (snd x) = Alert_ID (fst x)" if "x \<in> set (zip as es)" for x
    using that by (auto simp: as es zip_map_map zip_same_conv_map)
  have len: "length as = length es" by (simp add: as es)
  show ?thesis
    using te own store_transaction_effects(5) [OF len ids ingest(5), of k]
    by (auto split: option.splits dest: find_key_Some)
qed auto

lemma side_wf: "side r r' \<Longrightarrow> repo_wf r'"
  by (simp add: side_def)

lemma change_wf:
  assumes "change r r'" and wf: "repo_wf r"
  shows "repo_wf r'"
  using assms(1)
proof (cases rule: change.cases)
  case side
  then show ?thesis by (rule side_wf)
next
  case (submit env cmd c e)
  then show ?thesis using wf by (auto simp: wf_defs keyed_gput)
next
  case (decide i c actor status e c')
  have "keyed Customer_ID (gput i c' (repo_customers r))"
    by (rule keyed_update [OF repo_wfD(3) [OF wf] decide(1)]) (simp add: decide)
  then show ?thesis using wf decide(10) by (auto simp: wf_defs)
next
  case (ingest env icmd t te as es)
  have "as = map (new_alert env t) (enumerate 0 (Evaluate t))" using ingest(2) by (rule Ingest_requestE)
  then have own: "\<And>a. a \<in> set as \<Longrightarrow> Alert_TransactionID a = Transaction_ID t" by auto
  have len: "length as = length es" using ingest(2) by (auto elim: Ingest_requestE)
  have ids: "distinct (map Alert_ID as)" and fresh: "mem_fresh r (Transaction_ID t)"
    using mem_transactions.new_ids_distinct [OF ingest(1,2)] mem_transactions.new_ids_fresh [OF ingest(1,2)]
    by auto
  have "transactions_wf r'"
    unfolding ingest(5)
    by (rule store_transaction_wf [OF repo_wfD(1) [OF wf] len ids ingest(3)])
      (use fresh own in \<open>auto simp: mem_fresh_def\<close>)
  then show ?thesis
    using wf store_transaction_effects [OF len ids ingest(5)]
    unfolding repo_wf_def schedules_wf_def by simp
next
  case (close i al e actor why al')
  have "keyed Alert_ID (gput i al' (repo_alerts r))"
    by (rule keyed_update [OF repo_wfD(5) [OF wf] close(1)]) (simp add: close)
  moreover have "Alert_TransactionID al \<in> dom (map_of (repo_transactions r))"
    by (rule transactions_wfD(3) [OF repo_wfD(1) [OF wf] close(1)])
  ultimately show ?thesis using wf unfolding close(9) by (auto simp: wf_defs close(8))
next
  case (open_case env cs al e)
  then show ?thesis using wf by (auto simp: wf_defs keyed_gput)
next
  case (touch_case i cs cs' e m)
  then show ?thesis using wf by (auto simp: wf_defs keyed_gput)
next
  case (resolve i cs al actor why ce ae cs' al')
  have "keyed Alert_ID (gput (Case_AlertID cs) al' (repo_alerts r))"
    by (rule keyed_update [OF repo_wfD(5) [OF wf] resolve(3)]) (simp add: resolve)
  moreover have "keyed Case_ID (gput i cs' (repo_cases r))"
    by (rule keyed_update [OF repo_wfD(4) [OF wf] resolve(1)]) (simp add: resolve)
  moreover have "Alert_TransactionID al \<in> dom (map_of (repo_transactions r))"
    by (rule transactions_wfD(3) [OF repo_wfD(1) [OF wf] resolve(3)])
  ultimately show ?thesis using wf unfolding resolve(17) by (auto simp: wf_defs resolve(16))
qed

lemma reachable_wf: "reachable r \<Longrightarrow> repo_wf r"
proof (induction rule: reachable.induct)
  case (more r r')
  then show ?case using change_wf step_change by blast
qed (rule repo_wf_new)

lemmas reachable_change = step_change [OF _ reachable_wf]

section \<open>One identifier, one record\<close>

abbreviation mem_transaction :: "Repository \<Rightarrow> string \<Rightarrow> Transaction option" where
  "mem_transaction r \<equiv> map_of (repo_transactions r)"

text \<open>
  Customers, transactions, alerts and cases never share an identifier, and only they have audit
  trails.
\<close>

definition apart :: "Repository \<Rightarrow> bool" where
  "apart r \<longleftrightarrow> (\<forall>i.
     (mem_customer r i \<noteq> None \<longrightarrow> mem_transaction r i = None \<and> mem_alert r i = None \<and> mem_case r i = None) \<and>
     (mem_transaction r i \<noteq> None \<longrightarrow> mem_alert r i = None \<and> mem_case r i = None) \<and>
     (mem_alert r i \<noteq> None \<longrightarrow> mem_case r i = None) \<and>
     (trail r i \<noteq> [] \<longrightarrow> mem_customer r i \<noteq> None \<or> mem_transaction r i \<noteq> None \<or>
        mem_alert r i \<noteq> None \<or> mem_case r i \<noteq> None))"

lemma apartD:
  assumes "apart r"
  shows "mem_customer r i = Some c \<Longrightarrow> mem_transaction r i = None \<and> mem_alert r i = None \<and> mem_case r i = None"
    and "mem_transaction r i = Some t \<Longrightarrow> mem_customer r i = None \<and> mem_alert r i = None \<and> mem_case r i = None"
    and "mem_alert r i = Some al \<Longrightarrow> mem_customer r i = None \<and> mem_transaction r i = None \<and> mem_case r i = None"
    and "mem_case r i = Some cs \<Longrightarrow> mem_customer r i = None \<and> mem_transaction r i = None \<and> mem_alert r i = None"
    and "mem_customer r i = None \<Longrightarrow> mem_transaction r i = None \<Longrightarrow> mem_alert r i = None \<Longrightarrow>
           mem_case r i = None \<Longrightarrow> trail r i = []"
  using assms unfolding apart_def by (metis option.distinct(1))+

lemma fresh_idsD:
  assumes "fresh_ids r env"
  shows "mem_customer r (Env_IDs env n) = None" and "mem_transaction r (Env_IDs env n) = None"
    and "mem_alert r (Env_IDs env n) = None" and "mem_case r (Env_IDs env n) = None"
  using assms by (auto simp: fresh_ids_def mem_fresh_def)

text \<open>What an ingestion adds: the facts the invariants need, in one place.\<close>

lemma ingest_effects:
  assumes "fresh_ids r env" and req: "Ingest_request env icmd = Inr (t, te, as, es)"
    and r': "r' = store_transaction t te as es r"
  shows "mem_customer r' = mem_customer r" and "repo_cases r' = repo_cases r"
    and "mem_transaction r' = (mem_transaction r)(Transaction_ID t \<mapsto> t)"
    and "mem_transaction r (Transaction_ID t) = None"
    and "mem_alert r' k = (case find (\<lambda>a. Alert_ID a = k) as of None \<Rightarrow> mem_alert r k | Some a \<Rightarrow> Some a)"
    and "k = Transaction_ID t \<or> k \<in> Alert_ID ` set as \<Longrightarrow> mem_customer r k = None \<and>
          mem_transaction r k = None \<and> mem_alert r k = None \<and> mem_case r k = None"
    and "Transaction_ID t \<notin> Alert_ID ` set as"
    and "k \<noteq> Transaction_ID t \<Longrightarrow> k \<notin> Alert_ID ` set as \<Longrightarrow> trail r' k = trail r k"
    and "trail r' (Transaction_ID t) = trail r (Transaction_ID t) @ [te]"
    and "find (\<lambda>a. Alert_ID a = k) as = Some a \<Longrightarrow>
          \<exists>e. trail r' k = trail r k @ [e] \<and> Event_EventType e = ''alert.created''"
    and "map Alert_RuleCode as = rule_codes t"
    and "gvals (repo_alerts r') = gvals (repo_alerts r) @ as"
proof -
  have len: "length as = length es" using req by (auto elim: Ingest_requestE)
  have as: "as = map (new_alert env t) (enumerate 0 (Evaluate t))"
    and es: "es = map (new_alert_event env t) (enumerate 0 (Evaluate t))"
    using req by (auto elim: Ingest_requestE)
  have dist: "distinct (Transaction_ID t # map Alert_ID as)"
    by (rule mem_transactions.new_ids_distinct [OF assms(1) req])
  then have ids: "distinct (map Alert_ID as)" by simp
  note fresh = mem_transactions.new_ids_fresh [OF assms(1) req]
  note eff = store_transaction_effects [OF len ids r']
  show "mem_customer r' = mem_customer r" and "repo_cases r' = repo_cases r"
    and "mem_transaction r' = (mem_transaction r)(Transaction_ID t \<mapsto> t)"
    and "mem_alert r' k = (case find (\<lambda>a. Alert_ID a = k) as of None \<Rightarrow> mem_alert r k | Some a \<Rightarrow> Some a)"
    using eff by simp_all
  show "mem_transaction r (Transaction_ID t) = None" using fresh [of "Transaction_ID t"]
    by (auto simp: mem_fresh_def)
  show "k = Transaction_ID t \<or> k \<in> Alert_ID ` set as \<Longrightarrow> mem_customer r k = None \<and>
          mem_transaction r k = None \<and> mem_alert r k = None \<and> mem_case r k = None"
    using fresh [of k] by (auto simp: mem_fresh_def)
  show notin: "Transaction_ID t \<notin> Alert_ID ` set as" using dist by auto
  have fst_zip: "fst x \<in> set as" if "x \<in> set (zip as es)" for x
    using that by (metis in_set_zipE prod.collapse)
  show "trail r' k = trail r k" if "k \<noteq> Transaction_ID t" and "k \<notin> Alert_ID ` set as"
    using that fst_zip unfolding eff(5) by (auto split: option.split dest!: find_key_Some)
  show "trail r' (Transaction_ID t) = trail r (Transaction_ID t) @ [te]"
    using notin fst_zip unfolding eff(5) by (force split: option.split dest!: find_key_Some)
  show "\<exists>e. trail r' k = trail r k @ [e] \<and> Event_EventType e = ''alert.created''"
    if found: "find (\<lambda>a. Alert_ID a = k) as = Some a"
  proof -
    have "k \<noteq> Transaction_ID t" using found notin by (metis find_key_Some image_eqI)
    moreover obtain x where x: "find (\<lambda>x. Alert_ID (fst x) = k) (zip as es) = Some x"
      using found find_zip [OF len, of "\<lambda>a. Alert_ID a = k"] by auto
    moreover have "snd x \<in> set es" using x by (metis find_key_Some in_set_zipE prod.collapse)
    then have "Event_EventType (snd x) = ''alert.created''" by (auto simp: es)
    ultimately show ?thesis unfolding eff(5) by simp
  qed
  show "map Alert_RuleCode as = rule_codes t" unfolding as by (rule new_alerts_codes)
  have "gvals (repo_alerts (store_alerts xs r0)) = gvals (repo_alerts r0) @ map fst xs"
    if "distinct (map (Alert_ID \<circ> fst) xs)" and "\<And>x. x \<in> set xs \<Longrightarrow> mem_alert r0 (Alert_ID (fst x)) = None"
    for xs r0
    using that
  proof (induction xs r0 rule: store_alerts.induct)
    case (2 alert event rest r0)
    have "distinct (map (Alert_ID \<circ> fst) rest)" using "2.prems"(1) by (simp add: comp_def)
    moreover have "mem_alert (append_event (Alert_ID alert) event
        (r0\<lparr>repo_alerts := gput (Alert_ID alert) alert (repo_alerts r0)\<rparr>)) (Alert_ID (fst x)) = None"
      if "x \<in> set rest" for x
    proof -
      have "Alert_ID (fst x) \<noteq> Alert_ID alert" using "2.prems"(1) that by (auto simp: image_iff)
      moreover have "mem_alert r0 (Alert_ID (fst x)) = None" using "2.prems"(2) [of x] that by simp
      ultimately show ?thesis by simp
    qed
    moreover have "mem_alert r0 (Alert_ID alert) = None"
      using "2.prems"(2) [of "(alert, event)"] by simp
    ultimately show ?case using "2.IH" by (simp add: gvals_gput_new comp_def)
  qed simp
  moreover have "distinct (map (Alert_ID \<circ> fst) (zip as es))"
    using len ids by (metis map_fst_zip map_map)
  moreover have "mem_alert r (Alert_ID (fst x)) = None" if "x \<in> set (zip as es)" for x
    using fresh [of "Alert_ID (fst x)"] fst_zip [OF that] by (auto simp: mem_fresh_def)
  ultimately show "gvals (repo_alerts r') = gvals (repo_alerts r) @ as"
    using len by (simp add: r' store_transaction_def Let_def)
qed

lemma change_apart:
  assumes "change r r'" and wf: "repo_wf r" and ap: "apart r"
  shows "apart r'"
  using assms(1)
proof (cases rule: change.cases)
  case side
  then have "\<forall>i. trail r' i \<noteq> [] \<longrightarrow> trail r i \<noteq> [] \<or> mem_customer r i \<noteq> None"
    unfolding side_def grows_def by (metis append_Nil)
  with ap side show ?thesis unfolding apart_def side_def by metis
next
  case (submit env cmd c e)
  have "Customer_ID c = Env_IDs env 0" using submit(2) by (rule Onboard_requestE)
  with submit(3) fresh_idsD [OF submit(1), of 0] ap show ?thesis by (auto simp: apart_def)
next
  case (decide i c actor status e c')
  then show ?thesis using apartD(1) [OF ap decide(1)] ap by (auto simp: apart_def)
next
  case (ingest env icmd t te as es)
  note eff = ingest_effects [OF ingest(1,2,5)]
  have al: "mem_alert r' k = None \<longleftrightarrow> k \<notin> Alert_ID ` set as \<and> mem_alert r k = None" for k
    unfolding eff(5) by (auto split: option.split simp: find_None_iff dest: find_key_Some)
  have tr: "trail r' k \<noteq> [] \<Longrightarrow> k = Transaction_ID t \<or> k \<in> Alert_ID ` set as \<or> trail r k \<noteq> []" for k
    using eff(8) by metis
  show ?thesis
    unfolding apart_def eff(1,2,3)
  proof (rule allI, goal_cases)
    case (1 i)
    have at: "(mem_customer r i \<noteq> None \<longrightarrow> mem_transaction r i = None \<and> mem_alert r i = None \<and> mem_case r i = None) \<and>
       (mem_transaction r i \<noteq> None \<longrightarrow> mem_alert r i = None \<and> mem_case r i = None) \<and>
       (mem_alert r i \<noteq> None \<longrightarrow> mem_case r i = None) \<and>
       (trail r i \<noteq> [] \<longrightarrow> mem_customer r i \<noteq> None \<or> mem_transaction r i \<noteq> None \<or>
          mem_alert r i \<noteq> None \<or> mem_case r i \<noteq> None)"
      using ap by (simp add: apart_def)
    show ?case
    proof (cases "i = Transaction_ID t \<or> i \<in> Alert_ID ` set as")
      case True
      then show ?thesis using eff(6) [OF True] eff(7) al [of i] by (cases "i = Transaction_ID t") auto
    next
      case False
      then have "mem_alert r' i = None \<longleftrightarrow> mem_alert r i = None" and "trail r' i = trail r i"
        using al eff(8) by auto
      then show ?thesis using False at by auto
    qed
  qed
next
  case (close i al e actor why al')
  then show ?thesis using apartD(3) [OF ap close(1)] ap by (auto simp: apart_def)
next
  case (open_case env cs al e)
  with fresh_idsD [OF open_case(1), of 0] ap show ?thesis by (auto simp: apart_def)
next
  case (touch_case i cs cs' e m)
  then show ?thesis using apartD(4) [OF ap touch_case(1)] ap by (auto simp: apart_def)
next
  case (resolve i cs al actor why ce ae cs' al')
  then show ?thesis using apartD(4) [OF ap resolve(1)] apartD(3) [OF ap resolve(3)] ap
    by (auto simp: apart_def)
qed

lemma reachable_apart: "reachable r \<Longrightarrow> apart r"
proof (induction rule: reachable.induct)
  case start
  then show ?case by (simp add: apart_def NewRepository_def)
next
  case (more r r')
  then show ?case using change_apart step_change reachable_wf by blast
qed

section \<open>Customers\<close>

text \<open>
  The events about the customer record itself: one submission, and one decision once there is
  one. Everything the record says about its review agrees with the decision event.
\<close>

definition customer_ok :: "AuditEvent list \<Rightarrow> Customer \<Rightarrow> bool" where
  "customer_ok es c \<longleftrightarrow> Customer_CreatedBy c \<noteq> [] \<and>
     Customer_RiskAssessment c = Assess (Customer_RiskFactors c) (Customer_CreatedAt c) \<and>
     (\<exists>sub. Event_EventType sub = ''customer.submitted'' \<and> Event_Actor sub = Customer_CreatedBy c \<and>
        Event_OccurredAt sub = Customer_CreatedAt c \<and>
        (Customer_Status c = CustomerPendingApproval \<and> Customer_ReviewedBy c = [] \<and>
           Customer_ReviewedAt c = None \<and> filter (\<lambda>e. \<not> side_event e) es = [sub] \<or>
         Customer_Status c \<in> {CustomerActive, CustomerRejected} \<and> Customer_ReviewedBy c \<noteq> [] \<and>
           Customer_ReviewedBy c \<noteq> Customer_CreatedBy c \<and>
           (\<exists>dec. filter (\<lambda>e. \<not> side_event e) es = [sub, dec] \<and>
              Event_EventType dec = decision_event (Customer_Status c) \<and>
              Event_Actor dec = Customer_ReviewedBy c \<and>
              Customer_ReviewedAt c = Some (Event_OccurredAt dec))))"

definition customers_inv :: "Repository \<Rightarrow> bool" where
  "customers_inv r \<longleftrightarrow> (\<forall>i c. mem_customer r i = Some c \<longrightarrow> customer_ok (trail r i) c)"

text \<open>How a customer record can come to be what it is after a change.\<close>

lemma change_customer:
  assumes "change r r'" and wf: "repo_wf r" and ap: "apart r" and c: "mem_customer r' i = Some c"
  obtains (kept) es where "mem_customer r i = Some c" and "trail r' i = trail r i @ es"
      and "\<forall>e \<in> set es. side_event e"
    | (submitted) env cmd e where "mem_customer r i = None" and "trail r i = []"
      and "Onboard_request env cmd = Inr (c, e)" and "trail r' i = [e]"
    | (decided) old actor status e where "mem_customer r i = Some old"
      and "Customer_CreatedBy old \<noteq> actor" and "actor \<noteq> []"
      and "Customer_Status old = CustomerPendingApproval"
      and "status \<in> {CustomerActive, CustomerRejected}"
      and "Event_Actor e = actor" and "Event_EventType e = decision_event status"
      and "c = old\<lparr>Customer_Status := status, Customer_ReviewedBy := actor,
             Customer_ReviewedAt := Some (Event_OccurredAt e)\<rparr>"
      and "trail r' i = trail r i @ [e]"
  using assms(1)
proof (cases rule: change.cases)
  case side
  then have "mem_customer r i = Some c" using c by (simp add: side_def)
  then show ?thesis using side kept unfolding side_def grows_def by metis
next
  case (submit env cmd c1 e)
  have id: "Customer_ID c1 = Env_IDs env 0" using submit(2) by (rule Onboard_requestE)
  show ?thesis
  proof (cases "i = Customer_ID c1")
    case True
    then have "trail r i = []" using apartD(5) [OF ap] fresh_idsD [OF submit(1), of 0] id by simp
    then show ?thesis
      using True submit(2,3) c fresh_idsD(1) [OF submit(1), of 0] id by (intro submitted) auto
  next
    case False
    then show ?thesis using submit(3) c by (intro kept [of "[]"]) auto
  qed
next
  case (decide j old actor status e c')
  show ?thesis
  proof (cases "i = j")
    case True
    then show ?thesis using decide c by (intro decided [of old actor status e]) auto
  next
    case False
    then show ?thesis using decide(10) c by (intro kept [of "[]"]) auto
  qed
next
  case (ingest env icmd t te as es)
  note eff = ingest_effects [OF ingest(1,2,5)]
  have old: "mem_customer r i = Some c" using c eff(1) by simp
  then have "trail r' i = trail r i" using eff(6) [of i] eff(8) [of i] by auto
  with old show ?thesis by (intro kept [of "[]"]) auto
next
  case (close j al e actor why al')
  then show ?thesis using c apartD(3) [OF ap close(1)] by (intro kept [of "[]"]) auto
next
  case (open_case env cs al e)
  then show ?thesis using c fresh_idsD(1) [OF open_case(1), of 0] by (intro kept [of "[]"]) auto
next
  case (touch_case j cs cs' e m)
  then show ?thesis using c apartD(4) [OF ap touch_case(1)] by (intro kept [of "[]"]) auto
next
  case (resolve j cs al actor why ce ae cs' al')
  then show ?thesis using c apartD(4) [OF ap resolve(1)] apartD(3) [OF ap resolve(3)]
    by (intro kept [of "[]"]) auto
qed

lemma decision_not_side: "Event_EventType e = decision_event s \<Longrightarrow> \<not> side_event e"
  by (simp add: side_event_def decision_event_def split: if_splits)

lemma change_customers_inv:
  assumes "change r r'" and "repo_wf r" and "apart r" and inv: "customers_inv r"
  shows "customers_inv r'"
  unfolding customers_inv_def
proof (intro allI impI)
  fix i c
  assume c: "mem_customer r' i = Some c"
  show "customer_ok (trail r' i) c"
  proof (rule change_customer [OF assms(1-3) c])
    fix es
    assume "mem_customer r i = Some c" and "trail r' i = trail r i @ es" and "\<forall>e \<in> set es. side_event e"
    then show ?thesis using inv by (simp add: customers_inv_def customer_ok_def)
  next
    fix env cmd e
    assume "Onboard_request env cmd = Inr (c, e)" and "trail r' i = [e]"
    then show ?thesis
      by (auto simp: customer_ok_def side_event_def elim!: Onboard_requestE)
  next
    fix old actor status e
    assume old: "mem_customer r i = Some old" "Customer_CreatedBy old \<noteq> actor" "actor \<noteq> []"
      "Customer_Status old = CustomerPendingApproval"
      and status: "status \<in> {CustomerActive, CustomerRejected}"
      and ev: "Event_Actor e = actor" "Event_EventType e = decision_event status"
      and c: "c = old\<lparr>Customer_Status := status, Customer_ReviewedBy := actor,
             Customer_ReviewedAt := Some (Event_OccurredAt e)\<rparr>"
      and tr: "trail r' i = trail r i @ [e]"
    have "customer_ok (trail r i) old" using inv old(1) by (simp add: customers_inv_def)
    then show ?thesis
      using old status ev decision_not_side [OF ev(2)] by (auto simp: customer_ok_def c tr)
  qed
qed

end
