(* ===== verification/Case_Invariants.thy ===== *)
theory Case_Invariants
  imports Invariants
begin

text \<open>
  Invariants of transactions, alerts and cases in the reachable states of theory \<open>Workflow\<close>, and
  the combined invariant \<open>system_inv\<close>.
\<close>

section \<open>Alerts\<close>

text \<open>The audit trail of an alert is its creation, followed by its closing once it is closed.\<close>

definition alert_ok :: "AuditEvent list \<Rightarrow> Alert \<Rightarrow> bool" where
  "alert_ok es a \<longleftrightarrow> (\<exists>new. Event_EventType new = ''alert.created'' \<and>
     (Alert_Status a = AlertOpen \<and> Alert_ClosedAt a = None \<and> Alert_ClosedBy a = [] \<and> es = [new] \<or>
      Alert_Status a = AlertClosed \<and> Alert_ClosedBy a \<noteq> [] \<and> Alert_ClosureReason a \<noteq> [] \<and>
        (\<exists>fin. es = [new, fin] \<and> Event_EventType fin = ''alert.closed'' \<and>
           Event_Actor fin = Alert_ClosedBy a \<and> Alert_ClosedAt a = Some (Event_OccurredAt fin))))"

lemma change_alert:
  assumes "change r r'" and wf: "repo_wf r" and ap: "apart r" and a: "mem_alert r' i = Some a"
  obtains (kept) "mem_alert r i = Some a" and "trail r' i = trail r i"
    | (created) t e where "trail r' i = [e]" and "Event_EventType e = ''alert.created''"
      and "Alert_Status a = AlertOpen" and "Alert_ClosedAt a = None" and "Alert_ClosedBy a = []"
      and "mem_transaction r' (Alert_TransactionID a) = Some t"
      and "Alert_CustomerID a = Transaction_CustomerID t"
    | (closed) old e why where "mem_alert r i = Some old" and "Alert_Status old = AlertOpen"
      and "Event_EventType e = ''alert.closed''" and "Event_Actor e \<noteq> []" and "why \<noteq> []"
      and "a = old\<lparr>Alert_Status := AlertClosed, Alert_ClosedAt := Some (Event_OccurredAt e),
             Alert_ClosedBy := Event_Actor e, Alert_ClosureReason := why\<rparr>"
      and "trail r' i = trail r i @ [e]"
  using assms(1)
proof (cases rule: change.cases)
  case side
  then have old: "mem_alert r i = Some a" using a by (simp add: side_def)
  then have "mem_customer r i = None" using apartD(3) [OF ap] by blast
  then have "trail r' i = trail r i" using side unfolding side_def grows_def by (metis append_Nil2)
  with old show ?thesis by (rule kept)
next
  case (submit env cmd c1 e)
  have "Customer_ID c1 = Env_IDs env 0" using submit(2) by (rule Onboard_requestE)
  then show ?thesis using submit(3) a fresh_idsD(3) [OF submit(1), of 0] by (intro kept) auto
next
  case (decide j old actor status e c')
  then show ?thesis using a apartD(1) [OF ap decide(1)] by (intro kept) auto
next
  case (ingest env icmd t te as es)
  note eff = ingest_effects [OF ingest(1,2,5)]
  have as: "as = map (new_alert env t) (enumerate 0 (Evaluate t))"
    using ingest(2) by (rule Ingest_requestE)
  show ?thesis
  proof (cases "find (\<lambda>a. Alert_ID a = i) as")
    case None
    then have old: "mem_alert r i = Some a" using a eff(5) by simp
    have "i \<notin> Alert_ID ` set as" using None by (auto simp: find_None_iff)
    moreover have "i \<noteq> Transaction_ID t" using old eff(6) [of i] by auto
    ultimately show ?thesis using old eff(8) [of i] by (intro kept) auto
  next
    case (Some b)
    then have ab: "a \<in> set as" "Alert_ID a = i" using a eff(5) by (auto dest!: find_key_Some)
    obtain e where e: "trail r' i = trail r i @ [e]" "Event_EventType e = ''alert.created''"
      using eff(10) [OF Some] by blast
    have "trail r i = []" using apartD(5) [OF ap] eff(6) [of i] ab by auto
    with e ab show ?thesis
      using eff(3) by (intro created [of e t]) (auto simp: as)
  qed
next
  case (close j al e actor why al')
  show ?thesis
  proof (cases "i = j")
    case True
    then show ?thesis using close a by (intro closed [of al e why]) auto
  next
    case False
    then show ?thesis using close a by (intro kept) auto
  qed
next
  case (open_case env cs al e)
  then show ?thesis using a fresh_idsD(3) [OF open_case(1), of 0] by (intro kept) auto
next
  case (touch_case j cs cs' e m)
  then show ?thesis using a apartD(4) [OF ap touch_case(1)] by (intro kept) auto
next
  case (resolve j cs al actor why ce ae cs' al')
  have ne: "j \<noteq> Case_AlertID cs" using apartD(4) [OF ap resolve(1)] resolve(3) by auto
  show ?thesis
  proof (cases "i = Case_AlertID cs")
    case True
    then show ?thesis using resolve a ne by (intro closed [of al ae why]) auto
  next
    case False
    then show ?thesis using resolve a apartD(4) [OF ap resolve(1)] by (intro kept) auto
  qed
qed

definition alerts_inv :: "Repository \<Rightarrow> bool" where
  "alerts_inv r \<longleftrightarrow> (\<forall>i a. mem_alert r i = Some a \<longrightarrow> alert_ok (trail r i) a \<and>
     (\<exists>t. mem_transaction r (Alert_TransactionID a) = Some t \<and>
        Alert_CustomerID a = Transaction_CustomerID t))"

section \<open>Transactions\<close>

lemma change_transaction:
  assumes "change r r'" and t: "mem_transaction r' i = Some t"
  obtains (kept) "mem_transaction r i = Some t"
    | (new) env icmd te as es where "mem_transaction r i = None" and "fresh_ids r env"
      and "Ingest_request env icmd = Inr (t, te, as, es)" and "i = Transaction_ID t"
      and "active (mem_customer r (Transaction_CustomerID t))"
      and "map_of (repo_idempotency r) (Transaction_IdempotencyKey t) = None"
      and "r' = store_transaction t te as es r"
  using assms(1)
proof (cases rule: change.cases)
  case (ingest env icmd t1 te as es)
  note eff = ingest_effects [OF ingest(1,2,5)]
  show ?thesis
  proof (cases "i = Transaction_ID t1")
    case True
    then show ?thesis using ingest t eff(3,4) by (intro new [of env icmd te as es]) auto
  next
    case False
    then show ?thesis using t eff(3) by (intro kept) auto
  qed
qed (use t in \<open>auto simp: side_def intro: kept\<close>)

lemma change_transaction_kept:
  assumes "change r r'" and t: "mem_transaction r i = Some t"
  shows "mem_transaction r' i = Some t"
  using assms(1)
proof (cases rule: change.cases)
  case (ingest env icmd t1 te as es)
  then show ?thesis using t ingest_effects(3,4) [OF ingest(1,2,5)] by auto
qed (use t in \<open>auto simp: side_def\<close>)

text \<open>The (transaction, rule) pairs of the stored alerts, which nothing changes but an ingestion.\<close>

definition alert_view :: "Repository \<Rightarrow> (string \<times> string) list" where
  "alert_view r = map (\<lambda>a. (Alert_TransactionID a, Alert_RuleCode a)) (gvals (repo_alerts r))"

lemma rules_of_transaction:
  "map Alert_RuleCode (alerts_of_transaction i r) = map snd (filter (\<lambda>p. fst p = i) (alert_view r))"
  by (simp add: alerts_of_transaction_def alert_view_def filter_map comp_def)

lemma change_alert_view:
  assumes "change r r'"
  obtains (kept) "alert_view r' = alert_view r" and "mem_transaction r' = mem_transaction r"
    | (new) t where "mem_transaction r (Transaction_ID t) = None"
      and "mem_transaction r' = (mem_transaction r)(Transaction_ID t \<mapsto> t)"
      and "alert_view r' = alert_view r @ map (Pair (Transaction_ID t)) (rule_codes t)"
  using assms
proof (cases rule: change.cases)
  case side
  then show ?thesis by (intro kept) (simp_all add: side_def alert_view_def)
next
  case (ingest env icmd t te as es)
  note eff = ingest_effects [OF ingest(1,2,5)]
  have "as = map (new_alert env t) (enumerate 0 (Evaluate t))"
    using ingest(2) by (rule Ingest_requestE)
  then have "map (\<lambda>a. (Alert_TransactionID a, Alert_RuleCode a)) as =
      map (Pair (Transaction_ID t)) (map Alert_RuleCode as)"
    by simp
  then show ?thesis
    using eff(3,4,11,12) by (intro new [of t]) (simp_all add: alert_view_def)
next
  case (close j al e actor why al')
  then show ?thesis by (intro kept) (simp_all add: alert_view_def map_gvals_gput [OF close(1)])
next
  case (resolve j cs al actor why ce ae cs' al')
  then show ?thesis by (intro kept) (simp_all add: alert_view_def map_gvals_gput [OF resolve(3)])
qed (auto intro!: kept simp: alert_view_def)

definition transactions_inv :: "Repository \<Rightarrow> bool" where
  "transactions_inv r \<longleftrightarrow> (\<forall>i t. mem_transaction r i = Some t \<longrightarrow>
     active (mem_customer r (Transaction_CustomerID t)) \<and> 0 < Transaction_AmountMinor t \<and>
     map snd (filter (\<lambda>p. fst p = i) (alert_view r)) = rule_codes t)"

lemma change_active:
  assumes "change r r'" and "active (mem_customer r i)"
  shows "active (mem_customer r' i)"
  using assms(1)
proof (cases rule: change.cases)
  case (submit env cmd c e)
  have "Customer_ID c = Env_IDs env 0" using submit(2) by (rule Onboard_requestE)
  then show ?thesis
    using submit(3) assms(2) fresh_idsD(1) [OF submit(1), of 0] by (auto simp: active_def)
next
  case (ingest env icmd t te as es)
  then show ?thesis using assms(2) ingest_effects(1) [OF ingest(1,2,5)] by simp
qed (use assms(2) in \<open>auto simp: side_def active_def split: option.splits\<close>)

lemma change_alerts_inv:
  assumes "change r r'" and "repo_wf r" and "apart r" and inv: "alerts_inv r"
  shows "alerts_inv r'"
  unfolding alerts_inv_def
proof (intro allI impI)
  fix i a
  assume a: "mem_alert r' i = Some a"
  show "alert_ok (trail r' i) a \<and> (\<exists>t. mem_transaction r' (Alert_TransactionID a) = Some t \<and>
        Alert_CustomerID a = Transaction_CustomerID t)"
  proof (rule change_alert [OF assms(1-3) a])
    assume "mem_alert r i = Some a" and "trail r' i = trail r i"
    then show ?thesis using inv change_transaction_kept [OF assms(1)] by (fastforce simp: alerts_inv_def)
  next
    fix t e
    assume "trail r' i = [e]" and "Event_EventType e = ''alert.created''" and "Alert_Status a = AlertOpen"
      and "Alert_ClosedAt a = None" and "Alert_ClosedBy a = []"
      and "mem_transaction r' (Alert_TransactionID a) = Some t"
      and "Alert_CustomerID a = Transaction_CustomerID t"
    then show ?thesis by (simp add: alert_ok_def)
  next
    fix old e why
    assume old: "mem_alert r i = Some old" and "Alert_Status old = AlertOpen"
      and "Event_EventType e = ''alert.closed''" and "Event_Actor e \<noteq> []" and "why \<noteq> []"
      and "a = old\<lparr>Alert_Status := AlertClosed, Alert_ClosedAt := Some (Event_OccurredAt e),
             Alert_ClosedBy := Event_Actor e, Alert_ClosureReason := why\<rparr>"
      and "trail r' i = trail r i @ [e]"
    moreover have "alert_ok (trail r i) old" and "\<exists>t. mem_transaction r (Alert_TransactionID old) = Some t \<and>
        Alert_CustomerID old = Transaction_CustomerID t"
      using inv old by (simp_all add: alerts_inv_def)
    ultimately show ?thesis
      using change_transaction_kept [OF assms(1)] by (auto simp: alert_ok_def)
  qed
qed

lemma change_transactions_inv:
  assumes ch: "change r r'" and wf: "repo_wf r" and inv: "transactions_inv r"
  shows "transactions_inv r'"
  unfolding transactions_inv_def
proof (intro allI impI)
  fix i t
  assume t: "mem_transaction r' i = Some t"
  have known: "mem_transaction r (fst p) \<noteq> None" if "p \<in> set (alert_view r)" for p
  proof -
    have "p \<in> (\<lambda>a. (Alert_TransactionID a, Alert_RuleCode a)) ` set (gvals (repo_alerts r))"
      using that by (simp add: alert_view_def)
    then obtain a where "a \<in> set (gvals (repo_alerts r))" and p: "fst p = Alert_TransactionID a"
      by (auto simp del: split_paired_All)
    then obtain k where "mem_alert r k = Some a"
      using in_gvalsE [OF keyed_okD [OF repo_wfD(5) [OF wf]]] by blast
    then show ?thesis using transactions_wfD(3) [OF repo_wfD(1) [OF wf]] p by auto
  qed
  have rules: "map snd (filter (\<lambda>p. fst p = i) (alert_view r')) = rule_codes t"
  proof (rule change_alert_view [OF ch])
    assume "alert_view r' = alert_view r" and "mem_transaction r' = mem_transaction r"
    then show ?thesis using t inv by (simp add: transactions_inv_def)
  next
    fix t1
    assume new: "mem_transaction r (Transaction_ID t1) = None"
      "mem_transaction r' = (mem_transaction r)(Transaction_ID t1 \<mapsto> t1)"
      "alert_view r' = alert_view r @ map (Pair (Transaction_ID t1)) (rule_codes t1)"
    show ?thesis
    proof (cases "i = Transaction_ID t1")
      case True
      moreover have "filter (\<lambda>p. fst p = Transaction_ID t1) (alert_view r) = []"
        using known new(1) by (fastforce simp: filter_empty_conv)
      ultimately show ?thesis using new t by (simp add: filter_map comp_def)
    next
      case False
      then show ?thesis using new t inv by (simp add: transactions_inv_def filter_map comp_def)
    qed
  qed
  show "active (mem_customer r' (Transaction_CustomerID t)) \<and> 0 < Transaction_AmountMinor t \<and>
     map snd (filter (\<lambda>p. fst p = i) (alert_view r')) = rule_codes t"
  proof (rule change_transaction [OF ch t])
    assume "mem_transaction r i = Some t"
    then show ?thesis using inv rules change_active [OF ch] by (simp add: transactions_inv_def)
  next
    fix env icmd te as es
    assume "Ingest_request env icmd = Inr (t, te, as, es)"
      and "active (mem_customer r (Transaction_CustomerID t))"
    then show ?thesis using rules change_active [OF ch] by (auto elim: Ingest_requestE)
  qed
qed

section \<open>Cases\<close>

text \<open>A case and its alert: a resolution closed the alert with the same actor, time and text.\<close>

definition case_ok :: "InvestigationCase \<Rightarrow> Alert \<Rightarrow> bool" where
  "case_ok c a \<longleftrightarrow> Case_CustomerID c = Alert_CustomerID a \<and>
     (Case_Status c = CaseResolved \<longrightarrow>
        Alert_Status a = AlertClosed \<and> Alert_ClosedBy a = Case_ResolvedBy c \<and>
        Alert_ClosedAt a = Case_ResolvedAt c \<and> Alert_ClosureReason a = Case_Resolution c \<and>
        Case_ResolvedBy c \<noteq> [])"

definition cases_inv :: "Repository \<Rightarrow> bool" where
  "cases_inv r \<longleftrightarrow>
     (\<forall>i c. mem_case r i = Some c \<longrightarrow>
        (\<exists>a. mem_alert r (Case_AlertID c) = Some a \<and> case_ok c a)) \<and>
     (\<forall>i j c d. mem_case r i = Some c \<longrightarrow> mem_case r j = Some d \<longrightarrow>
        Case_AlertID c = Case_AlertID d \<longrightarrow> i = j)"

lemma cases_invD:
  assumes "cases_inv r" and "mem_case r i = Some c"
  obtains a where "mem_alert r (Case_AlertID c) = Some a" and "case_ok c a"
  using assms unfolding cases_inv_def by blast

text \<open>Alerts are kept, and closed ones are kept as they are.\<close>

lemma change_alert_kept:
  assumes "change r r'" and "mem_alert r i = Some a"
  obtains a' where "mem_alert r' i = Some a'" and "Alert_CustomerID a' = Alert_CustomerID a"
    and "Alert_Status a \<noteq> AlertOpen \<Longrightarrow> a' = a"
  using assms(1)
proof (cases rule: change.cases)
  case (ingest env icmd t te as es)
  note eff = ingest_effects [OF ingest(1,2,5)]
  have "i \<notin> Alert_ID ` set as" using eff(6) [of i] assms(2) by auto
  then have "find (\<lambda>a. Alert_ID a = i) as = None" by (auto simp: find_None_iff)
  then show ?thesis using assms(2) eff(5) by (intro that [of a]) auto
next
  case (close j al e actor why al')
  then show ?thesis using assms(2) by (cases "i = j") (auto intro: that)
next
  case (resolve j cs al actor why ce ae cs' al')
  then show ?thesis using assms(2) by (cases "i = Case_AlertID cs") (auto intro: that)
qed (use assms(2) in \<open>auto simp: side_def intro: that\<close>)

text \<open>How a case can come to be what it is after a change.\<close>

lemma change_case:
  assumes "change r r'" and c: "mem_case r' i = Some c"
  obtains (kept) "mem_case r i = Some c"
    | (opened) al where "mem_case r i = None" and "mem_alert r (Case_AlertID c) = Some al"
      and "Case_Status c = CaseOpen" and "Case_CustomerID c = Alert_CustomerID al"
      and "\<And>k d. mem_case r k = Some d \<Longrightarrow> Case_AlertID d \<noteq> Case_AlertID c"
      and "\<And>k. k \<noteq> i \<Longrightarrow> mem_case r' k = mem_case r k"
    | (touched) old where "mem_case r i = Some old" and "Case_AlertID c = Case_AlertID old"
      and "Case_CustomerID c = Case_CustomerID old" and "Case_Status c \<noteq> CaseResolved"
    | (resolved) old al where "mem_case r i = Some old" and "Case_AlertID c = Case_AlertID old"
      and "Case_CustomerID c = Case_CustomerID old" and "mem_alert r (Case_AlertID c) = Some al"
      and "Case_ResolvedBy c \<noteq> []"
      and "mem_alert r' (Case_AlertID c) = Some (al\<lparr>Alert_Status := AlertClosed,
             Alert_ClosedAt := Case_ResolvedAt c, Alert_ClosedBy := Case_ResolvedBy c,
             Alert_ClosureReason := Case_Resolution c\<rparr>)"
  using assms(1)
proof (cases rule: change.cases)
  case (ingest env icmd t te as es)
  then show ?thesis using c ingest_effects(2) [OF ingest(1,2,5)] by (intro kept) simp
next
  case (open_case env cs al e)
  show ?thesis
  proof (cases "i = Case_ID cs")
    case True
    then have "c = cs" using open_case c by simp
    then show ?thesis
      using True open_case fresh_idsD(4) [OF open_case(1), of 0] by (intro opened [of al]) auto
  next
    case False
    then show ?thesis using open_case c by (intro kept) simp
  qed
next
  case (touch_case j cs cs' e m)
  then show ?thesis using c by (cases "i = j") (auto intro: kept touched)
next
  case (resolve j cs al actor why ce ae cs' al')
  show ?thesis
  proof (cases "i = j")
    case True
    then show ?thesis using resolve c by (intro resolved [of cs al]) auto
  next
    case False
    then show ?thesis using resolve c by (intro kept) simp
  qed
next
  case side
  then have "mem_case r' i = mem_case r i" by (simp add: side_def)
  then show ?thesis using c kept by simp
next
  case (submit env cmd c1 e)
  then have "mem_case r' i = mem_case r i" by simp
  then show ?thesis using c kept by simp
next
  case (decide j old actor status e c')
  then have "mem_case r' i = mem_case r i" by simp
  then show ?thesis using c kept by simp
next
  case (close j al e actor why al')
  then have "mem_case r' i = mem_case r i" by simp
  then show ?thesis using c kept by simp
qed

lemma change_case_alert:
  assumes "change r r'" and "mem_case r' i = Some c"
  shows "(\<exists>d. mem_case r i = Some d \<and> Case_AlertID d = Case_AlertID c) \<or>
     (mem_case r i = None \<and> (\<forall>k d. mem_case r k = Some d \<longrightarrow> Case_AlertID d \<noteq> Case_AlertID c) \<and>
      (\<forall>k. k \<noteq> i \<longrightarrow> mem_case r' k = mem_case r k))"
  by (rule change_case [OF assms]) auto

lemma change_cases_inv:
  assumes ch: "change r r'" and inv: "cases_inv r"
  shows "cases_inv r'"
proof -
  have "\<exists>a. mem_alert r' (Case_AlertID c) = Some a \<and> case_ok c a" if c: "mem_case r' i = Some c" for i c
  proof (rule change_case [OF ch c])
    assume "mem_case r i = Some c"
    then obtain a where a: "mem_alert r (Case_AlertID c) = Some a" and "case_ok c a"
      using cases_invD [OF inv] by blast
    then show ?thesis
      by (auto simp: case_ok_def intro: change_alert_kept [OF ch a])
  next
    fix al
    assume al: "mem_alert r (Case_AlertID c) = Some al" and "Case_Status c = CaseOpen"
      and "Case_CustomerID c = Alert_CustomerID al"
    then show ?thesis by (auto simp: case_ok_def intro: change_alert_kept [OF ch al])
  next
    fix old
    assume old: "mem_case r i = Some old" and "Case_AlertID c = Case_AlertID old"
      and "Case_CustomerID c = Case_CustomerID old" and "Case_Status c \<noteq> CaseResolved"
    moreover obtain a where a: "mem_alert r (Case_AlertID old) = Some a" and "case_ok old a"
      using cases_invD [OF inv old] by blast
    ultimately show ?thesis by (auto simp: case_ok_def intro: change_alert_kept [OF ch a])
  next
    fix old al
    assume old: "mem_case r i = Some old" and "Case_AlertID c = Case_AlertID old"
      and "Case_CustomerID c = Case_CustomerID old" and "mem_alert r (Case_AlertID c) = Some al"
      and "Case_ResolvedBy c \<noteq> []"
      and "mem_alert r' (Case_AlertID c) = Some (al\<lparr>Alert_Status := AlertClosed,
             Alert_ClosedAt := Case_ResolvedAt c, Alert_ClosedBy := Case_ResolvedBy c,
             Alert_ClosureReason := Case_Resolution c\<rparr>)"
    moreover obtain a where "mem_alert r (Case_AlertID old) = Some a" and "case_ok old a"
      using cases_invD [OF inv old] by blast
    ultimately show ?thesis by (auto simp: case_ok_def)
  qed
  moreover have "i = j" if c: "mem_case r' i = Some c" and d: "mem_case r' j = Some d"
    and eq: "Case_AlertID c = Case_AlertID d" for i j c d
    using change_case_alert [OF ch c] change_case_alert [OF ch d] c d eq inv
    unfolding cases_inv_def by metis
  ultimately show ?thesis unfolding cases_inv_def by blast
qed

section \<open>The combined invariant\<close>

definition system_inv :: "Repository \<Rightarrow> bool" where
  "system_inv r \<longleftrightarrow> repo_wf r \<and> apart r \<and> customers_inv r \<and> alerts_inv r \<and> transactions_inv r \<and>
     cases_inv r"

lemma system_inv_new: "system_inv NewRepository"
  by (simp add: system_inv_def repo_wf_new apart_def customers_inv_def alerts_inv_def
      transactions_inv_def cases_inv_def) (simp add: NewRepository_def)

lemma step_system_inv: "step r r' \<Longrightarrow> system_inv r \<Longrightarrow> system_inv r'"
  unfolding system_inv_def
  using step_change change_wf change_apart change_customers_inv change_alerts_inv
    change_transactions_inv change_cases_inv by blast

lemma reachable_system_inv: "reachable r \<Longrightarrow> system_inv r"
  by (induction rule: reachable.induct) (auto intro: system_inv_new step_system_inv)

inductive_cases reachableE: "reachable r"

end
