(* ===== verification/Scenario.thy ===== *)
theory Scenario
  imports Case_Invariants
begin

text \<open>
  A concrete run of the services, from which the witnesses of the system properties are taken:
  a customer is submitted and approved, two transactions raise an alert each, cases are opened on
  the alerts, one case is resolved and the alert of the other is closed directly.
\<close>

text \<open>The identifiers of a call: a name of the call, and one stroke per draw.\<close>

definition call :: "string \<Rightarrow> time \<Rightarrow> call_env" where
  "call name t = \<lparr>Env_Now = t, Env_IDs = (\<lambda>n. name @ replicate n CHR ''|''), Env_Upper = id\<rparr>"

definition demo_factors :: RiskFactors where
  "demo_factors = \<lparr>Factors_CountryRisk = CountryRiskMedium, Factors_PEP = True,
     Factors_SanctionsPotentialMatch = False, Factors_HighRiskIndustry = False,
     Factors_ComplexOwnership = False, Factors_SourceOfFundsVerified = True\<rparr>"

definition demo_customer :: OnboardCustomerCommand where
  "demo_customer = \<lparr>Onboard_ExternalRef = ''x1'', Onboard_Type = CustomerIndividual,
     Onboard_LegalName = '' Ann '', Onboard_CountryCode = ''gb'', Onboard_RiskFactors = demo_factors,
     Onboard_Actor = ''maker''\<rparr>"

definition demo_transaction :: IngestTransactionCommand where
  "demo_transaction = \<lparr>Ingest_ExternalRef = ''t1'', Ingest_CustomerID = ''c'',
     Ingest_Direction = TransactionOutbound, Ingest_AmountMinor = 5,
     Ingest_Currency = ''eur'', Ingest_CounterpartyCountry = ''ir'', Ingest_OccurredAt = 5000,
     Ingest_Actor = ''ops'', Ingest_IdempotencyKey = ''key''\<rparr>"

definition demo1 :: Repository where
  "demo1 = snd (Onboard mem_CreateCustomer (call ''c'' 10) demo_customer NewRepository)"
definition demo2 :: Repository where
  "demo2 = snd (Review mem_ReviewCustomer (call ''r'' 20) ''c'' ReviewApprove ''checker'' ''ok'' demo1)"
definition demo3 :: Repository where
  "demo3 = snd (Ingest mem_CreateTransaction (call ''t'' 30) demo_transaction demo2)"
definition demo4 :: Repository where
  "demo4 = snd (Create mem_CreateCase (call ''k'' 40) ''t||'' ''why'' CasePriorityHigh ''ana'' demo3)"
definition demo5 :: Repository where
  "demo5 = snd (Resolve mem_ResolveCase (call ''v'' 50) ''k'' ''fine'' ''ana'' demo4)"
definition demo6 :: Repository where
  "demo6 = snd (Ingest mem_CreateTransaction (call ''s'' 60)
     (demo_transaction\<lparr>Ingest_IdempotencyKey := ''other''\<rparr>) demo5)"
definition demo7 :: Repository where
  "demo7 = snd (Create mem_CreateCase (call ''m'' 70) ''s||'' ''why'' CasePriorityLow ''ana'' demo6)"
definition demo8 :: Repository where
  "demo8 = snd (CloseAlert mem_CloseAlert (call ''w'' 80) ''s||'' ''ana'' ''dup'' demo7)"

text \<open>The keys of the maps, and identifiers that differ from all of them in their first letter.\<close>

definition keys_of :: "Repository \<Rightarrow> string list" where
  "keys_of r = map fst (repo_customers r) @ map fst (repo_transactions r) @ map fst (repo_alerts r) @
     map fst (repo_cases r) @ map fst (repo_documents r) @ map fst (repo_screeningMatches r) @
     map fst (repo_notifications r)"

lemma fresh_call:
  assumes "list_all (\<lambda>k. k \<noteq> [] \<and> hd k \<noteq> c) (keys_of r)"
  shows "fresh_ids r (call [c] t)"
proof -
  have "inj (\<lambda>n. c # replicate n CHR ''|'')"
    by (rule injI) (metis length_replicate list.inject)
  moreover have "c # replicate n CHR ''|'' \<notin> set (keys_of r)" for n
    using assms by (force simp: list_all_iff)
  ultimately show ?thesis
    by (auto simp: fresh_ids_def mem_fresh_def call_def keys_of_def dom_map_of_conv_image_fst)
qed

lemma demo_keys:
  "keys_of demo2 = [''c'']" "keys_of demo3 = [''c'', ''t'', ''t||'']"
  "keys_of demo5 = [''c'', ''t'', ''t||'', ''k'']"
  "keys_of demo6 = [''c'', ''t'', ''s'', ''t||'', ''s||'', ''k'']"
  by code_simp+

lemma NewRepository_keys: "keys_of NewRepository = []"
  by (simp add: keys_of_def NewRepository_def)

lemma demo_steps:
  "step NewRepository demo1" "step demo1 demo2" "step demo2 demo3" "step demo3 demo4"
  "step demo4 demo5" "step demo5 demo6" "step demo6 demo7" "step demo7 demo8"
proof -
  show "step NewRepository demo1" unfolding demo1_def
    by (rule step.onboard [OF fresh_call prod.collapse [symmetric]]) (simp add: NewRepository_keys)
  show "step demo1 demo2" unfolding demo2_def by (rule step.review [OF prod.collapse [symmetric]])
  show "step demo2 demo3" unfolding demo3_def
    by (rule step.ingest [OF fresh_call prod.collapse [symmetric]]) (simp add: demo_keys)
  show "step demo3 demo4" unfolding demo4_def
    by (rule step.create_case [OF fresh_call prod.collapse [symmetric]]) (simp add: demo_keys)
  show "step demo4 demo5" unfolding demo5_def
    by (rule step.resolve_case [OF prod.collapse [symmetric]])
  show "step demo5 demo6" unfolding demo6_def
    by (rule step.ingest [OF fresh_call prod.collapse [symmetric]]) (simp add: demo_keys)
  show "step demo6 demo7" unfolding demo7_def
    by (rule step.create_case [OF fresh_call prod.collapse [symmetric]]) (simp add: demo_keys)
  show "step demo7 demo8" unfolding demo8_def
    by (rule step.close_alert [OF prod.collapse [symmetric]])
qed

lemma demo_reachable:
  "reachable demo1" "reachable demo2" "reachable demo3" "reachable demo4" "reachable demo5"
  "reachable demo6" "reachable demo7" "reachable demo8"
  using demo_steps reachable.start reachable.more by blast+

lemma demo_path: "rtranclp step demo2 demo8" "rtranclp step demo3 demo8"
  using demo_steps by (meson rtranclp.rtrancl_into_rtrancl rtranclp.rtrancl_refl)+

lemma demo2_customer: "map_option Customer_Status (mem_customer demo2 ''c'') = Some CustomerActive"
  by code_simp

text \<open>What the final state holds.\<close>

definition summary :: "Repository \<Rightarrow> CustomerStatus option \<times> AlertStatus option \<times> AlertStatus option \<times>
    CaseStatus option \<times> string option \<times> CaseStatus option \<times> string option \<times>
    (string \<times> string \<times> int) option" where
  "summary r = (map_option Customer_Status (mem_customer r ''c''),
      map_option Alert_Status (mem_alert r ''t||''), map_option Alert_Status (mem_alert r ''s||''),
      map_option Case_Status (mem_case r ''k''), map_option Case_AlertID (mem_case r ''k''),
      map_option Case_Status (mem_case r ''m''), map_option Case_AlertID (mem_case r ''m''),
      map_option (\<lambda>t. (Transaction_CustomerID t, Transaction_IdempotencyKey t, Transaction_AmountMinor t))
        (mem_transaction r ''t''))"

lemma demo8_values:
  "summary demo8 =
   (Some CustomerActive, Some AlertClosed, Some AlertClosed, Some CaseResolved, Some ''t||'',
    Some CaseOpen, Some ''s||'', Some (''c'', ''key'', 5))"
  by code_simp

lemma demo8_facts:
  obtains c a al k m t where "mem_customer demo8 ''c'' = Some c" and "Customer_Status c = CustomerActive"
    and "mem_alert demo8 ''t||'' = Some a" and "Alert_Status a = AlertClosed"
    and "mem_alert demo8 ''s||'' = Some al" and "Alert_Status al = AlertClosed"
    and "mem_case demo8 ''k'' = Some k" and "Case_Status k = CaseResolved" and "Case_AlertID k = ''t||''"
    and "mem_case demo8 ''m'' = Some m" and "Case_Status m = CaseOpen" and "Case_AlertID m = ''s||''"
    and "mem_transaction demo8 ''t'' = Some t" and "Transaction_CustomerID t = ''c''"
    and "Transaction_IdempotencyKey t = ''key''" and "Transaction_AmountMinor t = 5"
  using demo8_values by (auto simp: summary_def)

end
