(* ===== verification/Screening_Properties.thy ===== *)
theory Screening_Properties
  imports Scenario
begin

text \<open>
  What screening and ongoing monitoring guarantee over the memory repository: completeness and
  atomicity of a screening, the notifications it queues, decisions on matches, and the leases of
  the monitoring worker. The proofs apply the facts of the contract \<open>mem_screenings\<close> and of the
  loop of \<open>ScreenCustomer\<close>; each property has a concrete run as its witness.
\<close>

section \<open>Concrete runs\<close>

text \<open>A provider that knows one name and is down otherwise.\<close>

definition demo_candidate :: ScreeningCandidate where
  "demo_candidate = \<lparr>Candidate_ListType = ScreeningPEP, Candidate_Name = ''ANN'',
     Candidate_Score = 90, Candidate_Reason = ''name''\<rparr>"

definition demo_provider :: ScreeningProvider where
  "demo_provider = \<lparr>Provider_Name = ''demo'', Provider_Screen = (\<lambda>k name.
     if name = ''Ann'' then Inr [demo_candidate] else Inl (OtherError ''down''))\<rparr>"

definition demo_service :: ScreeningService where
  "demo_service = SetNotificationWebhook ''hook'' (NewScreeningService ''w1'')"

definition demo_screening :: "ScreeningResult result \<times> Repository" where
  "demo_screening = ScreenCustomer mem_screening demo_service (call ''z'' 100) demo_provider
     ''c'' ''ana'' demo2"

definition demo_result :: ScreeningResult where
  "demo_result = (case fst demo_screening of Inr res \<Rightarrow> res | Inl _ \<Rightarrow> \<lparr>Result_Runs = [], Result_Matches = []\<rparr>)"

definition demo_screened :: Repository where "demo_screened = snd demo_screening"

lemma demo_screening_values:
  "fst demo_screening = Inr demo_result" "map Run_ID (Result_Runs demo_result) = [''z'']"
  "map Match_ID (Result_Matches demo_result) = [''z|'']"
  by code_simp+

lemma demo_screening_eq:
  "ScreenCustomer mem_screening demo_service (call ''z'' 100) demo_provider ''c'' ''ana'' demo2 =
     (Inr demo_result, demo_screened)"
  using demo_screening_values(1) by (simp add: demo_screened_def demo_screening_def prod_eq_iff)

lemma call_inj: "inj (Env_IDs (call name t))"
  by (rule injI) (metis (no_types, lifting) call_def call_env.select_convs(2) length_replicate
      same_append_eq)

section \<open>Matches\<close>

text \<open>The operations of the repository that leave its matches alone.\<close>

lemma matches_same:
  "mem_CreateCustomer c e r = (x1, r') \<Longrightarrow> repo_screeningMatches r' = repo_screeningMatches r"
  "mem_ReviewCustomer i d a e r = (x2, r') \<Longrightarrow> repo_screeningMatches r' = repo_screeningMatches r"
  "mem_CreateTransaction t e as es r = (x3, r') \<Longrightarrow> repo_screeningMatches r' = repo_screeningMatches r"
  "mem_CloseAlert i a why e r = (x4, r') \<Longrightarrow> repo_screeningMatches r' = repo_screeningMatches r"
  "mem_CreateCase k e r = (x5, r') \<Longrightarrow> repo_screeningMatches r' = repo_screeningMatches r"
  "mem_AssignCase i a e r = (x6, r') \<Longrightarrow> repo_screeningMatches r' = repo_screeningMatches r"
  "mem_AddCaseComment cm e r = (x7, r') \<Longrightarrow> repo_screeningMatches r' = repo_screeningMatches r"
  "mem_ResolveCase i why a e e2 r = (x8, r') \<Longrightarrow> repo_screeningMatches r' = repo_screeningMatches r"
  "mem_UpsertCDDProfile p e r = (x9, r') \<Longrightarrow> repo_screeningMatches r' = repo_screeningMatches r"
  "mem_AddBeneficialOwner b e r = (x10, r') \<Longrightarrow> repo_screeningMatches r' = repo_screeningMatches r"
  "mem_AddKYCDocument d2 e r = (x11, r') \<Longrightarrow> repo_screeningMatches r' = repo_screeningMatches r"
  "mem_ReviewKYCDocument i st a e r = (x12, r') \<Longrightarrow> repo_screeningMatches r' = repo_screeningMatches r"
  "mem_UpsertScreeningSchedule sc e r = (x13, r') \<Longrightarrow> repo_screeningMatches r' = repo_screeningMatches r"
  "mem_ClaimDueScreeningSchedules now n owner until r = (x14, r') \<Longrightarrow> repo_screeningMatches r' = repo_screeningMatches r"
  "mem_CompleteScreeningSchedule i owner ranAt later err r = (x15, r') \<Longrightarrow> repo_screeningMatches r' = repo_screeningMatches r"
  "mem_ReadNotification i a at r = (x16, r') \<Longrightarrow> repo_screeningMatches r' = repo_screeningMatches r"
  "mem_UpsertNotificationPreference pr r = (x17, r') \<Longrightarrow> repo_screeningMatches r' = repo_screeningMatches r"
  by (auto simp: repo_defs store_transaction_def Let_def split: option.splits if_splits)

lemmas service_defs = Onboard_def Review_def Ingest_def CloseAlert_def Create_def Assign_def
  Comment_def Resolve_def UpdateProfile_def AddOwner_def AddDocument_def ReviewDocument_def
  ConfigureSchedule_def ReadNotification_def ConfigureNotificationPreference_def

text \<open>Only a screening and a decision write matches; a decided match is not written again.\<close>

lemma step_decided_match:
  assumes "step r r'" and m: "mem_match r i = Some m" and "Match_Status m \<noteq> MatchPotential"
  shows "mem_match r' i = Some m"
  using assms(1)
proof (cases rule: step.cases)
  case (save_screening env j svc provider a rs subs st un)
  have fresh: "Match_ID x \<noteq> i" if "x \<in> set (loop_matches st)" for x
  proof -
    have "Match_ID x \<in> set (loop_ids st)" using that by (simp add: loop_ids_def)
    then have "mem_fresh r (Match_ID x)"
      using loop_ids_drawn [OF ids_used_subjects [OF save_screening(3) ids_used_start]]
        save_screening(1) by (auto simp: fresh_ids_def)
    then show ?thesis using m by (auto simp: mem_fresh_def)
  qed
  have "map_of (fold (\<lambda>m. gput (Match_ID m) m) ms mm) i = map_of mm i"
    if "\<And>x. x \<in> set ms \<Longrightarrow> Match_ID x \<noteq> i" for ms mm
    using that by (induction ms arbitrary: mm) auto
  from this [of "loop_matches st", OF fresh] show ?thesis
    using save_screening(4) m by (auto simp: mem_SaveScreening_def store_eqs)
next
  case (dispose env j status reason a m')
  show ?thesis
  proof (cases m')
    case (Inl err)
    then show ?thesis using dispose mem_screenings.Disposition_err m by blast
  next
    case (Inr q)
    show ?thesis
      by (rule mem_screenings.Disposition_okE [OF dispose [unfolded Inr]]) (use m assms(3) in auto)
  qed
qed (use m in \<open>auto simp: service_defs Let_def split: sum.splits prod.splits if_splits
    dest: matches_same\<close>)

section \<open>A screening\<close>

text \<open>What the provider is asked about: the customer, then its beneficial owners in order.\<close>

definition queries_of :: "Repository \<Rightarrow> Customer \<Rightarrow> string \<Rightarrow> subject list" where
  "queries_of r customer ident =
     \<lparr>subject_kind = ScreeningCustomer, subject_id = Customer_ID customer,
      subject_name = Customer_LegalName customer\<rparr> #
     map (\<lambda>owner. \<lparr>subject_kind = ScreeningBeneficialOwner, subject_id = Owner_ID owner,
       subject_name = Owner_FullName owner\<rparr>) (gslice (repo_owners r) ident)"

lemma mem_subjects:
  assumes "mem_customer r ident = Some customer"
  shows "\<exists>cdd. mem_GetDueDiligence ident r = Inr cdd \<and>
    subjects_of customer cdd = queries_of r customer ident"
  using assms by (simp add: mem_GetDueDiligence_def Let_def subjects_of_def queries_of_def)

text \<open>
  C10. A screening that succeeds covers the customer and every beneficial owner, in order, with one
  run each; its matches are exactly the provider's candidates; each match is stored as returned,
  pending a decision and linked to a run of this screening; and the customer's trail grows by one
  completion event per run.
\<close>

theorem screening_complete:
  assumes "ScreenCustomer mem_screening svc env provider i a r = (Inr result, r')"
    and "inj (Env_IDs env)"
  shows "\<exists>customer css.
    mem_customer r (TrimSpace i) = Some customer \<and>
    map (\<lambda>run. \<lparr>subject_kind = Run_SubjectType run, subject_id = Run_SubjectID run,
      subject_name = Run_QueryName run\<rparr>) (Result_Runs result) = queries_of r customer (TrimSpace i) \<and>
    answers provider 0 (queries_of r customer (TrimSpace i)) = Inr css \<and>
    map candidate_of (Result_Matches result) = concat css \<and>
    (\<forall>m \<in> set (Result_Matches result). mem_match r' (Match_ID m) = Some m \<and>
       Match_Status m = MatchPotential \<and> Match_RunID m \<in> Run_ID ` set (Result_Runs result)) \<and>
    length (trail r' (TrimSpace i)) = length (trail r (TrimSpace i)) + length (Result_Runs result)"
proof (rule mem_screenings.ScreenCustomer_okE [OF assms(1)])
  fix customer cdd rs st
  let ?subs = "queries_of r customer (TrimSpace i)"
  assume get: "do_GetCustomer mem_screening (TrimSpace i) r = Inr customer"
    and dd: "do_GetDueDiligence mem_screening (TrimSpace i) r = Inr cdd"
    and run: "screen_subjects svc env provider (TrimSpace i) (TrimSpace a) rs 0
           (subjects_of customer cdd) loop_start = Inr st"
    and save: "do_SaveScreening mem_screening (loop_runs st) (loop_matches st) (loop_notifications st)
           (loop_outbox st) (loop_events st) r = (Inr (), r')"
    and res: "result = \<lparr>Result_Runs = loop_runs st, Result_Matches = loop_matches st\<rparr>"
  have c: "mem_customer r (TrimSpace i) = Some customer"
    using get by (simp add: mem_GetCustomer_def split: option.splits)
  then have "subjects_of customer cdd = ?subs" using mem_subjects dd by fastforce
  note run = run [unfolded this]
  obtain css where css: "answers provider 0 ?subs = Inr css"
    using run screen_subjects_err [of svc env provider "TrimSpace i" "TrimSpace a" rs 0 ?subs loop_start]
    by (cases "answers provider 0 ?subs") auto
  note ok = screen_subjects_ok [OF run css]
  have subs: "map (\<lambda>run. \<lparr>subject_kind = Run_SubjectType run, subject_id = Run_SubjectID run,
      subject_name = Run_QueryName run\<rparr>) (loop_runs st) = ?subs"
    using screen_subjects_runs [OF run] by (simp add: loop_start_def)
  then have "length (loop_events st) = length (loop_runs st)"
    using ok(5) by (simp add: loop_start_def flip: subs)
  moreover have "\<forall>e \<in> set (loop_events st). Event_AggregateID e = TrimSpace i"
    using belongs_subjects [OF run belongs_start] by (simp add: belongs_def)
  then have "filter (\<lambda>e. Event_AggregateID e = TrimSpace i) (loop_events st) = loop_events st" by simp
  ultimately have "length (trail r' (TrimSpace i)) = length (trail r (TrimSpace i)) + length (loop_runs st)"
    using mem_screenings.save_ok [OF save] by simp
  moreover have "map candidate_of (loop_matches st) = concat css"
    using ok(3) by (simp add: loop_start_def)
  ultimately show ?thesis
    using c subs css mem_screenings.ScreenCustomer_stored [OF assms]
    by (intro exI [of _ customer] exI [of _ css]) (simp add: res)
qed

theorem screening_complete_witness:
  "\<exists>css. map candidate_of (Result_Matches demo_result) = concat css \<and>
     length (trail demo_screened ''c'') = length (trail demo2 ''c'') + length (Result_Runs demo_result)"
proof -
  have "TrimSpace ''c'' = ''c''" by code_simp
  then show ?thesis using screening_complete [OF demo_screening_eq call_inj] by auto
qed

text \<open>
  C11. A screening fails in exactly three ways - a blank argument, an unknown customer, or the first
  error of the provider on the customer or one of its owners - and then nothing of it is stored,
  not even the runs that had succeeded before the error.
\<close>

theorem screening_atomic:
  assumes "ScreenCustomer mem_screening svc env provider i a r = (x, r')"
  shows "(x = Inl err \<longleftrightarrow>
      (if TrimSpace i = [] \<or> TrimSpace a = [] then err = ErrInvalidScreening
       else case mem_customer r (TrimSpace i) of
              None \<Rightarrow> err = ErrCustomerNotFound
            | Some customer \<Rightarrow> answers provider 0 (queries_of r customer (TrimSpace i)) = Inl err)) \<and>
    (x = Inl err \<longrightarrow> r' = r)"
proof (intro conjI impI)
  show "r' = r" if "x = Inl err" using assms that mem_screenings.ScreenCustomer_err by blast
  show "x = Inl err \<longleftrightarrow>
      (if TrimSpace i = [] \<or> TrimSpace a = [] then err = ErrInvalidScreening
       else case mem_customer r (TrimSpace i) of
              None \<Rightarrow> err = ErrCustomerNotFound
            | Some customer \<Rightarrow> answers provider 0 (queries_of r customer (TrimSpace i)) = Inl err)"
  proof (cases "TrimSpace i = [] \<or> TrimSpace a = [] \<or> mem_customer r (TrimSpace i) = None")
    case True
    then show ?thesis using assms by (auto simp: ScreenCustomer_def mem_GetCustomer_def Let_def)
  next
    case False
    then obtain customer where c: "mem_customer r (TrimSpace i) = Some customer" by auto
    obtain cdd where cdd: "mem_GetDueDiligence (TrimSpace i) r = Inr cdd"
      and subs: "subjects_of customer cdd = queries_of r customer (TrimSpace i)"
      using mem_subjects [OF c] by blast
    show ?thesis
      using assms False c cdd subs
        screen_subjects_err [of svc env provider "TrimSpace i" "TrimSpace a"
          "sort (map Preference_EmailAddress
            (filter Preference_EmailEnabled (gvals (repo_notificationPreferences r))))" 0
          "subjects_of customer cdd" loop_start]
      by (auto simp: ScreenCustomer_def mem_GetCustomer_def mem_ListEmailNotificationRecipients_def
          mem_SaveScreening_def Let_def split: sum.splits)
  qed
qed

theorem screening_atomic_witness:
  "\<exists>err. ScreenCustomer mem_screening demo_service (call ''z'' 100)
      (demo_provider\<lparr>Provider_Screen := (\<lambda>k name. Inl (OtherError ''down''))\<rparr>) ''c'' ''ana'' demo2
      = (Inl err, demo2)"
proof -
  let ?down = "demo_provider\<lparr>Provider_Screen := (\<lambda>k name. Inl (OtherError ''down''))\<rparr>"
  obtain x r' where run: "ScreenCustomer mem_screening demo_service (call ''z'' 100) ?down
      ''c'' ''ana'' demo2 = (x, r')" by fastforce
  have "TrimSpace ''c'' = ''c''" "TrimSpace ''ana'' = ''ana''" by code_simp+
  moreover obtain c where "mem_customer demo2 ''c'' = Some c" using demo2_customer by auto
  ultimately have "x = Inl (OtherError ''down'') \<and> r' = demo2"
    using screening_atomic [OF run, of "OtherError ''down''"] by (simp add: queries_of_def)
  then show ?thesis using run by auto
qed

text \<open>
  C14. A decision on a match is final: once a match is confirmed or dismissed, its record is the same
  after any sequence of service calls, and a second decision is refused and changes nothing.
\<close>

theorem match_decision_final:
  assumes "Disposition mem_screening env i status reason a r = (Inr m, r')"
    and "rtranclp step r' r2"
  shows "mem_match r2 (TrimSpace i) = Some m \<and> Match_Status m \<in> {MatchConfirmed, MatchFalsePositive} \<and>
    Match_ReviewedBy m = TrimSpace a \<and> Match_DispositionReason m = TrimSpace reason \<and>
    (\<exists>err. Disposition mem_screening env' i status' reason' a' r2 = (Inl err, r2))"
proof -
  have m: "mem_match r' (TrimSpace i) = Some m" "Match_Status m \<in> {MatchConfirmed, MatchFalsePositive}"
    "Match_ReviewedBy m = TrimSpace a" "Match_DispositionReason m = TrimSpace reason"
    by (rule mem_screenings.Disposition_okE [OF assms(1)], simp)+
  from assms(2) have kept: "mem_match r2 (TrimSpace i) = Some m"
    by (induction rule: rtranclp_induct) (use m step_decided_match in auto)
  have "\<exists>err. Disposition mem_screening env' i status' reason' a' r2 = (Inl err, r2)"
  proof (cases "Disposition mem_screening env' i status' reason' a' r2")
    case (Pair x r3)
    then have "x \<noteq> Inr m2" for m2
      using mem_screenings.Disposition_okE [of env' i status' reason' a' r2 m2 r3] kept m(2)
      by fastforce
    then show ?thesis using Pair mem_screenings.Disposition_err by (cases x) auto
  qed
  with kept m show ?thesis by simp
qed

definition demo_decided :: "ScreeningMatch result \<times> Repository" where
  "demo_decided = Disposition mem_screening (call ''d'' 110) ''z|'' MatchConfirmed ''same'' ''ana''
     demo_screened"

theorem match_decision_final_witness:
  "\<exists>err. Disposition mem_screening (call ''e'' 120) ''z|'' MatchFalsePositive ''other'' ''bob''
     (snd demo_decided) = (Inl err, snd demo_decided)"
proof -
  have "\<not> isl (fst demo_decided)" by code_simp
  then obtain m where "demo_decided = (Inr m, snd demo_decided)"
    by (cases "fst demo_decided") (auto simp: prod_eq_iff)
  then show ?thesis
    using match_decision_final [OF demo_decided_def [symmetric, THEN trans] rtranclp.rtrancl_refl] by blast
qed

section \<open>What is queued for delivery\<close>

text \<open>The messages a notification gives rise to.\<close>

definition addressed :: "ScreeningService \<Rightarrow> string list \<Rightarrow> Notification \<Rightarrow> (string \<times> string \<times> string) list" where
  "addressed svc recipients n =
     (if Service_webhookURL svc = [] then [] else [(Notification_ID n, ''webhook'', Service_webhookURL svc)]) @
     map (\<lambda>to. (Notification_ID n, ''email'', to)) recipients"

definition routed :: "OutboxMessage \<Rightarrow> string \<times> string \<times> string" where
  "routed o' = (Outbox_NotificationID o', Outbox_Channel o', Outbox_Destination o')"

definition fanned :: "ScreeningService \<Rightarrow> string list \<Rightarrow> screening_loop \<Rightarrow> bool" where
  "fanned svc recipients st \<longleftrightarrow>
     map routed (loop_outbox st) = concat (map (addressed svc recipients) (loop_notifications st)) \<and>
     list_all (\<lambda>o'. Outbox_Status o' = ''pending'' \<and> Outbox_Attempts o' = 0) (loop_outbox st)"

lemma fold_enqueue_routed:
  "map routed (loop_outbox (fold (enqueue env ch n) ds st)) =
     map routed (loop_outbox st) @ map (\<lambda>to. (Notification_ID n, ch, to)) ds"
  "list_all (\<lambda>o'. Outbox_Status o' = ''pending'' \<and> Outbox_Attempts o' = 0)
     (loop_outbox (fold (enqueue env ch n) ds st)) =
   list_all (\<lambda>o'. Outbox_Status o' = ''pending'' \<and> Outbox_Attempts o' = 0) (loop_outbox st)"
  by (induction ds arbitrary: st) (simp_all add: routed_def outbox_message_def)

lemma fanned_candidate:
  "fanned svc rs st \<Longrightarrow> fanned svc rs (screen_candidate svc env c rs sub i cand st)"
  by (simp add: fanned_def screen_candidate_def Let_def fold_enqueue_routed addressed_def)
    (simp add: routed_def outbox_message_def)

lemma fanned_candidates:
  "fanned svc rs st \<Longrightarrow> fanned svc rs (fold (screen_candidate svc env c rs sub i) cands st)"
  by (induction cands arbitrary: st) (simp_all add: fanned_candidate)

lemma fanned_subjects:
  "screen_subjects svc env provider c a rs k subs st = Inr st' \<Longrightarrow> fanned svc rs st \<Longrightarrow>
   fanned svc rs st'"
proof (induction subs arbitrary: k st)
  case (Cons sub subs)
  then obtain st1 where one: "screen_subject svc env provider c a rs k sub st = Inr st1"
    and rest: "screen_subjects svc env provider c a rs (k + 1) subs st1 = Inr st'"
    by (auto split: sum.splits)
  have "fanned svc rs (st\<lparr>loop_drawn := n, loop_runs := xs\<rparr>)" for n xs
    using Cons.prems(2) by (simp add: fanned_def)
  then have "fanned svc rs st1"
    using one fanned_candidates
    by (auto simp: screen_subject_def Let_def split: sum.splits) (simp add: fanned_def)
  then show ?case using Cons.IH [OF rest] by simp
qed simp



section \<open>Leases of the monitoring worker\<close>

text \<open>
  C16. A lease is exclusive: of two claims on the memory repository, the second one within the lease
  of the first, no schedule is handed out twice, whoever claims; and until the lease ends only the
  worker that holds it can complete the job.
\<close>

theorem leases_exclude:
  assumes "schedules_wf r"
    and "mem_ClaimDueScreeningSchedules now n owner until r = (Inr xs, r1)"
    and "mem_ClaimDueScreeningSchedules now' n' owner' until' r1 = (Inr ys, r2)"
    and "now' < until"
  shows "Schedule_CustomerID ` set xs \<inter> Schedule_CustomerID ` set ys = {} \<and>
    (\<forall>x \<in> set xs. \<forall>other. other \<noteq> owner \<longrightarrow>
       mem_CompleteScreeningSchedule (Schedule_CustomerID x) other ranAt later err r2 =
         (Inl ErrScreeningScheduleNotFound, r2))"
proof
  show "Schedule_CustomerID ` set xs \<inter> Schedule_CustomerID ` set ys = {}"
    using mem_screenings.lease_exclusive [OF assms(1) _ _ assms(4)] assms(2,3) by simp
  show "\<forall>x \<in> set xs. \<forall>other. other \<noteq> owner \<longrightarrow>
       mem_CompleteScreeningSchedule (Schedule_CustomerID x) other ranAt later err r2 =
         (Inl ErrScreeningScheduleNotFound, r2)"
  proof (intro ballI allI impI)
    fix x other
    assume "x \<in> set xs" and other: "other \<noteq> owner"
    then obtain s where "mem_schedule r1 (Schedule_CustomerID x) = Some x" and x: "x = lease owner until s"
      using mem_Claim_contract(3) [OF assms(1,2)] by blast
    moreover from this have "\<not> schedule_due now' x" using assms(4) by simp
    ultimately have "mem_schedule r2 (Schedule_CustomerID x) = Some x"
      using mem_Claim_contract(4) [OF mem_Claim_contract(1) [OF assms(1,2)] assms(3)] by blast
    then show "mem_CompleteScreeningSchedule (Schedule_CustomerID x) other ranAt later err r2 =
         (Inl ErrScreeningScheduleNotFound, r2)"
      using mem_screenings.complete_foreign [of r2 "Schedule_CustomerID x" x other ranAt later err]
        other x by simp
  qed
qed

text \<open>Two schedules that are due, one after the other.\<close>

definition demo_schedule :: "string \<Rightarrow> time \<Rightarrow> ScreeningSchedule" where
  "demo_schedule ident due = \<lparr>Schedule_CustomerID = ident, Schedule_Enabled = True,
     Schedule_IntervalHours = 24, Schedule_NextRunAt = due, Schedule_LastRunAt = None,
     Schedule_LastError = [], Schedule_FailureCount = 0, Schedule_LeaseOwner = [],
     Schedule_LeaseUntil = None, Schedule_UpdatedBy = ''ana'', Schedule_UpdatedAt = 0\<rparr>"

definition two_schedules :: Repository where
  "two_schedules = demo2\<lparr>repo_screeningSchedules :=
     [(''c'', demo_schedule ''c'' 50), (''d'', demo_schedule ''d'' 60)]\<rparr>"

lemma two_schedules_wf: "schedules_wf two_schedules"
  by (simp add: schedules_wf_def keyed_def gomap_ok_def two_schedules_def demo_schedule_def)

definition first_claim :: "ScreeningSchedule list result \<times> Repository" where
  "first_claim = mem_ClaimDueScreeningSchedules 100 1 ''w1'' 200 two_schedules"

definition second_claim :: "ScreeningSchedule list result \<times> Repository" where
  "second_claim = mem_ClaimDueScreeningSchedules 150 5 ''w2'' 250 (snd first_claim)"

lemma claim_values:
  "map_sum (\<lambda>_. ()) (map Schedule_CustomerID) (fst first_claim) = Inr [''c'']"
  "map_sum (\<lambda>_. ()) (map Schedule_CustomerID) (fst second_claim) = Inr []"
  by code_simp+

lemma demo_claims:
  obtains x where "mem_ClaimDueScreeningSchedules 100 1 ''w1'' 200 two_schedules = (Inr [x], snd first_claim)"
    and "Schedule_CustomerID x = ''c''"
    and "mem_ClaimDueScreeningSchedules 150 5 ''w2'' 250 (snd first_claim) = (Inr [], snd second_claim)"
proof -
  obtain x where "fst first_claim = Inr [x]" and "Schedule_CustomerID x = ''c''"
    using claim_values(1) by (cases "fst first_claim") auto
  moreover have "fst second_claim = Inr []"
    using claim_values(2) by (cases "fst second_claim") auto
  ultimately show thesis
    using that unfolding first_claim_def second_claim_def by (metis prod.collapse)
qed

theorem leases_exclude_witness:
  "mem_CompleteScreeningSchedule ''c'' ''w2'' 150 300 [] (snd second_claim) =
     (Inl ErrScreeningScheduleNotFound, snd second_claim)"
  by (rule demo_claims) (use leases_exclude [OF two_schedules_wf, of 100 1 "''w1''" 200 _ _ 150] in fastforce)

text \<open>
  A claim can strand work: the memory repository leases every due schedule but returns at most
  the asked number, so a due schedule that is not returned is locked - no worker, not even the one
  that claimed, is given it before the lease has run out.
\<close>

theorem claim_strands_unreturned:
  assumes "schedules_wf r"
    and "mem_ClaimDueScreeningSchedules now n owner until r = (Inr xs, r1)"
    and "mem_schedule r k = Some s" and "schedule_due now s" and "k \<notin> Schedule_CustomerID ` set xs"
    and "now' < until"
    and "mem_ClaimDueScreeningSchedules now' n' owner' until' r1 = (Inr ys, r2)"
  shows "mem_schedule r1 k = Some (lease owner until s) \<and> k \<notin> Schedule_CustomerID ` set ys"
proof
  show leased: "mem_schedule r1 k = Some (lease owner until s)"
    using mem_Claim_lookup [OF assms(2), of k] assms(3,4) by simp
  show "k \<notin> Schedule_CustomerID ` set ys"
  proof
    assume "k \<in> Schedule_CustomerID ` set ys"
    then obtain s' where "mem_schedule r1 k = Some s'" and "schedule_due now' s'"
      using mem_Claim_contract(3) [OF mem_Claim_contract(1) [OF assms(1,2)] assms(7)] by blast
    then show False using leased assms(6) by (auto simp del: lease_simps(3))
  qed
qed

theorem claim_strands_unreturned_witness:
  "map_option Schedule_LeaseOwner (mem_schedule (snd first_claim) ''d'') = Some ''w1'' \<and>
   fst second_claim = Inr []"
proof (rule demo_claims)
  fix x
  assume one: "mem_ClaimDueScreeningSchedules 100 1 ''w1'' 200 two_schedules = (Inr [x], snd first_claim)"
    "Schedule_CustomerID x = ''c''"
    and two: "mem_ClaimDueScreeningSchedules 150 5 ''w2'' 250 (snd first_claim) = (Inr [], snd second_claim)"
  have "mem_schedule two_schedules ''d'' = Some (demo_schedule ''d'' 60)"
    by (simp add: two_schedules_def)
  moreover have "schedule_due 100 (demo_schedule ''d'' 60)"
    by (simp add: schedule_due_def demo_schedule_def)
  ultimately have "mem_schedule (snd first_claim) ''d'' = Some (lease ''w1'' 200 (demo_schedule ''d'' 60))"
    using claim_strands_unreturned [OF two_schedules_wf one(1) _ _ _ _ two] one(2) by simp
  then show ?thesis using arg_cong [OF two, of fst] by (simp add: second_claim_def)
qed


definition demo_worker :: "(int \<times> error option) \<times> Repository" where
  "demo_worker = RunDue mem_screening (NewScreeningService ''w1'') 100 (\<lambda>k. call ''y'' 100)
     (\<lambda>k. demo_provider) 1 two_schedules"

lemma demo_worker_values:
  "fst demo_worker = (1, None)"
  "map_sum (\<lambda>_. ()) (map (\<lambda>x. (Schedule_CustomerID x, Schedule_IntervalHours x)))
     (fst (mem_ClaimDueScreeningSchedules 100 1 ''w1'' (100 + 5 * Minute) two_schedules)) =
   Inr [(''c'', 24)]"
  by code_simp+


text \<open>
  Reconfiguring a schedule takes it away from the worker that holds it: the lease is dropped, so
  the worker cannot complete the job any more, and its run stops there with an error, leaving the
  rest of its batch leased and unscreened.
\<close>

theorem reconfigure_revokes_lease:
  assumes "ConfigureSchedule mem_screening env i enabled hours a r = (Inr s, r1)"
    and "Service_workerID svc \<noteq> []" and "Schedule_CustomerID x = TrimSpace i"
  shows "Schedule_LeaseOwner s = [] \<and> mem_schedule r1 (TrimSpace i) = Some s \<and>
    (\<exists>r2. run_schedules mem_screening svc now envs providers k (x # rest) done_jobs failed r1 =
       ((done_jobs, failed, Some ErrScreeningScheduleNotFound), r2) \<and>
       (\<forall>j. mem_schedule r2 j = mem_schedule r1 j))"
proof -
  obtain sc e where run: "mem_UpsertScreeningSchedule sc e r = (Inr s, r1)"
    and sc: "Schedule_CustomerID sc = TrimSpace i" "Schedule_LeaseOwner sc = []"
    using assms(1) by (auto simp: ConfigureSchedule_def Let_def split: if_splits sum.splits)
  have s: "mem_schedule r1 (TrimSpace i) = Some s" "Schedule_LeaseOwner s = []"
    by (rule mem_UpsertScreeningSchedule_okE [OF run], use sc in \<open>auto split: option.splits\<close>)+
  obtain out r2 where screen: "ScreenCustomer mem_screening svc (envs k) (providers k)
      (Schedule_CustomerID x) ''ongoing-monitoring-worker'' r1 = (out, r2)" by fastforce
  have same: "mem_schedule r2 = mem_schedule r1"
    by (rule mem_screenings.ScreenCustomer_schedules [OF screen])
  have "mem_CompleteScreeningSchedule (Schedule_CustomerID x) (Service_workerID svc) ranAt later err r2 =
      (Inl ErrScreeningScheduleNotFound, r2)" for ranAt later err
    using mem_screenings.complete_refused [of r2 "Schedule_CustomerID x" "Service_workerID svc"]
      s same assms(2,3) by simp
  then have "run_schedules mem_screening svc now envs providers k (x # rest) done_jobs failed r1 =
       ((done_jobs, failed, Some ErrScreeningScheduleNotFound), r2)"
    using screen by simp
  then show ?thesis using s same by metis
qed

definition demo_reconfigured :: "ScreeningSchedule result \<times> Repository" where
  "demo_reconfigured = ConfigureSchedule mem_screening (call ''q'' 120) ''c'' True 12 ''bob'' (snd first_claim)"

theorem reconfigure_revokes_lease_witness:
  "\<exists>s r2. fst demo_reconfigured = Inr s \<and>
     run_schedules mem_screening (NewScreeningService ''w1'') 150 (\<lambda>k. call ''y'' 150) (\<lambda>k. demo_provider)
       0 [demo_schedule ''c'' 50, demo_schedule ''d'' 60] 0 0 (snd demo_reconfigured) =
       ((0, 0, Some ErrScreeningScheduleNotFound), r2)"
proof -
  have "\<not> isl (fst demo_reconfigured)" by code_simp
  then obtain s where s: "demo_reconfigured = (Inr s, snd demo_reconfigured)"
    by (cases "fst demo_reconfigured") (auto simp: prod_eq_iff)
  have "Service_workerID (NewScreeningService ''w1'') \<noteq> []" by (simp add: NewScreeningService_def)
  moreover have "Schedule_CustomerID (demo_schedule ''c'' 50) = TrimSpace ''c''" by code_simp
  ultimately show ?thesis
    using reconfigure_revokes_lease [OF s [unfolded demo_reconfigured_def], folded demo_reconfigured_def] s
    by (metis fst_conv)
qed

end
