(* ===== verification/Pages.thy ===== *)
theory Pages
  imports Domain
begin

text \<open>
  Cursors and page requests: \<^verbatim>\<open>PageRequest\<close> and the cursor closures of
  \<^verbatim>\<open>internal/application/queries.go\<close>, and the helpers \<^verbatim>\<open>before\<close>, \<^verbatim>\<open>newer\<close> and \<^verbatim>\<open>limit\<close> of
  \<^verbatim>\<open>internal/infrastructure/memory/repository.go\<close>. A listing is ordered by (time, identifier),
  newest first; \<open>cursor\<close> carries that order as a class instance.
\<close>

section \<open>Cursors and requests\<close>

datatype cursor = Cursor (cursor_time: time) (cursor_id: string)

instantiation cursor :: linorder
begin

definition less_eq_cursor :: "cursor \<Rightarrow> cursor \<Rightarrow> bool" where
  "less_eq_cursor a b \<longleftrightarrow>
     cursor_time a < cursor_time b \<or>
     cursor_time a = cursor_time b \<and> cursor_id a \<le> cursor_id b"

definition less_cursor :: "cursor \<Rightarrow> cursor \<Rightarrow> bool" where
  "less_cursor a b \<longleftrightarrow>
     cursor_time a < cursor_time b \<or>
     cursor_time a = cursor_time b \<and> cursor_id a < cursor_id b"

instance
  by standard (auto simp: less_eq_cursor_def less_cursor_def intro: cursor.expand)

end

record PageRequest =
  Page_Limit :: int
  Page_CursorTime :: time
  Page_CursorID :: string

definition before :: "time \<Rightarrow> string \<Rightarrow> PageRequest \<Rightarrow> bool" where
  "before timestamp ident page \<longleftrightarrow>
     IsZero (Page_CursorTime page) \<or> timestamp < Page_CursorTime page \<or>
     (timestamp = Page_CursorTime page \<and> ident < Page_CursorID page)"

definition newer :: "time \<Rightarrow> string \<Rightarrow> time \<Rightarrow> string \<Rightarrow> bool" where
  "newer a aID b bID \<longleftrightarrow> b < a \<or> (a = b \<and> bID < aID)"

text \<open>A negative size would panic in \<^verbatim>\<open>items[:size]\<close>; the services ask for two items or more.\<close>

definition limit :: "'a list \<Rightarrow> int \<Rightarrow> 'a list" where
  "limit items n = (if n < int (length items) then take (nat n) items else items)"

text \<open>
  The methods sort by \<open>newer\<close> on a time field and the identifier. Both fields together are the
  element's cursor.
\<close>

lemma newer_cursor: "newer a aID b bID \<longleftrightarrow> Cursor b bID < Cursor a aID"
  by (auto simp: newer_def less_cursor_def)

lemma before_cursor:
  "before t i p \<longleftrightarrow>
     Page_CursorTime p = 0 \<or> Cursor t i < Cursor (Page_CursorTime p) (Page_CursorID p)"
  by (auto simp: before_def IsZero_def less_cursor_def)

lemma limit_take: "0 \<le> n \<Longrightarrow> limit xs n = take (nat n) xs"
  by (auto simp: limit_def)

text \<open>The \<^verbatim>\<open>cursor\<close> closures of the query service: the fields each listing is ordered by.\<close>

definition Customer_cursor :: "Customer \<Rightarrow> cursor" where
  "Customer_cursor v = Cursor (Customer_CreatedAt v) (Customer_ID v)"
definition Transaction_cursor :: "Transaction \<Rightarrow> cursor" where
  "Transaction_cursor v = Cursor (Transaction_OccurredAt v) (Transaction_ID v)"
definition Event_cursor :: "AuditEvent \<Rightarrow> cursor" where
  "Event_cursor v = Cursor (Event_OccurredAt v) (Event_ID v)"
definition Alert_cursor :: "Alert \<Rightarrow> cursor" where
  "Alert_cursor v = Cursor (Alert_CreatedAt v) (Alert_ID v)"
definition Case_cursor :: "InvestigationCase \<Rightarrow> cursor" where
  "Case_cursor v = Cursor (Case_UpdatedAt v) (Case_ID v)"

lemmas cursor_defs = Customer_cursor_def Transaction_cursor_def Event_cursor_def
  Alert_cursor_def Case_cursor_def

end
