(* ===== verification/Encoding.thy ===== *)
theory Encoding
  imports Prelude
begin

text \<open>
  \<^verbatim>\<open>base64.RawURLEncoding\<close>, the outer layer of a page token: three bytes become four letters of
  the URL alphabet, without padding. Decoding skips line ends, refuses any other foreign
  character and a lone last letter, and ignores the unused low bits of the last letter, as Go's
  non-strict decoder does. The round trip at the end is what page tokens rely on.
\<close>

definition base64_alphabet :: string where
  "base64_alphabet = ''ABCDEFGHIJKLMNOPQRSTUVWXYZabcdefghijklmnopqrstuvwxyz0123456789-_''"

fun to_sextets :: "nat list \<Rightarrow> nat list" where
  "to_sextets [] = []"
| "to_sextets [a] = [a div 4, a mod 4 * 16]"
| "to_sextets [a, b] = [a div 4, a mod 4 * 16 + b div 16, b mod 16 * 4]"
| "to_sextets (a # b # c # rest) =
     [a div 4, a mod 4 * 16 + b div 16, b mod 16 * 4 + c div 64, c mod 64] @ to_sextets rest"

fun from_sextets :: "nat list \<Rightarrow> nat list option" where
  "from_sextets [] = Some []"
| "from_sextets [s] = None"
| "from_sextets [s, t] = Some [s * 4 + t div 16]"
| "from_sextets [s, t, u] = Some [s * 4 + t div 16, t mod 16 * 16 + u div 4]"
| "from_sextets (s # t # u # v # rest) =
     map_option ((@) [s * 4 + t div 16, t mod 16 * 16 + u div 4, u mod 4 * 64 + v])
       (from_sextets rest)"

fun position :: "'a \<Rightarrow> 'a list \<Rightarrow> nat option" where
  "position x [] = None"
| "position x (y # ys) = (if x = y then Some 0 else map_option Suc (position x ys))"

definition RawURL_EncodeToString :: "string \<Rightarrow> string" where
  "RawURL_EncodeToString src = map (\<lambda>s. base64_alphabet ! s) (to_sextets (map of_char src))"

definition RawURL_DecodeString :: "string \<Rightarrow> string option" where
  "RawURL_DecodeString s =
     (let letters = filter (\<lambda>c. c \<noteq> CHR 0x0A \<and> c \<noteq> CHR 0x0D) s;
          sextets = map (\<lambda>c. position c base64_alphabet) letters
      in if None \<in> set sextets then None
         else map_option (map char_of) (from_sextets (map the sextets)))"

lemma to_sextets_bound: "\<forall>x \<in> set xs. x < 256 \<Longrightarrow> s \<in> set (to_sextets xs) \<Longrightarrow> s < 64"
  by (induction xs arbitrary: s rule: to_sextets.induct) (auto simp: less_mult_imp_div_less)

lemma digits_split:
  fixes x y :: nat
  shows "y < 16 \<Longrightarrow> (x * 16 + y) div 16 = x" and "y < 16 \<Longrightarrow> (x * 16 + y) mod 16 = y"
    and "y < 4 \<Longrightarrow> (x * 4 + y) div 4 = x" and "y < 4 \<Longrightarrow> (x * 4 + y) mod 4 = y"
  by simp_all

lemma byte_parts:
  fixes b :: nat
  assumes "b < 256"
  shows "b div 16 < 16" and "b div 64 < 4"
  using assms by simp_all

lemma byte_joins:
  fixes b :: nat
  shows "b div 4 * 4 + b mod 4 = b" and "b div 16 * 16 + b mod 16 = b" and "b div 64 * 64 + b mod 64 = b"
  by simp_all

lemma from_to_sextets: "\<forall>x \<in> set xs. x < 256 \<Longrightarrow> from_sextets (to_sextets xs) = Some xs"
proof (induction xs rule: to_sextets.induct)
  case (3 a b)
  then show ?case by (simp only: to_sextets.simps from_sextets.simps) (simp add: digits_split byte_parts)
next
  case (4 a b c rest)
  then have "b div 16 < 16" and "c div 64 < 4" by (simp_all add: byte_parts)
  with 4 show ?case
    by (simp only: to_sextets.simps from_sextets.simps append.simps digits_split byte_joins) simp
qed auto

lemma position_nth:
  "distinct xs \<Longrightarrow> n < length xs \<Longrightarrow> position (xs ! n) xs = Some n"
  by (induction xs arbitrary: n) (auto simp: nth_Cons' gr0_conv_Suc)

lemma position_alphabet: "s < 64 \<Longrightarrow> position (base64_alphabet ! s) base64_alphabet = Some s"
  by (rule position_nth) (simp_all add: base64_alphabet_def)

lemma alphabet_no_newline:
  assumes "s < 64"
  shows "base64_alphabet ! s \<noteq> CHR 0x0A" and "base64_alphabet ! s \<noteq> CHR 0x0D"
proof -
  have "base64_alphabet ! s \<in> set base64_alphabet"
    using assms by (intro nth_mem) (simp add: base64_alphabet_def)
  then show "base64_alphabet ! s \<noteq> CHR 0x0A" and "base64_alphabet ! s \<noteq> CHR 0x0D"
    by (auto simp: base64_alphabet_def)
qed

lemma RawURL_roundtrip: "RawURL_DecodeString (RawURL_EncodeToString src) = Some src"
proof -
  let ?ss = "to_sextets (map of_char src)"
  have bytes: "\<forall>x \<in> set (map of_char src :: nat list). x < 256" by auto
  have bound: "s < 64" if "s \<in> set ?ss" for s using to_sextets_bound [OF bytes that] .
  have "filter (\<lambda>c. c \<noteq> CHR 0x0A \<and> c \<noteq> CHR 0x0D) (RawURL_EncodeToString src) =
        RawURL_EncodeToString src"
    using bound alphabet_no_newline by (auto simp: RawURL_EncodeToString_def filter_id_conv)
  moreover have "map (\<lambda>c. position c base64_alphabet) (RawURL_EncodeToString src) = map Some ?ss"
    using bound by (simp add: RawURL_EncodeToString_def position_alphabet)
  ultimately show ?thesis
    by (simp only: RawURL_DecodeString_def Let_def) (simp add: from_to_sextets [OF bytes] comp_def)
qed

lemma RawURL_EncodeToString_eq_Nil [simp]: "RawURL_EncodeToString s = [] \<longleftrightarrow> s = []"
proof
  assume "RawURL_EncodeToString s = []"
  then show "s = []" using RawURL_roundtrip [of s] RawURL_roundtrip [of "[]"]
    by (simp add: RawURL_EncodeToString_def)
qed (simp add: RawURL_EncodeToString_def)

section \<open>Properties\<close>

lemma filter_no_newline:
  "filter (\<lambda>c. c \<noteq> CHR 0x0A \<and> c \<noteq> CHR 0x0D) (RawURL_EncodeToString src) = RawURL_EncodeToString src"
proof -
  have bytes: "\<forall>x \<in> set (map of_char src :: nat list). x < 256" by auto
  have "s < 64" if "s \<in> set (to_sextets (map of_char src))" for s
    using to_sextets_bound [OF bytes that] .
  then show ?thesis
    using alphabet_no_newline by (auto simp: RawURL_EncodeToString_def filter_id_conv)
qed

text \<open>
  Base64 round trip: decoding an encoded byte string gives it back, whatever line ends were
  inserted into the text on the way.
\<close>

theorem base64_roundtrip:
  assumes "filter (\<lambda>c. c \<noteq> CHR 0x0A \<and> c \<noteq> CHR 0x0D) wrapped = RawURL_EncodeToString src"
  shows "RawURL_DecodeString wrapped = Some src"
proof -
  have "RawURL_DecodeString wrapped = RawURL_DecodeString (RawURL_EncodeToString src)"
    unfolding RawURL_DecodeString_def assms filter_no_newline ..
  then show ?thesis by (simp add: RawURL_roundtrip)
qed

theorem base64_roundtrip_witness: "RawURL_DecodeString (''aGV'' @ [CHR 0x0A] @ ''5'') = Some ''hey''"
  by (rule base64_roundtrip) code_simp

end
