(* ===== verification/Queries.thy ===== *)
theory Queries
  imports Pages Encoding
begin

text \<open>
  \<^verbatim>\<open>internal/application/queries.go\<close>: page requests, page tokens and the query service. The JSON
  text inside a token is a parameter (\<open>Marshal\<close>, \<open>Unmarshal\<close>: \<^verbatim>\<open>encoding/json\<close> on the
  struct of a time and an identifier); the base64 layer is theory \<open>Encoding\<close>. The service's
  methods take the repository's list method as an argument, as the Go service holds it behind
  \<^verbatim>\<open>ReadRepository\<close>. The locale \<open>paged_source\<close> is what that interface promises, and its
  lemmas show that following the tokens visits every item once, in order.
\<close>

record 'a Page =
  Items :: "'a list"
  NextPageToken :: string

definition NewPageRequest :: "(string \<Rightarrow> cursor option) \<Rightarrow> int \<Rightarrow> string \<Rightarrow> PageRequest result" where
  "NewPageRequest Unmarshal size0 token =
     (let n = (if size0 = 0 then 25 else size0)
      in if n < 1 \<or> 100 < n then Inl ErrInvalidPage
         else
           (let request = \<lparr>Page_Limit = n + 1, Page_CursorTime = zero_time, Page_CursorID = []\<rparr>
            in if token = [] then Inr request
               else (case RawURL_DecodeString token of
                   None \<Rightarrow> Inl ErrInvalidPage
                 | Some data \<Rightarrow>
                     (case Unmarshal data of
                        None \<Rightarrow> Inl ErrInvalidPage
                      | Some cursor \<Rightarrow>
                          if IsZero (cursor_time cursor) \<or> cursor_id cursor = []
                          then Inl ErrInvalidPage
                          else Inr (request\<lparr>Page_CursorTime := cursor_time cursor,
                                            Page_CursorID := cursor_id cursor\<rparr>)))))"

definition page :: "(cursor \<Rightarrow> string) \<Rightarrow> 'a list \<Rightarrow> int \<Rightarrow> ('a \<Rightarrow> cursor) \<Rightarrow> 'a Page" where
  "page Marshal items requestedLimit cursor =
     (if int (length items) < requestedLimit then \<lparr>Items = items, NextPageToken = []\<rparr>
      else (let shown = take (nat (requestedLimit - 1)) items
            in \<lparr>Items = shown,
                NextPageToken = RawURL_EncodeToString (Marshal (cursor (last shown)))\<rparr>))"

text \<open>The shape all six listing methods share: query, then cut the page. Errors go through.\<close>

definition paged ::
  "(cursor \<Rightarrow> string) \<Rightarrow> ('a \<Rightarrow> cursor) \<Rightarrow> PageRequest \<Rightarrow> 'a list result \<Rightarrow> 'a Page result" where
  "paged Marshal cursor request items =
     (case items of Inl err \<Rightarrow> Inl err
      | Inr xs \<Rightarrow> Inr (page Marshal xs (Page_Limit request) cursor))"

definition GetCustomer ::
  "(string \<Rightarrow> 'r \<Rightarrow> Customer result) \<Rightarrow> string \<Rightarrow> 'r \<Rightarrow> Customer result" where
  "GetCustomer get ident r = (if ident = [] then Inl ErrCustomerNotFound else get ident r)"

definition ListCustomers ::
  "(cursor \<Rightarrow> string) \<Rightarrow> (CustomerStatus \<Rightarrow> PageRequest \<Rightarrow> 'r \<Rightarrow> Customer list result) \<Rightarrow>
   CustomerStatus \<Rightarrow> PageRequest \<Rightarrow> 'r \<Rightarrow> Customer Page result" where
  "ListCustomers Marshal query status request r =
     (if status \<noteq> [] \<and> status \<noteq> CustomerPendingApproval \<and> status \<noteq> CustomerActive \<and>
         status \<noteq> CustomerRejected
      then Inl ErrInvalidPage
      else paged Marshal Customer_cursor request (query status request r))"

definition ListTransactions ::
  "(cursor \<Rightarrow> string) \<Rightarrow> (string \<Rightarrow> PageRequest \<Rightarrow> 'r \<Rightarrow> Transaction list result) \<Rightarrow>
   string \<Rightarrow> PageRequest \<Rightarrow> 'r \<Rightarrow> Transaction Page result" where
  "ListTransactions Marshal query customerID request r =
     paged Marshal Transaction_cursor request (query customerID request r)"

definition ListAuditEvents ::
  "(cursor \<Rightarrow> string) \<Rightarrow> (string \<Rightarrow> PageRequest \<Rightarrow> 'r \<Rightarrow> AuditEvent list result) \<Rightarrow>
   string \<Rightarrow> PageRequest \<Rightarrow> 'r \<Rightarrow> AuditEvent Page result" where
  "ListAuditEvents Marshal query aggregateID request r =
     paged Marshal Event_cursor request (query aggregateID request r)"

definition ListCustomerActivity ::
  "(cursor \<Rightarrow> string) \<Rightarrow> (string \<Rightarrow> PageRequest \<Rightarrow> 'r \<Rightarrow> AuditEvent list result) \<Rightarrow>
   string \<Rightarrow> PageRequest \<Rightarrow> 'r \<Rightarrow> AuditEvent Page result" where
  "ListCustomerActivity Marshal query customerID request r =
     (if customerID = [] then Inl ErrCustomerNotFound
      else paged Marshal Event_cursor request (query customerID request r))"

definition ListAlertsPage ::
  "(cursor \<Rightarrow> string) \<Rightarrow> (AlertStatus \<Rightarrow> PageRequest \<Rightarrow> 'r \<Rightarrow> Alert list result) \<Rightarrow>
   AlertStatus \<Rightarrow> PageRequest \<Rightarrow> 'r \<Rightarrow> Alert Page result" where
  "ListAlertsPage Marshal query status request r =
     (if status \<noteq> [] \<and> status \<noteq> AlertOpen \<and> status \<noteq> AlertClosed then Inl ErrInvalidPage
      else paged Marshal Alert_cursor request (query status request r))"

definition ListCases ::
  "(cursor \<Rightarrow> string) \<Rightarrow> (CaseStatus \<Rightarrow> PageRequest \<Rightarrow> 'r \<Rightarrow> InvestigationCase list result) \<Rightarrow>
   CaseStatus \<Rightarrow> PageRequest \<Rightarrow> 'r \<Rightarrow> InvestigationCase Page result" where
  "ListCases Marshal query status request r =
     (if status \<noteq> [] \<and> status \<noteq> CaseOpen \<and> status \<noteq> CaseInProgress \<and> status \<noteq> CaseResolved
      then Inl ErrInvalidPage
      else paged Marshal Case_cursor request (query status request r))"

section \<open>Page requests and tokens\<close>

lemma NewPageRequest_ok:
  assumes "NewPageRequest Unmarshal size0 token = Inr p"
  shows "2 \<le> Page_Limit p" and "Page_Limit p \<le> 101"
    and "Page_Limit p = (if size0 = 0 then 26 else size0 + 1)"
    and "Page_CursorTime p = 0 \<longleftrightarrow> token = []"
  using assms
  by (auto simp: NewPageRequest_def Let_def IsZero_def zero_time_def split: if_splits option.splits)

text \<open>The token of a cursor, read back as the request for the items behind it.\<close>

definition behind :: "int \<Rightarrow> cursor \<Rightarrow> PageRequest" where
  "behind n c = \<lparr>Page_Limit = n, Page_CursorTime = cursor_time c, Page_CursorID = cursor_id c\<rparr>"

lemma NewPageRequest_token:
  assumes "1 \<le> size0" and "size0 \<le> 100" and "Unmarshal (Marshal c) = Some c" and "Marshal c \<noteq> []"
    and "cursor_time c \<noteq> 0" and "cursor_id c \<noteq> []"
  shows "NewPageRequest Unmarshal size0 (RawURL_EncodeToString (Marshal c)) = Inr (behind (size0 + 1) c)"
  using assms
  by (simp add: NewPageRequest_def Let_def RawURL_roundtrip IsZero_def behind_def)

section \<open>The contract of a paged source\<close>

definition admitted :: "('a \<Rightarrow> cursor) \<Rightarrow> PageRequest \<Rightarrow> 'a list \<Rightarrow> 'a list" where
  "admitted key p xs = filter (\<lambda>x. before (cursor_time (key x)) (cursor_id (key x)) p) xs"

lemma admitted_first: "admitted key \<lparr>Page_Limit = n, Page_CursorTime = zero_time, Page_CursorID = []\<rparr> xs = xs"
  by (simp add: admitted_def before_cursor zero_time_def)

lemma admitted_behind:
  assumes "sorted_wrt (\<lambda>a b. key b < key a) (xs @ y # ys)" and "cursor_time (key y) \<noteq> 0"
  shows "admitted key (behind n (key y)) (xs @ y # ys) = ys"
proof -
  have "filter (\<lambda>x. key x < key y) xs = []"
    using assms(1) by (auto simp: filter_empty_conv sorted_wrt_append dest: order.asym)
  moreover have "filter (\<lambda>x. key x < key y) ys = ys"
    using assms(1) by (auto simp: filter_id_conv sorted_wrt_append)
  ultimately show ?thesis
    using assms(2) by (simp add: admitted_def before_cursor behind_def)
qed

text \<open>A reader who follows the tokens until there is none, with a bound on the pages.\<close>

fun walk ::
  "(PageRequest \<Rightarrow> 'a Page result) \<Rightarrow> (string \<Rightarrow> PageRequest result) \<Rightarrow> nat \<Rightarrow> PageRequest \<Rightarrow>
   'a list option" where
  "walk fetch request 0 p = None"
| "walk fetch request (Suc n) p =
     (case fetch p of
        Inl err \<Rightarrow> None
      | Inr pg \<Rightarrow>
          if NextPageToken pg = [] then Some (Items pg)
          else (case request (NextPageToken pg) of
                  Inl err \<Rightarrow> None
                | Inr p' \<Rightarrow> map_option ((@) (Items pg)) (walk fetch request n p')))"

locale paged_source =
  fixes key :: "'a \<Rightarrow> cursor"
    and ok :: "'r \<Rightarrow> bool"
    and listing :: "'r \<Rightarrow> 'a list"
    and query :: "PageRequest \<Rightarrow> 'r \<Rightarrow> 'a list result"
  assumes strict: "ok r \<Longrightarrow> sorted_wrt (\<lambda>a b. key b < key a) (listing r)"
    and answers: "ok r \<Longrightarrow> query p r = Inr (limit (admitted key p (listing r)) (Page_Limit p))"
begin

lemma page_size:
  assumes "ok r" and "paged Marshal key p (query p r) = Inr pg" and "2 \<le> Page_Limit p"
  shows "int (length (Items pg)) < Page_Limit p"
  using assms
  by (auto simp: paged_def page_def Let_def answers limit_def split: if_splits)

lemma page_sorted:
  assumes "ok r" and "paged Marshal key p (query p r) = Inr pg"
  shows "sorted_wrt (\<lambda>a b. key b < key a) (Items pg)"
proof -
  have "sorted_wrt (\<lambda>a b. key b < key a) (admitted key p (listing r))"
    using strict [OF assms(1)] by (simp add: admitted_def sorted_wrt_filter)
  then show ?thesis
    using assms
    by (auto simp: paged_def page_def Let_def answers limit_def sorted_wrt_take split: if_splits)
qed

lemma walk_suffix:
  assumes "ok r" and "1 \<le> n" and "n \<le> 100"
    and codec: "\<And>c. Unmarshal (Marshal c) = Some c" "\<And>c. Marshal c \<noteq> []"
    and dated: "\<And>x. x \<in> set (listing r) \<Longrightarrow> cursor_time (key x) \<noteq> 0 \<and> cursor_id (key x) \<noteq> []"
    and "listing r = xs @ ys" and "admitted key p (listing r) = ys" and "Page_Limit p = n + 1"
    and "length ys < fuel"
  shows "walk (\<lambda>p. paged Marshal key p (query p r)) (NewPageRequest Unmarshal n) fuel p = Some ys"
  using assms(7-)
proof (induction fuel arbitrary: xs ys p)
  case (Suc fuel)
  define shown where "shown = take (nat n) ys"
  show ?case
  proof (cases "int (length ys) < n + 1")
    case True
    then show ?thesis
      using Suc.prems assms(1) by (simp add: answers paged_def page_def limit_def)
  next
    case False
    then have len: "nat n < length ys" and "0 < nat n" using \<open>1 \<le> n\<close> by auto
    then have ne: "shown \<noteq> []" by (auto simp: shown_def)
    have "take (nat n) (take (nat (n + 1)) ys) = shown"
      using \<open>1 \<le> n\<close> by (simp add: shown_def min_def)
    then have pg: "paged Marshal key p (query p r) =
        Inr \<lparr>Items = shown, NextPageToken = RawURL_EncodeToString (Marshal (key (last shown)))\<rparr>"
      using Suc.prems assms(1,2) len
      by (simp add: answers paged_def page_def limit_take)
    have split: "listing r = (xs @ butlast shown) @ last shown # drop (nat n) ys"
    proof -
      have "ys = shown @ drop (nat n) ys" by (simp add: shown_def)
      then show ?thesis
        using Suc.prems(1) append_butlast_last_id [OF ne]
        by (metis append.assoc append_Cons append_Nil)
    qed
    have dated_last: "cursor_time (key (last shown)) \<noteq> 0" "cursor_id (key (last shown)) \<noteq> []"
      using dated [of "last shown"] split by simp_all
    have rest: "admitted key (behind (n + 1) (key (last shown))) (listing r) = drop (nat n) ys"
      using strict [OF assms(1)] dated_last(1) unfolding split by (rule admitted_behind)
    have "walk (\<lambda>p. paged Marshal key p (query p r)) (NewPageRequest Unmarshal n) fuel
            (behind (n + 1) (key (last shown))) = Some (drop (nat n) ys)"
      using split rest Suc.prems(4) len \<open>0 < nat n\<close>
      by (intro Suc.IH [where xs = "xs @ shown"]) (auto simp: behind_def shown_def Suc.prems(1))
    then show ?thesis
      using assms(2,3) codec dated_last
      by (simp add: pg NewPageRequest_token) (simp add: shown_def)
  qed
qed simp

theorem walk_all:
  assumes "ok r" and "1 \<le> n" and "n \<le> 100"
    and "\<And>c. Unmarshal (Marshal c) = Some c" "\<And>c. Marshal c \<noteq> []"
    and "\<And>x. x \<in> set (listing r) \<Longrightarrow> cursor_time (key x) \<noteq> 0 \<and> cursor_id (key x) \<noteq> []"
    and "NewPageRequest Unmarshal n [] = Inr p"
  shows "walk (\<lambda>p. paged Marshal key p (query p r)) (NewPageRequest Unmarshal n)
           (Suc (length (listing r))) p = Some (listing r)"
proof (rule walk_suffix [OF assms(1-6), where xs = "[]"])
  have p: "p = \<lparr>Page_Limit = n + 1, Page_CursorTime = zero_time, Page_CursorID = []\<rparr>"
    using assms(2,3,7) by (simp add: NewPageRequest_def)
  show "admitted key p (listing r) = listing r" by (simp add: p admitted_first)
  show "Page_Limit p = n + 1" by (simp add: p)
qed simp_all

end

section \<open>Properties\<close>

text \<open>
  Page requests: a size of zero means 25, sizes outside 1..100 are refused, and an accepted
  request asks the repository for one item more than the page shows, so between 2 and 101. A
  cursor is set exactly when a token was given, and then it is complete.
\<close>

theorem page_request_bounds:
  assumes "NewPageRequest Unmarshal size0 token = Inr p"
  shows "0 \<le> size0 \<and> size0 \<le> 100 \<and> Page_Limit p = (if size0 = 0 then 26 else size0 + 1) \<and>
    2 \<le> Page_Limit p \<and> Page_Limit p \<le> 101 \<and>
    (Page_CursorTime p = 0 \<longleftrightarrow> token = []) \<and> (Page_CursorID p = [] \<longleftrightarrow> token = [])"
  using assms
  by (auto simp: NewPageRequest_def Let_def IsZero_def zero_time_def split: if_splits option.splits)

theorem page_request_bounds_witness:
  "\<exists>p. NewPageRequest (\<lambda>_. None) 100 [] = Inr p \<and> Page_Limit p = 101"
  using page_request_bounds [of "\<lambda>_. None" 100 "[]"] by (simp add: NewPageRequest_def)

end
