(* ===== verification/Memory_Pages.thy ===== *)
theory Memory_Pages
  imports Memory Queries
begin

text \<open>
  The list methods of \<^verbatim>\<open>internal/infrastructure/memory/repository.go\<close>: each collects what
  matches from a map, in the map's iteration order, sorts it and cuts the page. Every one
  interprets the contract \<open>paged_source\<close>, on repositories whose maps are keyed by the
  identifiers of their values and whose audit events have identifiers of their own.
\<close>

definition mem_ListCustomers :: "CustomerStatus \<Rightarrow> PageRequest \<Rightarrow> Repository \<Rightarrow> Customer list result" where
  "mem_ListCustomers status request r =
     (let items = filter (\<lambda>v. (status = [] \<or> Customer_Status v = status) \<and>
                              before (Customer_CreatedAt v) (Customer_ID v) request)
                    (gvals (repo_customers r))
      in Inr (limit (sort_slice (\<lambda>a b. newer (Customer_CreatedAt a) (Customer_ID a)
                                              (Customer_CreatedAt b) (Customer_ID b)) items)
               (Page_Limit request)))"

definition mem_ListCustomerTransactions ::
  "string \<Rightarrow> PageRequest \<Rightarrow> Repository \<Rightarrow> Transaction list result" where
  "mem_ListCustomerTransactions customerID request r =
     (let items = filter (\<lambda>v. Transaction_CustomerID v = customerID \<and>
                              before (Transaction_OccurredAt v) (Transaction_ID v) request)
                    (gvals (repo_transactions r))
      in Inr (limit (sort_slice (\<lambda>a b. newer (Transaction_OccurredAt a) (Transaction_ID a)
                                              (Transaction_OccurredAt b) (Transaction_ID b)) items)
               (Page_Limit request)))"

definition sort_events :: "AuditEvent list \<Rightarrow> AuditEvent list" where
  "sort_events = sort_slice (\<lambda>a b. newer (Event_OccurredAt a) (Event_ID a)
                                         (Event_OccurredAt b) (Event_ID b))"

definition mem_ListAuditEventsPage ::
  "string \<Rightarrow> PageRequest \<Rightarrow> Repository \<Rightarrow> AuditEvent list result" where
  "mem_ListAuditEventsPage aggregateID request r =
     (let items = filter (\<lambda>v. before (Event_OccurredAt v) (Event_ID v) request) (trail r aggregateID)
      in Inr (limit (sort_events items) (Page_Limit request)))"

text \<open>
  The set \<^verbatim>\<open>related\<close> is a map from identifiers to true; only its keys are read, each once.
\<close>

definition related_ids :: "string \<Rightarrow> Repository \<Rightarrow> string list" where
  "related_ids customerID r = remdups
     (customerID #
      map Transaction_ID (filter (\<lambda>t. Transaction_CustomerID t = customerID) (gvals (repo_transactions r))) @
      map Alert_ID (filter (\<lambda>a. Alert_CustomerID a = customerID) (gvals (repo_alerts r))) @
      map Case_ID (filter (\<lambda>c. Case_CustomerID c = customerID) (gvals (repo_cases r))))"

definition mem_ListCustomerActivityPage ::
  "string \<Rightarrow> PageRequest \<Rightarrow> Repository \<Rightarrow> AuditEvent list result" where
  "mem_ListCustomerActivityPage customerID request r =
     (case map_of (repo_customers r) customerID of
        None \<Rightarrow> Inl ErrCustomerNotFound
      | Some _ \<Rightarrow>
          (let items = concat (map (\<lambda>aggregateID.
                  filter (\<lambda>event. before (Event_OccurredAt event) (Event_ID event) request)
                    (trail r aggregateID)) (related_ids customerID r))
           in Inr (limit (sort_events items) (Page_Limit request))))"

definition mem_ListAlertsPage :: "AlertStatus \<Rightarrow> PageRequest \<Rightarrow> Repository \<Rightarrow> Alert list result" where
  "mem_ListAlertsPage status request r =
     (let items = filter (\<lambda>v. (status = [] \<or> Alert_Status v = status) \<and>
                              before (Alert_CreatedAt v) (Alert_ID v) request)
                    (gvals (repo_alerts r))
      in Inr (limit (sort_slice (\<lambda>a b. newer (Alert_CreatedAt a) (Alert_ID a)
                                              (Alert_CreatedAt b) (Alert_ID b)) items)
               (Page_Limit request)))"

definition mem_ListCasesPage ::
  "CaseStatus \<Rightarrow> PageRequest \<Rightarrow> Repository \<Rightarrow> InvestigationCase list result" where
  "mem_ListCasesPage status request r =
     (let items = filter (\<lambda>v. (status = [] \<or> Case_Status v = status) \<and>
                              before (Case_UpdatedAt v) (Case_ID v) request)
                    (gvals (repo_cases r))
      in Inr (limit (sort_slice (\<lambda>a b. newer (Case_UpdatedAt a) (Case_ID a)
                                              (Case_UpdatedAt b) (Case_ID b)) items)
               (Page_Limit request)))"

text \<open>
  A map read in any order, filtered and sorted, is a paged source: its listing is the sorted
  collection, which does not depend on the iteration order of the map (\<open>sort_slice_unique\<close>).
\<close>

lemma sort_newer:
  "sort_slice (\<lambda>a b. newer (cursor_time (key a)) (cursor_id (key a))
                            (cursor_time (key b)) (cursor_id (key b))) xs =
   sort_slice (desc_by key) xs"
  by (simp add: newer_cursor)

lemma strictly_sortedI:
  fixes key :: "'a \<Rightarrow> 'k :: linorder"
  shows "sorted_wrt (\<lambda>a b. key b \<le> key a) xs \<Longrightarrow> distinct (map key xs) \<Longrightarrow>
    sorted_wrt (\<lambda>a b. key b < key a) xs"
  by (induction xs) (force simp: order.strict_iff_order image_iff)+

lemma strictly_sorted:
  fixes key :: "'a \<Rightarrow> 'k :: linorder"
  assumes "distinct (map key xs)"
  shows "sorted_wrt (\<lambda>a b. key b < key a) (sort_slice (desc_by key) xs)"
proof -
  have "sorted_wrt (\<lambda>a b. key b \<le> key a) (sort_slice (desc_by key) xs)"
    by (rule sorted_sort_slice)
  moreover have "distinct (map key (sort_slice (desc_by key) xs))"
    using assms by (simp add: distinct_map)
  ultimately show ?thesis by (rule strictly_sortedI)
qed

text \<open>The common argument: \<open>vals\<close> is what the method collects before it looks at the cursor.\<close>

lemma paged_source_sorted:
  assumes "\<And>r. ok r \<Longrightarrow> distinct (map key (vals r))"
    and "\<And>p r. ok r \<Longrightarrow> query p r =
           Inr (limit (sort_slice (desc_by key) (admitted key p (vals r))) (Page_Limit p))"
  shows "paged_source key ok (\<lambda>r. sort_slice (desc_by key) (vals r)) query"
proof
  fix r
  assume "ok r"
  then have dist: "distinct (map key (vals r))" by (rule assms(1))
  then show "sorted_wrt (\<lambda>a b. key b < key a) (sort_slice (desc_by key) (vals r))"
    by (rule strictly_sorted)
  fix p
  have "admitted key p (sort_slice (desc_by key) (vals r)) =
        sort_slice (desc_by key) (admitted key p (vals r))"
    unfolding admitted_def using dist by (intro filter_sort_slice) (simp add: distinct_map)
  then show "query p r =
      Inr (limit (admitted key p (sort_slice (desc_by key) (vals r))) (Page_Limit p))"
    using assms(2) [OF \<open>ok r\<close>] by simp
qed

text \<open>
  Repositories whose maps are keyed by identifier (\<open>keyed\<close>): the listings of customers,
  transactions, alerts and cases. For an audit trail the events need identifiers of their own.
\<close>

lemma distinct_cursors:
  assumes "keyed ident m" and "\<And>v. cursor_id (key v) = ident v"
  shows "distinct (map key (filter P (gvals m)))"
proof -
  have "map (cursor_id \<circ> key) (filter P (gvals m)) = map ident (filter P (gvals m))"
    using assms(2) by simp
  moreover have "distinct (map ident (filter P (gvals m)))"
    by (rule distinct_map_filter) (rule distinct_idents [OF assms(1)])
  ultimately show ?thesis by (metis distinct_mapI map_map)
qed

interpretation customer_pages:
  paged_source Customer_cursor "\<lambda>r. keyed Customer_ID (repo_customers r)"
    "\<lambda>r. sort_slice (desc_by Customer_cursor)
       (filter (\<lambda>v. status = [] \<or> Customer_Status v = status) (gvals (repo_customers r)))"
    "mem_ListCustomers status" for status
proof (rule paged_source_sorted)
  fix r :: Repository
  assume "keyed Customer_ID (repo_customers r)"
  then show "distinct (map Customer_cursor (filter (\<lambda>v. status = [] \<or> Customer_Status v = status)
      (gvals (repo_customers r))))"
    by (rule distinct_cursors) (simp add: Customer_cursor_def)
qed (simp add: mem_ListCustomers_def admitted_def newer_cursor Customer_cursor_def conj_commute)

interpretation transaction_pages:
  paged_source Transaction_cursor "\<lambda>r. keyed Transaction_ID (repo_transactions r)"
    "\<lambda>r. sort_slice (desc_by Transaction_cursor)
       (filter (\<lambda>v. Transaction_CustomerID v = customerID) (gvals (repo_transactions r)))"
    "mem_ListCustomerTransactions customerID" for customerID
proof (rule paged_source_sorted)
  fix r :: Repository
  assume "keyed Transaction_ID (repo_transactions r)"
  then show "distinct (map Transaction_cursor (filter (\<lambda>v. Transaction_CustomerID v = customerID)
      (gvals (repo_transactions r))))"
    by (rule distinct_cursors) (simp add: Transaction_cursor_def)
qed (simp add: mem_ListCustomerTransactions_def admitted_def newer_cursor Transaction_cursor_def
    conj_commute)

interpretation alert_pages:
  paged_source Alert_cursor "\<lambda>r. keyed Alert_ID (repo_alerts r)"
    "\<lambda>r. sort_slice (desc_by Alert_cursor)
       (filter (\<lambda>v. status = [] \<or> Alert_Status v = status) (gvals (repo_alerts r)))"
    "mem_ListAlertsPage status" for status
proof (rule paged_source_sorted)
  fix r :: Repository
  assume "keyed Alert_ID (repo_alerts r)"
  then show "distinct (map Alert_cursor (filter (\<lambda>v. status = [] \<or> Alert_Status v = status)
      (gvals (repo_alerts r))))"
    by (rule distinct_cursors) (simp add: Alert_cursor_def)
qed (simp add: mem_ListAlertsPage_def admitted_def newer_cursor Alert_cursor_def conj_commute)

interpretation case_pages:
  paged_source Case_cursor "\<lambda>r. keyed Case_ID (repo_cases r)"
    "\<lambda>r. sort_slice (desc_by Case_cursor)
       (filter (\<lambda>v. status = [] \<or> Case_Status v = status) (gvals (repo_cases r)))"
    "mem_ListCasesPage status" for status
proof (rule paged_source_sorted)
  fix r :: Repository
  assume "keyed Case_ID (repo_cases r)"
  then show "distinct (map Case_cursor (filter (\<lambda>v. status = [] \<or> Case_Status v = status)
      (gvals (repo_cases r))))"
    by (rule distinct_cursors) (simp add: Case_cursor_def)
qed (simp add: mem_ListCasesPage_def admitted_def newer_cursor Case_cursor_def conj_commute)

lemma distinct_Event_cursor: "distinct (map Event_ID es) \<Longrightarrow> distinct (map Event_cursor es)"
  by (rule distinct_mapI [where f = cursor_id]) (simp add: comp_def Event_cursor_def)

interpretation audit_pages:
  paged_source Event_cursor "\<lambda>r. distinct (map Event_ID (trail r aggregateID))"
    "\<lambda>r. sort_slice (desc_by Event_cursor) (trail r aggregateID)"
    "mem_ListAuditEventsPage aggregateID" for aggregateID
  by (rule paged_source_sorted)
    (simp_all add: distinct_Event_cursor mem_ListAuditEventsPage_def sort_events_def admitted_def
      newer_cursor Event_cursor_def)

definition activity :: "string \<Rightarrow> Repository \<Rightarrow> AuditEvent list" where
  "activity customerID r = concat (map (trail r) (related_ids customerID r))"

interpretation activity_pages:
  paged_source Event_cursor
    "\<lambda>r. map_of (repo_customers r) customerID \<noteq> None \<and> distinct (map Event_ID (activity customerID r))"
    "\<lambda>r. sort_slice (desc_by Event_cursor) (activity customerID r)"
    "mem_ListCustomerActivityPage customerID" for customerID
  by (rule paged_source_sorted)
    (auto simp: distinct_Event_cursor mem_ListCustomerActivityPage_def sort_events_def admitted_def
      newer_cursor Event_cursor_def activity_def filter_concat comp_def)

section \<open>Properties\<close>


text \<open>A codec that can be read back, for the witness: sign, strokes, a colon, the identifier.\<close>

definition stroke_Marshal :: "cursor \<Rightarrow> string" where
  "stroke_Marshal c = (if cursor_time c < 0 then CHR ''-'' else CHR ''+'') #
     replicate (nat \<bar>cursor_time c\<bar>) CHR ''|'' @ CHR '':'' # cursor_id c"

definition stroke_Unmarshal :: "string \<Rightarrow> cursor option" where
  "stroke_Unmarshal s =
     (let n = int (length (takeWhile (\<lambda>x. x = CHR ''|'') (tl s)))
      in Some (Cursor (if hd s = CHR ''-'' then - n else n)
                (drop 1 (dropWhile (\<lambda>x. x = CHR ''|'') (tl s)))))"

lemma takeWhile_replicate_app: "y \<noteq> x \<Longrightarrow> takeWhile (\<lambda>z. z = x) (replicate n x @ y # ys) = replicate n x"
  by (induction n) auto

lemma dropWhile_replicate_app: "y \<noteq> x \<Longrightarrow> dropWhile (\<lambda>z. z = x) (replicate n x @ y # ys) = y # ys"
  by (induction n) auto

lemma stroke_roundtrip: "stroke_Unmarshal (stroke_Marshal c) = Some c"
  by (cases c)
    (simp add: stroke_Unmarshal_def stroke_Marshal_def Let_def takeWhile_replicate_app dropWhile_replicate_app)

definition two_customers :: Repository where
  "two_customers = NewRepository\<lparr>repo_customers :=
     map (\<lambda>(i, t). (i, \<lparr>Customer_ID = i, Customer_ExternalRef = [], Customer_Type = CustomerCompany,
       Customer_LegalName = i, Customer_CountryCode = ''GB'',
       Customer_RiskFactors = undefined, Customer_RiskAssessment = undefined,
       Customer_Status = CustomerActive, Customer_CreatedBy = ''m'', Customer_ReviewedBy = ''n'',
       Customer_ReviewedAt = Some t, Customer_CreatedAt = t\<rparr>)) [(''a'', 7), (''b'', 9)]\<rparr>"

lemma two_customers_keyed: "keyed Customer_ID (repo_customers two_customers)"
  by (simp add: two_customers_def keyed_def gomap_ok_def)

lemma two_customers_dated:
  "map_of (repo_customers two_customers) i = Some c \<Longrightarrow> Customer_CreatedAt c \<noteq> 0 \<and> i \<noteq> []"
  by (auto simp: two_customers_def split: if_splits)


lemma sorted_order_free:
  assumes "keyed ident m" and "mset m' = mset m" and "\<And>v. cursor_id (key v) = ident v"
  shows "sort_slice (desc_by key) (filter P (gvals m')) = sort_slice (desc_by key) (filter P (gvals m))"
proof (rule sort_slice_unique)
  have "mset (gvals m') = mset (gvals m)" using assms(2) by (simp add: gvals_def)
  then show perm: "mset (filter P (gvals m')) = mset (filter P (gvals m))"
    by (metis mset_filter)
  have "distinct (map key (filter P (gvals m)))" by (rule distinct_cursors [OF assms(1,3)])
  then show "inj_on key (set (filter P (gvals m')))"
    using perm by (metis distinct_map mset_eq_setD)
qed

lemma list_methods_sorted:
  "mem_ListCustomers cstatus p r = Inr (limit (sort_slice (desc_by Customer_cursor)
     (filter (\<lambda>v. (cstatus = [] \<or> Customer_Status v = cstatus) \<and>
        before (Customer_CreatedAt v) (Customer_ID v) p) (gvals (repo_customers r)))) (Page_Limit p))"
  "mem_ListCustomerTransactions i p r = Inr (limit (sort_slice (desc_by Transaction_cursor)
     (filter (\<lambda>v. Transaction_CustomerID v = i \<and>
        before (Transaction_OccurredAt v) (Transaction_ID v) p) (gvals (repo_transactions r)))) (Page_Limit p))"
  "mem_ListAlertsPage astatus p r = Inr (limit (sort_slice (desc_by Alert_cursor)
     (filter (\<lambda>v. (astatus = [] \<or> Alert_Status v = astatus) \<and>
        before (Alert_CreatedAt v) (Alert_ID v) p) (gvals (repo_alerts r)))) (Page_Limit p))"
  "mem_ListCasesPage kstatus p r = Inr (limit (sort_slice (desc_by Case_cursor)
     (filter (\<lambda>v. (kstatus = [] \<or> Case_Status v = kstatus) \<and>
        before (Case_UpdatedAt v) (Case_ID v) p) (gvals (repo_cases r)))) (Page_Limit p))"
  unfolding mem_ListCustomers_def mem_ListCustomerTransactions_def mem_ListAlertsPage_def
    mem_ListCasesPage_def newer_cursor cursor_defs Let_def by (rule refl)+

text \<open>
The order in which Go walks its maps cannot be observed: with the entries of the maps in any
  other order, every page of customers, transactions, alerts and cases is the same list.
\<close>

theorem map_order_unobservable:
  assumes "keyed Customer_ID (repo_customers r)" and "keyed Transaction_ID (repo_transactions r)"
    and "keyed Alert_ID (repo_alerts r)" and "keyed Case_ID (repo_cases r)"
    and "mset (repo_customers r') = mset (repo_customers r)"
    and "mset (repo_transactions r') = mset (repo_transactions r)"
    and "mset (repo_alerts r') = mset (repo_alerts r)" and "mset (repo_cases r') = mset (repo_cases r)"
  shows "mem_ListCustomers cstatus p r' = mem_ListCustomers cstatus p r \<and>
    mem_ListCustomerTransactions i p r' = mem_ListCustomerTransactions i p r \<and>
    mem_ListAlertsPage astatus p r' = mem_ListAlertsPage astatus p r \<and>
    mem_ListCasesPage kstatus p r' = mem_ListCasesPage kstatus p r"
proof -
  have cursors: "cursor_id (Customer_cursor c) = Customer_ID c" "cursor_id (Transaction_cursor t) = Transaction_ID t"
    "cursor_id (Alert_cursor a) = Alert_ID a" "cursor_id (Case_cursor k) = Case_ID k" for c t a k
    by (simp_all add: cursor_defs)
  show ?thesis
    unfolding list_methods_sorted
      sorted_order_free [OF assms(1,5) cursors(1)] sorted_order_free [OF assms(2,6) cursors(2)]
      sorted_order_free [OF assms(3,7) cursors(3)] sorted_order_free [OF assms(4,8) cursors(4)]
    by (intro conjI refl)
qed

theorem map_order_unobservable_witness:
  "mem_ListCustomers [] (behind 3 (Cursor 8 ''a'')) (two_customers\<lparr>repo_customers := rev (repo_customers two_customers)\<rparr>) =
   mem_ListCustomers [] (behind 3 (Cursor 8 ''a'')) two_customers"
proof -
  have "keyed Transaction_ID (repo_transactions two_customers)"
    and "keyed Alert_ID (repo_alerts two_customers)" and "keyed Case_ID (repo_cases two_customers)"
    by (simp_all add: two_customers_def NewRepository_def)
  then show ?thesis
    using map_order_unobservable [OF two_customers_keyed,
        of "two_customers\<lparr>repo_customers := rev (repo_customers two_customers)\<rparr>"]
    by simp
qed

end
