(* ===== verification/Identifiers.thy ===== *)
theory Identifiers
  imports Prelude "HOL-Library.Word"
begin

unbundle bit_operations_syntax

text \<open>
  \<^verbatim>\<open>newID\<close> of \<^verbatim>\<open>internal/application/onboarding.go\<close>: a version-4 UUID made of sixteen random
  bytes. The bytes are the argument: \<^verbatim>\<open>rand.Read\<close> either fills the whole buffer or the code
  panics. The lemmas: the shape of the text, and that only the six masked bits are lost.
\<close>

definition hex_char :: "nat \<Rightarrow> char" where
  "hex_char n = ''0123456789abcdef'' ! n"

definition hex_byte :: "8 word \<Rightarrow> string" where
  "hex_byte b = [hex_char (unat (drop_bit 4 b)), hex_char (unat (b AND 15))]"

definition EncodeToString :: "8 word list \<Rightarrow> string" where
  "EncodeToString bs = concat (map hex_byte bs)"

definition newID :: "8 word list \<Rightarrow> string" where
  "newID b0 =
     (let b = b0[6 := (b0 ! 6 AND 0x0f) OR 0x40];
          b = b[8 := (b ! 8 AND 0x3f) OR 0x80]
      in EncodeToString (take 4 b) @ ''-'' @ EncodeToString (take 2 (drop 4 b)) @ ''-'' @
         EncodeToString (take 2 (drop 6 b)) @ ''-'' @ EncodeToString (take 2 (drop 8 b)) @ ''-'' @
         EncodeToString (drop 10 b))"

lemma length_hex_byte [simp]: "length (hex_byte b) = 2"
  by (simp add: hex_byte_def)

lemma hex_byte_neq_Nil [simp]: "hex_byte b \<noteq> []"
  by (simp add: hex_byte_def)

lemma length_EncodeToString [simp]: "length (EncodeToString bs) = 2 * length bs"
  by (induction bs) (simp_all add: EncodeToString_def)

lemma hex_char_inj:
  assumes "m < 16" and "n < 16" and "hex_char m = hex_char n"
  shows "m = n"
proof -
  have "distinct ''0123456789abcdef''" by simp
  then show ?thesis using assms by (simp add: hex_char_def nth_eq_iff_index_eq)
qed

lemma high_nibble: "unat (drop_bit 4 (b :: 8 word)) = unat b div 16"
  by (simp add: unat_drop_bit_eq drop_bit_eq_div unat_div_distrib)

lemma low_nibble: "unat ((b :: 8 word) AND 15) = unat b mod 16"
proof -
  have "b AND 15 = take_bit 4 b" by (simp add: take_bit_eq_mask mask_eq_exp_minus_1)
  then show ?thesis by (simp add: unsigned_take_bit_eq take_bit_eq_mod unat_mod_distrib)
qed

lemma high_nibble_less: "unat (b :: 8 word) div 16 < 16"
  using unsigned_less [of b, where ?'a = nat] by simp

lemma hex_byte_inj:
  assumes "hex_byte b = hex_byte c"
  shows "b = c"
proof -
  have "hex_char (unat b div 16) = hex_char (unat c div 16)"
    and "hex_char (unat b mod 16) = hex_char (unat c mod 16)"
    using assms unfolding hex_byte_def high_nibble low_nibble by simp_all
  then have "unat b div 16 = unat c div 16" and "unat b mod 16 = unat c mod 16"
    by (auto intro: hex_char_inj high_nibble_less)
  then have "unat b = unat c" by (metis div_mult_mod_eq)
  then show ?thesis by (simp add: word_unat_eq_iff)
qed

lemma EncodeToString_inj: "EncodeToString bs = EncodeToString cs \<Longrightarrow> bs = cs"
proof (induction bs arbitrary: cs)
  case Nil
  then show ?case by (cases cs) (simp_all add: EncodeToString_def)
next
  case (Cons b bs)
  then obtain c cs' where "cs = c # cs'" by (cases cs) (auto simp: EncodeToString_def)
  with Cons show ?case by (auto simp: EncodeToString_def dest: hex_byte_inj)
qed

text \<open>The sixteen bytes after the two masks of RFC 4122, and the five groups they are printed in.\<close>

definition masked :: "8 word list \<Rightarrow> 8 word list" where
  "masked b = b[6 := (b ! 6 AND 0x0f) OR 0x40, 8 := (b ! 8 AND 0x3f) OR 0x80]"

lemma newID_masked:
  "length b = 16 \<Longrightarrow>
   newID b = EncodeToString (take 4 (masked b)) @ ''-'' @
     EncodeToString (take 2 (drop 4 (masked b))) @ ''-'' @
     EncodeToString (take 2 (drop 6 (masked b))) @ ''-'' @
     EncodeToString (take 2 (drop 8 (masked b))) @ ''-'' @ EncodeToString (drop 10 (masked b))"
  by (simp add: newID_def masked_def Let_def)

lemma length_masked [simp]: "length (masked b) = length b"
  by (simp add: masked_def)

lemma newID_masked_inj:
  assumes "length b = 16" and "length c = 16" and "newID b = newID c"
  shows "masked b = masked c"
proof -
  have "take 4 (masked b) = take 4 (masked c)"
    and "take 2 (drop 4 (masked b)) = take 2 (drop 4 (masked c))"
    and "take 2 (drop 6 (masked b)) = take 2 (drop 6 (masked c))"
    and "take 2 (drop 8 (masked b)) = take 2 (drop 8 (masked c))"
    and "drop 10 (masked b) = drop 10 (masked c)"
    using assms by (auto simp: newID_masked dest: EncodeToString_inj)
  moreover have "xs = take 4 xs @ take 2 (drop 4 xs) @ take 2 (drop 6 xs) @ take 2 (drop 8 xs) @ drop 10 xs"
    for xs :: "8 word list"
  proof -
    have "take 10 xs = take 4 xs @ take 2 (drop 4 xs) @ take 2 (drop 6 xs) @ take 2 (drop 8 xs)"
      using take_add [of 4 2 xs] take_add [of 6 2 xs] take_add [of 8 2 xs] by simp
    then show ?thesis
      using append_take_drop_id [of 10 xs] by (metis append_assoc)
  qed
  ultimately show ?thesis by metis
qed

lemma mask_or_eq:
  "(x AND 0x0f) OR 0x40 = (y AND 0x0f) OR 0x40 \<longleftrightarrow> x AND 0x0f = (y AND 0x0f :: 8 word)"
  "(x AND 0x3f) OR 0x80 = (y AND 0x3f) OR 0x80 \<longleftrightarrow> x AND 0x3f = (y AND 0x3f :: 8 word)"
proof -
  have "((z AND 0x0f) OR 0x40) AND 0x0f = z AND 0x0f"
    and "((z AND 0x3f) OR 0x80) AND 0x3f = z AND 0x3f" for z :: "8 word"
    by (simp_all add: word_ao_dist word_bw_assocs)
  then show "(x AND 0x0f) OR 0x40 = (y AND 0x0f) OR 0x40 \<longleftrightarrow> x AND 0x0f = (y AND 0x0f :: 8 word)"
    and "(x AND 0x3f) OR 0x80 = (y AND 0x3f) OR 0x80 \<longleftrightarrow> x AND 0x3f = (y AND 0x3f :: 8 word)"
    by metis+
qed

lemma masked_eq_iff:
  assumes "length b = 16" and "length c = 16"
  shows "masked b = masked c \<longleftrightarrow>
     (\<forall>i \<in> {0..<16} - {6, 8}. b ! i = c ! i) \<and>
     b ! 6 AND 0x0f = c ! 6 AND 0x0f \<and> b ! 8 AND 0x3f = c ! 8 AND 0x3f"
proof -
  have "masked b = masked c \<longleftrightarrow> (\<forall>i < 16. masked b ! i = masked c ! i)"
    using assms by (simp add: list_eq_iff_nth_eq)
  also have "\<dots> \<longleftrightarrow> (\<forall>i \<in> {0..<16} - {6, 8}. masked b ! i = masked c ! i) \<and>
      masked b ! 6 = masked c ! 6 \<and> masked b ! 8 = masked c ! 8"
    by (auto simp: Ball_def)
  also have "\<dots> \<longleftrightarrow> (\<forall>i \<in> {0..<16} - {6, 8}. b ! i = c ! i) \<and>
     b ! 6 AND 0x0f = c ! 6 AND 0x0f \<and> b ! 8 AND 0x3f = c ! 8 AND 0x3f"
    using assms by (simp add: masked_def mask_or_eq)
  finally show ?thesis .
qed

section \<open>The identifier as text\<close>

lemma length_16E:
  assumes "length b = 16"
  obtains b0 b1 b2 b3 b4 b5 b6 b7 b8 b9 b10 b11 b12 b13 b14 b15
  where "b = [b0, b1, b2, b3, b4, b5, b6, b7, b8, b9, b10, b11, b12, b13, b14, b15]"
  using assms by (auto simp: numeral_eq_Suc length_Suc_conv)

lemma hex_char_in: "n < 16 \<Longrightarrow> hex_char n \<in> set ''0123456789abcdef''"
  unfolding hex_char_def by (rule nth_mem) simp

lemma hex_char_neq_hyphen: "n < 16 \<Longrightarrow> hex_char n \<noteq> CHR ''-''"
  using hex_char_in by fastforce

lemma version_nibble: "drop_bit 4 ((z AND 0x0f) OR 0x40 :: 8 word) = 4"
  by (simp add: drop_bit_or drop_bit_and)

lemma variant_nibble: "unat (drop_bit 4 ((z AND 0x3f) OR 0x80 :: 8 word)) \<in> {8, 9, 10, 11}"
proof -
  let ?w = "drop_bit 4 z AND 3"
  have eq: "drop_bit 4 ((z AND 0x3f) OR 0x80) = ?w OR 8"
    by (simp add: drop_bit_or drop_bit_and)
  have "?w = take_bit 2 (drop_bit 4 z)" by (simp add: take_bit_eq_mask mask_eq_exp_minus_1)
  then have "unat ?w < 4" by (simp add: unsigned_take_bit_eq take_bit_eq_mod unat_mod_distrib)
  then have "unat ?w \<in> {0, 1, 2, 3}" by auto
  then have "?w \<in> {0, 1, 2, 3}" by (auto simp: word_unat_eq_iff)
  then show ?thesis by (auto simp: eq)
qed

lemma newID_bytes:
  assumes "length b = 16"
  shows "set (newID b) \<subseteq> set ''0123456789abcdef-''"
proof -
  define H where "H = set ''0123456789abcdef''"
  have "hex_char (unat x div 16) \<in> H" and "hex_char (unat x mod 16) \<in> H" for x :: "8 word"
    by (simp_all add: H_def hex_char_in high_nibble_less del: set_simps)
  then have "set (hex_byte x) \<subseteq> H" for x
    by (simp add: hex_byte_def high_nibble low_nibble)
  then have "set (EncodeToString xs) \<subseteq> H" for xs
    by (auto simp: EncodeToString_def)
  then have "set (newID b) \<subseteq> insert CHR ''-'' H"
    by (auto simp: newID_masked [OF assms])
  also have "\<dots> \<subseteq> set ''0123456789abcdef-''" by (auto simp: H_def)
  finally show ?thesis .
qed

text \<open>
  C24. Every identifier is a well-formed version-4 UUID: 36 characters, lower-case hexadecimal
  with hyphens exactly at positions 8, 13, 18 and 23, the version digit 4 at position 14 and the
  RFC 4122 variant (8, 9, a or b) at position 19, whatever the random bytes are.
\<close>

theorem newID_uuid_v4:
  assumes "length b = 16"
  shows "length (newID b) = 36 \<and>
    filter (\<lambda>i. newID b ! i = CHR ''-'') [0..<36] = [8, 13, 18, 23] \<and>
    newID b ! 14 = CHR ''4'' \<and> newID b ! 19 \<in> set ''89ab'' \<and>
    set (newID b) \<subseteq> set ''0123456789abcdef-''"
proof (intro conjI)
  show "set (newID b) \<subseteq> set ''0123456789abcdef-''" by (rule newID_bytes [OF assms])
  obtain b0 b1 b2 b3 b4 b5 b6 b7 b8 b9 b10 b11 b12 b13 b14 b15
    where b: "b = [b0, b1, b2, b3, b4, b5, b6, b7, b8, b9, b10, b11, b12, b13, b14, b15]"
    using assms by (rule length_16E)
  have neq: "hex_char (unat (drop_bit 4 x)) \<noteq> CHR ''-''"
    "hex_char (unat (x AND 15)) \<noteq> CHR ''-''" for x :: "8 word"
    unfolding high_nibble low_nibble by (simp_all add: hex_char_neq_hyphen high_nibble_less)
  note layout = b newID_masked masked_def EncodeToString_def hex_byte_def nth_append
  show "length (newID b) = 36" by (simp add: layout)
  show "newID b ! 14 = CHR ''4''"
    by (simp add: layout version_nibble del: drop_bit_numeral_bit0) (simp add: hex_char_def)
  show "newID b ! 19 \<in> set ''89ab''"
    using variant_nibble [of b8] by (auto simp: layout hex_char_def)
  show "filter (\<lambda>i. newID b ! i = CHR ''-'') [0..<36] = [8, 13, 18, 23]"
    using variant_nibble [of b8] neq [of 64]
    by (auto simp: layout upt_rec neq hex_char_neq_hyphen)
qed

theorem newID_uuid_v4_witness:
  "length (replicate 16 (0xff :: 8 word)) = 16 \<and>
   newID (replicate 16 0xff) ! 14 = CHR ''4'' \<and> length (newID (replicate 16 0xff)) = 36"
  using newID_uuid_v4 [of "replicate 16 0xff"] by simp

text \<open>
Identifiers collide only when the random bytes agree: two identifiers are equal exactly
  when the sixteen bytes are, up to the six bits the version and variant masks overwrite. So 122
  random bits reach the text.
\<close>

theorem newID_eq_iff:
  assumes "length b = 16" and "length c = 16"
  shows "newID b = newID c \<longleftrightarrow>
     (\<forall>i \<in> {0..<16} - {6, 8}. b ! i = c ! i) \<and>
     b ! 6 AND 0x0f = c ! 6 AND 0x0f \<and> b ! 8 AND 0x3f = c ! 8 AND 0x3f"
  using newID_masked_inj [OF assms] newID_masked [OF assms(1)] newID_masked [OF assms(2)]
    masked_eq_iff [OF assms] by metis

theorem newID_eq_iff_witness:
  "newID (replicate 16 0) \<noteq> newID ((replicate 16 0)[15 := 1])"
  using newID_eq_iff [of "replicate 16 0" "(replicate 16 0)[15 := 1]"]
  by (auto intro!: bexI [of _ 15])

end
