(* ===== verification/Sql.thy ===== *)
theory Sql
  imports Domain
begin

text \<open>
  What \<^verbatim>\<open>internal/infrastructure/postgres/repository.go\<close> uses of a database: single
  statements, and transactions of several statements that commit or roll back. A table is a map
  from primary keys to rows. Each statement of a call may fail, for a reason the program does not
  control; \<open>Fault S k\<close> is the error of the \<open>k\<close>-th round trip of the call, if it has one. A commit
  may fail with the work undone, or with the work done and only the acknowledgement lost
  (\<open>Ack_lost S\<close>). \<open>Locked S\<close> are the rows other transactions hold locks on while a statement runs
  that skips locked rows. Methods are atomic steps otherwise: rows they read before writing are
  locked by them (\<^verbatim>\<open>FOR UPDATE\<close>, the advisory lock, or the update itself).
\<close>

record session =
  Fault :: "nat \<Rightarrow> string option"
  Ack_lost :: bool
  Locked :: "string \<Rightarrow> bool"

definition calm :: session where
  "calm = \<lparr>Fault = (\<lambda>_. None), Ack_lost = False, Locked = (\<lambda>_. False)\<rparr>"

section \<open>Statements and transactions\<close>

text \<open>A computation inside a transaction: the number of the next round trip, and the tables.\<close>

type_synonym ('a, 'd) tx = "nat \<Rightarrow> 'd \<Rightarrow> error + 'a \<times> nat \<times> 'd"

definition tx_return :: "'a \<Rightarrow> ('a, 'd) tx" where
  "tx_return x k db = Inr (x, k, db)"

definition tx_fail :: "error \<Rightarrow> ('a, 'd) tx" where
  "tx_fail err k db = Inl err"

definition tx_then :: "('a, 'd) tx \<Rightarrow> ('a \<Rightarrow> ('b, 'd) tx) \<Rightarrow> ('b, 'd) tx" where
  "tx_then m f k db = (case m k db of Inl err \<Rightarrow> Inl err | Inr (x, k', db') \<Rightarrow> f x k' db')"

text \<open>
  One round trip: it fails if the session says so or if the statement violates a constraint, and
  the error is wrapped with the text the code gives it.
\<close>

definition statement :: "session \<Rightarrow> string \<Rightarrow> ('d \<Rightarrow> string + 'a \<times> 'd) \<Rightarrow> ('a, 'd) tx" where
  "statement S wrapping f k db =
     (case Fault S k of
        Some msg \<Rightarrow> Inl (OtherError (wrapping @ msg))
      | None \<Rightarrow> (case f db of
            Inl msg \<Rightarrow> Inl (OtherError (wrapping @ msg))
          | Inr (x, db') \<Rightarrow> Inr (x, k + 1, db')))"

fun tx_each :: "('a \<Rightarrow> (unit, 'd) tx) \<Rightarrow> 'a list \<Rightarrow> (unit, 'd) tx" where
  "tx_each f [] = tx_return ()"
| "tx_each f (x # xs) = tx_then (f x) (\<lambda>_. tx_each f xs)"

text \<open>
  Begin, work, commit, and the deferred rollback of everything that did not commit. The rollback
  itself changes no result: its error is only looked at when there is no other.
\<close>

definition in_transaction ::
  "session \<Rightarrow> string \<Rightarrow> string \<Rightarrow> ('a, 'd) tx \<Rightarrow> ('a, 'd) repo_op" where
  "in_transaction S beginning committing work db =
     (case Fault S 0 of
        Some msg \<Rightarrow> (Inl (OtherError (beginning @ msg)), db)
      | None \<Rightarrow> (case work 1 db of
            Inl err \<Rightarrow> (Inl err, db)
          | Inr (x, k, db') \<Rightarrow>
              (case Fault S k of
                 Some msg \<Rightarrow>
                   (Inl (OtherError (committing @ msg)), if Ack_lost S then db' else db)
               | None \<Rightarrow> (Inr x, db'))))"

text \<open>A statement outside a transaction commits by itself.\<close>

definition autocommit :: "session \<Rightarrow> string \<Rightarrow> ('d \<Rightarrow> string + 'a \<times> 'd) \<Rightarrow> ('a, 'd) repo_op" where
  "autocommit S wrapping f db =
     (case f db of
        Inl msg \<Rightarrow> (Inl (OtherError (wrapping @ msg)), db)
      | Inr (x, db') \<Rightarrow>
          (case Fault S 0 of
             Some msg \<Rightarrow> (Inl (OtherError (wrapping @ msg)), if Ack_lost S then db' else db)
           | None \<Rightarrow> (Inr x, db')))"

definition query :: "session \<Rightarrow> string \<Rightarrow> ('d \<Rightarrow> 'a) \<Rightarrow> 'd \<Rightarrow> 'a result" where
  "query S wrapping f db =
     (case Fault S 0 of Some msg \<Rightarrow> Inl (OtherError (wrapping @ msg)) | None \<Rightarrow> Inr (f db))"

section \<open>Rows and constraints\<close>

text \<open>A violated constraint, as a statement reports it.\<close>

definition violates :: "string \<Rightarrow> string + 'a" where
  "violates constraint = Inl (''violates constraint '' @ constraint)"

definition insert_row :: "string \<Rightarrow> string \<Rightarrow> 'v \<Rightarrow> 'v gomap \<Rightarrow> string + 'v gomap" where
  "insert_row constraint k v m =
     (if map_of m k = None then Inr (gput k v m) else violates constraint)"

text \<open>\<^verbatim>\<open>UPDATE ... WHERE id = k AND cond RETURNING ...\<close>: the new row, if one was updated.\<close>

definition update_row ::
  "string \<Rightarrow> ('v \<Rightarrow> bool) \<Rightarrow> ('v \<Rightarrow> 'v) \<Rightarrow> 'v gomap \<Rightarrow> 'v option \<times> 'v gomap" where
  "update_row k cond change m =
     (case map_of m k of
        None \<Rightarrow> (None, m)
      | Some v \<Rightarrow> if cond v then (Some (change v), gput k (change v) m) else (None, m))"

text \<open>A nullable text column, as the code scans it: \<^verbatim>\<open>NULL\<close> leaves the empty string.\<close>

definition text_column :: "string option \<Rightarrow> string" where
  "text_column column = (case column of None \<Rightarrow> [] | Some s \<Rightarrow> s)"

lemma text_column_simps [simp]: "text_column None = []" "text_column (Some s) = s"
  by (simp_all add: text_column_def)

lemma insert_row_Inr [simp]:
  "insert_row c k v m = Inr m' \<longleftrightarrow> map_of m k = None \<and> m' = gput k v m"
  by (auto simp: insert_row_def violates_def)

lemma insert_row_Inl [simp]:
  "insert_row c k v m = Inl msg \<longleftrightarrow> map_of m k \<noteq> None \<and> msg = ''violates constraint '' @ c"
  by (auto simp: insert_row_def violates_def)

lemma violates_simps [simp]: "violates c \<noteq> Inr x" "violates c = Inl msg \<longleftrightarrow> msg = ''violates constraint '' @ c"
  by (auto simp: violates_def)

section \<open>Simulation\<close>

text \<open>
  The contract between an operation of the database and the one it implements on an abstract
  repository: the same answer (up to \<open>V\<close>) and again related states; or a failure of the database
  is reported, and either nothing happened or all of the operation did.
\<close>

definition sim :: "('a \<Rightarrow> 'b \<Rightarrow> bool) \<Rightarrow> ('d \<Rightarrow> 'r \<Rightarrow> bool) \<Rightarrow> 'r \<Rightarrow> 'a result \<times> 'd \<Rightarrow> 'b result \<times> 'r \<Rightarrow> bool"
where
  "sim V R r p q \<longleftrightarrow>
     rel_sum (=) V (fst p) (fst q) \<and> R (snd p) (snd q) \<or>
     (\<exists>msg. fst p = Inl (OtherError msg)) \<and> (R (snd p) r \<or> R (snd p) (snd q))"

text \<open>What a transaction's work must do for it: commit to the same effect, or stop.\<close>

definition work_sim :: "('a \<Rightarrow> 'b \<Rightarrow> bool) \<Rightarrow> ('d \<Rightarrow> 'r \<Rightarrow> bool) \<Rightarrow> 'r \<Rightarrow> error + 'a \<times> nat \<times> 'd \<Rightarrow>
    'b result \<times> 'r \<Rightarrow> bool" where
  "work_sim V R r w q \<longleftrightarrow>
     (case w of
        Inl err \<Rightarrow> (\<exists>msg. err = OtherError msg) \<or> q = (Inl err, r)
      | Inr (y, k, db') \<Rightarrow> (\<exists>z. fst q = Inr z \<and> V y z) \<and> R db' (snd q))"

lemma sim_in_transaction:
  assumes "R db r" and "work_sim V R r (work 1 db) q"
  shows "sim V R r (in_transaction S b c work db) q"
  using assms
  by (auto simp: sim_def work_sim_def in_transaction_def split: option.splits sum.splits)

lemma sim_autocommit:
  assumes "R db r"
    and "\<And>y db'. f db = Inr (y, db') \<Longrightarrow> (\<exists>z. fst q = Inr z \<and> V y z) \<and> R db' (snd q)"
  shows "sim V R r (autocommit S w f db) q"
  using assms
  by (auto simp: sim_def autocommit_def split: option.splits sum.splits)

text \<open>
  Rules for the work, one per construct: a statement that succeeds hands its row and tables on, one
  that fails stops with a database error; a refusal must be the abstract operation's refusal.
\<close>

lemma work_sim_err: "work_sim V R r (Inl (OtherError msg)) q"
  by (simp add: work_sim_def)

lemma work_sim_statement:
  assumes "\<And>x db'. f db = Inr (x, db') \<Longrightarrow> work_sim V R r (g x (k + 1) db') q"
  shows "work_sim V R r (tx_then (statement S w f) g k db) q"
proof (cases "statement S w f k db")
  case (Inl err)
  then show ?thesis
    by (auto simp: statement_def tx_then_def work_sim_def split: option.splits sum.splits)
next
  case (Inr y)
  then obtain x db' where y: "y = (x, k + 1, db')" and "f db = Inr (x, db')"
    by (auto simp: statement_def split: option.splits sum.splits)
  with assms [of x db'] Inr show ?thesis by (simp add: tx_then_def)
qed

lemma work_sim_read:
  assumes "work_sim V R r (g (h db) (k + 1) db) q"
  shows "work_sim V R r (tx_then (statement S w (\<lambda>db. Inr (h db, db))) g k db) q"
  by (rule work_sim_statement) (use assms in auto)

lemma work_sim_return: "q = (Inr z, r') \<Longrightarrow> V y z \<Longrightarrow> R db r' \<Longrightarrow> work_sim V R r (tx_return y k db) q"
  by (simp add: work_sim_def tx_return_def)

lemma work_sim_fail: "q = (Inl err, r) \<Longrightarrow> work_sim V R r (tx_fail err k db) q"
  by (simp add: work_sim_def tx_fail_def)

lemma tx_then_statement_last: "statement S w f = tx_then (statement S w f) (\<lambda>x. tx_return x)"
  by (auto simp: fun_eq_iff statement_def tx_then_def tx_return_def split: option.split sum.split)

text \<open>A loop whose every round simulates one abstract step simulates all of them.\<close>

lemma work_sim_each:
  assumes "R db r0"
    and "\<And>x db r u db' j. x \<in> set xs \<Longrightarrow> R db r \<Longrightarrow> f x j db = Inr (u, db') \<Longrightarrow> R (snd db') (step x r)"
    and "\<And>x db j err. f x j db = Inl err \<Longrightarrow> \<exists>msg. err = OtherError msg"
    and "\<And>db' k'. R db' (fold step xs r0) \<Longrightarrow> work_sim V R r (g () k' db') q"
  shows "work_sim V R r (tx_then (tx_each f xs) g k db) q"
  using assms(1,2,4)
proof (induction xs arbitrary: db r0 k)
  case Nil
  then show ?case by (simp add: tx_then_def tx_return_def)
next
  case (Cons x xs)
  show ?case
  proof (cases "f x k db")
    case (Inl err)
    then show ?thesis using assms(3) [OF Inl] by (auto simp: tx_then_def work_sim_def)
  next
    case (Inr y)
    obtain u k1 db1 where y: "y = (u, k1, db1)" by (cases y)
    have "R db1 (step x r0)" using Cons.prems(1,2) Inr y by fastforce
    then have "work_sim V R r (tx_then (tx_each f xs) g k1 db1) q"
      using Cons.prems(2,3) by (intro Cons.IH) auto
    then show ?thesis using Inr y by (simp add: tx_then_def)
  qed
qed

lemma statement_fails: "statement S w f k db = Inl err \<Longrightarrow> \<exists>msg. err = OtherError msg"
  by (auto simp: statement_def split: option.splits sum.splits)

lemma statement_okE:
  assumes "statement S w f k db = Inr (x, k', db')"
  obtains "f db = Inr (x, db')" and "k' = k + 1"
  using assms by (auto simp: statement_def split: option.splits sum.splits)

lemma tx_then_okE:
  assumes "tx_then m f k db = Inr (x, k', db')"
  obtains y k1 db1 where "m k db = Inr (y, k1, db1)" and "f y k1 db1 = Inr (x, k', db')"
  using assms by (auto simp: tx_then_def split: sum.splits)

text \<open>A transaction without failures and without violated constraints gives its work's result.\<close>

lemma in_transaction_calm [simp]:
  "in_transaction calm b c work db =
     (case work 1 db of Inl err \<Rightarrow> (Inl err, db) | Inr (x, k, db') \<Rightarrow> (Inr x, db'))"
  by (simp add: in_transaction_def calm_def split: sum.split)

lemma statement_calm [simp]:
  "statement calm w f k db = (case f db of Inl msg \<Rightarrow> Inl (OtherError (w @ msg)) | Inr (x, db') \<Rightarrow> Inr (x, k + 1, db'))"
  by (simp add: statement_def calm_def)

lemmas tx_defs = tx_then_def tx_return_def tx_fail_def statement_def

text \<open>All or nothing: a call ends with the tables it began with or with all of its writes.\<close>

lemma in_transaction_atomic:
  assumes "in_transaction S b c work db = (x, db')"
  shows "db' = db \<and> isl x \<or> (\<exists>y k. work 1 db = Inr (y, k, db') \<and> (x = Inr y \<or> isl x \<and> Ack_lost S))"
  using assms by (auto simp: in_transaction_def split: option.splits sum.splits if_splits)

end
