(* ===== verification/Postgres.thy ===== *)
theory Postgres
  imports Sql Memory
begin

text \<open>
  \<^verbatim>\<open>internal/infrastructure/postgres/repository.go\<close>: the tables of \<^verbatim>\<open>migrations/*.up.sql\<close> and the
  repository's transactions on customers, transactions, alerts and cases. A row is the record it
  is scanned into, with its nullable text columns beside it; the record's own copies of these
  columns stay empty until a row is scanned. The constraints are the primary keys, unique
  indexes, foreign keys and checks of the migrations that an operation can run into. JSON columns
  hold the values themselves, and timestamps are taken at the resolution of the column.
\<close>

section \<open>Tables\<close>

record customers_row =
  customer_columns :: Customer
  customer_reviewed_by :: "string option"

record alerts_row =
  alert_columns :: Alert
  alert_closed_by :: "string option"
  alert_closure_reason :: "string option"

record investigation_cases_row =
  case_columns :: InvestigationCase
  case_assigned_to :: "string option"
  case_resolution :: "string option"
  case_resolved_by :: "string option"

record kyc_documents_row =
  document_columns :: KYCDocument
  document_verified_by :: "string option"

record screening_matches_row =
  match_columns :: ScreeningMatch
  match_reviewed_by :: "string option"
  match_disposition_reason :: "string option"

record notifications_row =
  notification_columns :: Notification
  notification_read_by :: "string option"

record notification_outbox_row =
  outbox_columns :: OutboxMessage
  outbox_lease_owner :: "string option"

record screening_schedules_row =
  schedule_columns :: ScreeningSchedule
  schedule_lease_owner :: "string option"

record Database =
  tbl_customers :: "customers_row gomap"
  tbl_audit_events :: "AuditEvent gomap"
  tbl_transactions :: "Transaction gomap"
  tbl_alerts :: "alerts_row gomap"
  tbl_investigation_cases :: "investigation_cases_row gomap"
  tbl_case_comments :: "CaseComment gomap"
  tbl_customer_due_diligence :: "CDDProfile gomap"
  tbl_beneficial_owners :: "BeneficialOwner gomap"
  tbl_kyc_documents :: "kyc_documents_row gomap"
  tbl_screening_runs :: "ScreeningRun gomap"
  tbl_screening_matches :: "screening_matches_row gomap"
  tbl_screening_schedules :: "screening_schedules_row gomap"
  tbl_notifications :: "notifications_row gomap"
  tbl_notification_outbox :: "notification_outbox_row gomap"
  tbl_notification_preferences :: "NotificationPreference gomap"

definition empty_database :: Database where
  "empty_database =
     \<lparr>tbl_customers = [], tbl_audit_events = [], tbl_transactions = [], tbl_alerts = [],
      tbl_investigation_cases = [], tbl_case_comments = [], tbl_customer_due_diligence = [],
      tbl_beneficial_owners = [], tbl_kyc_documents = [], tbl_screening_runs = [],
      tbl_screening_matches = [], tbl_screening_schedules = [], tbl_notifications = [],
      tbl_notification_outbox = [], tbl_notification_preferences = []\<rparr>"

section \<open>Scanning rows\<close>

definition scanCustomer :: "customers_row \<Rightarrow> Customer" where
  "scanCustomer row =
     (customer_columns row)\<lparr>Customer_ReviewedBy := text_column (customer_reviewed_by row)\<rparr>"

definition scanAlert :: "alerts_row \<Rightarrow> Alert" where
  "scanAlert row =
     (alert_columns row)\<lparr>Alert_ClosedBy := text_column (alert_closed_by row),
       Alert_ClosureReason := text_column (alert_closure_reason row)\<rparr>"

definition scanCase :: "investigation_cases_row \<Rightarrow> InvestigationCase" where
  "scanCase row =
     (case_columns row)\<lparr>Case_AssignedTo := text_column (case_assigned_to row),
       Case_Resolution := text_column (case_resolution row),
       Case_ResolvedBy := text_column (case_resolved_by row)\<rparr>"

section \<open>Audit events\<close>

text \<open>The check on \<open>aggregate_type\<close> after the last migration that changes it.\<close>

definition aggregate_types :: "string list" where
  "aggregate_types = [''customer'', ''transaction'', ''alert'', ''case'']"

definition insertAuditEvent :: "AuditEvent \<Rightarrow> Database \<Rightarrow> string + unit \<times> Database" where
  "insertAuditEvent event db =
     (if Event_AggregateType event \<notin> set aggregate_types
      then violates ''audit_events_aggregate_type_check''
      else case insert_row ''audit_events_pkey'' (Event_ID event) event (tbl_audit_events db) of
          Inl msg \<Rightarrow> Inl msg
        | Inr t \<Rightarrow> Inr ((), db\<lparr>tbl_audit_events := t\<rparr>))"

section \<open>Customers\<close>

text \<open>The insert leaves the review columns \<^verbatim>\<open>NULL\<close>.\<close>

definition insert_customer :: "Customer \<Rightarrow> Database \<Rightarrow> string + unit \<times> Database" where
  "insert_customer customer db =
     (if Customer_ExternalRef customer \<noteq> [] \<and>
         list_ex (\<lambda>row. Customer_ExternalRef (customer_columns row) = Customer_ExternalRef customer)
           (gvals (tbl_customers db))
      then violates ''customers_external_ref_unique''
      else case insert_row ''customers_pkey'' (Customer_ID customer)
               \<lparr>customer_columns = customer\<lparr>Customer_ReviewedBy := [], Customer_ReviewedAt := None\<rparr>,
                customer_reviewed_by = None\<rparr> (tbl_customers db) of
          Inl msg \<Rightarrow> Inl msg
        | Inr t \<Rightarrow> Inr ((), db\<lparr>tbl_customers := t\<rparr>))"

definition pg_CreateCustomer :: "session \<Rightarrow> Customer \<Rightarrow> AuditEvent \<Rightarrow> (unit, Database) repo_op" where
  "pg_CreateCustomer S customer event =
     in_transaction S ''begin create customer transaction: '' ''commit create customer transaction: ''
       (tx_then (statement S ''insert customer: '' (insert_customer customer)) (\<lambda>_.
        statement S ''insert audit event: '' (insertAuditEvent event)))"

text \<open>The conditional update, and on no row the lookup that tells why.\<close>

definition review_work ::
  "session \<Rightarrow> string \<Rightarrow> CustomerStatus \<Rightarrow> string \<Rightarrow> AuditEvent \<Rightarrow> (Customer, Database) tx" where
  "review_work S customerID status actor event =
     tx_then (statement S ''update customer review: '' (\<lambda>db.
       (let (row, t) = update_row customerID
           (\<lambda>row. Customer_Status (customer_columns row) = CustomerPendingApproval \<and>
                   Customer_CreatedBy (customer_columns row) \<noteq> actor)
           (\<lambda>row. row\<lparr>customer_columns := (customer_columns row)\<lparr>Customer_Status := status,
                        Customer_ReviewedAt := Some (Event_OccurredAt event)\<rparr>,
                      customer_reviewed_by := Some actor\<rparr>)
           (tbl_customers db)
        in Inr (row, db\<lparr>tbl_customers := t\<rparr>)))) (\<lambda>updated.
     case updated of
       None \<Rightarrow> tx_then (statement S ''inspect customer review state: '' (\<lambda>db.
           Inr (map_of (tbl_customers db) customerID, db))) (\<lambda>found.
         case found of
           None \<Rightarrow> tx_fail ErrCustomerNotFound
         | Some row \<Rightarrow>
             if Customer_CreatedBy (customer_columns row) = actor
             then tx_fail ErrMakerCannotReview else tx_fail ErrReviewConflict)
     | Some row \<Rightarrow>
         tx_then (statement S ''insert review audit event: '' (insertAuditEvent event)) (\<lambda>_.
         tx_return (scanCustomer row)))"

definition pg_ReviewCustomer ::
  "session \<Rightarrow> string \<Rightarrow> ReviewDecision \<Rightarrow> string \<Rightarrow> AuditEvent \<Rightarrow> (Customer, Database) repo_op" where
  "pg_ReviewCustomer S customerID decision actor event db =
     (if decision \<noteq> ReviewApprove \<and> decision \<noteq> ReviewReject
      then (Inl (OtherError (''invalid review decision '' @ [CHR 0x22] @ decision @ [CHR 0x22])), db)
      else in_transaction S ''begin review customer transaction: ''
             ''commit review customer transaction: ''
             (review_work S customerID
               (if decision = ReviewReject then CustomerRejected else CustomerActive) actor event) db)"

definition pg_GetCustomer :: "session \<Rightarrow> string \<Rightarrow> Database \<Rightarrow> Customer result" where
  "pg_GetCustomer S ident db =
     (case query S ''get customer: '' (\<lambda>db. map_of (tbl_customers db) ident) db of
        Inl err \<Rightarrow> Inl err
      | Inr None \<Rightarrow> Inl ErrCustomerNotFound
      | Inr (Some row) \<Rightarrow> Inr (scanCustomer row))"

section \<open>Transactions and alerts\<close>

text \<open>
  \<^verbatim>\<open>ORDER BY\<close> one column ascending, then another: an insertion sort by the pair. Where the pair
  does not determine a row the database may choose, the model keeps the order of the table.
\<close>

definition order_by :: "('a \<Rightarrow> 'k :: linorder) \<Rightarrow> 'a list \<Rightarrow> 'a list" where
  "order_by key rows = sort_slice (\<lambda>a b. key a < key b) rows"

definition listAlertsForTransaction :: "string \<Rightarrow> Database \<Rightarrow> Alert list" where
  "listAlertsForTransaction transactionID db =
     map scanAlert (order_by (\<lambda>row. Alert_RuleCode (alert_columns row))
       (filter (\<lambda>row. Alert_TransactionID (alert_columns row) = transactionID)
         (gvals (tbl_alerts db))))"

text \<open>\<^verbatim>\<open>INSERT ... SELECT ... FROM customers WHERE id = $4 AND status = 'active'\<close>: rows affected.\<close>

definition insert_transaction :: "Transaction \<Rightarrow> Database \<Rightarrow> string + nat \<times> Database" where
  "insert_transaction transaction db =
     (case map_of (tbl_customers db) (Transaction_CustomerID transaction) of
        None \<Rightarrow> Inr (0, db)
      | Some row \<Rightarrow>
          if Customer_Status (customer_columns row) \<noteq> CustomerActive then Inr (0, db)
          else if Transaction_ExternalRef transaction \<noteq> [] \<and>
            list_ex (\<lambda>t. Transaction_ExternalRef t = Transaction_ExternalRef transaction)
              (gvals (tbl_transactions db))
          then violates ''transactions_external_ref_unique''
          else if list_ex (\<lambda>t. Transaction_IdempotencyKey t = Transaction_IdempotencyKey transaction)
              (gvals (tbl_transactions db))
          then violates ''transactions_idempotency_key_unique''
          else if Transaction_AmountMinor transaction \<le> 0
          then violates ''transactions_amount_minor_check''
          else if Transaction_Direction transaction \<notin> {TransactionInbound, TransactionOutbound}
          then violates ''transactions_direction_check''
          else case insert_row ''transactions_pkey'' (Transaction_ID transaction) transaction
                 (tbl_transactions db) of
              Inl msg \<Rightarrow> Inl msg
            | Inr t \<Rightarrow> Inr (1, db\<lparr>tbl_transactions := t\<rparr>))"

definition insert_alert :: "Alert \<Rightarrow> Database \<Rightarrow> string + unit \<times> Database" where
  "insert_alert alert db =
     (if map_of (tbl_transactions db) (Alert_TransactionID alert) = None
      then violates ''alerts_transaction_id_fkey''
      else if map_of (tbl_customers db) (Alert_CustomerID alert) = None
      then violates ''alerts_customer_id_fkey''
      else if Alert_Severity alert \<notin> {AlertMedium, AlertHigh}
      then violates ''alerts_severity_check''
      else if Alert_Status alert \<notin> {AlertOpen, AlertClosed} then violates ''alerts_status_check''
      else if list_ex (\<lambda>row. Alert_TransactionID (alert_columns row) = Alert_TransactionID alert \<and>
          Alert_RuleCode (alert_columns row) = Alert_RuleCode alert \<and>
          Alert_RuleVersion (alert_columns row) = Alert_RuleVersion alert) (gvals (tbl_alerts db))
      then violates ''alerts_transaction_id_rule_code_rule_version_key''
      else case insert_row ''alerts_pkey'' (Alert_ID alert)
               \<lparr>alert_columns = alert\<lparr>Alert_ClosedAt := None, Alert_ClosedBy := [],
                  Alert_ClosureReason := []\<rparr>,
                alert_closed_by = None, alert_closure_reason = None\<rparr> (tbl_alerts db) of
          Inl msg \<Rightarrow> Inl msg
        | Inr t \<Rightarrow> Inr ((), db\<lparr>tbl_alerts := t\<rparr>))"

text \<open>One round of the loop over the alerts and their events.\<close>

definition store_alert :: "session \<Rightarrow> Alert \<times> AuditEvent \<Rightarrow> (unit, Database) tx" where
  "store_alert S pair =
     (case pair of (alert, event) \<Rightarrow>
        tx_then (statement S ''insert monitoring alert: '' (insert_alert alert)) (\<lambda>_.
        statement S ''insert alert audit event: '' (insertAuditEvent event)))"

text \<open>What a fresh key does after the lookup found nothing.\<close>

definition ingest_new ::
  "session \<Rightarrow> Transaction \<Rightarrow> AuditEvent \<Rightarrow> Alert list \<Rightarrow> AuditEvent list \<Rightarrow>
   (Transaction \<times> Alert list \<times> bool, Database) tx" where
  "ingest_new S transaction event alrts alertEvents =
     tx_then (statement S ''insert transaction: '' (insert_transaction transaction)) (\<lambda>affected.
       if affected = 0
       then tx_then (statement S ''inspect transaction customer: '' (\<lambda>db.
              Inr (map_of (tbl_customers db) (Transaction_CustomerID transaction), db))) (\<lambda>found.
            case found of
              None \<Rightarrow> tx_fail ErrCustomerNotFound
            | Some row \<Rightarrow> tx_fail ErrCustomerNotActive)
       else tx_then (statement S ''insert transaction audit event: '' (insertAuditEvent event)) (\<lambda>_.
            tx_then (tx_each (store_alert S) (zip alrts alertEvents)) (\<lambda>_.
            tx_return (transaction, alrts, False))))"

definition find_idempotent :: "string \<Rightarrow> Database \<Rightarrow> Transaction option" where
  "find_idempotent key db =
     find (\<lambda>t. Transaction_IdempotencyKey t = key) (gvals (tbl_transactions db))"

definition pg_CreateTransaction ::
  "session \<Rightarrow> Transaction \<Rightarrow> AuditEvent \<Rightarrow> Alert list \<Rightarrow> AuditEvent list \<Rightarrow>
   (Transaction \<times> Alert list \<times> bool, Database) repo_op" where
  "pg_CreateTransaction S transaction event alrts alertEvents db =
     (if length alrts \<noteq> length alertEvents
      then (Inl (OtherError ''each alert must have one audit event''), db)
      else in_transaction S ''begin ingest transaction: '' ''commit ingest transaction: ''
        (tx_then (statement S ''lock idempotency key: '' (\<lambda>db. Inr ((), db))) (\<lambda>_.
         tx_then (statement S ''find idempotent transaction: '' (\<lambda>db.
           Inr (find_idempotent (Transaction_IdempotencyKey transaction) db, db))) (\<lambda>existing.
         case existing of
           None \<Rightarrow> ingest_new S transaction event alrts alertEvents
         | Some existing \<Rightarrow>
             if \<not> SameIngestionPayload existing transaction then tx_fail ErrIdempotencyConflict
             else tx_then (statement S ''query replayed alerts: '' (\<lambda>db.
                    Inr (listAlertsForTransaction (Transaction_ID existing) db, db))) (\<lambda>alrts.
                  tx_return (existing, alrts, True))))) db)"

definition pg_ListAlerts :: "session \<Rightarrow> AlertStatus \<Rightarrow> Database \<Rightarrow> Alert list result" where
  "pg_ListAlerts S status =
     query S ''query alerts: '' (\<lambda>db. map scanAlert
       (sort_slice (\<lambda>a b. Alert_CreatedAt (alert_columns b) < Alert_CreatedAt (alert_columns a) \<or>
            Alert_CreatedAt (alert_columns a) = Alert_CreatedAt (alert_columns b) \<and>
            Alert_ID (alert_columns a) < Alert_ID (alert_columns b))
         (filter (\<lambda>row. status = [] \<or> Alert_Status (alert_columns row) = status)
           (gvals (tbl_alerts db)))))"

text \<open>The update both closures of an alert make: by hand, and with its case.\<close>

definition close_alert_row ::
  "string \<Rightarrow> time \<Rightarrow> string \<Rightarrow> string \<Rightarrow> Database \<Rightarrow> alerts_row option \<times> Database" where
  "close_alert_row alertID closedAt closedBy reason db =
     (let (row, t) = update_row alertID
          (\<lambda>row. Alert_Status (alert_columns row) = AlertOpen)
          (\<lambda>row. row\<lparr>alert_columns := (alert_columns row)\<lparr>Alert_Status := AlertClosed,
                       Alert_ClosedAt := Some closedAt\<rparr>,
                     alert_closed_by := Some closedBy, alert_closure_reason := Some reason\<rparr>)
          (tbl_alerts db)
      in (row, db\<lparr>tbl_alerts := t\<rparr>))"

definition pg_CloseAlert ::
  "session \<Rightarrow> string \<Rightarrow> string \<Rightarrow> string \<Rightarrow> AuditEvent \<Rightarrow> (Alert, Database) repo_op" where
  "pg_CloseAlert S alertID actor reason event =
     in_transaction S ''begin close alert: '' ''commit close alert: ''
       (tx_then (statement S ''update alert: '' (\<lambda>db.
          Inr (close_alert_row alertID (Event_OccurredAt event) actor reason db))) (\<lambda>closed.
        case closed of
          None \<Rightarrow> tx_then (statement S ''inspect alert state: '' (\<lambda>db.
              Inr (map_of (tbl_alerts db) alertID, db))) (\<lambda>found.
            case found of None \<Rightarrow> tx_fail ErrAlertNotFound | Some row \<Rightarrow> tx_fail ErrAlertConflict)
        | Some row \<Rightarrow>
            tx_then (statement S ''insert alert closure audit event: '' (insertAuditEvent event)) (\<lambda>_.
            tx_return (scanAlert row))))"

section \<open>Cases\<close>

definition insert_case :: "InvestigationCase \<Rightarrow> Database \<Rightarrow> string + investigation_cases_row \<times> Database" where
  "insert_case item db =
     (let row = \<lparr>case_columns = item\<lparr>Case_AssignedTo := [], Case_Resolution := [],
                   Case_ResolvedBy := [], Case_ResolvedAt := None\<rparr>,
                 case_assigned_to = None, case_resolution = None, case_resolved_by = None\<rparr>
      in if Case_Priority item \<notin> {CasePriorityLow, CasePriorityMedium, CasePriorityHigh}
         then violates ''investigation_cases_priority_check''
         else if Case_Status item \<notin> {CaseOpen, CaseInProgress, CaseResolved}
         then violates ''investigation_cases_status_check''
         else if map_of (tbl_customers db) (Case_CustomerID item) = None
         then violates ''investigation_cases_customer_id_fkey''
         else case insert_row ''investigation_cases_pkey'' (Case_ID item) row
                (tbl_investigation_cases db) of
             Inl msg \<Rightarrow> Inl msg
           | Inr t \<Rightarrow> Inr (row, db\<lparr>tbl_investigation_cases := t\<rparr>))"

definition case_exists :: "string \<Rightarrow> Database \<Rightarrow> bool" where
  "case_exists alertID db =
     list_ex (\<lambda>row. Case_AlertID (case_columns row) = alertID) (gvals (tbl_investigation_cases db))"

definition pg_CreateCase ::
  "session \<Rightarrow> InvestigationCase \<Rightarrow> AuditEvent \<Rightarrow> (InvestigationCase, Database) repo_op" where
  "pg_CreateCase S item event =
     in_transaction S ''begin create case: '' ''commit create case: ''
       (tx_then (statement S ''find case alert: '' (\<lambda>db.
          Inr (map_of (tbl_alerts db) (Case_AlertID item), db))) (\<lambda>found.
        case found of
          None \<Rightarrow> tx_fail ErrAlertNotFound
        | Some row \<Rightarrow>
            (let item = item\<lparr>Case_CustomerID := Alert_CustomerID (alert_columns row)\<rparr>
             in if Alert_Status (alert_columns row) \<noteq> AlertOpen then tx_fail ErrAlertConflict
                else tx_then (statement S [] (\<lambda>db. Inr (case_exists (Case_AlertID item) db, db))) (\<lambda>exists.
                  if exists then tx_fail ErrAlertHasCase
                  else tx_then (statement S ''insert case: '' (insert_case item)) (\<lambda>stored.
                       tx_then (statement S ''audit case creation: '' (insertAuditEvent event)) (\<lambda>_.
                       tx_return (scanCase stored)))))))"

definition pg_GetCase :: "session \<Rightarrow> string \<Rightarrow> Database \<Rightarrow> InvestigationCase result" where
  "pg_GetCase S ident db =
     (case query S [] (\<lambda>db. map_of (tbl_investigation_cases db) ident) db of
        Inl err \<Rightarrow> Inl err
      | Inr None \<Rightarrow> Inl ErrCaseNotFound
      | Inr (Some row) \<Rightarrow> Inr (scanCase row))"

definition pg_ListCaseComments :: "session \<Rightarrow> string \<Rightarrow> Database \<Rightarrow> CaseComment list result" where
  "pg_ListCaseComments S caseID =
     query S [] (\<lambda>db. sort_slice (\<lambda>a b. Comment_CreatedAt a < Comment_CreatedAt b \<or>
         Comment_CreatedAt a = Comment_CreatedAt b \<and> Comment_ID a < Comment_ID b)
       (filter (\<lambda>comment. Comment_CaseID comment = caseID) (gvals (tbl_case_comments db))))"

definition caseMutationError :: "session \<Rightarrow> string \<Rightarrow> ('a, Database) tx" where
  "caseMutationError S ident =
     tx_then (statement S [] (\<lambda>db. Inr (map_of (tbl_investigation_cases db) ident, db))) (\<lambda>found.
       case found of None \<Rightarrow> tx_fail ErrCaseNotFound | Some row \<Rightarrow> tx_fail ErrCaseConflict)"

text \<open>\<^verbatim>\<open>UPDATE investigation_cases SET ... WHERE id=$1 AND status<>'resolved' RETURNING ...\<close>\<close>

definition update_open_case ::
  "string \<Rightarrow> (investigation_cases_row \<Rightarrow> investigation_cases_row) \<Rightarrow> Database \<Rightarrow>
   string + investigation_cases_row option \<times> Database" where
  "update_open_case ident change db =
     (let (row, t) = update_row ident (\<lambda>row. Case_Status (case_columns row) \<noteq> CaseResolved) change
          (tbl_investigation_cases db)
      in Inr (row, db\<lparr>tbl_investigation_cases := t\<rparr>))"

definition pg_AssignCase ::
  "session \<Rightarrow> string \<Rightarrow> string \<Rightarrow> AuditEvent \<Rightarrow> (InvestigationCase, Database) repo_op" where
  "pg_AssignCase S ident assignee event =
     in_transaction S [] []
       (tx_then (statement S [] (update_open_case ident (\<lambda>row.
          row\<lparr>case_columns := (case_columns row)\<lparr>Case_Status := CaseInProgress,
                Case_UpdatedAt := Event_OccurredAt event\<rparr>,
              case_assigned_to := Some assignee\<rparr>))) (\<lambda>updated.
        case updated of
          None \<Rightarrow> caseMutationError S ident
        | Some stored \<Rightarrow> tx_then (statement S [] (insertAuditEvent event)) (\<lambda>_.
            tx_return (scanCase stored))))"

definition insert_comment :: "CaseComment \<Rightarrow> Database \<Rightarrow> string + CaseComment \<times> Database" where
  "insert_comment comment db =
     (case insert_row ''case_comments_pkey'' (Comment_ID comment) comment (tbl_case_comments db) of
        Inl msg \<Rightarrow> Inl msg
      | Inr t \<Rightarrow> Inr (comment, db\<lparr>tbl_case_comments := t\<rparr>))"

definition pg_AddCaseComment ::
  "session \<Rightarrow> CaseComment \<Rightarrow> AuditEvent \<Rightarrow> (CaseComment, Database) repo_op" where
  "pg_AddCaseComment S comment event =
     in_transaction S [] []
       (tx_then (statement S [] (\<lambda>db.
          Inr (map_of (tbl_investigation_cases db) (Comment_CaseID comment), db))) (\<lambda>found.
        case found of
          None \<Rightarrow> tx_fail ErrCaseNotFound
        | Some row \<Rightarrow>
            if Case_Status (case_columns row) = CaseResolved then tx_fail ErrCaseConflict
            else tx_then (statement S [] (insert_comment comment)) (\<lambda>stored.
                 tx_then (statement S [] (\<lambda>db.
                   (let (_, t) = update_row (Comment_CaseID comment) (\<lambda>_. True)
                        (\<lambda>row. row\<lparr>case_columns := (case_columns row)
                                      \<lparr>Case_UpdatedAt := Comment_CreatedAt comment\<rparr>\<rparr>)
                        (tbl_investigation_cases db)
                    in Inr ((), db\<lparr>tbl_investigation_cases := t\<rparr>)))) (\<lambda>_.
                 tx_then (statement S [] (insertAuditEvent event)) (\<lambda>_.
                 tx_return stored)))))"

definition pg_ResolveCase ::
  "session \<Rightarrow> string \<Rightarrow> string \<Rightarrow> string \<Rightarrow> AuditEvent \<Rightarrow> AuditEvent \<Rightarrow> (InvestigationCase, Database) repo_op"
where
  "pg_ResolveCase S ident resolution actor caseEvent alertEvent =
     in_transaction S [] []
       (tx_then (statement S [] (update_open_case ident (\<lambda>row.
          row\<lparr>case_columns := (case_columns row)\<lparr>Case_Status := CaseResolved,
                Case_ResolvedAt := Some (Event_OccurredAt caseEvent),
                Case_UpdatedAt := Event_OccurredAt caseEvent\<rparr>,
              case_resolution := Some resolution, case_resolved_by := Some actor\<rparr>))) (\<lambda>updated.
        case updated of
          None \<Rightarrow> caseMutationError S ident
        | Some stored \<Rightarrow>
            (let alertID = Case_AlertID (case_columns stored);
                 alertEvent = alertEvent\<lparr>Event_AggregateID := alertID\<rparr>
             in tx_then (statement S [] (\<lambda>db.
                  Inr (close_alert_row alertID (Event_OccurredAt caseEvent) actor resolution db))) (\<lambda>closed.
                if closed = None then tx_fail ErrAlertConflict
                else tx_then (statement S [] (insertAuditEvent caseEvent)) (\<lambda>_.
                     tx_then (statement S [] (insertAuditEvent alertEvent)) (\<lambda>_.
                     tx_return (scanCase stored)))))))"

end
