(* ===== verification/Postgres_Screening.thy ===== *)
theory Postgres_Screening
  imports Postgres Memory_Screening
begin

text \<open>
  The rest of \<^verbatim>\<open>internal/infrastructure/postgres/repository.go\<close> that changes state: due diligence,
  screenings and their matches, notifications and preferences, the delivery outbox, and the
  recurring schedules with their leases.
\<close>

section \<open>Due diligence\<close>

definition scanKYCDocument :: "kyc_documents_row \<Rightarrow> KYCDocument" where
  "scanKYCDocument row =
     (document_columns row)\<lparr>Document_VerifiedBy := text_column (document_verified_by row)\<rparr>"

text \<open>\<^verbatim>\<open>ORDER BY created_at,id\<close>\<close>

definition oldest_first :: "('a \<Rightarrow> time) \<Rightarrow> ('a \<Rightarrow> string) \<Rightarrow> 'a list \<Rightarrow> 'a list" where
  "oldest_first at ident rows =
     sort_slice (\<lambda>a b. at a < at b \<or> at a = at b \<and> ident a < ident b) rows"

definition pg_GetDueDiligence :: "session \<Rightarrow> string \<Rightarrow> Database \<Rightarrow> DueDiligenceDetails result" where
  "pg_GetDueDiligence S customerID db =
     (case Fault S 0 of
        Some msg \<Rightarrow> Inl (OtherError msg)
      | None \<Rightarrow> if map_of (tbl_customers db) customerID = None then Inl ErrCustomerNotFound
     else case Fault S 1 of
        Some msg \<Rightarrow> Inl (OtherError msg)
      | None \<Rightarrow> (case Fault S 2 of
        Some msg \<Rightarrow> Inl (OtherError msg)
      | None \<Rightarrow> (case Fault S 3 of
        Some msg \<Rightarrow> Inl (OtherError msg)
      | None \<Rightarrow> Inr
          \<lparr>Diligence_Profile =
             (case map_of (tbl_customer_due_diligence db) customerID of
                None \<Rightarrow> zero_CDDProfile\<lparr>Profile_CustomerID := customerID, Profile_Status := CDDIncomplete\<rparr>
              | Some p \<Rightarrow> p\<lparr>Profile_CustomerID := customerID\<rparr>),
           Diligence_BeneficialOwners = oldest_first Owner_CreatedAt Owner_ID
             (filter (\<lambda>o'. Owner_CustomerID o' = customerID) (gvals (tbl_beneficial_owners db))),
           Diligence_Documents = map scanKYCDocument (oldest_first
             (\<lambda>row. Document_CreatedAt (document_columns row)) (\<lambda>row. Document_ID (document_columns row))
             (filter (\<lambda>row. Document_CustomerID (document_columns row) = customerID)
               (gvals (tbl_kyc_documents db))))\<rparr>)))"

text \<open>Insert or update of the one profile a customer has; no row when the customer is unknown.\<close>

definition upsert_profile :: "CDDProfile \<Rightarrow> Database \<Rightarrow> string + CDDProfile option \<times> Database" where
  "upsert_profile p db =
     (if map_of (tbl_customers db) (Profile_CustomerID p) = None then Inr (None, db)
      else if Profile_ExpectedMonthlyVolumeMinor p < 0
      then violates ''customer_due_diligence_expected_monthly_volume_minor_check''
      else if Profile_Status p \<notin> {CDDIncomplete, CDDInReview, CDDComplete}
      then violates ''customer_due_diligence_status_check''
      else Inr (Some p, db\<lparr>tbl_customer_due_diligence :=
             gput (Profile_CustomerID p) p (tbl_customer_due_diligence db)\<rparr>))"

text \<open>
  The common shape of the writes below: a statement that returns a row, the error for no row,
  and the audit event, which may be completed from the row.
\<close>

definition write_with_event ::
  "session \<Rightarrow> (Database \<Rightarrow> string + 'a option \<times> Database) \<Rightarrow> error \<Rightarrow> ('a \<Rightarrow> AuditEvent) \<Rightarrow>
   ('a, Database) repo_op" where
  "write_with_event S write absent event =
     in_transaction S [] []
       (tx_then (statement S [] write) (\<lambda>stored.
        case stored of
          None \<Rightarrow> tx_fail absent
        | Some stored \<Rightarrow> tx_then (statement S [] (insertAuditEvent (event stored))) (\<lambda>_.
            tx_return stored)))"

definition pg_UpsertCDDProfile :: "session \<Rightarrow> CDDProfile \<Rightarrow> AuditEvent \<Rightarrow> (CDDProfile, Database) repo_op" where
  "pg_UpsertCDDProfile S p event =
     write_with_event S (upsert_profile p) ErrCustomerNotFound (\<lambda>_. event)"

definition insert_owner :: "BeneficialOwner \<Rightarrow> Database \<Rightarrow> string + BeneficialOwner option \<times> Database" where
  "insert_owner o' db =
     (if map_of (tbl_customers db) (Owner_CustomerID o') = None then Inr (None, db)
      else if Owner_OwnershipPercent o' < 1 \<or> 100 < Owner_OwnershipPercent o'
      then violates ''beneficial_owners_ownership_percent_check''
      else case insert_row ''beneficial_owners_pkey'' (Owner_ID o') o' (tbl_beneficial_owners db) of
          Inl msg \<Rightarrow> Inl msg
        | Inr t \<Rightarrow> Inr (Some o', db\<lparr>tbl_beneficial_owners := t\<rparr>))"

definition pg_AddBeneficialOwner ::
  "session \<Rightarrow> BeneficialOwner \<Rightarrow> AuditEvent \<Rightarrow> (BeneficialOwner, Database) repo_op" where
  "pg_AddBeneficialOwner S o' event =
     write_with_event S (insert_owner o') ErrCustomerNotFound (\<lambda>_. event)"

text \<open>The insert leaves the verification columns \<^verbatim>\<open>NULL\<close>, whatever the document says.\<close>

definition insert_document :: "KYCDocument \<Rightarrow> Database \<Rightarrow> string + KYCDocument option \<times> Database" where
  "insert_document d db =
     (let row = \<lparr>document_columns = d\<lparr>Document_VerifiedBy := [], Document_VerifiedAt := None\<rparr>,
                 document_verified_by = None\<rparr>
      in if map_of (tbl_customers db) (Document_CustomerID d) = None then Inr (None, db)
         else if Document_Status d \<notin> {DocumentPending, DocumentVerified, DocumentRejected}
         then violates ''kyc_documents_status_check''
         else case insert_row ''kyc_documents_pkey'' (Document_ID d) row (tbl_kyc_documents db) of
             Inl msg \<Rightarrow> Inl msg
           | Inr t \<Rightarrow> Inr (Some (scanKYCDocument row), db\<lparr>tbl_kyc_documents := t\<rparr>))"

definition pg_AddKYCDocument :: "session \<Rightarrow> KYCDocument \<Rightarrow> AuditEvent \<Rightarrow> (KYCDocument, Database) repo_op" where
  "pg_AddKYCDocument S d event =
     write_with_event S (insert_document d) ErrCustomerNotFound (\<lambda>_. event)"

definition review_document ::
  "string \<Rightarrow> DocumentStatus \<Rightarrow> string \<Rightarrow> time \<Rightarrow> Database \<Rightarrow> string + KYCDocument option \<times> Database" where
  "review_document ident status actor at db =
     (let (row, t) = update_row ident
          (\<lambda>row. Document_Status (document_columns row) = DocumentPending)
          (\<lambda>row. row\<lparr>document_columns := (document_columns row)\<lparr>Document_Status := status,
                       Document_VerifiedAt := Some at\<rparr>,
                     document_verified_by := Some actor\<rparr>)
          (tbl_kyc_documents db)
      in if row \<noteq> None \<and> status \<notin> {DocumentPending, DocumentVerified, DocumentRejected}
         then violates ''kyc_documents_status_check''
         else Inr (map_option scanKYCDocument row, db\<lparr>tbl_kyc_documents := t\<rparr>))"

definition pg_ReviewKYCDocument ::
  "session \<Rightarrow> string \<Rightarrow> DocumentStatus \<Rightarrow> string \<Rightarrow> AuditEvent \<Rightarrow> (KYCDocument, Database) repo_op" where
  "pg_ReviewKYCDocument S ident status actor event =
     write_with_event S (review_document ident status actor (Event_OccurredAt event)) ErrReviewConflict
       (\<lambda>stored. event\<lparr>Event_AggregateID := Document_CustomerID stored\<rparr>)"

section \<open>Screenings\<close>

definition insert_run :: "ScreeningRun \<Rightarrow> Database \<Rightarrow> string + unit \<times> Database" where
  "insert_run run db =
     (if map_of (tbl_customers db) (Run_CustomerID run) = None
      then violates ''screening_runs_customer_id_fkey''
      else if Run_SubjectType run \<notin> {ScreeningCustomer, ScreeningBeneficialOwner}
      then violates ''screening_runs_subject_type_check''
      else case insert_row ''screening_runs_pkey'' (Run_ID run) run (tbl_screening_runs db) of
          Inl msg \<Rightarrow> Inl msg
        | Inr t \<Rightarrow> Inr ((), db\<lparr>tbl_screening_runs := t\<rparr>))"

definition insert_match :: "ScreeningMatch \<Rightarrow> Database \<Rightarrow> string + unit \<times> Database" where
  "insert_match m db =
     (if map_of (tbl_screening_runs db) (Match_RunID m) = None
      then violates ''screening_matches_run_id_fkey''
      else if map_of (tbl_customers db) (Match_CustomerID m) = None
      then violates ''screening_matches_customer_id_fkey''
      else if Match_ListType m \<notin> {ScreeningSanctions, ScreeningPEP, ScreeningAdverseMedia}
      then violates ''screening_matches_list_type_check''
      else if Match_Score m < 0 \<or> 100 < Match_Score m then violates ''screening_matches_score_check''
      else if Match_Status m \<notin> {MatchPotential, MatchConfirmed, MatchFalsePositive}
      then violates ''screening_matches_status_check''
      else case insert_row ''screening_matches_pkey'' (Match_ID m)
               \<lparr>match_columns = m\<lparr>Match_ReviewedBy := [], Match_ReviewedAt := None,
                  Match_DispositionReason := []\<rparr>,
                match_reviewed_by = None, match_disposition_reason = None\<rparr>
               (tbl_screening_matches db) of
          Inl msg \<Rightarrow> Inl msg
        | Inr t \<Rightarrow> Inr ((), db\<lparr>tbl_screening_matches := t\<rparr>))"

definition insert_notification :: "Notification \<Rightarrow> Database \<Rightarrow> string + unit \<times> Database" where
  "insert_notification n db =
     (if map_of (tbl_customers db) (Notification_CustomerID n) = None
      then violates ''notifications_customer_id_fkey''
      else if map_of (tbl_screening_matches db) (Notification_MatchID n) = None
      then violates ''notifications_match_id_fkey''
      else if Notification_Type n \<noteq> ''screening_match'' then violates ''notifications_type_check''
      else case insert_row ''notifications_pkey'' (Notification_ID n)
               \<lparr>notification_columns = n\<lparr>Notification_ReadBy := [], Notification_ReadAt := None\<rparr>,
                notification_read_by = None\<rparr> (tbl_notifications db) of
          Inl msg \<Rightarrow> Inl msg
        | Inr t \<Rightarrow> Inr ((), db\<lparr>tbl_notifications := t\<rparr>))"

text \<open>An empty channel is stored as the default one; the lease columns start \<^verbatim>\<open>NULL\<close>.\<close>

definition insert_outbox :: "OutboxMessage \<Rightarrow> Database \<Rightarrow> string + unit \<times> Database" where
  "insert_outbox message db =
     (let channel = (if Outbox_Channel message = [] then ''webhook'' else Outbox_Channel message)
      in if map_of (tbl_notifications db) (Outbox_NotificationID message) = None
         then violates ''notification_outbox_notification_id_fkey''
         else if channel \<notin> {''webhook'', ''email''} then violates ''notification_outbox_channel_check''
         else if Outbox_Status message \<notin> {''pending'', ''delivered''}
         then violates ''notification_outbox_status_check''
         else if Outbox_Attempts message < 0 then violates ''notification_outbox_attempts_check''
         else case insert_row ''notification_outbox_pkey'' (Outbox_ID message)
                  \<lparr>outbox_columns = message\<lparr>Outbox_Channel := channel, Outbox_LeaseOwner := [],
                     Outbox_LeaseUntil := None, Outbox_DeliveredAt := None\<rparr>,
                   outbox_lease_owner = None\<rparr> (tbl_notification_outbox db) of
             Inl msg \<Rightarrow> Inl msg
           | Inr t \<Rightarrow> Inr ((), db\<lparr>tbl_notification_outbox := t\<rparr>))"

definition pg_SaveScreening ::
  "session \<Rightarrow> ScreeningRun list \<Rightarrow> ScreeningMatch list \<Rightarrow> Notification list \<Rightarrow> OutboxMessage list \<Rightarrow>
   AuditEvent list \<Rightarrow> (unit, Database) repo_op" where
  "pg_SaveScreening S runs matches ns outbox events =
     in_transaction S [] []
       (tx_then (tx_each (\<lambda>run. statement S [] (insert_run run)) runs) (\<lambda>_.
        tx_then (tx_each (\<lambda>m. statement S [] (insert_match m)) matches) (\<lambda>_.
        tx_then (tx_each (\<lambda>n. statement S [] (insert_notification n)) ns) (\<lambda>_.
        tx_then (tx_each (\<lambda>message. statement S [] (insert_outbox message)) outbox) (\<lambda>_.
        tx_each (\<lambda>event. statement S [] (insertAuditEvent event)) events)))))"

definition scanScreeningMatch :: "screening_matches_row \<Rightarrow> ScreeningMatch" where
  "scanScreeningMatch row =
     (match_columns row)\<lparr>Match_ReviewedBy := text_column (match_reviewed_by row),
       Match_DispositionReason := text_column (match_disposition_reason row)\<rparr>"

definition pg_ListScreeningMatches :: "session \<Rightarrow> string \<Rightarrow> Database \<Rightarrow> ScreeningMatch list result" where
  "pg_ListScreeningMatches S customerID =
     query S [] (\<lambda>db. map scanScreeningMatch
       (sort_slice (\<lambda>a b. Match_CreatedAt (match_columns b) < Match_CreatedAt (match_columns a) \<or>
            Match_CreatedAt (match_columns a) = Match_CreatedAt (match_columns b) \<and>
            Match_ID (match_columns a) < Match_ID (match_columns b))
         (filter (\<lambda>row. Match_CustomerID (match_columns row) = customerID)
           (gvals (tbl_screening_matches db)))))"

definition dispose_match ::
  "string \<Rightarrow> ScreeningMatchStatus \<Rightarrow> string \<Rightarrow> string \<Rightarrow> time \<Rightarrow> Database \<Rightarrow>
   string + ScreeningMatch option \<times> Database" where
  "dispose_match ident status reason actor at db =
     (let (row, t) = update_row ident
          (\<lambda>row. Match_Status (match_columns row) = MatchPotential)
          (\<lambda>row. row\<lparr>match_columns := (match_columns row)\<lparr>Match_Status := status,
                       Match_ReviewedAt := Some at\<rparr>,
                     match_reviewed_by := Some actor, match_disposition_reason := Some reason\<rparr>)
          (tbl_screening_matches db)
      in if row \<noteq> None \<and> status \<notin> {MatchPotential, MatchConfirmed, MatchFalsePositive}
         then violates ''screening_matches_status_check''
         else Inr (map_option scanScreeningMatch row, db\<lparr>tbl_screening_matches := t\<rparr>))"

definition pg_DispositionScreeningMatch ::
  "session \<Rightarrow> string \<Rightarrow> ScreeningMatchStatus \<Rightarrow> string \<Rightarrow> string \<Rightarrow> AuditEvent \<Rightarrow>
   (ScreeningMatch, Database) repo_op" where
  "pg_DispositionScreeningMatch S ident status reason actor event =
     write_with_event S (dispose_match ident status reason actor (Event_OccurredAt event))
       ErrReviewConflict (\<lambda>stored. event\<lparr>Event_AggregateID := Match_CustomerID stored\<rparr>)"

end
