(* ===== verification/Postgres_Queues.thy ===== *)
theory Postgres_Queues
  imports Postgres_Screening
begin

text \<open>
  The queues of \<^verbatim>\<open>internal/infrastructure/postgres/repository.go\<close>: notifications and preferences,
  the delivery outbox and the recurring schedules. A claim picks the due rows in order of their
  time, skips rows another transaction has locked, takes at most the asked number and leases them.
\<close>

section \<open>Notifications and preferences\<close>

definition scanNotification :: "notifications_row \<Rightarrow> Notification" where
  "scanNotification row =
     (notification_columns row)\<lparr>Notification_ReadBy := text_column (notification_read_by row)\<rparr>"

text \<open>\<^verbatim>\<open>ORDER BY read,created_at DESC LIMIT $1\<close>: unread ones first.\<close>

definition pg_ListNotifications :: "session \<Rightarrow> int \<Rightarrow> Database \<Rightarrow> Notification list result" where
  "pg_ListNotifications S limit =
     query S [] (\<lambda>db. map scanNotification (take (nat limit)
       (sort_slice (\<lambda>a b. Notification_Read (notification_columns a) < Notification_Read (notification_columns b) \<or>
            Notification_Read (notification_columns a) = Notification_Read (notification_columns b) \<and>
            Notification_CreatedAt (notification_columns b) < Notification_CreatedAt (notification_columns a))
         (gvals (tbl_notifications db)))))"

definition pg_ReadNotification ::
  "session \<Rightarrow> string \<Rightarrow> string \<Rightarrow> time \<Rightarrow> (Notification, Database) repo_op" where
  "pg_ReadNotification S ident actor at db =
     (case autocommit S [] (\<lambda>db.
         (let (row, t) = update_row ident (\<lambda>_. True)
              (\<lambda>row. row\<lparr>notification_columns := (notification_columns row)\<lparr>Notification_Read := True,
                           Notification_ReadAt := Some at\<rparr>,
                         notification_read_by := Some actor\<rparr>)
              (tbl_notifications db)
          in Inr (row, db\<lparr>tbl_notifications := t\<rparr>))) db of
        (Inl err, db') \<Rightarrow> (Inl err, db')
      | (Inr None, db') \<Rightarrow> (Inl ErrNotificationNotFound, db')
      | (Inr (Some row), db') \<Rightarrow> (Inr (scanNotification row), db'))"

definition pg_GetNotificationPreference ::
  "session \<Rightarrow> string \<Rightarrow> Database \<Rightarrow> NotificationPreference result" where
  "pg_GetNotificationPreference S actor db =
     (case query S [] (\<lambda>db. map_of (tbl_notification_preferences db) actor) db of
        Inl err \<Rightarrow> Inl err
      | Inr None \<Rightarrow> Inl ErrNotificationNotFound
      | Inr (Some preference) \<Rightarrow> Inr preference)"

definition pg_UpsertNotificationPreference ::
  "session \<Rightarrow> NotificationPreference \<Rightarrow> (NotificationPreference, Database) repo_op" where
  "pg_UpsertNotificationPreference S preference =
     autocommit S [] (\<lambda>db.
       if Preference_EmailEnabled preference \<and> Preference_EmailAddress preference = []
       then violates ''notification_preferences_check''
       else Inr (preference, db\<lparr>tbl_notification_preferences :=
              gput (Preference_ActorSubject preference) preference (tbl_notification_preferences db)\<rparr>))"

text \<open>\<^verbatim>\<open>SELECT DISTINCT email_address ... ORDER BY email_address\<close>\<close>

definition pg_ListEmailNotificationRecipients :: "session \<Rightarrow> Database \<Rightarrow> string list result" where
  "pg_ListEmailNotificationRecipients S =
     query S [] (\<lambda>db. sort (remdups (map Preference_EmailAddress
       (filter Preference_EmailEnabled (gvals (tbl_notification_preferences db))))))"

section \<open>Leases\<close>

text \<open>
  \<^verbatim>\<open>WITH due AS (SELECT id ... WHERE due ORDER BY time FOR UPDATE SKIP LOCKED LIMIT n) UPDATE ...
  FROM due RETURNING ...\<close>: the keys of the due rows, then the rows with the update applied.
\<close>

definition due_keys ::
  "(string \<Rightarrow> bool) \<Rightarrow> ('v \<Rightarrow> bool) \<Rightarrow> ('v \<Rightarrow> time) \<Rightarrow> int \<Rightarrow> 'v gomap \<Rightarrow> string list" where
  "due_keys locked due at n m =
     take (nat n) (map fst (sort_slice (\<lambda>a b. at (snd a) < at (snd b))
       (filter (\<lambda>(k, v). due v \<and> \<not> locked k) m)))"

definition claim_rows :: "string list \<Rightarrow> ('v \<Rightarrow> 'v) \<Rightarrow> 'v gomap \<Rightarrow> 'v list \<times> 'v gomap" where
  "claim_rows keys change m =
     (map (\<lambda>k. change (the (map_of m k))) keys,
      map (\<lambda>(k, v). (k, if k \<in> set keys then change v else v)) m)"

section \<open>The delivery outbox\<close>

definition scanOutbox :: "notification_outbox_row \<Rightarrow> OutboxMessage" where
  "scanOutbox row = (outbox_columns row)\<lparr>Outbox_LeaseOwner := text_column (outbox_lease_owner row)\<rparr>"

definition outbox_due :: "time \<Rightarrow> notification_outbox_row \<Rightarrow> bool" where
  "outbox_due now row \<longleftrightarrow> Outbox_Status (outbox_columns row) = ''pending'' \<and>
     Outbox_NextAttemptAt (outbox_columns row) \<le> now \<and>
     (case Outbox_LeaseUntil (outbox_columns row) of None \<Rightarrow> True | Some u \<Rightarrow> u \<le> now)"

definition outbox_lease :: "string \<Rightarrow> time \<Rightarrow> notification_outbox_row \<Rightarrow> notification_outbox_row" where
  "outbox_lease owner leaseUntil row =
     row\<lparr>outbox_columns := (outbox_columns row)\<lparr>Outbox_LeaseUntil := Some leaseUntil\<rparr>,
         outbox_lease_owner := Some owner\<rparr>"

definition pg_ClaimOutbox ::
  "session \<Rightarrow> time \<Rightarrow> int \<Rightarrow> string \<Rightarrow> time \<Rightarrow> (OutboxMessage list, Database) repo_op" where
  "pg_ClaimOutbox S now limit owner leaseUntil =
     autocommit S [] (\<lambda>db.
       (let keys = due_keys (Locked S) (outbox_due now)
              (\<lambda>row. Outbox_NextAttemptAt (outbox_columns row)) limit (tbl_notification_outbox db);
            (rows, t) = claim_rows keys (outbox_lease owner leaseUntil) (tbl_notification_outbox db)
        in Inr (map scanOutbox rows, db\<lparr>tbl_notification_outbox := t\<rparr>)))"

definition outbox_completed ::
  "time \<Rightarrow> time \<Rightarrow> string \<Rightarrow> notification_outbox_row \<Rightarrow> notification_outbox_row" where
  "outbox_completed attemptedAt nextAttempt lastError row =
     row\<lparr>outbox_columns := (outbox_columns row)
           \<lparr>Outbox_Status := (if lastError = [] then ''delivered'' else ''pending''),
            Outbox_Attempts := Outbox_Attempts (outbox_columns row) + 1,
            Outbox_NextAttemptAt := nextAttempt, Outbox_LastError := lastError,
            Outbox_DeliveredAt := (if lastError = [] then Some attemptedAt else None),
            Outbox_LeaseUntil := None\<rparr>,
         outbox_lease_owner := None\<rparr>"

definition pg_CompleteOutbox ::
  "session \<Rightarrow> string \<Rightarrow> string \<Rightarrow> time \<Rightarrow> time \<Rightarrow> string \<Rightarrow> (unit, Database) repo_op" where
  "pg_CompleteOutbox S ident owner attemptedAt nextAttempt lastError db =
     (case autocommit S [] (\<lambda>db.
         (let (row, t) = update_row ident (\<lambda>row. outbox_lease_owner row = Some owner)
              (outbox_completed attemptedAt nextAttempt lastError) (tbl_notification_outbox db)
          in Inr (row, db\<lparr>tbl_notification_outbox := t\<rparr>))) db of
        (Inl err, db') \<Rightarrow> (Inl err, db')
      | (Inr None, db') \<Rightarrow> (Inl ErrNotificationNotFound, db')
      | (Inr (Some row), db') \<Rightarrow> (Inr (), db'))"

definition pg_CountPendingOutbox :: "session \<Rightarrow> Database \<Rightarrow> int result" where
  "pg_CountPendingOutbox S =
     query S [] (\<lambda>db. int (length (filter (\<lambda>row. Outbox_Status (outbox_columns row) = ''pending'')
       (gvals (tbl_notification_outbox db)))))"

section \<open>Screening schedules\<close>

definition scanScreeningSchedule :: "screening_schedules_row \<Rightarrow> ScreeningSchedule" where
  "scanScreeningSchedule row =
     (schedule_columns row)\<lparr>Schedule_LeaseOwner := text_column (schedule_lease_owner row)\<rparr>"

text \<open>A new row takes the columns' defaults; an existing one keeps its last run.\<close>

definition upsert_schedule ::
  "ScreeningSchedule \<Rightarrow> Database \<Rightarrow> string + ScreeningSchedule option \<times> Database" where
  "upsert_schedule schedule db =
     (let k = Schedule_CustomerID schedule;
          row = \<lparr>schedule_columns = schedule\<lparr>Schedule_LastRunAt :=
                   (case map_of (tbl_screening_schedules db) k of
                      None \<Rightarrow> None
                    | Some row \<Rightarrow> Schedule_LastRunAt (schedule_columns row)),
                   Schedule_LastError := [], Schedule_FailureCount := 0, Schedule_LeaseOwner := [],
                   Schedule_LeaseUntil := None\<rparr>,
                 schedule_lease_owner = None\<rparr>
      in if map_of (tbl_customers db) k = None then violates ''screening_schedules_customer_id_fkey''
         else if Schedule_IntervalHours schedule < 1 \<or> 8760 < Schedule_IntervalHours schedule
         then violates ''screening_schedules_interval_hours_check''
         else Inr (Some (scanScreeningSchedule row),
                db\<lparr>tbl_screening_schedules := gput k row (tbl_screening_schedules db)\<rparr>))"

definition pg_UpsertScreeningSchedule ::
  "session \<Rightarrow> ScreeningSchedule \<Rightarrow> AuditEvent \<Rightarrow> (ScreeningSchedule, Database) repo_op" where
  "pg_UpsertScreeningSchedule S schedule event =
     write_with_event S (upsert_schedule schedule) (OtherError ''no rows in result set'') (\<lambda>_. event)"

definition pg_GetScreeningSchedule :: "session \<Rightarrow> string \<Rightarrow> Database \<Rightarrow> ScreeningSchedule result" where
  "pg_GetScreeningSchedule S customerID db =
     (case query S [] (\<lambda>db. map_of (tbl_screening_schedules db) customerID) db of
        Inl err \<Rightarrow> Inl err
      | Inr None \<Rightarrow> Inl ErrScreeningScheduleNotFound
      | Inr (Some row) \<Rightarrow> Inr (scanScreeningSchedule row))"

definition schedule_row_due :: "time \<Rightarrow> screening_schedules_row \<Rightarrow> bool" where
  "schedule_row_due now row \<longleftrightarrow> Schedule_Enabled (schedule_columns row) \<and>
     Schedule_NextRunAt (schedule_columns row) \<le> now \<and>
     (case Schedule_LeaseUntil (schedule_columns row) of None \<Rightarrow> True | Some u \<Rightarrow> u \<le> now)"

definition schedule_row_lease ::
  "string \<Rightarrow> time \<Rightarrow> screening_schedules_row \<Rightarrow> screening_schedules_row" where
  "schedule_row_lease owner leaseUntil row =
     row\<lparr>schedule_columns := (schedule_columns row)\<lparr>Schedule_LeaseUntil := Some leaseUntil\<rparr>,
         schedule_lease_owner := Some owner\<rparr>"

definition pg_ClaimDueScreeningSchedules ::
  "session \<Rightarrow> time \<Rightarrow> int \<Rightarrow> string \<Rightarrow> time \<Rightarrow> (ScreeningSchedule list, Database) repo_op" where
  "pg_ClaimDueScreeningSchedules S now limit owner leaseUntil =
     autocommit S [] (\<lambda>db.
       (let keys = due_keys (Locked S) (schedule_row_due now)
              (\<lambda>row. Schedule_NextRunAt (schedule_columns row)) limit (tbl_screening_schedules db);
            (rows, t) = claim_rows keys (schedule_row_lease owner leaseUntil) (tbl_screening_schedules db)
        in Inr (map scanScreeningSchedule rows, db\<lparr>tbl_screening_schedules := t\<rparr>)))"

definition schedule_row_completed ::
  "time \<Rightarrow> time \<Rightarrow> string \<Rightarrow> screening_schedules_row \<Rightarrow> screening_schedules_row" where
  "schedule_row_completed ranAt nextRun lastError row =
     row\<lparr>schedule_columns := (schedule_columns row)
           \<lparr>Schedule_LastRunAt := Some ranAt, Schedule_LastError := lastError,
            Schedule_NextRunAt := nextRun, Schedule_UpdatedAt := ranAt,
            Schedule_FailureCount :=
              (if lastError = [] then 0 else Schedule_FailureCount (schedule_columns row) + 1),
            Schedule_LeaseUntil := None\<rparr>,
         schedule_lease_owner := None\<rparr>"

definition pg_CompleteScreeningSchedule ::
  "session \<Rightarrow> string \<Rightarrow> string \<Rightarrow> time \<Rightarrow> time \<Rightarrow> string \<Rightarrow> (unit, Database) repo_op" where
  "pg_CompleteScreeningSchedule S customerID owner ranAt nextRun lastError db =
     (case autocommit S [] (\<lambda>db.
         (let (row, t) = update_row customerID (\<lambda>row. schedule_lease_owner row = Some owner)
              (schedule_row_completed ranAt nextRun lastError) (tbl_screening_schedules db)
          in Inr (row, db\<lparr>tbl_screening_schedules := t\<rparr>))) db of
        (Inl err, db') \<Rightarrow> (Inl err, db')
      | (Inr None, db') \<Rightarrow> (Inl ErrScreeningScheduleNotFound, db')
      | (Inr (Some row), db') \<Rightarrow> (Inr (), db'))"

end
