(* ===== verification/Refinement.thy ===== *)
theory Refinement
  imports Postgres_Queues Workflow
begin

text \<open>
  The PostgreSQL repository implements the memory repository. \<open>represents db r\<close> says that the
  tables hold what the maps of \<open>r\<close> hold, row by row after scanning, and that the events of each
  trail are the same in the same order; the schedules, whose claims differ, and the outbox and
  runs, which the memory repository does not keep, are left out. Each operation simulates its
  counterpart: the same answer and again related states, or a failure of the database is reported
  and either nothing or all of the operation happened (\<open>sim\<close>).
\<close>

section \<open>The abstraction\<close>

text \<open>A table seen through the scan of its rows, and the rows that belong to a key, in order.\<close>

definition scanned :: "('v \<Rightarrow> 'w) \<Rightarrow> 'v gomap \<Rightarrow> string \<Rightarrow> 'w option" where
  "scanned scan t k = map_option scan (map_of t k)"

definition slice_of :: "('v \<Rightarrow> string) \<Rightarrow> 'v gomap \<Rightarrow> string \<Rightarrow> 'v list" where
  "slice_of key t k = filter (\<lambda>v. key v = k) (gvals t)"

lemma scanned_gput [simp]: "scanned f (gput k v t) = (scanned f t)(k \<mapsto> f v)"
  by (auto simp: scanned_def)

lemma scanned_same: "scanned f t k = Some (f v) \<Longrightarrow> f v' = f v \<Longrightarrow> (scanned f t)(k \<mapsto> f v') = scanned f t"
  by auto

lemma slice_of_gput_new [simp]:
  "map_of t k = None \<Longrightarrow>
   slice_of key (gput k v t) = (slice_of key t)(key v := slice_of key t (key v) @ [v])"
  by (auto simp: slice_of_def gvals_gput_new fun_eq_iff)

lemma scanned_SomeE:
  assumes "scanned f t k = Some w"
  obtains v where "map_of t k = Some v" and "w = f v"
  using assms by (auto simp: scanned_def)

lemma scanned_None [simp]: "scanned f t k = None \<longleftrightarrow> map_of t k = None"
  by (simp add: scanned_def)

lemma scanned_Some: "map_of t k = Some v \<Longrightarrow> scanned f t k = Some (f v)"
  by (simp add: scanned_def)

abbreviation pg_customer :: "Database \<Rightarrow> string \<Rightarrow> Customer option" where
  "pg_customer db \<equiv> scanned scanCustomer (tbl_customers db)"

abbreviation pg_alert :: "Database \<Rightarrow> string \<Rightarrow> Alert option" where
  "pg_alert db \<equiv> scanned scanAlert (tbl_alerts db)"

abbreviation pg_case :: "Database \<Rightarrow> string \<Rightarrow> InvestigationCase option" where
  "pg_case db \<equiv> scanned scanCase (tbl_investigation_cases db)"

abbreviation pg_document :: "Database \<Rightarrow> string \<Rightarrow> KYCDocument option" where
  "pg_document db \<equiv> scanned scanKYCDocument (tbl_kyc_documents db)"

abbreviation pg_match :: "Database \<Rightarrow> string \<Rightarrow> ScreeningMatch option" where
  "pg_match db \<equiv> scanned scanScreeningMatch (tbl_screening_matches db)"

abbreviation pg_notification :: "Database \<Rightarrow> string \<Rightarrow> Notification option" where
  "pg_notification db \<equiv> scanned scanNotification (tbl_notifications db)"

abbreviation pg_trail :: "Database \<Rightarrow> string \<Rightarrow> AuditEvent list" where
  "pg_trail db \<equiv> slice_of Event_AggregateID (tbl_audit_events db)"

text \<open>Every table is keyed by its primary key.\<close>

definition tables_ok :: "Database \<Rightarrow> bool" where
  "tables_ok db \<longleftrightarrow> gomap_ok (tbl_customers db) \<and> gomap_ok (tbl_transactions db) \<and>
     gomap_ok (tbl_alerts db) \<and> gomap_ok (tbl_investigation_cases db)"

definition represents :: "Database \<Rightarrow> Repository \<Rightarrow> bool" where
  "represents db r \<longleftrightarrow> tables_ok db \<and>
     pg_customer db = mem_customer r \<and> map_of (tbl_transactions db) = map_of (repo_transactions r) \<and>
     pg_alert db = mem_alert r \<and> pg_case db = mem_case r \<and> pg_trail db = trail r \<and>
     slice_of Comment_CaseID (tbl_case_comments db) = gslice (repo_caseComments r) \<and>
     map_of (tbl_customer_due_diligence db) = map_of (repo_cddProfiles r) \<and>
     slice_of Owner_CustomerID (tbl_beneficial_owners db) = gslice (repo_owners r) \<and>
     pg_document db = map_of (repo_documents r) \<and>
     pg_match db = mem_match r \<and> pg_notification db = map_of (repo_notifications r) \<and>
     map_of (tbl_notification_preferences db) = map_of (repo_notificationPreferences r)"

lemma represents_empty: "represents empty_database NewRepository"
  by (simp add: represents_def tables_ok_def empty_database_def NewRepository_def fun_eq_iff
      scanned_def slice_of_def)

lemma representsD:
  assumes "represents db r"
  shows "pg_customer db = mem_customer r" and "pg_alert db = mem_alert r" and "pg_case db = mem_case r"
    and "pg_document db = map_of (repo_documents r)" and "pg_match db = mem_match r"
    and "map_of (tbl_transactions db) = map_of (repo_transactions r)"
    and "gomap_ok (tbl_transactions db)" and "gomap_ok (tbl_alerts db)"
    and "gomap_ok (tbl_investigation_cases db)" and "pg_trail db = trail r"
  using assms by (simp_all add: represents_def tables_ok_def)

text \<open>Looking a row up in both: nothing on either side, or a row and what it scans to.\<close>

lemma represents_lookup:
  assumes "scanned f t = m"
  obtains (absent) "map_of t k = None" and "m k = None"
    | (present) v where "map_of t k = Some v" and "m k = Some (f v)"
  using that unfolding assms [symmetric] by (cases "map_of t k") (simp_all add: scanned_def)

section \<open>Writing to both\<close>

text \<open>One row written to a table, and what it scans to written to the map.\<close>

lemma represents_customer:
  "represents db r \<Longrightarrow> scanCustomer row = c \<Longrightarrow>
   represents (db\<lparr>tbl_customers := gput i row (tbl_customers db)\<rparr>)
     (r\<lparr>repo_customers := gput i c (repo_customers r)\<rparr>)"
  by (auto simp: represents_def tables_ok_def)

lemma represents_transaction:
  "represents db r \<Longrightarrow>
   represents (db\<lparr>tbl_transactions := gput i t (tbl_transactions db)\<rparr>)
     (r\<lparr>repo_transactions := gput i t (repo_transactions r)\<rparr>)"
  by (auto simp: represents_def tables_ok_def)

lemma represents_alert:
  "represents db r \<Longrightarrow> scanAlert row = a \<Longrightarrow>
   represents (db\<lparr>tbl_alerts := gput i row (tbl_alerts db)\<rparr>)
     (r\<lparr>repo_alerts := gput i a (repo_alerts r)\<rparr>)"
  by (auto simp: represents_def tables_ok_def)

lemma represents_case:
  "represents db r \<Longrightarrow> scanCase row = c \<Longrightarrow>
   represents (db\<lparr>tbl_investigation_cases := gput i row (tbl_investigation_cases db)\<rparr>)
     (r\<lparr>repo_cases := gput i c (repo_cases r)\<rparr>)"
  by (auto simp: represents_def tables_ok_def)

lemma represents_comment:
  "represents db r \<Longrightarrow> map_of (tbl_case_comments db) i = None \<Longrightarrow> Comment_CaseID m = k \<Longrightarrow>
   represents (db\<lparr>tbl_case_comments := gput i m (tbl_case_comments db)\<rparr>)
     (r\<lparr>repo_caseComments := gappend k m (repo_caseComments r)\<rparr>)"
  by (auto simp: represents_def tables_ok_def)

lemma represents_profile:
  "represents db r \<Longrightarrow>
   represents (db\<lparr>tbl_customer_due_diligence := gput i p (tbl_customer_due_diligence db)\<rparr>)
     (r\<lparr>repo_cddProfiles := gput i p (repo_cddProfiles r)\<rparr>)"
  by (auto simp: represents_def tables_ok_def)

lemma represents_owner:
  "represents db r \<Longrightarrow> map_of (tbl_beneficial_owners db) i = None \<Longrightarrow> Owner_CustomerID p = k \<Longrightarrow>
   represents (db\<lparr>tbl_beneficial_owners := gput i p (tbl_beneficial_owners db)\<rparr>)
     (r\<lparr>repo_owners := gappend k p (repo_owners r)\<rparr>)"
  by (auto simp: represents_def tables_ok_def)

lemma represents_document:
  "represents db r \<Longrightarrow> scanKYCDocument row = d \<Longrightarrow>
   represents (db\<lparr>tbl_kyc_documents := gput i row (tbl_kyc_documents db)\<rparr>)
     (r\<lparr>repo_documents := gput i d (repo_documents r)\<rparr>)"
  by (auto simp: represents_def tables_ok_def)

lemma represents_match:
  "represents db r \<Longrightarrow> scanScreeningMatch row = m \<Longrightarrow>
   represents (db\<lparr>tbl_screening_matches := gput i row (tbl_screening_matches db)\<rparr>)
     (r\<lparr>repo_screeningMatches := gput i m (repo_screeningMatches r)\<rparr>)"
  by (auto simp: represents_def tables_ok_def)

lemma represents_notification:
  "represents db r \<Longrightarrow> scanNotification row = n \<Longrightarrow>
   represents (db\<lparr>tbl_notifications := gput i row (tbl_notifications db)\<rparr>)
     (r\<lparr>repo_notifications := gput i n (repo_notifications r)\<rparr>)"
  by (auto simp: represents_def tables_ok_def)

lemma represents_preference:
  "represents db r \<Longrightarrow>
   represents (db\<lparr>tbl_notification_preferences := gput i p (tbl_notification_preferences db)\<rparr>)
     (r\<lparr>repo_notificationPreferences := gput i p (repo_notificationPreferences r)\<rparr>)"
  by (auto simp: represents_def tables_ok_def)

lemma represents_event:
  assumes "represents db r" and "insertAuditEvent e db = Inr (u, db')" and "Event_AggregateID e = k"
  shows "represents db' (append_event k e r)"
proof -
  have "map_of (tbl_audit_events db) (Event_ID e) = None"
    and "db' = db\<lparr>tbl_audit_events := gput (Event_ID e) e (tbl_audit_events db)\<rparr>"
    using assms(2) by (auto simp: insertAuditEvent_def violates_def split: sum.splits if_splits)
  with assms(1,3) show ?thesis by (auto simp: represents_def tables_ok_def append_event_def)
qed

text \<open>What only one side has, or what is not compared, may change freely.\<close>

lemma represents_untracked [simp]:
  "represents (db\<lparr>tbl_screening_runs := x1\<rparr>) r = represents db r"
  "represents (db\<lparr>tbl_notification_outbox := x2\<rparr>) r = represents db r"
  "represents (db\<lparr>tbl_screening_schedules := x3\<rparr>) r = represents db r"
  "represents db (r\<lparr>repo_screeningSchedules := y1\<rparr>) = represents db r"
  "represents db (r\<lparr>repo_idempotency := y2\<rparr>) = represents db r"
  by (simp_all add: represents_def tables_ok_def)

lemmas represents_writes = represents_customer represents_transaction represents_alert represents_case
  represents_comment represents_profile represents_owner represents_document represents_match
  represents_notification represents_preference

text \<open>The last statement of a transaction: the audit event, then the answer.\<close>

lemma work_sim_event:
  assumes "represents db r1" and "Event_AggregateID e = k" and "q = (Inr z, append_event k e r1)"
    and "y = z"
  shows "work_sim (=) represents r
    (tx_then (statement S w (insertAuditEvent e)) (\<lambda>_. tx_return y) n db) q"
proof (rule work_sim_statement)
  fix x db'
  assume "insertAuditEvent e db = Inr (x, db')"
  from represents_event [OF assms(1) this assms(2)]
  show "work_sim (=) represents r (tx_return y (n + 1) db') q"
    by (intro work_sim_return [where R = represents and V = "(=)", of q z "append_event k e r1"] assms(3,4))
qed

lemma work_sim_event_unit:
  assumes "represents db r1" and "Event_AggregateID e = k" and "q = (Inr (), append_event k e r1)"
  shows "work_sim (=) represents r (statement S w (insertAuditEvent e) n db) q"
proof -
  have eq: "statement S w (insertAuditEvent e) n db =
      tx_then (statement S w (insertAuditEvent e)) (\<lambda>_. tx_return ()) n db"
    by (subst tx_then_statement_last) simp
  show ?thesis unfolding eq by (rule work_sim_event [OF assms]) simp
qed

section \<open>Customers\<close>

lemma scanCustomer_simps [simp]:
  "Customer_ID (scanCustomer row) = Customer_ID (customer_columns row)"
  "Customer_Status (scanCustomer row) = Customer_Status (customer_columns row)"
  "Customer_CreatedBy (scanCustomer row) = Customer_CreatedBy (customer_columns row)"
  by (simp_all add: scanCustomer_def)

lemma insert_customer_okE:
  assumes "insert_customer c db = Inr (u, db')"
  obtains "map_of (tbl_customers db) (Customer_ID c) = None"
    and "db' = db\<lparr>tbl_customers := gput (Customer_ID c)
          \<lparr>customer_columns = c\<lparr>Customer_ReviewedBy := [], Customer_ReviewedAt := None\<rparr>,
           customer_reviewed_by = None\<rparr> (tbl_customers db)\<rparr>"
  using assms by (auto simp: insert_customer_def split: sum.splits if_splits)

lemma pg_CreateCustomer_sim:
  assumes R: "represents db r" and new: "Customer_ReviewedBy c = []" "Customer_ReviewedAt c = None"
    and e: "Event_AggregateID e = Customer_ID c"
  shows "sim (=) represents r (pg_CreateCustomer S c e db) (mem_CreateCustomer c e r)"
  unfolding pg_CreateCustomer_def
proof (rule sim_in_transaction [where R = represents, OF R], rule work_sim_statement)
  fix u db'
  assume "insert_customer c db = Inr (u, db')"
  then have "represents db' (r\<lparr>repo_customers := gput (Customer_ID c) c (repo_customers r)\<rparr>)"
    by (elim insert_customer_okE) (use new in \<open>auto simp: scanCustomer_def intro!: represents_customer [OF R]\<close>)
  from work_sim_event_unit [OF this e] show "work_sim (=) represents r
      (statement S ''insert audit event: '' (insertAuditEvent e) (1 + 1) db') (mem_CreateCustomer c e r)"
    by (simp add: mem_CreateCustomer_def)
qed

lemma review_work_sim:
  assumes R: "represents db r" and status: "decided_status d = Some status" and e: "Event_AggregateID e = i"
  shows "work_sim (=) represents r (review_work S i status a e k db) (mem_ReviewCustomer i d a e r)"
proof (rule represents_lookup [OF representsD(1) [OF R], of i])
  assume "map_of (tbl_customers db) i = None" and "mem_customer r i = None"
  then show ?thesis
    by (auto simp: review_work_def update_row_def mem_ReviewCustomer_def
        intro!: work_sim_statement work_sim_fail)
next
  fix row
  assume row: "map_of (tbl_customers db) i = Some row" "mem_customer r i = Some (scanCustomer row)"
  show ?thesis
    unfolding review_work_def
  proof (rule work_sim_statement, goal_cases)
    case (1 x db')
    show ?case
    proof (cases "Customer_Status (customer_columns row) = CustomerPendingApproval \<and>
        Customer_CreatedBy (customer_columns row) \<noteq> a")
      case True
      let ?row = "row\<lparr>customer_columns := (customer_columns row)\<lparr>Customer_Status := status,
                     Customer_ReviewedAt := Some (Event_OccurredAt e)\<rparr>,
                   customer_reviewed_by := Some a\<rparr>"
      have x: "x = Some ?row" and db': "db' = db\<lparr>tbl_customers := gput i ?row (tbl_customers db)\<rparr>"
        using 1 row(1) True by (auto simp: update_row_def)
      let ?c = "(scanCustomer row)\<lparr>Customer_Status := status, Customer_ReviewedBy := a,
                  Customer_ReviewedAt := Some (Event_OccurredAt e)\<rparr>"
      have c: "scanCustomer ?row = ?c"
        by (rule Customer.equality) (simp_all add: scanCustomer_def)
      have q: "mem_ReviewCustomer i d a e r = (Inr ?c, append_event i e
          (r\<lparr>repo_customers := gput i ?c (repo_customers r)\<rparr>))"
        using row(2) True status by (simp add: mem_ReviewCustomer_def Let_def)
      show ?thesis
        unfolding x db' option.case
        by (rule work_sim_event [OF represents_customer [OF R c] e q c])
    next
      case False
      then show ?thesis
        using 1 row
        by (auto simp: update_row_def mem_ReviewCustomer_def intro!: work_sim_statement work_sim_fail)
    qed
  qed
qed

lemma pg_ReviewCustomer_sim:
  assumes R: "represents db r" and e: "Event_AggregateID e = i"
  shows "sim (=) represents r (pg_ReviewCustomer S i d a e db) (mem_ReviewCustomer i d a e r)"
proof (cases "d = ReviewApprove \<or> d = ReviewReject")
  case False
  then show ?thesis using R by (simp add: pg_ReviewCustomer_def sim_def)
next
  case True
  define status where "status = (if d = ReviewReject then CustomerRejected else CustomerActive)"
  have "decided_status d = Some status" using True by (auto simp: status_def decided_status_def)
  then have "sim (=) represents r (in_transaction S b c (review_work S i status a e) db)
      (mem_ReviewCustomer i d a e r)" for b c
    by (intro sim_in_transaction [where R = represents, OF R] review_work_sim R e)
  with True show ?thesis by (auto simp: pg_ReviewCustomer_def status_def)
qed

section \<open>Alerts\<close>

lemma scanAlert_simps [simp]:
  "Alert_ID (scanAlert row) = Alert_ID (alert_columns row)"
  "Alert_Status (scanAlert row) = Alert_Status (alert_columns row)"
  "Alert_TransactionID (scanAlert row) = Alert_TransactionID (alert_columns row)"
  "Alert_CustomerID (scanAlert row) = Alert_CustomerID (alert_columns row)"
  "Alert_RuleCode (scanAlert row) = Alert_RuleCode (alert_columns row)"
  by (simp_all add: scanAlert_def)

text \<open>The update that closes an alert, on an absent, an open and a closed one.\<close>

lemma close_alert_row_None:
  "map_of (tbl_alerts db) i = None \<Longrightarrow> close_alert_row i at by' why db = (None, db)"
  by (simp add: close_alert_row_def update_row_def)

lemma close_alert_row_refused:
  "map_of (tbl_alerts db) i = Some row \<Longrightarrow> Alert_Status (alert_columns row) \<noteq> AlertOpen \<Longrightarrow>
   close_alert_row i at by' why db = (None, db)"
  by (simp add: close_alert_row_def update_row_def)

lemma close_alert_row_open:
  assumes R: "represents db r" and row: "map_of (tbl_alerts db) i = Some row"
    and "Alert_Status (alert_columns row) = AlertOpen"
  obtains row' db' where "close_alert_row i at by' why db = (Some row', db')"
    and "scanAlert row' = (scanAlert row)\<lparr>Alert_Status := AlertClosed, Alert_ClosedAt := Some at,
           Alert_ClosedBy := by', Alert_ClosureReason := why\<rparr>"
    and "represents db' (r\<lparr>repo_alerts := gput i (scanAlert row') (repo_alerts r)\<rparr>)"
proof -
  let ?row = "row\<lparr>alert_columns := (alert_columns row)\<lparr>Alert_Status := AlertClosed, Alert_ClosedAt := Some at\<rparr>,
                 alert_closed_by := Some by', alert_closure_reason := Some why\<rparr>"
  have "close_alert_row i at by' why db = (Some ?row, db\<lparr>tbl_alerts := gput i ?row (tbl_alerts db)\<rparr>)"
    using row assms(3) by (simp add: close_alert_row_def update_row_def)
  moreover have "scanAlert ?row = (scanAlert row)\<lparr>Alert_Status := AlertClosed, Alert_ClosedAt := Some at,
      Alert_ClosedBy := by', Alert_ClosureReason := why\<rparr>"
    by (simp add: scanAlert_def)
  ultimately show ?thesis using that represents_alert [OF R refl] by blast
qed

lemma pg_CloseAlert_sim:
  assumes R: "represents db r" and e: "Event_AggregateID e = i"
  shows "sim (=) represents r (pg_CloseAlert S i a why e db) (mem_CloseAlert i a why e r)"
  unfolding pg_CloseAlert_def
proof (rule sim_in_transaction [where R = represents, OF R], rule work_sim_statement, goal_cases)
  case (1 x db')
  show ?case
  proof (rule represents_lookup [OF representsD(2) [OF R], of i])
    assume "map_of (tbl_alerts db) i = None" and "mem_alert r i = None"
    with 1 show ?thesis
      by (auto simp: close_alert_row_None mem_CloseAlert_def intro!: work_sim_statement work_sim_fail)
  next
    fix row
    assume row: "map_of (tbl_alerts db) i = Some row" "mem_alert r i = Some (scanAlert row)"
    show ?thesis
    proof (cases "Alert_Status (alert_columns row) = AlertOpen")
      case False
      with 1 row show ?thesis
        by (auto simp: close_alert_row_refused mem_CloseAlert_def intro!: work_sim_statement work_sim_fail)
    next
      case True
      obtain row' db1 where "close_alert_row i (Event_OccurredAt e) a why db = (Some row', db1)"
        and "scanAlert row' = (scanAlert row)\<lparr>Alert_Status := AlertClosed,
               Alert_ClosedAt := Some (Event_OccurredAt e), Alert_ClosedBy := a, Alert_ClosureReason := why\<rparr>"
        and "represents db1 (r\<lparr>repo_alerts := gput i (scanAlert row') (repo_alerts r)\<rparr>)"
        by (rule close_alert_row_open [OF R row(1) True])
      with 1 row True e show ?thesis
        by (auto simp: mem_CloseAlert_def Let_def intro!: work_sim_event [where k = i])
    qed
  qed
qed

end
