(* ===== verification/Refinement_Core.thy ===== *)
theory Refinement_Core
  imports Refinement
begin

text \<open>
  The PostgreSQL repository implements the memory repository on transactions and cases
  (\<^verbatim>\<open>CreateTransaction\<close>, \<^verbatim>\<open>CreateCase\<close>, \<^verbatim>\<open>AssignCase\<close>, \<^verbatim>\<open>AddCaseComment\<close>, \<^verbatim>\<open>ResolveCase\<close>).
\<close>

section \<open>Ingestion\<close>

lemma mset_scanned:
  assumes "gomap_ok t" and "gomap_ok m" and "scanned f t = map_of m"
  shows "mset (map f (gvals t)) = mset (gvals m)"
proof -
  let ?t = "map (\<lambda>(k, v). (k, f v)) t"
  have keys: "map fst ?t = map fst t" by (induction t) auto
  have ok: "distinct (map fst ?t)" unfolding keys using assms(1) by (simp add: gomap_ok_def)
  have ok': "distinct (map fst m)" using assms(2) by (simp add: gomap_ok_def)
  have "map_of ?t k = map_option f (map_of t k)" for k
    by (induction t) auto
  then have "map_of ?t = map_of m"
    unfolding assms(3) [symmetric] by (simp add: scanned_def fun_eq_iff)
  then have "set ?t = set m" by (rule map_of_inject_set [OF ok ok', THEN iffD1])
  moreover have "distinct ?t" "distinct m"
    using ok ok' by (simp_all only: distinct_map)
  ultimately have "mset ?t = mset m" by (metis set_eq_iff_mset_eq_distinct)
  then have "mset (map snd ?t) = mset (map snd m)" by (metis mset_map)
  moreover have "map snd ?t = map f (gvals t)" by (induction t) (auto simp: gvals_def)
  ultimately show ?thesis by (simp only: gvals_def)
qed

lemma mset_filter_scanned:
  assumes "mset (map f xs) = mset ys" and "\<And>x. P x = Q (f x)"
  shows "mset (map f (filter P xs)) = mset (filter Q ys)"
proof -
  have "map f (filter P xs) = filter Q (map f xs)"
    using assms(2) by (induction xs) auto
  then show ?thesis using assms(1) by (metis mset_filter)
qed

lemma replayed_alerts:
  assumes R: "represents db r" and wf: "transactions_wf r"
  shows "mset (listAlertsForTransaction i db) = mset (alerts_of_transaction i r)"
proof -
  have "mset (map scanAlert (gvals (tbl_alerts db))) = mset (gvals (repo_alerts r))"
    by (rule mset_scanned) (use representsD [OF R] wf in \<open>auto simp: transactions_wf_def keyed_def\<close>)
  from mset_filter_scanned [OF this, of "\<lambda>row. Alert_TransactionID (alert_columns row) = i"
      "\<lambda>a. Alert_TransactionID a = i"]
  have "mset (map scanAlert (filter (\<lambda>row. Alert_TransactionID (alert_columns row) = i) (gvals (tbl_alerts db))))
      = mset (filter (\<lambda>a. Alert_TransactionID a = i) (gvals (repo_alerts r)))" by simp
  then show ?thesis
    by (simp add: listAlertsForTransaction_def alerts_of_transaction_def order_by_def)
qed

lemma find_idempotent_recorded:
  assumes R: "represents db r" and wf: "transactions_wf r"
  shows "find_idempotent k db = mem_recorded r k"
proof (cases "find_idempotent k db")
  case None
  have "map_of (repo_idempotency r) k = None"
  proof (rule ccontr)
    assume "map_of (repo_idempotency r) k \<noteq> None"
    then obtain i t where "map_of (repo_transactions r) i = Some t" and k: "Transaction_IdempotencyKey t = k"
      using wf by (fastforce simp: transactions_wf_def)
    then have "t \<in> set (gvals (tbl_transactions db))"
      using representsD(6) [OF R] by (simp add: in_gvalsI)
    with None k show False by (auto simp: find_idempotent_def find_None_iff)
  qed
  then show ?thesis using None by (simp add: mem_recorded_def)
next
  case (Some t)
  then have "t \<in> set (gvals (tbl_transactions db))" and k: "Transaction_IdempotencyKey t = k"
    by (auto simp: find_idempotent_def find_Some_iff)
  then obtain i where i: "map_of (repo_transactions r) i = Some t"
    using representsD(6,7) [OF R] by (metis in_gvalsE)
  then have "map_of (repo_idempotency r) k = Some i"
    using wf k by (auto simp: transactions_wf_def)
  with i Some show ?thesis by (simp add: mem_recorded_def)
qed

text \<open>An alert as it is first stored.\<close>

definition unclosed :: "Alert \<Rightarrow> bool" where
  "unclosed a \<longleftrightarrow> Alert_ClosedAt a = None \<and> Alert_ClosedBy a = [] \<and> Alert_ClosureReason a = []"

lemma insert_alert_sim:
  assumes R: "represents db r" and "insert_alert a db = Inr (u, db')" and "unclosed a"
  shows "represents db' (r\<lparr>repo_alerts := gput (Alert_ID a) a (repo_alerts r)\<rparr>)"
proof -
  let ?row = "\<lparr>alert_columns = a\<lparr>Alert_ClosedAt := None, Alert_ClosedBy := [], Alert_ClosureReason := []\<rparr>,
      alert_closed_by = None, alert_closure_reason = None\<rparr>"
  have "db' = db\<lparr>tbl_alerts := gput (Alert_ID a) ?row (tbl_alerts db)\<rparr>"
    using assms(2) by (auto simp: insert_alert_def split: if_splits sum.splits)
  moreover have "scanAlert ?row = a" using assms(3) by (simp add: scanAlert_def unclosed_def)
  ultimately show ?thesis using represents_alert [OF R] by simp
qed

lemma store_alert_sim:
  assumes "represents db r" and "store_alert S (a, e) k db = Inr (u, k', db')"
    and "unclosed a" and "Event_AggregateID e = Alert_ID a"
  shows "represents db' (append_event (Alert_ID a) e (r\<lparr>repo_alerts := gput (Alert_ID a) a (repo_alerts r)\<rparr>))"
proof -
  obtain u1 db1 k1 where "insert_alert a db = Inr (u1, db1)"
    and two: "statement S ''insert alert audit event: '' (insertAuditEvent e) k1 db1 = Inr (u, k', db')"
    using assms(2) unfolding store_alert_def by (auto elim!: tx_then_okE elim: statement_okE)
  from statement_okE [OF two] represents_event [OF insert_alert_sim [OF assms(1) this(1) assms(3)] _ assms(4)]
  show ?thesis by blast
qed

lemma store_alert_fails: "store_alert S x k db = Inl err \<Longrightarrow> \<exists>msg. err = OtherError msg"
  by (cases x) (auto simp: store_alert_def tx_then_def split: sum.splits dest: statement_fails)

lemma store_alerts_fold:
  "store_alerts xs r = fold (\<lambda>(a, e) r. append_event (Alert_ID a) e
     (r\<lparr>repo_alerts := gput (Alert_ID a) a (repo_alerts r)\<rparr>)) xs r"
  by (induction xs r rule: store_alerts.induct) simp_all

text \<open>Answers agree up to the order of the alerts, which Go's map iteration leaves open.\<close>

definition same_ingestion :: "Transaction \<times> Alert list \<times> bool \<Rightarrow> Transaction \<times> Alert list \<times> bool \<Rightarrow> bool" where
  "same_ingestion p q \<longleftrightarrow> (case (p, q) of ((t, as, b), (t', as', b')) \<Rightarrow>
     t = t' \<and> mset as = mset as' \<and> b = b')"

lemma insert_transaction_cases:
  assumes R: "represents db r" and "insert_transaction t db = Inr (n, db')"
  obtains (refused) "n = 0" and "db' = db" and "\<not> active (mem_customer r (Transaction_CustomerID t))"
    | (inserted) "n = 1" and "active (mem_customer r (Transaction_CustomerID t))"
      and "represents db' (r\<lparr>repo_transactions := gput (Transaction_ID t) t (repo_transactions r)\<rparr>)"
proof (rule represents_lookup [OF representsD(1) [OF R], of "Transaction_CustomerID t"])
  assume "map_of (tbl_customers db) (Transaction_CustomerID t) = None"
    and "mem_customer r (Transaction_CustomerID t) = None"
  then show ?thesis using assms(2) refused by (simp add: insert_transaction_def active_def)
next
  fix row
  assume row: "map_of (tbl_customers db) (Transaction_CustomerID t) = Some row"
    "mem_customer r (Transaction_CustomerID t) = Some (scanCustomer row)"
  show ?thesis
  proof (cases "Customer_Status (customer_columns row) = CustomerActive")
    case False
    then show ?thesis using assms(2) refused row by (simp add: insert_transaction_def active_def)
  next
    case True
    then have "n = 1" and "db' = db\<lparr>tbl_transactions := gput (Transaction_ID t) t (tbl_transactions db)\<rparr>"
      using assms(2) row by (auto simp: insert_transaction_def split: if_splits sum.splits)
    then show ?thesis using inserted represents_transaction [OF R] True row by (simp add: active_def)
  qed
qed

lemma ingest_new_sim:
  assumes R: "represents db r" and len: "length as = length es"
    and unknown: "map_of (repo_idempotency r) (Transaction_IdempotencyKey t) = None"
    and e: "Event_AggregateID e = Transaction_ID t"
    and own: "\<And>a e. (a, e) \<in> set (zip as es) \<Longrightarrow> unclosed a \<and> Event_AggregateID e = Alert_ID a"
  shows "work_sim same_ingestion represents r (ingest_new S t e as es k db) (mem_CreateTransaction t e as es r)"
  unfolding ingest_new_def
proof (rule work_sim_statement)
  fix n db1
  assume "insert_transaction t db = Inr (n, db1)"
  with R show "work_sim same_ingestion represents r
    ((if n = 0 then tx_then (statement S ''inspect transaction customer: '' (\<lambda>db.
           Inr (map_of (tbl_customers db) (Transaction_CustomerID t), db)))
         (\<lambda>found. case found of None \<Rightarrow> tx_fail ErrCustomerNotFound
                    | Some row \<Rightarrow> tx_fail ErrCustomerNotActive)
      else tx_then (statement S ''insert transaction audit event: '' (insertAuditEvent e)) (\<lambda>_.
           tx_then (tx_each (store_alert S) (zip as es)) (\<lambda>_. tx_return (t, as, False)))) (k + 1) db1)
    (mem_CreateTransaction t e as es r)"
  proof (cases rule: insert_transaction_cases)
    case refused
    have "work_sim same_ingestion represents r
      ((case map_of (tbl_customers db) (Transaction_CustomerID t) of None \<Rightarrow> tx_fail ErrCustomerNotFound
        | Some row \<Rightarrow> tx_fail ErrCustomerNotActive) k db) (mem_CreateTransaction t e as es r)" for k
      by (rule represents_lookup [OF representsD(1) [OF R], of "Transaction_CustomerID t"])
        (use refused(3) len unknown in \<open>auto simp: mem_CreateTransaction_def active_def intro!: work_sim_fail\<close>)
    then show ?thesis using refused(1,2) by (auto intro: work_sim_read)
  next
    case inserted
    let ?r1 = "r\<lparr>repo_transactions := gput (Transaction_ID t) t (repo_transactions r),
        repo_idempotency := gput (Transaction_IdempotencyKey t) (Transaction_ID t) (repo_idempotency r)\<rparr>"
    have R1: "represents db1 ?r1" using inserted(3) by simp
    have q: "mem_CreateTransaction t e as es r = (Inr (t, as, False),
        store_alerts (zip as es) (append_event (Transaction_ID t) e ?r1))"
      using inserted(2) len unknown
      by (auto simp: mem_CreateTransaction_def active_def store_transaction_def Let_def split: option.splits)
    show ?thesis
      unfolding inserted(1) q store_alerts_fold
    proof (simp, rule work_sim_statement, rule work_sim_each [where R = represents])
      fix x db2
      assume "insertAuditEvent e db1 = Inr (x, db2)"
      then show "represents db2 (append_event (Transaction_ID t) e ?r1)"
        by (rule represents_event [OF R1 _ e])
    next
      fix p db r u j
      fix db' :: "nat \<times> Database"
      assume p: "p \<in> set (zip as es)" and "represents db r" and "store_alert S p j db = Inr (u, db')"
      moreover obtain a1 e1 where "p = (a1, e1)" by fastforce
      moreover obtain j1 db1 where "db' = (j1, db1)" by fastforce
      ultimately show "represents (snd db') ((\<lambda>(a, e) r. append_event (Alert_ID a) e
          (r\<lparr>repo_alerts := gput (Alert_ID a) a (repo_alerts r)\<rparr>)) p r)"
        using own [of a1 e1] store_alert_sim by simp
    next
      fix p db j err
      assume "store_alert S p j db = Inl err"
      then show "\<exists>msg. err = OtherError msg" by (rule store_alert_fails)
    next
      fix db' k'
      assume "represents db' (fold (\<lambda>(a, e) r. append_event (Alert_ID a) e
          (r\<lparr>repo_alerts := gput (Alert_ID a) a (repo_alerts r)\<rparr>)) (zip as es)
          (append_event (Transaction_ID t) e ?r1))"
      then show "work_sim same_ingestion represents r (tx_return (t, as, False) k' db')
          (Inr (t, as, False), fold (\<lambda>(a, e) r. append_event (Alert_ID a) e
            (r\<lparr>repo_alerts := gput (Alert_ID a) a (repo_alerts r)\<rparr>)) (zip as es)
            (append_event (Transaction_ID t) e ?r1))"
        by (intro work_sim_return [where R = represents and V = same_ingestion, OF refl])
          (auto simp: same_ingestion_def)
    qed
  qed
qed

lemma pg_CreateTransaction_sim:
  assumes R: "represents db r" and wf: "transactions_wf r" and e: "Event_AggregateID e = Transaction_ID t"
    and own: "\<And>a e. (a, e) \<in> set (zip as es) \<Longrightarrow> unclosed a \<and> Event_AggregateID e = Alert_ID a"
  shows "sim same_ingestion represents r (pg_CreateTransaction S t e as es db)
    (mem_CreateTransaction t e as es r)"
proof (cases "length as = length es")
  case False
  then show ?thesis using R by (simp add: pg_CreateTransaction_def mem_CreateTransaction_def sim_def)
next
  case len: True
  let ?k = "Transaction_IdempotencyKey t"
  have "work_sim same_ingestion represents r
    ((case find_idempotent ?k db of None \<Rightarrow> ingest_new S t e as es
      | Some existing \<Rightarrow> if \<not> SameIngestionPayload existing t then tx_fail ErrIdempotencyConflict
          else tx_then (statement S ''query replayed alerts: '' (\<lambda>db.
                 Inr (listAlertsForTransaction (Transaction_ID existing) db, db))) (\<lambda>alrts.
               tx_return (existing, alrts, True))) k db) (mem_CreateTransaction t e as es r)" for k
  proof (cases "find_idempotent ?k db")
    case None
    then have "map_of (repo_idempotency r) ?k = None"
      using find_idempotent_recorded [OF R wf] recorded_None_iff [OF wf] by simp
    then show ?thesis using None ingest_new_sim [OF R len _ e own] by simp
  next
    case (Some t0)
    then have "mem_recorded r ?k = Some t0" using find_idempotent_recorded [OF R wf] by simp
    then obtain i where i: "map_of (repo_idempotency r) ?k = Some i"
      and t0: "map_of (repo_transactions r) i = Some t0" by (rule recorded_SomeE)
    have q: "mem_CreateTransaction t e as es r =
       (if SameIngestionPayload t0 t
        then (Inr (t0, alerts_of_transaction (Transaction_ID t0) r, True), r)
        else (Inl ErrIdempotencyConflict, r))"
      by (rule mem_CreateTransaction_hit [OF len i]) (use t0 in simp)
    show ?thesis
    proof (cases "SameIngestionPayload t0 t")
      case False
      then show ?thesis unfolding Some q by (simp add: work_sim_fail)
    next
      case True
      then have "mem_CreateTransaction t e as es r =
          (Inr (t0, alerts_of_transaction (Transaction_ID t0) r, True), r)" using q by simp
      from work_sim_return [where R = represents and V = same_ingestion, OF this _ R] True
      show ?thesis
        unfolding Some
        by (simp, intro work_sim_read) (simp add: same_ingestion_def replayed_alerts [OF R wf])
    qed
  qed
  then show ?thesis
    unfolding pg_CreateTransaction_def using len
    by (simp, intro sim_in_transaction [where R = represents, OF R] work_sim_read) simp
qed

section \<open>Cases\<close>

lemma scanCase_simps [simp]:
  "Case_ID (scanCase row) = Case_ID (case_columns row)"
  "Case_Status (scanCase row) = Case_Status (case_columns row)"
  "Case_AlertID (scanCase row) = Case_AlertID (case_columns row)"
  "Case_CustomerID (scanCase row) = Case_CustomerID (case_columns row)"
  by (simp_all add: scanCase_def)

text \<open>A case as it is first stored.\<close>

definition unassigned :: "InvestigationCase \<Rightarrow> bool" where
  "unassigned c \<longleftrightarrow> Case_AssignedTo c = [] \<and> Case_Resolution c = [] \<and> Case_ResolvedBy c = [] \<and>
     Case_ResolvedAt c = None"

lemma insert_case_sim:
  assumes R: "represents db r" and "insert_case c db = Inr (row, db')" and "unassigned c"
  shows "scanCase row = c" and "represents db' (r\<lparr>repo_cases := gput (Case_ID c) c (repo_cases r)\<rparr>)"
proof -
  have row: "row = \<lparr>case_columns = c\<lparr>Case_AssignedTo := [], Case_Resolution := [],
         Case_ResolvedBy := [], Case_ResolvedAt := None\<rparr>,
       case_assigned_to = None, case_resolution = None, case_resolved_by = None\<rparr>"
    and db': "db' = db\<lparr>tbl_investigation_cases := gput (Case_ID c) row (tbl_investigation_cases db)\<rparr>"
    using assms(2) by (auto simp: insert_case_def Let_def split: if_splits sum.splits)
  show "scanCase row = c" using assms(3) by (simp add: row scanCase_def unassigned_def)
  then show "represents db' (r\<lparr>repo_cases := gput (Case_ID c) c (repo_cases r)\<rparr>)"
    unfolding db' by (rule represents_case [OF R])
qed

lemma case_exists_sim:
  assumes R: "represents db r" and wf: "cases_wf r"
  shows "case_exists i db \<longleftrightarrow> list_ex (\<lambda>c. Case_AlertID c = i) (gvals (repo_cases r))"
proof -
  have "mset (map scanCase (gvals (tbl_investigation_cases db))) = mset (gvals (repo_cases r))"
    by (rule mset_scanned) (use representsD [OF R] wf in \<open>auto simp: cases_wf_def keyed_def\<close>)
  then have "set (map scanCase (gvals (tbl_investigation_cases db))) = set (gvals (repo_cases r))"
    by (metis set_mset_mset)
  then have "list_ex Q (gvals (repo_cases r)) = list_ex Q (map scanCase (gvals (tbl_investigation_cases db)))" for Q
    by (simp only: list_ex_iff)
  then show ?thesis by (simp add: case_exists_def list_ex_iff)
qed

lemma pg_CreateCase_sim:
  assumes R: "represents db r" and wf: "cases_wf r" and new: "unassigned c"
    and e: "Event_AggregateID e = Case_ID c"
  shows "sim (=) represents r (pg_CreateCase S c e db) (mem_CreateCase c e r)"
  unfolding pg_CreateCase_def
proof (rule sim_in_transaction [where R = represents, OF R], rule work_sim_read)
  let ?go = "\<lambda>row. let c' = c\<lparr>Case_CustomerID := Alert_CustomerID (alert_columns row)\<rparr>
             in if Alert_Status (alert_columns row) \<noteq> AlertOpen then tx_fail ErrAlertConflict
                else tx_then (statement S [] (\<lambda>db. Inr (case_exists (Case_AlertID c') db, db))) (\<lambda>exists.
                  if exists then tx_fail ErrAlertHasCase
                  else tx_then (statement S ''insert case: '' (insert_case c')) (\<lambda>stored.
                       tx_then (statement S ''audit case creation: '' (insertAuditEvent e)) (\<lambda>_.
                       tx_return (scanCase stored))))"
  show "work_sim (=) represents r
    ((case map_of (tbl_alerts db) (Case_AlertID c) of None \<Rightarrow> tx_fail ErrAlertNotFound
      | Some row \<Rightarrow> ?go row) (1 + 1) db) (mem_CreateCase c e r)"
  proof (rule represents_lookup [OF representsD(2) [OF R], of "Case_AlertID c"])
    assume "map_of (tbl_alerts db) (Case_AlertID c) = None" and "mem_alert r (Case_AlertID c) = None"
    then show ?thesis by (auto simp: mem_CreateCase_def intro: work_sim_fail)
  next
    fix row
    assume row: "map_of (tbl_alerts db) (Case_AlertID c) = Some row"
      "mem_alert r (Case_AlertID c) = Some (scanAlert row)"
    let ?c = "c\<lparr>Case_CustomerID := Alert_CustomerID (alert_columns row)\<rparr>"
    show ?thesis
    proof (cases "Alert_Status (alert_columns row) = AlertOpen \<and> \<not> case_exists (Case_AlertID c) db")
      case False
      then show ?thesis
        using row case_exists_sim [OF R wf, of "Case_AlertID c"]
        by (auto simp: mem_CreateCase_def Let_def intro!: work_sim_read work_sim_fail)
    next
      case True
      have q: "mem_CreateCase c e r = (Inr ?c, append_event (Case_ID ?c) e
          (r\<lparr>repo_cases := gput (Case_ID ?c) ?c (repo_cases r)\<rparr>))"
        using row True case_exists_sim [OF R wf, of "Case_AlertID c"]
        by (simp add: mem_CreateCase_def Let_def)
      have new': "unassigned ?c" using new by (simp add: unassigned_def)
      have "work_sim (=) represents r (tx_then (statement S ''insert case: '' (insert_case ?c)) (\<lambda>stored.
           tx_then (statement S ''audit case creation: '' (insertAuditEvent e)) (\<lambda>_.
           tx_return (scanCase stored))) k db) (mem_CreateCase c e r)" for k
      proof (rule work_sim_statement)
        fix stored db'
        assume ins: "insert_case ?c db = Inr (stored, db')"
        show "work_sim (=) represents r (tx_then (statement S ''audit case creation: '' (insertAuditEvent e))
            (\<lambda>_. tx_return (scanCase stored)) (k + 1) db') (mem_CreateCase c e r)"
          by (rule work_sim_event [OF insert_case_sim(2) [OF R ins new'] _ q insert_case_sim(1) [OF R ins new']])
            (use e in simp)
      qed
      then show ?thesis using row(1) True by (auto simp: Let_def intro: work_sim_read)
    qed
  qed
qed

text \<open>Why an update of an open case updated nothing.\<close>

lemma caseMutationError_sim:
  assumes R: "represents db r" and "mem_case r i = None \<Longrightarrow> q = (Inl ErrCaseNotFound, r)"
    and "\<And>c. mem_case r i = Some c \<Longrightarrow> q = (Inl ErrCaseConflict, r)"
  shows "work_sim V represents r (caseMutationError S i k db) q"
  unfolding caseMutationError_def
  by (rule represents_lookup [OF representsD(3) [OF R], of i])
    (use assms(2,3) in \<open>auto intro!: work_sim_read work_sim_fail\<close>)

lemma update_open_case_cases:
  assumes R: "represents db r" and "update_open_case i g db = Inr (x, db')"
  obtains (refused) "x = None" and "db' = db" and "\<And>c. mem_case r i = Some c \<Longrightarrow> Case_Status c = CaseResolved"
    | (updated) row where "map_of (tbl_investigation_cases db) i = Some row"
      and "mem_case r i = Some (scanCase row)" and "Case_Status (scanCase row) \<noteq> CaseResolved"
      and "x = Some (g row)"
      and "represents db' (r\<lparr>repo_cases := gput i (scanCase (g row)) (repo_cases r)\<rparr>)"
proof (rule represents_lookup [OF representsD(3) [OF R], of i])
  assume "map_of (tbl_investigation_cases db) i = None" and "mem_case r i = None"
  then show ?thesis using assms(2) refused by (auto simp: update_open_case_def update_row_def)
next
  fix row
  assume row: "map_of (tbl_investigation_cases db) i = Some row" "mem_case r i = Some (scanCase row)"
  show ?thesis
  proof (cases "Case_Status (case_columns row) = CaseResolved")
    case True
    then show ?thesis using assms(2) row refused by (auto simp: update_open_case_def update_row_def)
  next
    case False
    then have "x = Some (g row)"
      and "db' = db\<lparr>tbl_investigation_cases := gput i (g row) (tbl_investigation_cases db)\<rparr>"
      using assms(2) row(1) by (auto simp: update_open_case_def update_row_def)
    then show ?thesis using updated [OF row] False represents_case [OF R refl] by simp
  qed
qed

lemma pg_AssignCase_sim:
  assumes R: "represents db r" and e: "Event_AggregateID e = i"
  shows "sim (=) represents r (pg_AssignCase S i a e db) (mem_AssignCase i a e r)"
  unfolding pg_AssignCase_def
proof (rule sim_in_transaction [where R = represents, OF R], rule work_sim_statement)
  let ?change = "\<lambda>row :: investigation_cases_row. row\<lparr>case_columns := (case_columns row)\<lparr>Case_Status := CaseInProgress,
                Case_UpdatedAt := Event_OccurredAt e\<rparr>, case_assigned_to := Some a\<rparr>"
  fix x db'
  assume upd: "update_open_case i ?change db = Inr (x, db')"
  show "work_sim (=) represents r ((case x of None \<Rightarrow> caseMutationError S i
      | Some stored \<Rightarrow> tx_then (statement S [] (insertAuditEvent e)) (\<lambda>_. tx_return (scanCase stored)))
      (1 + 1) db') (mem_AssignCase i a e r)"
  proof (rule update_open_case_cases [OF R upd])
    assume "x = None" and "db' = db" and "\<And>c. mem_case r i = Some c \<Longrightarrow> Case_Status c = CaseResolved"
    then show ?thesis by (auto simp: mem_AssignCase_def intro!: caseMutationError_sim [OF R])
  next
    fix row
    assume row: "mem_case r i = Some (scanCase row)" "Case_Status (scanCase row) \<noteq> CaseResolved"
      and x: "x = Some (?change row)"
      and R': "represents db' (r\<lparr>repo_cases := gput i (scanCase (?change row)) (repo_cases r)\<rparr>)"
    let ?c = "(scanCase row)\<lparr>Case_AssignedTo := a, Case_Status := CaseInProgress,
                Case_UpdatedAt := Event_OccurredAt e\<rparr>"
    have c: "scanCase (?change row) = ?c"
      by (rule InvestigationCase.equality) (simp_all add: scanCase_def)
    have q: "mem_AssignCase i a e r = (Inr ?c, append_event i e
        (r\<lparr>repo_cases := gput i (scanCase (?change row)) (repo_cases r)\<rparr>))"
      using row by (simp add: mem_AssignCase_def Let_def c)
    show ?thesis unfolding x option.case by (rule work_sim_event [OF R' e q c])
  qed
qed

lemma pg_AddCaseComment_sim:
  assumes R: "represents db r" and wf: "cases_wf r" and e: "Event_AggregateID e = Comment_CaseID m"
  shows "sim (=) represents r (pg_AddCaseComment S m e db) (mem_AddCaseComment m e r)"
  unfolding pg_AddCaseComment_def
proof (rule sim_in_transaction [where R = represents, OF R], rule work_sim_read,
    rule represents_lookup [OF representsD(3) [OF R], of "Comment_CaseID m"], goal_cases)
  case 1
  then show ?case by (auto simp: mem_AddCaseComment_def intro: work_sim_fail)
next
  case (2 row)
  show ?case
  proof (cases "Case_Status (case_columns row) = CaseResolved")
    case True
    with 2 show ?thesis by (auto simp: mem_AddCaseComment_def intro: work_sim_fail)
  next
    case False
    let ?i = "Comment_CaseID m"
    let ?row = "row\<lparr>case_columns := (case_columns row)\<lparr>Case_UpdatedAt := Comment_CreatedAt m\<rparr>\<rparr>"
    let ?c = "(scanCase row)\<lparr>Case_UpdatedAt := Comment_CreatedAt m\<rparr>"
    have c: "scanCase ?row = ?c" by (rule InvestigationCase.equality) (simp_all add: scanCase_def)
    have "Case_ID (scanCase row) = ?i"
      using wf 2(2) unfolding cases_wf_def by (blast dest: keyedD)
    then have q: "mem_AddCaseComment m e r = (Inr m, append_event ?i e
        (r\<lparr>repo_caseComments := gappend ?i m (repo_caseComments r),
           repo_cases := gput ?i ?c (repo_cases r)\<rparr>))"
      using 2(2) False by (simp add: mem_AddCaseComment_def Let_def)
    have "work_sim (=) represents r
       (tx_then (statement S [] (insert_comment m)) (\<lambda>stored.
        tx_then (statement S [] (\<lambda>db.
          (let (_, t) = update_row ?i (\<lambda>_. True)
                (\<lambda>row. row\<lparr>case_columns := (case_columns row)\<lparr>Case_UpdatedAt := Comment_CreatedAt m\<rparr>\<rparr>)
                (tbl_investigation_cases db)
           in Inr ((), db\<lparr>tbl_investigation_cases := t\<rparr>)))) (\<lambda>_.
        tx_then (statement S [] (insertAuditEvent e)) (\<lambda>_. tx_return stored))) k db)
       (mem_AddCaseComment m e r)" for k
    proof (rule work_sim_statement, rule work_sim_statement)
      fix stored db1 u db2
      assume "insert_comment m db = Inr (stored, db1)"
      then have new: "map_of (tbl_case_comments db) (Comment_ID m) = None" and stored: "stored = m"
        and db1: "db1 = db\<lparr>tbl_case_comments := gput (Comment_ID m) m (tbl_case_comments db)\<rparr>"
        by (auto simp: insert_comment_def split: sum.splits)
      assume "(let (_, t) = update_row ?i (\<lambda>_. True)
                (\<lambda>row. row\<lparr>case_columns := (case_columns row)\<lparr>Case_UpdatedAt := Comment_CreatedAt m\<rparr>\<rparr>)
                (tbl_investigation_cases db1)
           in Inr ((), db1\<lparr>tbl_investigation_cases := t\<rparr>)) = Inr (u, db2)"
      then have db2: "db2 = db1\<lparr>tbl_investigation_cases := gput ?i ?row (tbl_investigation_cases db1)\<rparr>"
        using 2(1) db1 by (simp add: update_row_def)
      have R2: "represents db2 (r\<lparr>repo_caseComments := gappend ?i m (repo_caseComments r),
          repo_cases := gput ?i ?c (repo_cases r)\<rparr>)"
        using represents_case [OF represents_comment [OF R new refl] c, of ?i] unfolding db2 db1 by simp
      show "work_sim (=) represents r (tx_then (statement S [] (insertAuditEvent e))
          (\<lambda>_. tx_return stored) (k + 1 + 1) db2) (mem_AddCaseComment m e r)"
        by (rule work_sim_event [OF R2 e q stored])
    qed
    with 2(1) False show ?thesis by simp
  qed
qed

lemma pg_ResolveCase_sim:
  assumes R: "represents db r" and wf: "cases_wf r" and e: "Event_AggregateID ce = i"
  shows "sim (=) represents r (pg_ResolveCase S i text a ce ae db) (mem_ResolveCase i text a ce ae r)"
  unfolding pg_ResolveCase_def
proof (rule sim_in_transaction [where R = represents, OF R], rule work_sim_statement)
  let ?change = "\<lambda>row :: investigation_cases_row. row\<lparr>case_columns := (case_columns row)\<lparr>Case_Status := CaseResolved,
                Case_ResolvedAt := Some (Event_OccurredAt ce),
                Case_UpdatedAt := Event_OccurredAt ce\<rparr>,
              case_resolution := Some text, case_resolved_by := Some a\<rparr>"
  let ?rest = "\<lambda>stored :: investigation_cases_row. let alertID = Case_AlertID (case_columns stored);
                 alertEvent = ae\<lparr>Event_AggregateID := alertID\<rparr>
             in tx_then (statement S [] (\<lambda>db.
                  Inr (close_alert_row alertID (Event_OccurredAt ce) a text db))) (\<lambda>closed.
                if closed = None then tx_fail ErrAlertConflict
                else tx_then (statement S [] (insertAuditEvent ce)) (\<lambda>_.
                     tx_then (statement S [] (insertAuditEvent alertEvent)) (\<lambda>_.
                     tx_return (scanCase stored))))"
  fix x db1
  assume upd: "update_open_case i ?change db = Inr (x, db1)"
  show "work_sim (=) represents r
     ((case x of None \<Rightarrow> caseMutationError S i | Some stored \<Rightarrow> ?rest stored) (1 + 1) db1)
     (mem_ResolveCase i text a ce ae r)"
  proof (rule update_open_case_cases [OF R upd])
    assume "x = None" and "db1 = db" and "\<And>c. mem_case r i = Some c \<Longrightarrow> Case_Status c = CaseResolved"
    then show ?thesis by (auto simp: mem_ResolveCase_def intro!: caseMutationError_sim [OF R])
  next
    fix row :: investigation_cases_row
    let ?j = "Case_AlertID (case_columns row)"
    let ?ae = "ae\<lparr>Event_AggregateID := ?j\<rparr>"
    let ?c = "(scanCase row)\<lparr>Case_Status := CaseResolved, Case_Resolution := text,
                Case_ResolvedBy := a, Case_ResolvedAt := Some (Event_OccurredAt ce),
                Case_UpdatedAt := Event_OccurredAt ce\<rparr>"
    assume row: "mem_case r i = Some (scanCase row)" "Case_Status (scanCase row) \<noteq> CaseResolved"
      and x: "x = Some (?change row)"
      and R': "represents db1 (r\<lparr>repo_cases := gput i (scanCase (?change row)) (repo_cases r)\<rparr>)"
    have c: "scanCase (?change row) = ?c"
      by (rule InvestigationCase.equality) (simp_all add: scanCase_def)
    have same: "tbl_alerts db1 = tbl_alerts db"
      using upd by (auto simp: update_open_case_def split: prod.splits)
    have "work_sim (=) represents r (?rest (?change row) k db1) (mem_ResolveCase i text a ce ae r)" for k
    proof (rule represents_lookup [OF representsD(2) [OF R], of ?j])
      assume "map_of (tbl_alerts db) ?j = None" and "mem_alert r ?j = None"
      then show ?thesis
        using row
        by (auto simp: same close_alert_row_None mem_ResolveCase_def Let_def zero_Alert_def gindex_def
            intro!: work_sim_statement work_sim_fail)
    next
      fix arow
      assume arow: "map_of (tbl_alerts db) ?j = Some arow" "mem_alert r ?j = Some (scanAlert arow)"
      show ?thesis
      proof (cases "Alert_Status (alert_columns arow) = AlertOpen")
        case False
        then show ?thesis
          using row arow
          by (auto simp: same close_alert_row_refused mem_ResolveCase_def Let_def
              intro!: work_sim_statement work_sim_fail)
      next
        case True
        let ?r1 = "r\<lparr>repo_cases := gput i (scanCase (?change row)) (repo_cases r)\<rparr>"
        have arow1: "map_of (tbl_alerts db1) ?j = Some arow" using arow same by simp
        obtain arow' db2 where cl: "close_alert_row ?j (Event_OccurredAt ce) a text db1 = (Some arow', db2)"
          and al: "scanAlert arow' = (scanAlert arow)\<lparr>Alert_Status := AlertClosed,
             Alert_ClosedAt := Some (Event_OccurredAt ce), Alert_ClosedBy := a, Alert_ClosureReason := text\<rparr>"
          and R2: "represents db2 (?r1\<lparr>repo_alerts := gput ?j (scanAlert arow') (repo_alerts ?r1)\<rparr>)"
          by (rule close_alert_row_open [OF R' arow1 True, of "Event_OccurredAt ce" a "text"])
        have "Alert_ID (scanAlert arow) = ?j"
          using wf arow(2) unfolding cases_wf_def by (blast dest: keyedD)
        then have q: "mem_ResolveCase i text a ce ae r = (Inr ?c, append_event ?j ?ae (append_event i ce
            (?r1\<lparr>repo_alerts := gput ?j (scanAlert arow') (repo_alerts ?r1)\<rparr>)))"
          using row arow True by (simp add: mem_ResolveCase_def Let_def c al)
        have "work_sim (=) represents r (tx_then (statement S [] (insertAuditEvent ce)) (\<lambda>_.
             tx_then (statement S [] (insertAuditEvent ?ae)) (\<lambda>_. tx_return (scanCase (?change row)))) n db2)
             (mem_ResolveCase i text a ce ae r)" for n
        proof (rule work_sim_statement)
          fix u db3
          assume "insertAuditEvent ce db2 = Inr (u, db3)"
          from represents_event [OF R2 this e]
          show "work_sim (=) represents r (tx_then (statement S [] (insertAuditEvent ?ae))
              (\<lambda>_. tx_return (scanCase (?change row))) (n + 1) db3) (mem_ResolveCase i text a ce ae r)"
            by (rule work_sim_event [OF _ _ q c]) simp
        qed
        then show ?thesis by (auto simp: Let_def cl intro!: work_sim_statement)
      qed
    qed
    then show ?thesis unfolding x option.case .
  qed
qed

end
