(* ===== verification/Refinement_Screening.thy ===== *)
theory Refinement_Screening
  imports Refinement_Core
begin

text \<open>
  The PostgreSQL repository implements the memory repository on due diligence, screenings,
  matches, notifications and preferences. Schedules are not compared (the two claims differ), so
  configuring one only has to agree on the audit event, and claiming or completing one changes
  nothing that is compared.
\<close>

text \<open>A write of one row with its audit event, as the five operations below share it.\<close>

lemma write_with_event_sim:
  assumes R: "represents db r"
    and effect: "\<And>x db'. f db = Inr (x, db') \<Longrightarrow>
      (case x of None \<Rightarrow> q = (Inl absent, r)
       | Some y \<Rightarrow> \<exists>r1 k. represents db' r1 \<and> Event_AggregateID (event y) = k \<and>
           q = (Inr y, append_event k (event y) r1))"
  shows "sim (=) represents r (write_with_event S f absent event db) q"
  unfolding write_with_event_def
proof (rule sim_in_transaction [where R = represents, OF R], rule work_sim_statement)
  fix x db'
  assume "f db = Inr (x, db')"
  note w = effect [OF this]
  show "work_sim (=) represents r ((case x of None \<Rightarrow> tx_fail absent
      | Some stored \<Rightarrow> tx_then (statement S [] (insertAuditEvent (event stored))) (\<lambda>_. tx_return stored))
      (1 + 1) db') q"
  proof (cases x)
    case None
    with w show ?thesis by (simp add: work_sim_fail)
  next
    case (Some y)
    then obtain r1 k where "represents db' r1" and "Event_AggregateID (event y) = k"
      and "q = (Inr y, append_event k (event y) r1)" using w by auto
    from work_sim_event [OF this refl] Some show ?thesis by simp
  qed
qed

section \<open>Due diligence\<close>

lemma known_customer: "represents db r \<Longrightarrow> map_of (tbl_customers db) i = None \<longleftrightarrow> mem_customer r i = None"
  by (metis representsD(1) scanned_None)

lemma pg_UpsertCDDProfile_sim:
  assumes R: "represents db r" and e: "Event_AggregateID e = Profile_CustomerID p"
  shows "sim (=) represents r (pg_UpsertCDDProfile S p e db) (mem_UpsertCDDProfile p e r)"
  unfolding pg_UpsertCDDProfile_def
proof (rule write_with_event_sim [OF R], goal_cases)
  case (1 x db')
  show ?case
  proof (cases "mem_customer r (Profile_CustomerID p)")
    case None
    with 1 known_customer [OF R] show ?thesis by (simp add: upsert_profile_def mem_UpsertCDDProfile_def)
  next
    case (Some c)
    then have "x = Some p" and "db' = db\<lparr>tbl_customer_due_diligence :=
        gput (Profile_CustomerID p) p (tbl_customer_due_diligence db)\<rparr>"
      using 1 known_customer [OF R, of "Profile_CustomerID p"]
      by (auto simp: upsert_profile_def split: if_splits)
    then show ?thesis
      using represents_profile [OF R] Some e by (auto simp: mem_UpsertCDDProfile_def)
  qed
qed

lemma pg_AddBeneficialOwner_sim:
  assumes R: "represents db r" and e: "Event_AggregateID e = Owner_CustomerID p"
  shows "sim (=) represents r (pg_AddBeneficialOwner S p e db) (mem_AddBeneficialOwner p e r)"
  unfolding pg_AddBeneficialOwner_def
proof (rule write_with_event_sim [OF R], goal_cases)
  case (1 x db')
  show ?case
  proof (cases "mem_customer r (Owner_CustomerID p)")
    case None
    with 1 known_customer [OF R] show ?thesis by (simp add: insert_owner_def mem_AddBeneficialOwner_def)
  next
    case (Some c)
    then have "x = Some p" and new: "map_of (tbl_beneficial_owners db) (Owner_ID p) = None"
      and "db' = db\<lparr>tbl_beneficial_owners := gput (Owner_ID p) p (tbl_beneficial_owners db)\<rparr>"
      using 1 known_customer [OF R, of "Owner_CustomerID p"]
      by (auto simp: insert_owner_def split: if_splits sum.splits)
    then show ?thesis
      using represents_owner [OF R new refl] Some e by (auto simp: mem_AddBeneficialOwner_def)
  qed
qed

lemma pg_AddKYCDocument_sim:
  assumes R: "represents db r" and e: "Event_AggregateID e = Document_CustomerID d"
    and new: "Document_VerifiedBy d = []" "Document_VerifiedAt d = None"
  shows "sim (=) represents r (pg_AddKYCDocument S d e db) (mem_AddKYCDocument d e r)"
  unfolding pg_AddKYCDocument_def
proof (rule write_with_event_sim [OF R], goal_cases)
  case (1 x db')
  let ?row = "\<lparr>document_columns = d\<lparr>Document_VerifiedBy := [], Document_VerifiedAt := None\<rparr>,
      document_verified_by = None\<rparr>"
  have d: "scanKYCDocument ?row = d" using new by (simp add: scanKYCDocument_def)
  show ?case
  proof (cases "mem_customer r (Document_CustomerID d)")
    case None
    with 1 known_customer [OF R] show ?thesis
      by (simp add: insert_document_def mem_AddKYCDocument_def Let_def)
  next
    case (Some c)
    then have "x = Some d"
      and "db' = db\<lparr>tbl_kyc_documents := gput (Document_ID d) ?row (tbl_kyc_documents db)\<rparr>"
      using 1 known_customer [OF R, of "Document_CustomerID d"] d
      by (auto simp: insert_document_def Let_def split: if_splits sum.splits)
    then show ?thesis
      using represents_document [OF R d, of "Document_ID d"] Some e by (auto simp: mem_AddKYCDocument_def)
  qed
qed

lemma pg_ReviewKYCDocument_sim:
  assumes R: "represents db r"
  shows "sim (=) represents r (pg_ReviewKYCDocument S i status a e db) (mem_ReviewKYCDocument i status a e r)"
  unfolding pg_ReviewKYCDocument_def
proof (rule write_with_event_sim [OF R], rule represents_lookup [OF representsD(4) [OF R], of i], goal_cases)
  case (1 x db')
  then show ?case by (simp add: review_document_def update_row_def mem_ReviewKYCDocument_def)
next
  case (2 x db' row)
  have sc: "Document_Status (scanKYCDocument row) = Document_Status (document_columns row)"
    "Document_CustomerID (scanKYCDocument row) = Document_CustomerID (document_columns row)"
    by (simp_all add: scanKYCDocument_def)
  show ?case
  proof (cases "Document_Status (document_columns row) = DocumentPending")
    case False
    with 2 sc show ?thesis by (auto simp: review_document_def update_row_def mem_ReviewKYCDocument_def)
  next
    case True
    let ?row = "row\<lparr>document_columns := (document_columns row)\<lparr>Document_Status := status,
                       Document_VerifiedAt := Some (Event_OccurredAt e)\<rparr>,
                     document_verified_by := Some a\<rparr>"
    let ?d = "(scanKYCDocument row)\<lparr>Document_Status := status, Document_VerifiedBy := a,
                Document_VerifiedAt := Some (Event_OccurredAt e)\<rparr>"
    have d: "scanKYCDocument ?row = ?d" by (rule KYCDocument.equality) (simp_all add: scanKYCDocument_def)
    have "x = Some ?d" and "db' = db\<lparr>tbl_kyc_documents := gput i ?row (tbl_kyc_documents db)\<rparr>"
      using 2(1,2) True d by (auto simp: review_document_def update_row_def split: if_splits)
    moreover have "mem_ReviewKYCDocument i status a e r = (Inr ?d, append_event (Document_CustomerID ?d)
        (e\<lparr>Event_AggregateID := Document_CustomerID ?d\<rparr>)
        (r\<lparr>repo_documents := gput i ?d (repo_documents r)\<rparr>))"
      using 2(3) True sc by (simp add: mem_ReviewKYCDocument_def Let_def)
    moreover note represents_document [OF R d, of i]
    ultimately show ?thesis by auto
  qed
qed

section \<open>Screenings\<close>

lemma insert_run_sim:
  "represents db r \<Longrightarrow> statement S w (insert_run run) k db = Inr (u, k', db') \<Longrightarrow> represents db' r"
  by (auto simp: insert_run_def elim!: statement_okE split: if_splits sum.splits)

lemma insert_outbox_sim:
  "represents db r \<Longrightarrow> statement S w (insert_outbox m) k db = Inr (u, k', db') \<Longrightarrow> represents db' r"
  by (auto simp: insert_outbox_def Let_def elim!: statement_okE split: if_splits sum.splits)

lemma insert_match_sim:
  assumes R: "represents db r" and "statement S w (insert_match m) k db = Inr (u, k', db')" and "undecided m"
  shows "represents db' (r\<lparr>repo_screeningMatches := gput (Match_ID m) m (repo_screeningMatches r)\<rparr>)"
proof -
  let ?row = "\<lparr>match_columns = m\<lparr>Match_ReviewedBy := [], Match_ReviewedAt := None,
      Match_DispositionReason := []\<rparr>, match_reviewed_by = None, match_disposition_reason = None\<rparr>"
  have "db' = db\<lparr>tbl_screening_matches := gput (Match_ID m) ?row (tbl_screening_matches db)\<rparr>"
    using assms(2) by (auto simp: insert_match_def elim!: statement_okE split: if_splits sum.splits)
  moreover have "scanScreeningMatch ?row = m" using assms(3) by (simp add: scanScreeningMatch_def undecided_def)
  ultimately show ?thesis using represents_match [OF R] by simp
qed

lemma insert_notification_sim:
  assumes R: "represents db r" and "statement S w (insert_notification n) k db = Inr (u, k', db')"
    and "unread n"
  shows "represents db' (r\<lparr>repo_notifications := gput (Notification_ID n) n (repo_notifications r)\<rparr>)"
proof -
  let ?row = "\<lparr>notification_columns = n\<lparr>Notification_ReadBy := [], Notification_ReadAt := None\<rparr>,
      notification_read_by = None\<rparr>"
  have "db' = db\<lparr>tbl_notifications := gput (Notification_ID n) ?row (tbl_notifications db)\<rparr>"
    using assms(2) by (auto simp: insert_notification_def elim!: statement_okE split: if_splits sum.splits)
  moreover have "scanNotification ?row = n" using assms(3) by (simp add: scanNotification_def unread_def)
  ultimately show ?thesis using represents_notification [OF R] by simp
qed

lemma insert_event_sim:
  assumes "represents db r" and "statement S w (insertAuditEvent e) k db = Inr (u, k', db')"
  shows "represents db' (append_event (Event_AggregateID e) e r)"
  by (rule statement_okE [OF assms(2)]) (rule represents_event [OF assms(1) _ refl])

lemma tx_each_last: "tx_each f xs k db = tx_then (tx_each f xs) (\<lambda>_. tx_return ()) k db"
  by (auto simp: tx_then_def tx_return_def split: sum.split)

lemma fold_const: "fold (\<lambda>_ r. r) xs r = r"
  by (induction xs) auto

lemma pg_SaveScreening_sim:
  assumes R: "represents db r" and ms: "\<And>m. m \<in> set ms \<Longrightarrow> undecided m"
    and ns: "\<And>n. n \<in> set ns \<Longrightarrow> unread n"
  shows "sim (=) represents r (pg_SaveScreening S runs ms ns ob es db) (mem_SaveScreening runs ms ns ob es r)"
  unfolding pg_SaveScreening_def
proof (rule sim_in_transaction [where R = represents, OF R])
  let ?m = "\<lambda>m r. r\<lparr>repo_screeningMatches := gput (Match_ID m) m (repo_screeningMatches r)\<rparr>"
  let ?n = "\<lambda>n r. r\<lparr>repo_notifications := gput (Notification_ID n) n (repo_notifications r)\<rparr>"
  let ?e = "\<lambda>e r. append_event (Event_AggregateID e) e r"
  have q: "mem_SaveScreening runs ms ns ob es r = (Inr (), fold ?e es (fold ?n ns (fold ?m ms r)))"
    by (simp add: mem_SaveScreening_def store_matches_def store_notifications_def store_events_def)
  show "work_sim (=) represents r
     (tx_then (tx_each (\<lambda>run. statement S [] (insert_run run)) runs) (\<lambda>_.
      tx_then (tx_each (\<lambda>m. statement S [] (insert_match m)) ms) (\<lambda>_.
      tx_then (tx_each (\<lambda>n. statement S [] (insert_notification n)) ns) (\<lambda>_.
      tx_then (tx_each (\<lambda>message. statement S [] (insert_outbox message)) ob) (\<lambda>_.
      tx_each (\<lambda>event. statement S [] (insertAuditEvent event)) es)))) 1 db)
     (mem_SaveScreening runs ms ns ob es r)"
  proof (rule work_sim_each [where R = represents and step = "\<lambda>_ r. r", OF R])
    fix db1 k1
    assume "represents db1 (fold (\<lambda>_ r. r) runs r)"
    then have R1: "represents db1 r" by (simp add: fold_const)
    show "work_sim (=) represents r
     (tx_then (tx_each (\<lambda>m. statement S [] (insert_match m)) ms) (\<lambda>_.
      tx_then (tx_each (\<lambda>n. statement S [] (insert_notification n)) ns) (\<lambda>_.
      tx_then (tx_each (\<lambda>message. statement S [] (insert_outbox message)) ob) (\<lambda>_.
      tx_each (\<lambda>event. statement S [] (insertAuditEvent event)) es))) k1 db1)
     (mem_SaveScreening runs ms ns ob es r)"
    proof (rule work_sim_each [where R = represents and step = ?m, OF R1])
      fix db2 k2
      assume R2: "represents db2 (fold ?m ms r)"
      show "work_sim (=) represents r
       (tx_then (tx_each (\<lambda>n. statement S [] (insert_notification n)) ns) (\<lambda>_.
        tx_then (tx_each (\<lambda>message. statement S [] (insert_outbox message)) ob) (\<lambda>_.
        tx_each (\<lambda>event. statement S [] (insertAuditEvent event)) es)) k2 db2)
       (mem_SaveScreening runs ms ns ob es r)"
      proof (rule work_sim_each [where R = represents and step = ?n, OF R2])
        fix db3 k3
        assume R3: "represents db3 (fold ?n ns (fold ?m ms r))"
        show "work_sim (=) represents r
         (tx_then (tx_each (\<lambda>message. statement S [] (insert_outbox message)) ob) (\<lambda>_.
          tx_each (\<lambda>event. statement S [] (insertAuditEvent event)) es) k3 db3)
         (mem_SaveScreening runs ms ns ob es r)"
        proof (rule work_sim_each [where R = represents and step = "\<lambda>_ r. r", OF R3])
          fix db4 k4
          assume "represents db4 (fold (\<lambda>_ r. r) ob (fold ?n ns (fold ?m ms r)))"
          then have R4: "represents db4 (fold ?n ns (fold ?m ms r))" by (simp add: fold_const)
          show "work_sim (=) represents r
           (tx_each (\<lambda>event. statement S [] (insertAuditEvent event)) es k4 db4)
           (mem_SaveScreening runs ms ns ob es r)"
            by (subst tx_each_last, rule work_sim_each [where R = represents and step = ?e, OF R4])
              (auto dest: statement_fails intro: insert_event_sim simp: q intro!: work_sim_return [where R = represents])
        qed (auto dest: statement_fails intro: insert_outbox_sim)
      qed (use ns in \<open>auto dest: statement_fails intro: insert_notification_sim\<close>)
    qed (use ms in \<open>auto dest: statement_fails intro: insert_match_sim\<close>)
  qed (auto dest: statement_fails intro: insert_run_sim)
qed

lemma pg_DispositionScreeningMatch_sim:
  assumes R: "represents db r"
  shows "sim (=) represents r (pg_DispositionScreeningMatch S i status why a e db)
    (mem_DispositionScreeningMatch i status why a e r)"
  unfolding pg_DispositionScreeningMatch_def
proof (rule write_with_event_sim [OF R], rule represents_lookup [OF representsD(5) [OF R], of i], goal_cases)
  case (1 x db')
  then show ?case by (simp add: dispose_match_def update_row_def mem_DispositionScreeningMatch_def)
next
  case (2 x db' row)
  have sc: "Match_Status (scanScreeningMatch row) = Match_Status (match_columns row)"
    "Match_CustomerID (scanScreeningMatch row) = Match_CustomerID (match_columns row)"
    by (simp_all add: scanScreeningMatch_def)
  show ?case
  proof (cases "Match_Status (match_columns row) = MatchPotential")
    case False
    with 2 sc show ?thesis by (auto simp: dispose_match_def update_row_def mem_DispositionScreeningMatch_def)
  next
    case True
    let ?row = "row\<lparr>match_columns := (match_columns row)\<lparr>Match_Status := status,
                       Match_ReviewedAt := Some (Event_OccurredAt e)\<rparr>,
                     match_reviewed_by := Some a, match_disposition_reason := Some why\<rparr>"
    let ?m = "(scanScreeningMatch row)\<lparr>Match_Status := status, Match_ReviewedBy := a,
                Match_ReviewedAt := Some (Event_OccurredAt e), Match_DispositionReason := why\<rparr>"
    have m: "scanScreeningMatch ?row = ?m"
      by (rule ScreeningMatch.equality) (simp_all add: scanScreeningMatch_def)
    have "x = Some ?m" and "db' = db\<lparr>tbl_screening_matches := gput i ?row (tbl_screening_matches db)\<rparr>"
      using 2(1,2) True m by (auto simp: dispose_match_def update_row_def split: if_splits)
    moreover have "mem_DispositionScreeningMatch i status why a e r = (Inr ?m,
        append_event (Match_CustomerID ?m) (e\<lparr>Event_AggregateID := Match_CustomerID ?m\<rparr>)
        (r\<lparr>repo_screeningMatches := gput i ?m (repo_screeningMatches r)\<rparr>))"
      using 2(3) True sc by (simp add: mem_DispositionScreeningMatch_def Let_def)
    moreover note represents_match [OF R m, of i]
    ultimately show ?thesis by auto
  qed
qed

section \<open>Notifications, preferences and schedules\<close>

lemma pg_ReadNotification_sim:
  assumes R: "represents db r"
  shows "sim (=) represents r (pg_ReadNotification S i a at db) (mem_ReadNotification i a at r)"
proof (rule represents_lookup [of scanNotification "tbl_notifications db" "map_of (repo_notifications r)" i])
  show "pg_notification db = map_of (repo_notifications r)" using R by (simp add: represents_def)
next
  assume "map_of (tbl_notifications db) i = None" and "map_of (repo_notifications r) i = None"
  then show ?thesis
    using R by (auto simp: pg_ReadNotification_def mem_ReadNotification_def autocommit_def update_row_def
        sim_def split: option.split)
next
  fix row
  assume row: "map_of (tbl_notifications db) i = Some row"
    "map_of (repo_notifications r) i = Some (scanNotification row)"
  let ?row = "row\<lparr>notification_columns := (notification_columns row)\<lparr>Notification_Read := True,
                 Notification_ReadAt := Some at\<rparr>, notification_read_by := Some a\<rparr>"
  let ?n = "(scanNotification row)\<lparr>Notification_Read := True, Notification_ReadBy := a,
                 Notification_ReadAt := Some at\<rparr>"
  have n: "scanNotification ?row = ?n" by (rule Notification.equality) (simp_all add: scanNotification_def)
  have "mem_ReadNotification i a at r = (Inr ?n, r\<lparr>repo_notifications := gput i ?n (repo_notifications r)\<rparr>)"
    using row(2) by (simp add: mem_ReadNotification_def Let_def)
  then show ?thesis
    using row(1) R represents_notification [OF R n, of i] n
    by (simp add: pg_ReadNotification_def autocommit_def update_row_def sim_def split: option.split)
qed

lemma pg_UpsertNotificationPreference_sim:
  assumes R: "represents db r"
  shows "sim (=) represents r (pg_UpsertNotificationPreference S p db) (mem_UpsertNotificationPreference p r)"
  unfolding pg_UpsertNotificationPreference_def
  by (rule sim_autocommit [where R = represents, OF R])
    (auto simp: mem_UpsertNotificationPreference_def violates_def split: if_splits
      intro!: represents_preference R)

text \<open>Configuring a schedule: the same trail, whatever the schedules are.\<close>

lemma pg_UpsertScreeningSchedule_sim:
  assumes R: "represents db r" and e: "Event_AggregateID e = Schedule_CustomerID s"
  shows "sim (\<lambda>_ _. True) represents r (pg_UpsertScreeningSchedule S s e db)
    (mem_UpsertScreeningSchedule s e r)"
  unfolding pg_UpsertScreeningSchedule_def write_with_event_def
proof (rule sim_in_transaction [where R = represents, OF R], rule work_sim_statement)
  fix x db'
  assume upd: "upsert_schedule s db = Inr (x, db')"
  have known: "map_of (tbl_customers db) (Schedule_CustomerID s) \<noteq> None"
    using upd unfolding upsert_schedule_def Let_def by (meson violates_simps(1))
  have "\<exists>y t. x = Some y \<and> db' = db\<lparr>tbl_screening_schedules := t\<rparr>"
    using upd by (simp add: upsert_schedule_def Let_def violates_def split: if_splits) blast
  then obtain y where y: "x = Some y" and R': "represents db' r" using R by auto
  have "mem_customer r (Schedule_CustomerID s) \<noteq> None"
    using known known_customer [OF R] by metis
  then obtain s' where q: "mem_UpsertScreeningSchedule s e r = (Inr s',
      append_event (Schedule_CustomerID s) e (r\<lparr>repo_screeningSchedules :=
        gput (Schedule_CustomerID s) s' (repo_screeningSchedules r)\<rparr>))"
    by (cases "map_of (repo_screeningSchedules r) (Schedule_CustomerID s)")
      (auto simp: mem_UpsertScreeningSchedule_def Let_def)
  have R2: "represents db' (r\<lparr>repo_screeningSchedules :=
        gput (Schedule_CustomerID s) s' (repo_screeningSchedules r)\<rparr>)" using R' by simp
  show "work_sim (\<lambda>_ _. True) represents r
    ((case x of None \<Rightarrow> tx_fail (OtherError ''no rows in result set'')
      | Some stored \<Rightarrow> tx_then (statement S [] (insertAuditEvent e)) (\<lambda>_. tx_return stored)) (1 + 1) db')
    (mem_UpsertScreeningSchedule s e r)"
    unfolding y option.case
  proof (rule work_sim_statement)
    fix u db2
    assume "insertAuditEvent e db' = Inr (u, db2)"
    from represents_event [OF R2 this e]
    show "work_sim (\<lambda>_ _. True) represents r (tx_return y (1 + 1 + 1) db2) (mem_UpsertScreeningSchedule s e r)"
      unfolding q by (simp add: work_sim_def tx_return_def)
  qed
qed

text \<open>The queues change nothing that is compared.\<close>

lemma autocommit_frame:
  assumes "autocommit S w f db = (x, db')" and "P db" and "\<And>y db1. f db = Inr (y, db1) \<Longrightarrow> P db1"
  shows "P db'"
  using assms by (auto simp: autocommit_def split: sum.splits option.splits if_splits)

lemma queues_represent:
  assumes "represents db r"
  shows "pg_ClaimOutbox S now n owner until db = (x1, db') \<Longrightarrow> represents db' r"
    and "pg_CompleteOutbox S i owner at later err db = (x2, db') \<Longrightarrow> represents db' r"
    and "pg_ClaimDueScreeningSchedules S now n owner until db = (x3, db') \<Longrightarrow> represents db' r"
    and "pg_CompleteScreeningSchedule S i owner at later err db = (x4, db') \<Longrightarrow> represents db' r"
  using assms
  by (auto simp: pg_ClaimOutbox_def pg_CompleteOutbox_def pg_ClaimDueScreeningSchedules_def
      pg_CompleteScreeningSchedule_def split: sum.splits option.splits prod.splits
      elim!: autocommit_frame [where P = "\<lambda>db. represents db r"])

end
