(* ===== verification/Postgres_Workflow.thy ===== *)
theory Postgres_Workflow
  imports Refinement_Screening Invariants
begin

text \<open>
  The services over the PostgreSQL repository. \<open>pg_step\<close> is the step relation of theory
  \<open>Workflow\<close> with every repository call made on a database that may fail at any round trip or lose
  an acknowledgement; the delivery queue adds two steps of its own. \<open>pg_reachable_represents\<close>
  shows that whatever happens, the database holds what the memory repository holds after some run
  of the same services, so the invariants proved over the memory repository hold of the database.
\<close>

section \<open>The repository behind the screening service\<close>

text \<open>Each method call has its own connection, so \<open>Ss\<close> gives every method a session.\<close>

definition pg_screening :: "(string \<Rightarrow> session) \<Rightarrow> Database ScreeningRepository" where
  "pg_screening Ss =
     \<lparr>do_GetCustomer = pg_GetCustomer (Ss ''GetCustomer''),
      do_GetDueDiligence = pg_GetDueDiligence (Ss ''GetDueDiligence''),
      do_SaveScreening = pg_SaveScreening (Ss ''SaveScreening''),
      do_ListScreeningMatches = pg_ListScreeningMatches (Ss ''ListScreeningMatches''),
      do_DispositionScreeningMatch = pg_DispositionScreeningMatch (Ss ''DispositionScreeningMatch''),
      do_UpsertScreeningSchedule = pg_UpsertScreeningSchedule (Ss ''UpsertScreeningSchedule''),
      do_GetScreeningSchedule = pg_GetScreeningSchedule (Ss ''GetScreeningSchedule''),
      do_ClaimDueScreeningSchedules = pg_ClaimDueScreeningSchedules (Ss ''ClaimDueScreeningSchedules''),
      do_CompleteScreeningSchedule = pg_CompleteScreeningSchedule (Ss ''CompleteScreeningSchedule''),
      do_ListNotifications = pg_ListNotifications (Ss ''ListNotifications''),
      do_ReadNotification = pg_ReadNotification (Ss ''ReadNotification''),
      do_GetNotificationPreference = pg_GetNotificationPreference (Ss ''GetNotificationPreference''),
      do_UpsertNotificationPreference =
        pg_UpsertNotificationPreference (Ss ''UpsertNotificationPreference''),
      do_ListEmailNotificationRecipients =
        pg_ListEmailNotificationRecipients (Ss ''ListEmailNotificationRecipients'')\<rparr>"

section \<open>Steps\<close>

definition pg_fresh :: "Database \<Rightarrow> string \<Rightarrow> bool" where
  "pg_fresh db i \<longleftrightarrow> map_of (tbl_customers db) i = None \<and> map_of (tbl_transactions db) i = None \<and>
     map_of (tbl_alerts db) i = None \<and> map_of (tbl_investigation_cases db) i = None \<and>
     map_of (tbl_kyc_documents db) i = None \<and> map_of (tbl_screening_matches db) i = None \<and>
     map_of (tbl_notifications db) i = None"

definition pg_fresh_ids :: "Database \<Rightarrow> call_env \<Rightarrow> bool" where
  "pg_fresh_ids db env \<longleftrightarrow> inj (Env_IDs env) \<and> (\<forall>n. pg_fresh db (Env_IDs env n))"

inductive pg_step :: "Database \<Rightarrow> Database \<Rightarrow> bool" where
  pg_onboard: "pg_fresh_ids db env \<Longrightarrow> Onboard (pg_CreateCustomer S) env cmd db = (x, db') \<Longrightarrow>
    pg_step db db'"
| pg_review: "Review (pg_ReviewCustomer S) env i d a reason db = (x, db') \<Longrightarrow> pg_step db db'"
| pg_ingest: "pg_fresh_ids db env \<Longrightarrow> Ingest (pg_CreateTransaction S) env icmd db = (y, db') \<Longrightarrow>
    pg_step db db'"
| pg_close_alert: "CloseAlert (pg_CloseAlert S) env i a reason db = (z, db') \<Longrightarrow> pg_step db db'"
| pg_create_case: "pg_fresh_ids db env \<Longrightarrow> Create (pg_CreateCase S) env al title p a db = (u, db') \<Longrightarrow>
    pg_step db db'"
| pg_assign_case: "Assign (pg_AssignCase S) env i assignee a db = (u, db') \<Longrightarrow> pg_step db db'"
| pg_comment_case: "Comment (pg_AddCaseComment S) env i body a db = (v, db') \<Longrightarrow> pg_step db db'"
| pg_resolve_case: "Resolve (pg_ResolveCase S) env i text a db = (u, db') \<Longrightarrow> pg_step db db'"
| pg_update_profile: "UpdateProfile (pg_UpsertCDDProfile S) env prof a db = (w, db') \<Longrightarrow> pg_step db db'"
| pg_add_owner: "AddOwner (pg_AddBeneficialOwner S) env own a db = (o', db') \<Longrightarrow> pg_step db db'"
| pg_add_document: "AddDocument (pg_AddKYCDocument S) env doc a db = (d', db') \<Longrightarrow> pg_step db db'"
| pg_review_document: "ReviewDocument (pg_ReviewKYCDocument S) env i status a db = (d', db') \<Longrightarrow>
    pg_step db db'"
| pg_configure_schedule: "ConfigureSchedule (pg_screening Ss) env i enabled hours a db = (s', db') \<Longrightarrow>
    pg_step db db'"
| pg_claim: "pg_ClaimDueScreeningSchedules S now n owner until db = (ss, db') \<Longrightarrow> pg_step db db'"
| pg_complete: "pg_CompleteScreeningSchedule S i owner ranAt nextRun err db = (un, db') \<Longrightarrow> pg_step db db'"
| pg_save_screening: "pg_fresh_ids db env \<Longrightarrow> pg_customer db i \<noteq> None \<Longrightarrow>
    screen_subjects svc env provider i a rs 0 subs loop_start = Inr st \<Longrightarrow>
    pg_SaveScreening S (loop_runs st) (loop_matches st) (loop_notifications st) (loop_outbox st)
      (loop_events st) db = (un, db') \<Longrightarrow> pg_step db db'"
| pg_dispose: "Disposition (pg_screening Ss) env i status reason a db = (m', db') \<Longrightarrow> pg_step db db'"
| pg_read_notification: "ReadNotification (pg_screening Ss) env i a db = (n', db') \<Longrightarrow> pg_step db db'"
| pg_preference: "ConfigureNotificationPreference (pg_screening Ss) parse env a email on db = (pr, db') \<Longrightarrow>
    pg_step db db'"
| pg_claim_outbox: "pg_ClaimOutbox S now n owner until db = (ms, db') \<Longrightarrow> pg_step db db'"
| pg_complete_outbox: "pg_CompleteOutbox S i owner at later err db = (un, db') \<Longrightarrow> pg_step db db'"

inductive pg_reachable :: "Database \<Rightarrow> bool" where
  pg_start: "pg_reachable empty_database"
| pg_more: "pg_reachable db \<Longrightarrow> pg_step db db' \<Longrightarrow> pg_reachable db'"

section \<open>Each step is a step of the memory repository, or none\<close>

definition follows :: "Database \<Rightarrow> Repository \<Rightarrow> bool" where
  "follows db' r \<longleftrightarrow> (\<exists>r'. (r' = r \<or> step r r') \<and> represents db' r')"

lemma follows_same: "represents db r \<Longrightarrow> follows db r"
  by (auto simp: follows_def)

lemma followsI: "sim V represents r p q \<Longrightarrow> step r (snd q) \<Longrightarrow> follows (snd p) r"
  by (auto simp: sim_def follows_def)

lemma represents_fresh: "represents db r \<Longrightarrow> pg_fresh_ids db env \<Longrightarrow> fresh_ids r env"
  by (auto simp: represents_def pg_fresh_ids_def pg_fresh_def fresh_ids_def mem_fresh_def
      simp flip: scanned_None [of scanCustomer] scanned_None [of scanAlert] scanned_None [of scanCase]
        scanned_None [of scanKYCDocument] scanned_None [of scanScreeningMatch]
        scanned_None [of scanNotification])

text \<open>What is left of a service call when the request is refused, and when it is not.\<close>

lemma service_refused:
  "Onboard_request env cmd = Inl x1 \<Longrightarrow> snd (Onboard f1 env cmd r) = r"
  "Review_request env i d a why = Inl x2 \<Longrightarrow> snd (Review f2 env i d a why r) = r"
  "Ingest_request env icmd = Inl x3 \<Longrightarrow> snd (Ingest f3 env icmd r) = r"
  "CloseAlert_request env i a why = Inl x4 \<Longrightarrow> snd (CloseAlert f4 env i a why r) = r"
  "Create_request env al title p a = Inl x5 \<Longrightarrow> snd (Create f5 env al title p a r) = r"
  "Assign_request env i b a = Inl x6 \<Longrightarrow> snd (Assign f6 env i b a r) = r"
  "Comment_request env i b a = Inl x7 \<Longrightarrow> snd (Comment f7 env i b a r) = r"
  "Resolve_request env i b a = Inl x8 \<Longrightarrow> snd (Resolve f8 env i b a r) = r"
  "UpdateProfile_request env prof a = Inl x9 \<Longrightarrow> snd (UpdateProfile f9 env prof a r) = r"
  "AddOwner_request env own a = Inl y1 \<Longrightarrow> snd (AddOwner g1 env own a r) = r"
  "AddDocument_request env doc a = Inl y2 \<Longrightarrow> snd (AddDocument g2 env doc a r) = r"
  "ReviewDocument_request env i st a = Inl y3 \<Longrightarrow> snd (ReviewDocument g3 env i st a r) = r"
  "Disposition_request env i st why a = Inl y4 \<Longrightarrow> snd (Disposition repo env i st why a r) = r"
  by (simp_all add: Onboard_def Review_def Ingest_def CloseAlert_def Create_def Assign_def Comment_def
      Resolve_def UpdateProfile_def AddOwner_def AddDocument_def ReviewDocument_def Disposition_def)

lemma service_runs:
  "Onboard_request env cmd = Inr (c, e) \<Longrightarrow> snd (Onboard f1 env cmd r) = snd (f1 c e r)"
  "Review_request env i d a why = Inr (i', a', e) \<Longrightarrow> snd (Review f2 env i d a why r) = snd (f2 i' d a' e r)"
  "Ingest_request env icmd = Inr (t, e, as, es) \<Longrightarrow> snd (Ingest f3 env icmd r) = snd (f3 t e as es r)"
  "CloseAlert_request env i a why = Inr (i', a', why', e) \<Longrightarrow>
     snd (CloseAlert f4 env i a why r) = snd (f4 i' a' why' e r)"
  "Create_request env al title p a = Inr (cs, e) \<Longrightarrow> snd (Create f5 env al title p a r) = snd (f5 cs e r)"
  "Assign_request env i b a = Inr (i', b', e) \<Longrightarrow> snd (Assign f6 env i b a r) = snd (f6 i' b' e r)"
  "Comment_request env i b a = Inr (m, e) \<Longrightarrow> snd (Comment f7 env i b a r) = snd (f7 m e r)"
  "Resolve_request env i b a = Inr (i', b', a', ce, ae) \<Longrightarrow>
     snd (Resolve f8 env i b a r) = snd (f8 i' b' a' ce ae r)"
  "UpdateProfile_request env prof a = Inr (p', e) \<Longrightarrow> snd (UpdateProfile f9 env prof a r) = snd (f9 p' e r)"
  "AddOwner_request env own a = Inr (o', e) \<Longrightarrow> snd (AddOwner g1 env own a r) = snd (g1 o' e r)"
  "AddDocument_request env doc a = Inr (d', e) \<Longrightarrow> snd (AddDocument g2 env doc a r) = snd (g2 d' e r)"
  "ReviewDocument_request env i st a = Inr (i', a', e) \<Longrightarrow>
     snd (ReviewDocument g3 env i st a r) = snd (g3 i' st a' e r)"
  "Disposition_request env i st why a = Inr (i', why', a', e) \<Longrightarrow>
     snd (Disposition repo env i st why a r) = snd (do_DispositionScreeningMatch repo i' st why' a' e r)"
  by (simp_all add: Onboard_def Review_def Ingest_def CloseAlert_def Create_def Assign_def Comment_def
      Resolve_def UpdateProfile_def AddOwner_def AddDocument_def ReviewDocument_def Disposition_def
      split: prod.split sum.split)

text \<open>A service call follows when its repository call, on an accepted request, is simulated.\<close>

lemma service_follows:
  assumes "represents db r" and "\<And>x. req = Inl x \<Longrightarrow> snd p = db"
    and "\<And>y. req = Inr y \<Longrightarrow> snd p = snd (P y) \<and> snd q = snd (Q y) \<and> sim V represents r (P y) (Q y)"
    and "step r (snd q)"
  shows "follows (snd p) r"
proof (cases req)
  case (Inl x)
  then show ?thesis using assms(1,2) by (simp add: follows_same)
next
  case (Inr y)
  then show ?thesis using assms(3) [of y] assms(4) followsI [of V r "P y" "Q y"] by simp
qed

lemma ingest_request_new:
  assumes "Ingest_request env cmd = Inr (t, e, as, es)"
  shows "Event_AggregateID e = Transaction_ID t"
    and "(a, ev) \<in> set (zip as es) \<Longrightarrow> unclosed a \<and> Event_AggregateID ev = Alert_ID a"
  using assms
  by (auto elim!: Ingest_requestE simp: zip_map_map zip_same_conv_map unclosed_def new_alert_def
      new_alert_event_def Let_def case_prod_unfold)

text \<open>What the repository operations need of an accepted request.\<close>

lemma request_facts:
  "Onboard_request env cmd = Inr (c, e1) \<Longrightarrow>
     Customer_ReviewedBy c = [] \<and> Customer_ReviewedAt c = None \<and> Event_AggregateID e1 = Customer_ID c"
  "Review_request env i d a why = Inr (i', a', e2) \<Longrightarrow> Event_AggregateID e2 = i'"
  "CloseAlert_request env i a why = Inr (i', a', why', e3) \<Longrightarrow> Event_AggregateID e3 = i'"
  "Assign_request env i b a = Inr (i', b', e4) \<Longrightarrow> Event_AggregateID e4 = i'"
  "Comment_request env i b a = Inr (m, e5) \<Longrightarrow> Event_AggregateID e5 = Comment_CaseID m"
  "Resolve_request env i b a = Inr (i', b', a', ce, ae) \<Longrightarrow> Event_AggregateID ce = i'"
  "UpdateProfile_request env prof a = Inr (p, e6) \<Longrightarrow> Event_AggregateID e6 = Profile_CustomerID p"
  "AddOwner_request env own a = Inr (o', e7) \<Longrightarrow> Event_AggregateID e7 = Owner_CustomerID o'"
  "AddDocument_request env doc a = Inr (d', e8) \<Longrightarrow> Event_AggregateID e8 = Document_CustomerID d'"
  by (blast elim: Onboard_requestE Review_requestE CloseAlert_requestE Assign_requestE Comment_requestE
      Resolve_requestE UpdateProfile_requestE AddOwner_requestE AddDocument_requestE)+

lemma create_request_new:
  "Create_request env al title p a = Inr (item, e) \<Longrightarrow> unassigned item \<and> Event_AggregateID e = Case_ID item"
  by (auto simp: Create_request_def Let_def unassigned_def split: if_splits)

lemma onboard_follows:
  assumes R: "represents db r" and fresh: "pg_fresh_ids db env"
  shows "follows (snd (Onboard (pg_CreateCustomer S) env cmd db)) r"
proof (rule service_follows [OF R, where req = "Onboard_request env cmd" and V = "(=)"
      and P = "\<lambda>(c, e). pg_CreateCustomer S c e db"
      and Q = "\<lambda>(c, e). mem_CreateCustomer c e r"])
  show "step r (snd (Onboard mem_CreateCustomer env cmd r))"
    by (rule step.onboard [OF represents_fresh [OF R fresh] prod.collapse [symmetric]])
qed (auto simp: service_refused service_runs dest: request_facts intro!: pg_CreateCustomer_sim [OF R])

lemma review_follows:
  assumes R: "represents db r"
  shows "follows (snd (Review (pg_ReviewCustomer S) env i d a why db)) r"
proof (rule service_follows [OF R, where req = "Review_request env i d a why" and V = "(=)"
      and P = "\<lambda>(i', a', e). pg_ReviewCustomer S i' d a' e db"
      and Q = "\<lambda>(i', a', e). mem_ReviewCustomer i' d a' e r"])
  show "step r (snd (Review mem_ReviewCustomer env i d a why r))"
    by (rule step.review [OF prod.collapse [symmetric]])
qed (auto simp: service_refused service_runs dest: request_facts intro!: pg_ReviewCustomer_sim [OF R])

lemma ingest_follows:
  assumes R: "represents db r" and wf: "repo_wf r" and fresh: "pg_fresh_ids db env"
  shows "follows (snd (Ingest (pg_CreateTransaction S) env cmd db)) r"
proof (rule service_follows [OF R, where req = "Ingest_request env cmd" and V = "same_ingestion"
      and P = "\<lambda>(t, e, as, es). pg_CreateTransaction S t e as es db"
      and Q = "\<lambda>(t, e, as, es). mem_CreateTransaction t e as es r"])
  show "step r (snd (Ingest mem_CreateTransaction env cmd r))"
    by (rule step.ingest [OF represents_fresh [OF R fresh] prod.collapse [symmetric]])
qed (auto simp: service_refused service_runs dest: ingest_request_new
      intro!: pg_CreateTransaction_sim [OF R repo_wfD(1) [OF wf]])

lemma close_alert_follows:
  assumes R: "represents db r"
  shows "follows (snd (CloseAlert (pg_CloseAlert S) env i a why db)) r"
proof (rule service_follows [OF R, where req = "CloseAlert_request env i a why" and V = "(=)"
      and P = "\<lambda>(i', a', why', e). pg_CloseAlert S i' a' why' e db"
      and Q = "\<lambda>(i', a', why', e). mem_CloseAlert i' a' why' e r"])
  show "step r (snd (CloseAlert mem_CloseAlert env i a why r))"
    by (rule step.close_alert [OF prod.collapse [symmetric]])
qed (auto simp: service_refused service_runs dest: request_facts intro!: pg_CloseAlert_sim [OF R])

lemma create_case_follows:
  assumes R: "represents db r" and wf: "repo_wf r" and fresh: "pg_fresh_ids db env"
  shows "follows (snd (Create (pg_CreateCase S) env al title p a db)) r"
proof (rule service_follows [OF R, where req = "Create_request env al title p a" and V = "(=)"
      and P = "\<lambda>(item, e). pg_CreateCase S item e db"
      and Q = "\<lambda>(item, e). mem_CreateCase item e r"])
  show "step r (snd (Create mem_CreateCase env al title p a r))"
    by (rule step.create_case [OF represents_fresh [OF R fresh] prod.collapse [symmetric]])
qed (auto simp: service_refused service_runs dest: create_request_new
      intro!: pg_CreateCase_sim [OF R repo_wfD(10) [OF wf]])

lemma assign_case_follows:
  assumes R: "represents db r"
  shows "follows (snd (Assign (pg_AssignCase S) env i b a db)) r"
proof (rule service_follows [OF R, where req = "Assign_request env i b a" and V = "(=)"
      and P = "\<lambda>(i', b', e). pg_AssignCase S i' b' e db"
      and Q = "\<lambda>(i', b', e). mem_AssignCase i' b' e r"])
  show "step r (snd (Assign mem_AssignCase env i b a r))"
    by (rule step.assign_case [OF prod.collapse [symmetric]])
qed (auto simp: service_refused service_runs dest: request_facts intro!: pg_AssignCase_sim [OF R])

lemma comment_case_follows:
  assumes R: "represents db r" and wf: "repo_wf r"
  shows "follows (snd (Comment (pg_AddCaseComment S) env i b a db)) r"
proof (rule service_follows [OF R, where req = "Comment_request env i b a" and V = "(=)"
      and P = "\<lambda>(m, e). pg_AddCaseComment S m e db"
      and Q = "\<lambda>(m, e). mem_AddCaseComment m e r"])
  show "step r (snd (Comment mem_AddCaseComment env i b a r))"
    by (rule step.comment_case [OF prod.collapse [symmetric]])
qed (auto simp: service_refused service_runs dest: request_facts
      intro!: pg_AddCaseComment_sim [OF R repo_wfD(10) [OF wf]])

lemma resolve_case_follows:
  assumes R: "represents db r" and wf: "repo_wf r"
  shows "follows (snd (Resolve (pg_ResolveCase S) env i b a db)) r"
proof (rule service_follows [OF R, where req = "Resolve_request env i b a" and V = "(=)"
      and P = "\<lambda>(i', b', a', ce, ae). pg_ResolveCase S i' b' a' ce ae db"
      and Q = "\<lambda>(i', b', a', ce, ae). mem_ResolveCase i' b' a' ce ae r"])
  show "step r (snd (Resolve mem_ResolveCase env i b a r))"
    by (rule step.resolve_case [OF prod.collapse [symmetric]])
qed (auto simp: service_refused service_runs dest: request_facts
      intro!: pg_ResolveCase_sim [OF R repo_wfD(10) [OF wf]])

lemma update_profile_follows:
  assumes R: "represents db r"
  shows "follows (snd (UpdateProfile (pg_UpsertCDDProfile S) env prof a db)) r"
proof (rule service_follows [OF R, where req = "UpdateProfile_request env prof a" and V = "(=)"
      and P = "\<lambda>(p, e). pg_UpsertCDDProfile S p e db"
      and Q = "\<lambda>(p, e). mem_UpsertCDDProfile p e r"])
  show "step r (snd (UpdateProfile mem_UpsertCDDProfile env prof a r))"
    by (rule step.update_profile [OF prod.collapse [symmetric]])
qed (auto simp: service_refused service_runs dest: request_facts intro!: pg_UpsertCDDProfile_sim [OF R])

lemma add_owner_follows:
  assumes R: "represents db r"
  shows "follows (snd (AddOwner (pg_AddBeneficialOwner S) env own a db)) r"
proof (rule service_follows [OF R, where req = "AddOwner_request env own a" and V = "(=)"
      and P = "\<lambda>(p, e). pg_AddBeneficialOwner S p e db"
      and Q = "\<lambda>(p, e). mem_AddBeneficialOwner p e r"])
  show "step r (snd (AddOwner mem_AddBeneficialOwner env own a r))"
    by (rule step.add_owner [OF prod.collapse [symmetric]])
qed (auto simp: service_refused service_runs dest: request_facts intro!: pg_AddBeneficialOwner_sim [OF R])

lemma review_document_follows:
  assumes R: "represents db r"
  shows "follows (snd (ReviewDocument (pg_ReviewKYCDocument S) env i st a db)) r"
proof (rule service_follows [OF R, where req = "ReviewDocument_request env i st a" and V = "(=)"
      and P = "\<lambda>(i', a', e). pg_ReviewKYCDocument S i' st a' e db"
      and Q = "\<lambda>(i', a', e). mem_ReviewKYCDocument i' st a' e r"])
  show "step r (snd (ReviewDocument mem_ReviewKYCDocument env i st a r))"
    by (rule step.review_document [OF prod.collapse [symmetric]])
qed (auto simp: service_refused service_runs intro!: pg_ReviewKYCDocument_sim [OF R])

text \<open>
  A document's own verification fields do not reach the database, so the memory repository follows
  with the document that has none.
\<close>

definition unverified :: "KYCDocument \<Rightarrow> KYCDocument" where
  "unverified d = d\<lparr>Document_VerifiedBy := [], Document_VerifiedAt := None\<rparr>"

lemma unverified_request:
  "AddDocument_request env doc a = Inr (d, e) \<Longrightarrow> AddDocument_request env (unverified doc) a = Inr (unverified d, e)"
  "AddDocument_request env doc a = Inl err \<Longrightarrow> AddDocument_request env (unverified doc) a = Inl err"
  by (auto simp: AddDocument_request_def Let_def unverified_def split: if_splits)

lemma insert_unverified: "insert_document (unverified d) = insert_document d"
  by (simp add: fun_eq_iff insert_document_def unverified_def Let_def)

lemma add_document_follows:
  assumes R: "represents db r"
  shows "follows (snd (AddDocument (pg_AddKYCDocument S) env doc a db)) r"
proof (rule service_follows [OF R, where req = "AddDocument_request env doc a" and V = "(=)"
      and P = "\<lambda>(d, e). pg_AddKYCDocument S d e db"
      and Q = "\<lambda>(d, e). mem_AddKYCDocument (unverified d) e r"])
  show "step r (snd (AddDocument mem_AddKYCDocument env (unverified doc) a r))"
    by (rule step.add_document [OF prod.collapse [symmetric]])
next
  fix y
  assume "AddDocument_request env doc a = Inr y"
  moreover obtain d e where y: "y = (d, e)" by fastforce
  ultimately have req: "AddDocument_request env doc a = Inr (d, e)" by simp
  have "pg_AddKYCDocument S (unverified d) e = pg_AddKYCDocument S d e"
    by (simp add: pg_AddKYCDocument_def insert_unverified)
  moreover have "sim (=) represents r (pg_AddKYCDocument S (unverified d) e db)
      (mem_AddKYCDocument (unverified d) e r)"
    by (rule pg_AddKYCDocument_sim [OF R]) (use request_facts(9) [OF req] in \<open>simp_all add: unverified_def\<close>)
  ultimately show "snd (AddDocument (pg_AddKYCDocument S) env doc a db) =
      snd ((\<lambda>(d, e). pg_AddKYCDocument S d e db) y) \<and>
    snd (AddDocument mem_AddKYCDocument env (unverified doc) a r) =
      snd ((\<lambda>(d, e). mem_AddKYCDocument (unverified d) e r) y) \<and>
    sim (=) represents r ((\<lambda>(d, e). pg_AddKYCDocument S d e db) y)
      ((\<lambda>(d, e). mem_AddKYCDocument (unverified d) e r) y)"
    using req unverified_request(1) [OF req] by (simp add: y service_runs)
qed (simp add: service_refused)

section \<open>The steps of the screening service\<close>

lemma pg_screening_sel [simp]:
  "do_GetCustomer (pg_screening Ss) = pg_GetCustomer (Ss ''GetCustomer'')"
  "do_DispositionScreeningMatch (pg_screening Ss) =
     pg_DispositionScreeningMatch (Ss ''DispositionScreeningMatch'')"
  "do_UpsertScreeningSchedule (pg_screening Ss) = pg_UpsertScreeningSchedule (Ss ''UpsertScreeningSchedule'')"
  "do_ReadNotification (pg_screening Ss) = pg_ReadNotification (Ss ''ReadNotification'')"
  "do_UpsertNotificationPreference (pg_screening Ss) =
     pg_UpsertNotificationPreference (Ss ''UpsertNotificationPreference'')"
  by (simp_all add: pg_screening_def)

lemma dispose_follows:
  assumes R: "represents db r"
  shows "follows (snd (Disposition (pg_screening Ss) env i st why a db)) r"
proof (rule service_follows [OF R, where req = "Disposition_request env i st why a" and V = "(=)"
      and P = "\<lambda>(i', why', a', e). pg_DispositionScreeningMatch (Ss ''DispositionScreeningMatch'') i' st why' a' e db"
      and Q = "\<lambda>(i', why', a', e). mem_DispositionScreeningMatch i' st why' a' e r"])
  show "step r (snd (Disposition mem_screening env i st why a r))"
    by (rule step.dispose [OF prod.collapse [symmetric]])
qed (auto simp: service_refused service_runs intro!: pg_DispositionScreeningMatch_sim [OF R])

lemma read_follows:
  assumes R: "represents db r"
  shows "follows (snd (ReadNotification (pg_screening Ss) env i a db)) r"
proof (cases "TrimSpace i = [] \<or> TrimSpace a = []")
  case True
  then show ?thesis by (auto simp: ReadNotification_def follows_same [OF R])
next
  case False
  have "step r (snd (ReadNotification mem_screening env i a r))"
    by (rule step.read_notification [OF prod.collapse [symmetric]])
  with False followsI [OF pg_ReadNotification_sim [OF R]] show ?thesis
    by (simp add: ReadNotification_def)
qed

lemma preference_follows:
  assumes R: "represents db r"
  shows "follows (snd (ConfigureNotificationPreference (pg_screening Ss) parse env a email on db)) r"
proof (cases "ConfigureNotificationPreference mem_screening parse env a email on r =
    (Inl ErrInvalidNotificationPreference, r)")
  case True
  then have "ConfigureNotificationPreference (pg_screening Ss) parse env a email on db =
      (Inl ErrInvalidNotificationPreference, db)"
    by (auto simp: ConfigureNotificationPreference_def mem_UpsertNotificationPreference_def Let_def
        split: if_splits)
  then show ?thesis by (simp add: follows_same [OF R])
next
  case False
  let ?p = "\<lparr>Preference_ActorSubject = TrimSpace a, Preference_EmailAddress = TrimSpace email,
            Preference_EmailEnabled = on, Preference_UpdatedAt = Env_Now env\<rparr>"
  have "step r (snd (ConfigureNotificationPreference mem_screening parse env a email on r))"
    by (rule step.preference [OF prod.collapse [symmetric]])
  moreover have "ConfigureNotificationPreference mem_screening parse env a email on r =
      mem_UpsertNotificationPreference ?p r"
    and "ConfigureNotificationPreference (pg_screening Ss) parse env a email on db =
      pg_UpsertNotificationPreference (Ss ''UpsertNotificationPreference'') ?p db"
    using False by (auto simp: ConfigureNotificationPreference_def Let_def split: if_splits)
  ultimately show ?thesis using followsI [OF pg_UpsertNotificationPreference_sim [OF R]] by simp
qed

lemma configure_follows:
  assumes R: "represents db r"
  shows "follows (snd (ConfigureSchedule (pg_screening Ss) env i enabled hours a db)) r"
proof (cases "snd (ConfigureSchedule (pg_screening Ss) env i enabled hours a db) = db")
  case True
  then show ?thesis by (simp add: follows_same [OF R])
next
  case False
  then have ok: "TrimSpace i \<noteq> []" "TrimSpace a \<noteq> []" "1 \<le> hours" "hours \<le> 8760"
    and pgc: "\<exists>c. pg_GetCustomer (Ss ''GetCustomer'') (TrimSpace i) db = Inr c"
    by (auto simp: ConfigureSchedule_def Let_def split: sum.splits if_splits)
  then have "map_of (tbl_customers db) (TrimSpace i) \<noteq> None"
    by (auto simp: pg_GetCustomer_def query_def split: option.splits sum.splits)
  then have "mem_customer r (TrimSpace i) \<noteq> None" using known_customer [OF R] by metis
  then have known: "\<exists>c. mem_GetCustomer (TrimSpace i) r = Inr c" by (auto simp: mem_GetCustomer_def)
  have "\<exists>s e. ConfigureSchedule (pg_screening Ss) env i enabled hours a db =
      pg_UpsertScreeningSchedule (Ss ''UpsertScreeningSchedule'') s e db \<and>
    ConfigureSchedule mem_screening env i enabled hours a r = mem_UpsertScreeningSchedule s e r \<and>
    Event_AggregateID e = Schedule_CustomerID s"
    using ok known pgc by (auto simp: ConfigureSchedule_def Let_def intro!: exI)
  then obtain s e where e: "Event_AggregateID e = Schedule_CustomerID s"
    and pg: "ConfigureSchedule (pg_screening Ss) env i enabled hours a db =
      pg_UpsertScreeningSchedule (Ss ''UpsertScreeningSchedule'') s e db"
    and mem: "ConfigureSchedule mem_screening env i enabled hours a r = mem_UpsertScreeningSchedule s e r"
    by blast
  have "step r (snd (ConfigureSchedule mem_screening env i enabled hours a r))"
    by (rule step.configure_schedule [OF prod.collapse [symmetric]])
  with followsI [OF pg_UpsertScreeningSchedule_sim [OF R e]] show ?thesis unfolding pg mem by blast
qed

lemma save_follows:
  assumes R: "represents db r" and fresh: "pg_fresh_ids db env" and "pg_customer db i \<noteq> None"
    and st: "screen_subjects svc env provider i a rs 0 subs loop_start = Inr st"
  shows "follows (snd (pg_SaveScreening S (loop_runs st) (loop_matches st) (loop_notifications st)
    (loop_outbox st) (loop_events st) db)) r"
proof -
  have bel: "belongs env i a st" by (rule belongs_subjects [OF st belongs_start])
  have "sim (=) represents r (pg_SaveScreening S (loop_runs st) (loop_matches st) (loop_notifications st)
      (loop_outbox st) (loop_events st) db) (mem_SaveScreening (loop_runs st) (loop_matches st)
      (loop_notifications st) (loop_outbox st) (loop_events st) r)"
    by (rule pg_SaveScreening_sim [OF R]) (use bel in \<open>auto simp: belongs_def\<close>)
  moreover have "step r (snd (mem_SaveScreening (loop_runs st) (loop_matches st) (loop_notifications st)
      (loop_outbox st) (loop_events st) r))"
    using assms(3) representsD(1) [OF R]
    by (intro step.save_screening [OF represents_fresh [OF R fresh] _ st prod.collapse [symmetric]]) simp
  ultimately show ?thesis by (rule followsI)
qed

section \<open>Refinement\<close>

lemma pg_step_follows:
  assumes "pg_step db db'" and R: "represents db r" and wf: "repo_wf r"
  shows "follows db' r"
  using assms(1)
proof (cases rule: pg_step.cases)
  case (pg_onboard env S cmd x)
  then show ?thesis using onboard_follows [OF R, of env S cmd] by simp
next
  case (pg_review S env i d a reason x)
  then show ?thesis using review_follows [OF R, of S env i d a reason] by simp
next
  case (pg_ingest env S icmd y)
  then show ?thesis using ingest_follows [OF R wf, of env S icmd] by simp
next
  case (pg_close_alert S env i a reason z)
  then show ?thesis using close_alert_follows [OF R, of S env i a reason] by simp
next
  case (pg_create_case env S al title p a u)
  then show ?thesis using create_case_follows [OF R wf, of env S al title p a] by simp
next
  case (pg_assign_case S env i assignee a u)
  then show ?thesis using assign_case_follows [OF R, of S env i assignee a] by simp
next
  case (pg_comment_case S env i body a v)
  then show ?thesis using comment_case_follows [OF R wf, of S env i body a] by simp
next
  case (pg_resolve_case S env i t a u)
  then show ?thesis using resolve_case_follows [OF R wf, of S env i t a] by simp
next
  case (pg_update_profile S env prof a w)
  then show ?thesis using update_profile_follows [OF R, of S env prof a] by simp
next
  case (pg_add_owner S env own a o')
  then show ?thesis using add_owner_follows [OF R, of S env own a] by simp
next
  case (pg_add_document S env doc a d')
  then show ?thesis using add_document_follows [OF R, of S env doc a] by simp
next
  case (pg_review_document S env i st a d')
  then show ?thesis using review_document_follows [OF R, of S env i st a] by simp
next
  case (pg_configure_schedule Ss env i enabled hours a s')
  then show ?thesis using configure_follows [OF R, of Ss env i enabled hours a] by simp
next
  case (pg_save_screening env i svc provider a rs subs st S un)
  then show ?thesis using save_follows [OF R pg_save_screening(1-3), of S] by simp
next
  case (pg_dispose Ss env i st reason a m')
  then show ?thesis using dispose_follows [OF R, of Ss env i st reason a] by simp
next
  case (pg_read_notification Ss env i a n')
  then show ?thesis using read_follows [OF R, of Ss env i a] by simp
next
  case (pg_preference Ss parse env a email on pr)
  then show ?thesis using preference_follows [OF R, of Ss parse env a email on] by simp
qed (auto intro: follows_same dest: queues_represent [OF R])

lemma pg_reachable_represents: "pg_reachable db \<Longrightarrow> \<exists>r. reachable r \<and> represents db r"
proof (induction rule: pg_reachable.induct)
  case pg_start
  then show ?case using reachable.start represents_empty by blast
next
  case (pg_more db db')
  then obtain r where r: "reachable r" and "represents db r" by blast
  then have "follows db' r" using pg_step_follows [OF pg_more(2)] reachable_wf by blast
  with r show ?case unfolding follows_def using reachable.more by blast
qed
end
