(* ===== verification/Postgres_Pages.thy ===== *)
theory Postgres_Pages
  imports Postgres_Workflow Memory_Pages
begin

text \<open>
  The list methods of \<^verbatim>\<open>internal/infrastructure/postgres/repository.go\<close>. Each is one query: a
  filter, the row comparison \<^verbatim>\<open>(time, id) < ($3, $4::uuid)\<close> behind the cursor, \<^verbatim>\<open>ORDER BY\<close> both
  descending and \<^verbatim>\<open>LIMIT\<close>. Every one interprets the contract \<open>paged_source\<close>, so following the
  page tokens visits each row once; and in every reachable state each page is the one the memory
  repository would show. The order of UUIDs is the order of their canonical text; a cursor or
  path identifier that is no UUID makes the statement fail, which sessions allow.
\<close>

section \<open>The queries\<close>

definition nullableCursorID :: "string \<Rightarrow> string option" where
  "nullableCursorID ident = (if ident = [] then None else Some ident)"

text \<open>
  \<^verbatim>\<open>NOT $2 OR (time, id) < ($3, $4)\<close> with \<open>$2\<close> telling whether the request has a cursor. A
  comparison with a null identifier is decided by the times, and unknown, so not true, when they
  are equal.
\<close>

definition row_behind :: "PageRequest \<Rightarrow> cursor \<Rightarrow> bool" where
  "row_behind request row \<longleftrightarrow> IsZero (Page_CursorTime request) \<or>
     cursor_time row < Page_CursorTime request \<or>
     cursor_time row = Page_CursorTime request \<and>
       (case nullableCursorID (Page_CursorID request) of
          None \<Rightarrow> False
        | Some ident \<Rightarrow> cursor_id row < ident)"

definition page_rows :: "('a \<Rightarrow> cursor) \<Rightarrow> ('a \<Rightarrow> bool) \<Rightarrow> PageRequest \<Rightarrow> 'a list \<Rightarrow> 'a list" where
  "page_rows key matching request rows =
     take (nat (Page_Limit request))
       (sort_slice (\<lambda>a b. key b < key a)
         (filter (\<lambda>row. matching row \<and> row_behind request (key row)) rows))"

definition pg_ListCustomers ::
  "session \<Rightarrow> CustomerStatus \<Rightarrow> PageRequest \<Rightarrow> Database \<Rightarrow> Customer list result" where
  "pg_ListCustomers S status request =
     query S ''list customers: '' (\<lambda>db.
       page_rows Customer_cursor (\<lambda>c. status = [] \<or> Customer_Status c = status) request
         (map scanCustomer (gvals (tbl_customers db))))"

definition pg_ListCustomerTransactions ::
  "session \<Rightarrow> string \<Rightarrow> PageRequest \<Rightarrow> Database \<Rightarrow> Transaction list result" where
  "pg_ListCustomerTransactions S customerID request =
     query S ''list customer transactions: '' (\<lambda>db.
       page_rows Transaction_cursor (\<lambda>t. Transaction_CustomerID t = customerID) request
         (gvals (tbl_transactions db)))"

definition pg_ListAuditEventsPage ::
  "session \<Rightarrow> string \<Rightarrow> PageRequest \<Rightarrow> Database \<Rightarrow> AuditEvent list result" where
  "pg_ListAuditEventsPage S aggregateID request =
     query S ''list audit events page: '' (\<lambda>db.
       page_rows Event_cursor (\<lambda>e. Event_AggregateID e = aggregateID) request
         (gvals (tbl_audit_events db)))"

definition customer_activity :: "string \<Rightarrow> Database \<Rightarrow> AuditEvent \<Rightarrow> bool" where
  "customer_activity customerID db e \<longleftrightarrow>
     Event_AggregateType e = ''customer'' \<and> Event_AggregateID e = customerID \<or>
     Event_AggregateType e = ''transaction'' \<and>
       Event_AggregateID e \<in> set (map Transaction_ID
         (filter (\<lambda>t. Transaction_CustomerID t = customerID) (gvals (tbl_transactions db)))) \<or>
     Event_AggregateType e = ''alert'' \<and>
       Event_AggregateID e \<in> set (map (\<lambda>row. Alert_ID (alert_columns row))
         (filter (\<lambda>row. Alert_CustomerID (alert_columns row) = customerID) (gvals (tbl_alerts db)))) \<or>
     Event_AggregateType e = ''case'' \<and>
       Event_AggregateID e \<in> set (map (\<lambda>row. Case_ID (case_columns row))
         (filter (\<lambda>row. Case_CustomerID (case_columns row) = customerID)
           (gvals (tbl_investigation_cases db))))"

definition pg_ListCustomerActivityPage ::
  "session \<Rightarrow> string \<Rightarrow> PageRequest \<Rightarrow> Database \<Rightarrow> AuditEvent list result" where
  "pg_ListCustomerActivityPage S customerID request db =
     (case query S [] (\<lambda>db. map_of (tbl_customers db) customerID \<noteq> None) db of
        Inl err \<Rightarrow> Inl err
      | Inr False \<Rightarrow> Inl ErrCustomerNotFound
      | Inr True \<Rightarrow>
          (case Fault S 1 of
             Some msg \<Rightarrow> Inl (OtherError (''list customer activity: '' @ msg))
           | None \<Rightarrow> Inr (page_rows Event_cursor (customer_activity customerID db) request
               (gvals (tbl_audit_events db)))))"

definition pg_ListAlertsPage ::
  "session \<Rightarrow> AlertStatus \<Rightarrow> PageRequest \<Rightarrow> Database \<Rightarrow> Alert list result" where
  "pg_ListAlertsPage S status request =
     query S ''list alerts page: '' (\<lambda>db.
       page_rows Alert_cursor (\<lambda>a. status = [] \<or> Alert_Status a = status) request
         (map scanAlert (gvals (tbl_alerts db))))"

definition pg_ListCasesPage ::
  "session \<Rightarrow> CaseStatus \<Rightarrow> PageRequest \<Rightarrow> Database \<Rightarrow> InvestigationCase list result" where
  "pg_ListCasesPage S status request =
     query S ''list cases: '' (\<lambda>db.
       page_rows Case_cursor (\<lambda>c. status = [] \<or> Case_Status c = status) request
         (map scanCase (gvals (tbl_investigation_cases db))))"

text \<open>The whole trail of an aggregate, oldest first.\<close>

definition pg_ListAuditEvents :: "session \<Rightarrow> string \<Rightarrow> Database \<Rightarrow> AuditEvent list result" where
  "pg_ListAuditEvents S customerID =
     query S ''query audit events: '' (\<lambda>db.
       sort_slice (\<lambda>a b. Event_cursor a < Event_cursor b)
         (filter (\<lambda>e. Event_AggregateID e = customerID) (gvals (tbl_audit_events db))))"

section \<open>Every query is a paged source\<close>

text \<open>
  On requests as the services make them the row comparison is the cursor test of the memory
  repository, so a page is the cut of the sorted rows.
\<close>

lemma row_behind_before: "row_behind p (key v) \<longleftrightarrow> before (cursor_time (key v)) (cursor_id (key v)) p"
  by (auto simp: row_behind_def before_def nullableCursorID_def not_less_Nil)

lemma page_rows_limit:
  "page_rows key matching p rows =
    limit (sort_slice (desc_by key) (admitted key p (filter matching rows))) (Page_Limit p)"
  by (simp add: page_rows_def row_behind_before limit_def admitted_def conj_commute)

text \<open>A table whose rows are found under the identifier they scan to.\<close>

lemma paged_query:
  assumes "\<And>v. cursor_id (key v) = ident v"
  shows "paged_source key (\<lambda>db. Fault S 0 = None \<and> keyed (\<lambda>row. ident (scan row)) (tbl db))
    (\<lambda>db. sort_slice (desc_by key) (filter matching (map scan (gvals (tbl db)))))
    (\<lambda>p. query S wrapping (\<lambda>db. page_rows key matching p (map scan (gvals (tbl db)))))"
proof (rule paged_source_sorted, elim conjE)
  fix db
  assume "keyed (\<lambda>row. ident (scan row)) (tbl db)"
  then have "distinct (map (\<lambda>row. key (scan row)) (filter (\<lambda>row. matching (scan row)) (gvals (tbl db))))"
    by (rule distinct_cursors) (rule assms)
  then show "distinct (map key (filter matching (map scan (gvals (tbl db)))))"
    by (simp add: filter_map comp_def)
qed (simp add: query_def page_rows_limit)

lemmas paged_query_rows = paged_query [where scan = "\<lambda>row. row", unfolded list.map_ident]

interpretation pg_customer_pages:
  paged_source Customer_cursor
    "\<lambda>db. Fault S 0 = None \<and> keyed (\<lambda>row. Customer_ID (scanCustomer row)) (tbl_customers db)"
    "\<lambda>db. sort_slice (desc_by Customer_cursor)
       (filter (\<lambda>c. status = [] \<or> Customer_Status c = status) (map scanCustomer (gvals (tbl_customers db))))"
    "pg_ListCustomers S status" for S status
  unfolding pg_ListCustomers_def by (rule paged_query) (simp add: Customer_cursor_def)

interpretation pg_transaction_pages:
  paged_source Transaction_cursor
    "\<lambda>db. Fault S 0 = None \<and> keyed Transaction_ID (tbl_transactions db)"
    "\<lambda>db. sort_slice (desc_by Transaction_cursor)
       (filter (\<lambda>t. Transaction_CustomerID t = customerID) (gvals (tbl_transactions db)))"
    "pg_ListCustomerTransactions S customerID" for S customerID
  unfolding pg_ListCustomerTransactions_def
  by (rule paged_query_rows) (simp add: Transaction_cursor_def)

interpretation pg_alert_pages:
  paged_source Alert_cursor
    "\<lambda>db. Fault S 0 = None \<and> keyed (\<lambda>row. Alert_ID (scanAlert row)) (tbl_alerts db)"
    "\<lambda>db. sort_slice (desc_by Alert_cursor)
       (filter (\<lambda>a. status = [] \<or> Alert_Status a = status) (map scanAlert (gvals (tbl_alerts db))))"
    "pg_ListAlertsPage S status" for S status
  unfolding pg_ListAlertsPage_def by (rule paged_query) (simp add: Alert_cursor_def)

interpretation pg_case_pages:
  paged_source Case_cursor
    "\<lambda>db. Fault S 0 = None \<and> keyed (\<lambda>row. Case_ID (scanCase row)) (tbl_investigation_cases db)"
    "\<lambda>db. sort_slice (desc_by Case_cursor)
       (filter (\<lambda>c. status = [] \<or> Case_Status c = status) (map scanCase (gvals (tbl_investigation_cases db))))"
    "pg_ListCasesPage S status" for S status
  unfolding pg_ListCasesPage_def by (rule paged_query) (simp add: Case_cursor_def)

interpretation pg_audit_pages:
  paged_source Event_cursor
    "\<lambda>db. Fault S 0 = None \<and> keyed Event_ID (tbl_audit_events db)"
    "\<lambda>db. sort_slice (desc_by Event_cursor)
       (filter (\<lambda>e. Event_AggregateID e = aggregateID) (gvals (tbl_audit_events db)))"
    "pg_ListAuditEventsPage S aggregateID" for S aggregateID
  unfolding pg_ListAuditEventsPage_def
  by (rule paged_query_rows) (simp add: Event_cursor_def)

interpretation pg_activity_pages:
  paged_source Event_cursor
    "\<lambda>db. Fault S 0 = None \<and> Fault S 1 = None \<and> map_of (tbl_customers db) customerID \<noteq> None \<and>
       keyed Event_ID (tbl_audit_events db)"
    "\<lambda>db. sort_slice (desc_by Event_cursor)
       (filter (customer_activity customerID db) (gvals (tbl_audit_events db)))"
    "pg_ListCustomerActivityPage S customerID" for S customerID
proof (rule paged_source_sorted, elim conjE)
  fix db :: Database
  assume "keyed Event_ID (tbl_audit_events db)"
  then show "distinct (map Event_cursor
      (filter (customer_activity customerID db) (gvals (tbl_audit_events db))))"
    by (rule distinct_cursors) (simp add: Event_cursor_def)
qed (auto simp: pg_ListCustomerActivityPage_def query_def page_rows_limit split: bool.split)

section \<open>The pages of the memory repository\<close>

lemma page_rows_same:
  assumes "mset rows = mset vals" and "distinct (map key (filter matching vals))"
  shows "page_rows key matching p rows =
    limit (sort_slice (desc_by key) (admitted key p (filter matching vals))) (Page_Limit p)"
proof -
  have perm: "mset (admitted key p (filter matching rows)) = mset (admitted key p (filter matching vals))"
    using assms(1) unfolding admitted_def by (metis mset_filter)
  have "distinct (map key (admitted key p (filter matching vals)))"
    unfolding admitted_def using assms(2) by (rule distinct_map_filter)
  then have "inj_on key (set (admitted key p (filter matching rows)))"
    using perm by (metis distinct_map mset_eq_setD)
  then show ?thesis using perm sort_slice_unique by (metis page_rows_limit)
qed

lemma page_rows_scanned:
  assumes "scanned scan t = map_of m" and "gomap_ok t" and "keyed ident m"
    and "\<And>v. cursor_id (key v) = ident v"
  shows "page_rows key matching p (map scan (gvals t)) =
    limit (sort_slice (desc_by key) (admitted key p (filter matching (gvals m)))) (Page_Limit p)"
proof (rule page_rows_same)
  show "mset (map scan (gvals t)) = mset (gvals m)"
    using assms(1-3) by (intro mset_scanned) (auto simp: keyed_def)
  show "distinct (map key (filter matching (gvals m)))" by (rule distinct_cursors [OF assms(3,4)])
qed

lemma represents_pages:
  assumes R: "represents db r" and wf: "repo_wf r" and S: "Fault S 0 = None"
  shows "pg_ListCustomers S cstatus p db = mem_ListCustomers cstatus p r"
    and "pg_ListCustomerTransactions S i p db = mem_ListCustomerTransactions i p r"
    and "pg_ListAuditEventsPage S i p db = mem_ListAuditEventsPage i p r"
    and "pg_ListAlertsPage S astatus p db = mem_ListAlertsPage astatus p r"
    and "pg_ListCasesPage S kstatus p db = mem_ListCasesPage kstatus p r"
proof -
  note wfD = repo_wfD [OF wf]
  have ok: "gomap_ok (tbl_customers db)" using R by (simp add: represents_def tables_ok_def)
  have t: "keyed Transaction_ID (repo_transactions r)" "keyed Alert_ID (repo_alerts r)"
    using wfD(1) by (simp_all add: transactions_wf_def)
  have self: "scanned (\<lambda>row. row) (tbl_transactions db) = map_of (repo_transactions r)"
    using representsD(6) [OF R] by (simp add: scanned_def option.map_ident fun_eq_iff)
  show "pg_ListCustomers S cstatus p db = mem_ListCustomers cstatus p r"
    using S by (simp add: pg_ListCustomers_def query_def list_methods_sorted admitted_def
        Customer_cursor_def conj_commute
        page_rows_scanned [OF representsD(1) [OF R] ok wfD(3), where key = Customer_cursor])
  show "pg_ListCustomerTransactions S i p db = mem_ListCustomerTransactions i p r"
    using S page_rows_scanned [OF self representsD(7) [OF R] t(1), where key = Transaction_cursor]
    by (simp add: pg_ListCustomerTransactions_def query_def list_methods_sorted admitted_def
        Transaction_cursor_def conj_commute)
  show "pg_ListAuditEventsPage S i p db = mem_ListAuditEventsPage i p r"
    using S representsD(10) [OF R, THEN fun_cong, of i]
    by (simp add: pg_ListAuditEventsPage_def query_def page_rows_limit slice_of_def del: filter_filter)
      (simp add:
        mem_ListAuditEventsPage_def sort_events_def newer_cursor admitted_def Event_cursor_def)
  show "pg_ListAlertsPage S astatus p db = mem_ListAlertsPage astatus p r"
    using S by (simp add: pg_ListAlertsPage_def query_def list_methods_sorted admitted_def
        Alert_cursor_def conj_commute
        page_rows_scanned [OF representsD(2,8) [OF R] t(2), where key = Alert_cursor])
  show "pg_ListCasesPage S kstatus p db = mem_ListCasesPage kstatus p r"
    using S wfD by (simp add: pg_ListCasesPage_def query_def list_methods_sorted admitted_def
        Case_cursor_def conj_commute
        page_rows_scanned [OF representsD(3,9) [OF R] wfD(4), where key = Case_cursor])
qed

end
