(* ===== verification/Delivery.thy ===== *)
theory Delivery
  imports Domain Backoff
begin

text \<open>
  \<^verbatim>\<open>internal/application/delivery.go\<close>: the worker that sends queued notifications. It claims due
  messages of the outbox for two minutes, sends each through the sender, and completes each with
  the outcome: delivered, or pending again after \<open>deliveryBackoff\<close>. The locale
  \<open>delivery_repository\<close> is what the interface \<^verbatim>\<open>DeliveryRepository\<close> promises, also when a call fails;
  its interpretation on the PostgreSQL outbox is in theory \<open>Postgres_Delivery\<close>.
\<close>

section \<open>The service\<close>

record 'r DeliveryRepository =
  do_ClaimOutbox :: "time \<Rightarrow> int \<Rightarrow> string \<Rightarrow> time \<Rightarrow> (OutboxMessage list, 'r) repo_op"
  do_CompleteOutbox :: "string \<Rightarrow> string \<Rightarrow> time \<Rightarrow> time \<Rightarrow> string \<Rightarrow> (unit, 'r) repo_op"
  do_CountPendingOutbox :: "'r \<Rightarrow> int result"

record DeliveryService =
  Delivery_workerID :: string

definition NewDeliveryService :: "string \<Rightarrow> DeliveryService" where
  "NewDeliveryService workerID = \<lparr>Delivery_workerID = workerID\<rparr>"

definition Pending :: "'r DeliveryRepository \<Rightarrow> 'r \<Rightarrow> int result" where
  "Pending repo r = do_CountPendingOutbox repo r"

text \<open>
  The loop over the claimed messages. \<open>sender k m\<close> is what the \<open>k\<close>-th \<^verbatim>\<open>Send\<close> answered, \<open>repo (k + 1)\<close>
  the repository as the \<open>k\<close>-th completion meets it. The result is the number of delivered messages
  and the error, if there is one.
\<close>

fun deliver_items ::
  "(nat \<Rightarrow> 'r DeliveryRepository) \<Rightarrow> (nat \<Rightarrow> OutboxMessage \<Rightarrow> error option) \<Rightarrow> string \<Rightarrow> time \<Rightarrow> nat \<Rightarrow>
   OutboxMessage list \<Rightarrow> int \<Rightarrow> int \<Rightarrow> 'r \<Rightarrow> (int \<times> error option) \<times> 'r" where
  "deliver_items repo sender worker now k [] delivered failed r =
     ((delivered, if 0 < failed then Some (OtherError (show_int failed @ '' notification deliveries failed''))
                  else None), r)"
| "deliver_items repo sender worker now k (item # rest) delivered failed r =
     (let sendErr = sender k item;
          lastError = (case sendErr of None \<Rightarrow> [] | Some err \<Rightarrow> error_text err);
          later = (case sendErr of None \<Rightarrow> now
                   | Some _ \<Rightarrow> now + deliveryBackoff (Outbox_Attempts item + 1));
          failed = (case sendErr of None \<Rightarrow> failed | Some _ \<Rightarrow> failed + 1);
          delivered = (case sendErr of None \<Rightarrow> delivered + 1 | Some _ \<Rightarrow> delivered)
      in case do_CompleteOutbox (repo (k + 1)) (Outbox_ID item) worker now later lastError r of
           (Inl err, r') \<Rightarrow> ((delivered, Some err), r')
         | (Inr _, r') \<Rightarrow> deliver_items repo sender worker now (k + 1) rest delivered failed r')"

text \<open>\<^verbatim>\<open>RunDue\<close> of the delivery service.\<close>

definition RunDueDeliveries ::
  "(nat \<Rightarrow> 'r DeliveryRepository) \<Rightarrow> (nat \<Rightarrow> OutboxMessage \<Rightarrow> error option) \<Rightarrow> DeliveryService \<Rightarrow> time \<Rightarrow> int \<Rightarrow>
   'r \<Rightarrow> (int \<times> error option) \<times> 'r" where
  "RunDueDeliveries repo sender svc now limit r =
     (case do_ClaimOutbox (repo 0) now limit (Delivery_workerID svc) (now + 2 * Minute) r of
        (Inl err, r') \<Rightarrow> ((0, Some err), r')
      | (Inr items, r') \<Rightarrow> deliver_items repo sender (Delivery_workerID svc) now 0 items 0 0 r')"

section \<open>The contract of the outbox\<close>

definition message_due :: "time \<Rightarrow> OutboxMessage \<Rightarrow> bool" where
  "message_due now m \<longleftrightarrow> Outbox_Status m = ''pending'' \<and> Outbox_NextAttemptAt m \<le> now \<and>
     (case Outbox_LeaseUntil m of None \<Rightarrow> True | Some u \<Rightarrow> u \<le> now)"

definition leased_message :: "string \<Rightarrow> time \<Rightarrow> OutboxMessage \<Rightarrow> OutboxMessage" where
  "leased_message owner leaseUntil m =
     m\<lparr>Outbox_LeaseOwner := owner, Outbox_LeaseUntil := Some leaseUntil\<rparr>"

definition attempted :: "time \<Rightarrow> time \<Rightarrow> string \<Rightarrow> OutboxMessage \<Rightarrow> OutboxMessage" where
  "attempted at later lastError m =
     m\<lparr>Outbox_Status := (if lastError = [] then ''delivered'' else ''pending''),
       Outbox_Attempts := Outbox_Attempts m + 1, Outbox_NextAttemptAt := later,
       Outbox_LastError := lastError, Outbox_LeaseOwner := [], Outbox_LeaseUntil := None,
       Outbox_DeliveredAt := (if lastError = [] then Some at else None)\<rparr>"

lemma leased_message_simps [simp]:
  "Outbox_ID (leased_message owner u m) = Outbox_ID m"
  "Outbox_LeaseOwner (leased_message owner u m) = owner"
  "Outbox_LeaseUntil (leased_message owner u m) = Some u"
  "Outbox_Attempts (leased_message owner u m) = Outbox_Attempts m"
  "Outbox_Status (leased_message owner u m) = Outbox_Status m"
  by (simp_all add: leased_message_def)

lemma attempted_simps [simp]:
  "Outbox_ID (attempted at later e m) = Outbox_ID m"
  "Outbox_Status (attempted at later e m) = (if e = [] then ''delivered'' else ''pending'')"
  "Outbox_Attempts (attempted at later e m) = Outbox_Attempts m + 1"
  "Outbox_NextAttemptAt (attempted at later e m) = later"
  "Outbox_LeaseUntil (attempted at later e m) = None"
  by (simp_all add: attempted_def)

text \<open>What the \<open>k\<close>-th send of a run makes of its message.\<close>

definition outcome ::
  "(nat \<Rightarrow> OutboxMessage \<Rightarrow> error option) \<Rightarrow> time \<Rightarrow> nat \<Rightarrow> OutboxMessage \<Rightarrow> OutboxMessage" where
  "outcome sender now k m =
     (case sender k m of
        None \<Rightarrow> attempted now now [] m
      | Some err \<Rightarrow> attempted now (now + deliveryBackoff (Outbox_Attempts m + 1)) (error_text err) m)"

locale delivery_repository =
  fixes repo :: "nat \<Rightarrow> 'r DeliveryRepository" and wf :: "'r \<Rightarrow> bool"
    and message :: "'r \<Rightarrow> string \<Rightarrow> OutboxMessage option" and reliable :: "nat \<Rightarrow> bool"
  assumes claim_effect: "do_ClaimOutbox (repo j) now n owner until r = (x, r') \<Longrightarrow> wf r \<Longrightarrow>
      wf r' \<and> (\<forall>k. message r' k = message r k \<or>
        (\<exists>m. message r k = Some m \<and> message_due now m \<and> message r' k = Some (leased_message owner until m)))"
    and claim_ok: "do_ClaimOutbox (repo j) now n owner until r = (Inr ms, r') \<Longrightarrow> wf r \<Longrightarrow>
      length ms \<le> nat n \<and> distinct (map Outbox_ID ms) \<and>
      (\<forall>m \<in> set ms. message r' (Outbox_ID m) = Some m \<and> (\<exists>m0. message r (Outbox_ID m) = Some m0 \<and>
         message_due now m0 \<and> m = leased_message owner until m0)) \<and>
      (\<forall>k. k \<notin> Outbox_ID ` set ms \<longrightarrow> message r' k = message r k)"
    and complete_effect: "do_CompleteOutbox (repo j) k owner at later err r = (y, r') \<Longrightarrow> wf r \<Longrightarrow>
      wf r' \<and> (message r' = message r \<or> (\<exists>m. message r k = Some m \<and> Outbox_LeaseOwner m = owner \<and>
        message r' = (message r)(k \<mapsto> attempted at later err m)))"
    and complete_held: "wf r \<Longrightarrow> message r k = Some m \<Longrightarrow> Outbox_LeaseOwner m = owner \<Longrightarrow> owner \<noteq> [] \<Longrightarrow>
      reliable j \<Longrightarrow> \<exists>r'. do_CompleteOutbox (repo j) k owner at later err r = (Inr (), r') \<and>
        message r' = (message r)(k \<mapsto> attempted at later err m)"
begin

text \<open>The loop, whatever fails: a message keeps its value or gets the outcome of its own send.\<close>

lemma deliver_items_safe:
  assumes "deliver_items repo sender owner now k ms d f r = (x, r')" and "wf r"
    and "distinct (map Outbox_ID ms)" and "\<And>m. m \<in> set ms \<Longrightarrow> message r (Outbox_ID m) = Some m"
  shows "wf r' \<and> (\<forall>i. message r' i = message r i \<or>
    (\<exists>j m. (j, m) \<in> set (enumerate k ms) \<and> Outbox_ID m = i \<and> message r' i = Some (outcome sender now j m)))"
  using assms
proof (induction ms arbitrary: k d f r)
  case Nil
  then show ?case by auto
next
  case (Cons m ms)
  let ?later = "case sender k m of None \<Rightarrow> now | Some _ \<Rightarrow> now + deliveryBackoff (Outbox_Attempts m + 1)"
  let ?err = "case sender k m of None \<Rightarrow> [] | Some err \<Rightarrow> error_text err"
  obtain y r1 where run: "do_CompleteOutbox (repo (k + 1)) (Outbox_ID m) owner now ?later ?err r = (y, r1)"
    by fastforce
  have out: "attempted now ?later ?err m = outcome sender now k m"
    by (simp add: outcome_def split: option.split)
  have wf1: "wf r1" and one: "message r1 = message r \<or>
      message r1 = (message r)(Outbox_ID m \<mapsto> outcome sender now k m)"
    using complete_effect [OF run Cons.prems(2)] Cons.prems(4) [of m] by (auto simp: out)
  show ?case
  proof (cases y)
    case (Inl err)
    then have "r' = r1" using Cons.prems(1) run by (simp add: Let_def)
    moreover have "(k, m) \<in> set (enumerate k (m # ms))" by simp
    ultimately show ?thesis using wf1 one by (metis fun_upd_apply)
  next
    case (Inr u)
    then obtain d' f' where rest: "deliver_items repo sender owner now (k + 1) ms d' f' r1 = (x, r')"
      using Cons.prems(1) run by (simp add: Let_def)
    have stays: "message r1 (Outbox_ID m') = Some m'" if "m' \<in> set ms" for m'
      using Cons.prems(3,4) one that by (auto simp: image_iff)
    have "wf r' \<and> (\<forall>i. message r' i = message r1 i \<or> (\<exists>j m. (j, m) \<in> set (enumerate (k + 1) ms) \<and>
        Outbox_ID m = i \<and> message r' i = Some (outcome sender now j m)))"
      by (rule Cons.IH [OF rest wf1 _ stays]) (use Cons.prems(3) in simp)
    moreover have "(k, m) \<in> set (enumerate k (m # ms))"
      and "set (enumerate (k + 1) ms) \<subseteq> set (enumerate k (m # ms))" by auto
    ultimately show ?thesis using one by (metis fun_upd_apply subsetD)
  qed
qed

text \<open>Without failures every message gets its outcome and the count is the number of successes.\<close>

lemma deliver_items_reliable:
  assumes "wf r" and "owner \<noteq> []" and "\<And>j. reliable j" and "distinct (map Outbox_ID ms)"
    and "\<And>m. m \<in> set ms \<Longrightarrow> message r (Outbox_ID m) = Some m \<and> Outbox_LeaseOwner m = owner"
  obtains r' where "deliver_items repo sender owner now k ms d f r =
      ((d + int (length (filter (\<lambda>(j, m). sender j m = None) (enumerate k ms))),
        let n = f + int (length (filter (\<lambda>(j, m). sender j m \<noteq> None) (enumerate k ms)))
        in if 0 < n then Some (OtherError (show_int n @ '' notification deliveries failed'')) else None), r')"
    and "wf r'"
    and "\<And>j m. (j, m) \<in> set (enumerate k ms) \<Longrightarrow> message r' (Outbox_ID m) = Some (outcome sender now j m)"
    and "\<And>i. i \<notin> Outbox_ID ` set ms \<Longrightarrow> message r' i = message r i"
  using assms(1,4,5)
proof (induction ms arbitrary: k d f r thesis)
  case Nil
  show ?case by (rule Nil.prems(1) [OF _ Nil.prems(2)]) simp_all
next
  case (Cons m ms)
  let ?later = "case sender k m of None \<Rightarrow> now | Some _ \<Rightarrow> now + deliveryBackoff (Outbox_Attempts m + 1)"
  let ?err = "case sender k m of None \<Rightarrow> [] | Some err \<Rightarrow> error_text err"
  have held: "message r (Outbox_ID m) = Some m" "Outbox_LeaseOwner m = owner" using Cons.prems(4) by auto
  obtain r1 where run: "do_CompleteOutbox (repo (k + 1)) (Outbox_ID m) owner now ?later ?err r = (Inr (), r1)"
    and "message r1 = (message r)(Outbox_ID m \<mapsto> attempted now ?later ?err m)"
    using complete_held [OF Cons.prems(2) held assms(2,3)] by blast
  then have m1: "message r1 = (message r)(Outbox_ID m \<mapsto> outcome sender now k m)"
    by (simp add: outcome_def split: option.split)
  have wf1: "wf r1" using complete_effect [OF run Cons.prems(2)] by simp
  have stays: "message r1 (Outbox_ID m') = Some m' \<and> Outbox_LeaseOwner m' = owner" if "m' \<in> set ms" for m'
    using Cons.prems(3,4) that by (auto simp: m1 image_iff)
  let ?f = "case sender k m of None \<Rightarrow> f | Some _ \<Rightarrow> f + 1"
  let ?d = "case sender k m of None \<Rightarrow> d + 1 | Some _ \<Rightarrow> d"
  obtain r' where rest: "deliver_items repo sender owner now (k + 1) ms ?d ?f r1 =
      ((?d + int (length (filter (\<lambda>(j, m). sender j m = None) (enumerate (k + 1) ms))),
        let n = ?f + int (length (filter (\<lambda>(j, m). sender j m \<noteq> None) (enumerate (k + 1) ms)))
        in if 0 < n then Some (OtherError (show_int n @ '' notification deliveries failed'')) else None), r')"
    and fin: "wf r'"
      "\<And>j m. (j, m) \<in> set (enumerate (k + 1) ms) \<Longrightarrow> message r' (Outbox_ID m) = Some (outcome sender now j m)"
      "\<And>i. i \<notin> Outbox_ID ` set ms \<Longrightarrow> message r' i = message r1 i"
    by (rule Cons.IH [OF _ wf1 _ stays, of "k + 1" ?d ?f]) (use Cons.prems(3) in auto)
  have new: "Outbox_ID m \<notin> Outbox_ID ` set ms" using Cons.prems(3) by auto
  show ?case
  proof (rule Cons.prems(1) [OF _ fin(1)])
    show "deliver_items repo sender owner now k (m # ms) d f r =
      ((d + int (length (filter (\<lambda>(j, m). sender j m = None) (enumerate k (m # ms)))),
        let n = f + int (length (filter (\<lambda>(j, m). sender j m \<noteq> None) (enumerate k (m # ms))))
        in if 0 < n then Some (OtherError (show_int n @ '' notification deliveries failed'')) else None), r')"
      using run rest by (cases "sender k m") (simp_all add: Let_def add_ac)
  next
    show "message r' (Outbox_ID m') = Some (outcome sender now j m')"
      if "(j, m') \<in> set (enumerate k (m # ms))" for j m'
      using that fin(2,3) new m1 by auto
  next
    show "message r' i = message r i" if "i \<notin> Outbox_ID ` set (m # ms)" for i
      using that fin(3) m1 by auto
  qed
qed

text \<open>
  One run, whatever fails: a message is left alone, or was due and is leased, or was due and has the
  outcome of a send of this run.
\<close>

lemma run_safe:
  assumes "RunDueDeliveries repo sender svc now limit r = (x, r')" and "wf r"
  shows "wf r' \<and> (\<forall>i. message r' i = message r i \<or> (\<exists>m. message r i = Some m \<and> message_due now m \<and>
    (message r' i = Some (leased_message (Delivery_workerID svc) (now + 2 * Minute) m) \<or>
     (\<exists>j. message r' i = Some (outcome sender now j
        (leased_message (Delivery_workerID svc) (now + 2 * Minute) m))))))"
proof -
  let ?w = "Delivery_workerID svc" and ?u = "now + 2 * Minute"
  obtain y r1 where claim: "do_ClaimOutbox (repo 0) now limit ?w ?u r = (y, r1)" by fastforce
  note effect = claim_effect [OF claim assms(2)]
  show ?thesis
  proof (cases y)
    case (Inl err)
    then have "r' = r1" using assms(1) claim by (simp add: RunDueDeliveries_def)
    then show ?thesis using effect by metis
  next
    case (Inr ms)
    note ok = claim_ok [OF claim [unfolded Inr] assms(2)]
    have run: "deliver_items repo sender ?w now 0 ms 0 0 r1 = (x, r')"
      using assms(1) claim Inr by (simp add: RunDueDeliveries_def)
    have safe: "wf r'" "\<And>i. message r' i = message r1 i \<or> (\<exists>j m. (j, m) \<in> set (enumerate 0 ms) \<and>
        Outbox_ID m = i \<and> message r' i = Some (outcome sender now j m))"
      using deliver_items_safe [OF run] effect ok by blast+
    have "\<exists>m0. message r i = Some m0 \<and> message_due now m0 \<and> m = leased_message ?w ?u m0"
      if "(j, m) \<in> set (enumerate 0 ms)" and "Outbox_ID m = i" for j m i
      using ok that by (metis enumerate_eq_zip in_set_zipE)
    then show ?thesis using safe effect by metis
  qed
qed

text \<open>One run without failures.\<close>

lemma run_reliable:
  assumes "wf r" and "Delivery_workerID svc \<noteq> []" and "\<And>j. reliable j"
    and claim: "do_ClaimOutbox (repo 0) now limit (Delivery_workerID svc) (now + 2 * Minute) r = (Inr ms, r1)"
  obtains r' where "RunDueDeliveries repo sender svc now limit r =
      ((int (length (filter (\<lambda>(j, m). sender j m = None) (enumerate 0 ms))),
        let n = int (length (filter (\<lambda>(j, m). sender j m \<noteq> None) (enumerate 0 ms)))
        in if 0 < n then Some (OtherError (show_int n @ '' notification deliveries failed'')) else None), r')"
    and "wf r'"
    and "\<And>j m. (j, m) \<in> set (enumerate 0 ms) \<Longrightarrow> message r' (Outbox_ID m) = Some (outcome sender now j m)"
    and "\<And>i. i \<notin> Outbox_ID ` set ms \<Longrightarrow> message r' i = message r i"
proof -
  note ok = claim_ok [OF claim assms(1)]
  have wf1: "wf r1" using claim_effect [OF claim assms(1)] by simp
  have dist: "distinct (map Outbox_ID ms)"
    and unchanged: "\<And>i. i \<notin> Outbox_ID ` set ms \<Longrightarrow> message r1 i = message r i" using ok by blast+
  have held: "message r1 (Outbox_ID m) = Some m \<and> Outbox_LeaseOwner m = Delivery_workerID svc"
    if "m \<in> set ms" for m using ok that by force
  have run: "RunDueDeliveries repo sender svc now limit r =
      deliver_items repo sender (Delivery_workerID svc) now 0 ms 0 0 r1"
    by (simp add: RunDueDeliveries_def claim)
  show thesis
  proof (rule deliver_items_reliable [where sender = sender and now = now and k = 0 and d = 0 and f = 0,
        OF wf1 assms(2,3) dist held])
    fix r'
    assume "deliver_items repo sender (Delivery_workerID svc) now 0 ms 0 0 r1 =
        ((0 + int (length (filter (\<lambda>(j, m). sender j m = None) (enumerate 0 ms))),
          let n = 0 + int (length (filter (\<lambda>(j, m). sender j m \<noteq> None) (enumerate 0 ms)))
          in if 0 < n then Some (OtherError (show_int n @ '' notification deliveries failed'')) else None), r')"
      and "wf r'"
      and "\<And>j m. (j, m) \<in> set (enumerate 0 ms) \<Longrightarrow> message r' (Outbox_ID m) = Some (outcome sender now j m)"
      and "\<And>i. i \<notin> Outbox_ID ` set ms \<Longrightarrow> message r' i = message r1 i"
    then show thesis using that [of r'] run unchanged by simp
  qed
qed

text \<open>
  Leases exclude: of two claims, the second within the lease of the first, no message is handed out
  twice.
\<close>

lemma leases_disjoint:
  assumes "wf r" and "do_ClaimOutbox (repo j) now n owner until r = (Inr ms, r1)"
    and "do_ClaimOutbox (repo j') now' n' owner' until' r1 = (Inr ms', r2)" and "now' < until"
  shows "Outbox_ID ` set ms \<inter> Outbox_ID ` set ms' = {}"
proof -
  note one = claim_ok [OF assms(2,1)] and two = claim_ok [OF assms(3)]
  have "wf r1" using claim_effect [OF assms(2,1)] by simp
  show ?thesis
  proof (rule ccontr)
    assume "Outbox_ID ` set ms \<inter> Outbox_ID ` set ms' \<noteq> {}"
    then obtain m m' where "m \<in> set ms" "m' \<in> set ms'" "Outbox_ID m = Outbox_ID m'" by auto
    then obtain m0 where "message r1 (Outbox_ID m) = Some m" and "Outbox_LeaseUntil m = Some until"
      and "message r1 (Outbox_ID m) = Some m0" and "message_due now' m0"
      using one two [OF \<open>wf r1\<close>] by fastforce
    then show False using assms(4) by (simp add: message_due_def)
  qed
qed

end

end
