(* ===== verification/Leases.thy ===== *)
theory Leases
  imports Postgres_Queues
begin

text \<open>
  What the claims of theory \<open>Postgres_Queues\<close> select and change: at most the asked number of due,
  unlocked rows, the earliest ones, each leased; every other row keeps its value. Both the delivery
  outbox and the screening schedules use these facts.
\<close>

section \<open>The selected keys\<close>

text \<open>The rows a claim may take.\<close>

definition claimable :: "(string \<Rightarrow> bool) \<Rightarrow> ('v \<Rightarrow> bool) \<Rightarrow> 'v gomap \<Rightarrow> string \<Rightarrow> 'v \<Rightarrow> bool" where
  "claimable locked due m k v \<longleftrightarrow> map_of m k = Some v \<and> due v \<and> \<not> locked k"

lemma sorted_take_drop:
  assumes "sorted_wrt P xs" and "x \<in> set (take n xs)" and "y \<in> set (drop n xs)"
  shows "P x y"
proof -
  have "sorted_wrt P (take n xs @ drop n xs)" using assms(1) by simp
  then show ?thesis using assms(2,3) by (simp only: sorted_wrt_append)
qed

lemma sorted_ascending:
  fixes at :: "'a \<Rightarrow> time"
  shows "sorted_wrt (\<lambda>a b. at a \<le> at b) (sort_slice (\<lambda>a b. at a < at b) xs)"
  using sorted_sort_slice [of "\<lambda>x. - at x" xs] by simp

definition due_queue ::
  "(string \<Rightarrow> bool) \<Rightarrow> ('v \<Rightarrow> bool) \<Rightarrow> ('v \<Rightarrow> time) \<Rightarrow> 'v gomap \<Rightarrow> (string \<times> 'v) list" where
  "due_queue locked due at m =
     sort_slice (\<lambda>a b. at (snd a) < at (snd b)) (filter (\<lambda>(k, v). due v \<and> \<not> locked k) m)"

lemma due_keys_queue: "due_keys locked due at n m = take (nat n) (map fst (due_queue locked due at m))"
  by (simp add: due_keys_def due_queue_def)

lemma in_due_queue:
  "gomap_ok m \<Longrightarrow> (k, v) \<in> set (due_queue locked due at m) \<longleftrightarrow> claimable locked due m k v"
  by (auto simp: due_queue_def claimable_def gomap_ok_def map_of_eq_Some_iff)

lemma distinct_due_queue: "gomap_ok m \<Longrightarrow> distinct (map fst (due_queue locked due at m))"
  by (simp add: due_queue_def gomap_ok_def distinct_map_filter)

lemma length_due_keys: "length (due_keys locked due at n m) \<le> nat n"
  by (simp add: due_keys_queue)

lemma distinct_due_keys: "gomap_ok m \<Longrightarrow> distinct (due_keys locked due at n m)"
  by (simp add: due_keys_queue distinct_due_queue)

lemma due_keysD:
  assumes "gomap_ok m" and "k \<in> set (due_keys locked due at n m)"
  obtains v where "claimable locked due m k v"
proof -
  have "k \<in> fst ` set (due_queue locked due at m)"
    using assms(2) set_take_subset [of "nat n" "map fst (due_queue locked due at m)"]
    unfolding due_keys_queue by auto
  then show ?thesis using that in_due_queue [OF assms(1)] by force
qed

text \<open>A row that is left out waits behind a full batch of rows that were due no later.\<close>

lemma due_keys_left_out:
  assumes ok: "gomap_ok m" and c: "claimable locked due m k v" and out: "k \<notin> set (due_keys locked due at n m)"
  shows "length (due_keys locked due at n m) = nat n"
    and "k' \<in> set (due_keys locked due at n m) \<Longrightarrow> map_of m k' = Some v' \<Longrightarrow> at v' \<le> at v"
proof -
  let ?q = "due_queue locked due at m"
  have "(k, v) \<in> set ?q" using c in_due_queue [OF ok] by blast
  moreover have notin: "(k, v) \<notin> set (take (nat n) ?q)"
    using out by (force simp: due_keys_queue take_map)
  ultimately have late: "(k, v) \<in> set (drop (nat n) ?q)"
    by (metis append_take_drop_id in_set_conv_decomp set_append Un_iff)
  then have "nat n < length ?q" by (metis drop_all empty_iff empty_set linorder_not_le)
  then show "length (due_keys locked due at n m) = nat n" by (simp add: due_keys_queue)
  assume k': "k' \<in> set (due_keys locked due at n m)" "map_of m k' = Some v'"
  then obtain w where w: "(k', w) \<in> set (take (nat n) ?q)" by (auto simp: due_keys_queue take_map)
  then have "claimable locked due m k' w" using in_due_queue [OF ok] by (meson in_set_takeD)
  then have "w = v'" using k'(2) by (simp add: claimable_def)
  moreover have "sorted_wrt (\<lambda>a b. at (snd a) \<le> at (snd b)) ?q"
    unfolding due_queue_def by (rule sorted_ascending)
  ultimately show "at v' \<le> at v" using sorted_take_drop [OF _ w late] by fastforce
qed

section \<open>The changed rows\<close>

lemma claim_rows_lookup:
  "map_of (snd (claim_rows keys g m)) k = map_option (\<lambda>v. if k \<in> set keys then g v else v) (map_of m k)"
  by (induction m) (auto simp: claim_rows_def)

lemma claim_rows_ok: "gomap_ok m \<Longrightarrow> gomap_ok (snd (claim_rows keys g m))"
proof -
  have "map fst (snd (claim_rows keys g m)) = map fst m"
    by (auto simp: claim_rows_def case_prod_beta)
  then show "gomap_ok m \<Longrightarrow> gomap_ok (snd (claim_rows keys g m))"
    unfolding gomap_ok_def by simp
qed

lemma claim_rows_result:
  assumes "gomap_ok m" and "keys = due_keys locked due at n m" and "x \<in> set (fst (claim_rows keys g m))"
  obtains k v where "k \<in> set keys" and "claimable locked due m k v" and "x = g v"
    and "map_of (snd (claim_rows keys g m)) k = Some (g v)"
proof -
  obtain k where k: "k \<in> set keys" and x: "x = g (the (map_of m k))"
    using assms(3) by (auto simp: claim_rows_def)
  obtain v where v: "claimable locked due m k v" using due_keysD [OF assms(1)] k assms(2) by metis
  then have "x = g v" and "map_of (snd (claim_rows keys g m)) k = Some (g v)"
    using k x by (simp_all add: claimable_def claim_rows_lookup)
  with k v that show ?thesis by blast
qed

end
