(* ===== verification/Postgres_Delivery.thy ===== *)
theory Postgres_Delivery
  imports Delivery Leases
begin

text \<open>
  The PostgreSQL outbox keeps the contract of the delivery worker: \<^verbatim>\<open>ClaimOutbox\<close>,
  \<^verbatim>\<open>CompleteOutbox\<close> and \<^verbatim>\<open>CountPendingOutbox\<close> of
  \<^verbatim>\<open>internal/infrastructure/postgres/repository.go\<close>, whatever fails. From the interpretation
  follow the properties of a run of the worker.
\<close>

definition pg_outbox :: "Database \<Rightarrow> string \<Rightarrow> OutboxMessage option" where
  "pg_outbox db k = map_option scanOutbox (map_of (tbl_notification_outbox db) k)"

lemma pg_outbox_row: "map_of (tbl_notification_outbox db) k = Some row \<Longrightarrow> pg_outbox db k = Some (scanOutbox row)"
  by (simp add: pg_outbox_def)

lemma pg_outbox_SomeE:
  assumes "pg_outbox db k = Some m"
  obtains row where "map_of (tbl_notification_outbox db) k = Some row" and "m = scanOutbox row"
  using assms by (auto simp: pg_outbox_def)

lemma pg_outbox_gput:
  "pg_outbox (db\<lparr>tbl_notification_outbox := gput k row (tbl_notification_outbox db)\<rparr>) =
     (pg_outbox db)(k \<mapsto> scanOutbox row)"
  by (auto simp: pg_outbox_def)

definition outbox_wf :: "Database \<Rightarrow> bool" where
  "outbox_wf db \<longleftrightarrow> keyed (\<lambda>row. Outbox_ID (outbox_columns row)) (tbl_notification_outbox db)"

text \<open>Call \<open>j\<close> of a run has the session \<open>Ss j\<close>.\<close>

definition pg_delivery :: "(nat \<Rightarrow> session) \<Rightarrow> nat \<Rightarrow> Database DeliveryRepository" where
  "pg_delivery Ss j =
     \<lparr>do_ClaimOutbox = pg_ClaimOutbox (Ss j), do_CompleteOutbox = pg_CompleteOutbox (Ss j),
      do_CountPendingOutbox = pg_CountPendingOutbox (Ss j)\<rparr>"

lemma pg_delivery_sel [simp]:
  "do_ClaimOutbox (pg_delivery Ss j) = pg_ClaimOutbox (Ss j)"
  "do_CompleteOutbox (pg_delivery Ss j) = pg_CompleteOutbox (Ss j)"
  by (simp_all add: pg_delivery_def)

text \<open>Rows and the messages they scan to.\<close>

lemma scanOutbox_simps [simp]:
  "Outbox_ID (scanOutbox row) = Outbox_ID (outbox_columns row)"
  "message_due now (scanOutbox row) \<longleftrightarrow> outbox_due now row"
  "scanOutbox (outbox_lease owner until row) = leased_message owner until (scanOutbox row)"
  "scanOutbox (outbox_completed at later e row) = attempted at later e (scanOutbox row)"
  by (auto simp: scanOutbox_def message_due_def outbox_due_def outbox_lease_def outbox_completed_def
      leased_message_def attempted_def)

lemma outbox_keep_id [simp]:
  "Outbox_ID (outbox_columns (outbox_lease owner until row)) = Outbox_ID (outbox_columns row)"
  "Outbox_ID (outbox_columns (outbox_completed at later e row)) = Outbox_ID (outbox_columns row)"
  by (simp_all add: outbox_lease_def outbox_completed_def)

text \<open>The keys a claim leases, and its effect on the table.\<close>

definition outbox_keys :: "session \<Rightarrow> time \<Rightarrow> int \<Rightarrow> Database \<Rightarrow> string list" where
  "outbox_keys S now n db = due_keys (Locked S) (outbox_due now)
     (\<lambda>row. Outbox_NextAttemptAt (outbox_columns row)) n (tbl_notification_outbox db)"

definition outbox_claimed :: "session \<Rightarrow> time \<Rightarrow> int \<Rightarrow> string \<Rightarrow> time \<Rightarrow> Database \<Rightarrow> Database" where
  "outbox_claimed S now n owner until db = db\<lparr>tbl_notification_outbox :=
     snd (claim_rows (outbox_keys S now n db) (outbox_lease owner until) (tbl_notification_outbox db))\<rparr>"

lemma pg_ClaimOutbox_cases:
  assumes "pg_ClaimOutbox S now n owner until db = (x, db')"
  obtains (claimed) ms where "x = Inr ms" and "db' = outbox_claimed S now n owner until db"
      and "ms = map scanOutbox (fst (claim_rows (outbox_keys S now n db) (outbox_lease owner until)
             (tbl_notification_outbox db)))"
    | (lost) err where "x = Inl err" and "db' = outbox_claimed S now n owner until db"
    | (failed) err where "x = Inl err" and "db' = db"
proof -
  define db1 where "db1 = outbox_claimed S now n owner until db"
  define ms where "ms = map scanOutbox (fst (claim_rows (outbox_keys S now n db) (outbox_lease owner until)
    (tbl_notification_outbox db)))"
  have "pg_ClaimOutbox S now n owner until db = (case Fault S 0 of None \<Rightarrow> (Inr ms, db1)
      | Some msg \<Rightarrow> (Inl (OtherError msg), if Ack_lost S then db1 else db))"
    unfolding pg_ClaimOutbox_def autocommit_def db1_def ms_def outbox_claimed_def outbox_keys_def Let_def
    by (cases "Fault S 0") (simp_all add: case_prod_unfold)
  then have "x = Inr ms \<and> db' = db1 \<or> (\<exists>msg. x = Inl (OtherError msg)) \<and> (db' = db1 \<or> db' = db)"
    unfolding assms by (cases "Fault S 0"; cases "Ack_lost S") simp_all
  then show ?thesis using that unfolding db1_def ms_def by blast
qed

lemma outbox_claimed_lookup:
  "pg_outbox (outbox_claimed S now n owner until db) k =
     (if k \<in> set (outbox_keys S now n db) then map_option (leased_message owner until) (pg_outbox db k)
      else pg_outbox db k)"
  by (cases "map_of (tbl_notification_outbox db) k") (simp_all add: outbox_claimed_def claim_rows_lookup pg_outbox_def)

lemma outbox_claimed_wf: "outbox_wf db \<Longrightarrow> outbox_wf (outbox_claimed S now n owner until db)"
  by (auto simp: outbox_wf_def keyed_def outbox_claimed_def claim_rows_ok claim_rows_lookup split: if_splits)

lemma outbox_keys_due:
  assumes "outbox_wf db" and "k \<in> set (outbox_keys S now n db)"
  obtains m where "pg_outbox db k = Some m" and "message_due now m" and "Outbox_ID m = k"
proof -
  have ok: "gomap_ok (tbl_notification_outbox db)" using assms(1) by (simp add: outbox_wf_def keyed_def)
  obtain row where c: "claimable (Locked S) (outbox_due now) (tbl_notification_outbox db) k row"
    using due_keysD [OF ok] assms(2) unfolding outbox_keys_def by metis
  then have "Outbox_ID (outbox_columns row) = k"
    using assms(1) by (auto simp: outbox_wf_def claimable_def dest: keyedD)
  then show ?thesis using that [of "scanOutbox row"] c by (simp add: claimable_def pg_outbox_row)
qed

text \<open>The claimed messages are the leased ones, in the order of the keys.\<close>

lemma outbox_claimed_messages:
  assumes "outbox_wf db"
    and "ms = map scanOutbox (fst (claim_rows (outbox_keys S now n db) (outbox_lease owner until)
      (tbl_notification_outbox db)))"
  shows "map Outbox_ID ms = outbox_keys S now n db"
    and "m \<in> set ms \<Longrightarrow> \<exists>m0. pg_outbox db (Outbox_ID m) = Some m0 \<and> message_due now m0 \<and>
       m = leased_message owner until m0"
proof -
  let ?t = "tbl_notification_outbox db"
  have ms: "ms = map (\<lambda>k. leased_message owner until (scanOutbox (the (map_of ?t k)))) (outbox_keys S now n db)"
    by (simp add: assms(2) claim_rows_def)
  have own: "\<exists>m0. pg_outbox db k = Some m0 \<and> message_due now m0 \<and> Outbox_ID m0 = k \<and>
      scanOutbox (the (map_of ?t k)) = m0" if k: "k \<in> set (outbox_keys S now n db)" for k
  proof (rule outbox_keys_due [OF assms(1) k])
    fix m
    assume m: "pg_outbox db k = Some m" "message_due now m" "Outbox_ID m = k"
    then obtain row where "map_of ?t k = Some row" and "m = scanOutbox row" by (auto elim: pg_outbox_SomeE)
    then show ?thesis using m by simp
  qed
  have "Outbox_ID (leased_message owner until (scanOutbox (the (map_of ?t k)))) = k"
    if "k \<in> set (outbox_keys S now n db)" for k
    using own [OF that] by auto
  then show "map Outbox_ID ms = outbox_keys S now n db"
    unfolding ms map_map by (intro map_idI) simp
  assume "m \<in> set ms"
  then obtain k where "k \<in> set (outbox_keys S now n db)"
    and m: "m = leased_message owner until (scanOutbox (the (map_of ?t k)))"
    by (auto simp: ms)
  with own obtain m0 where "pg_outbox db k = Some m0" "message_due now m0" "Outbox_ID m0 = k"
    "scanOutbox (the (map_of ?t k)) = m0" by blast
  then show "\<exists>m0. pg_outbox db (Outbox_ID m) = Some m0 \<and> message_due now m0 \<and> m = leased_message owner until m0"
    using m by simp
qed

lemma pg_CompleteOutbox_cases:
  assumes "pg_CompleteOutbox S k owner at later err db = (x, db')"
  obtains (kept) "db' = db" and "\<And>row. map_of (tbl_notification_outbox db) k = Some row \<Longrightarrow>
        outbox_lease_owner row = Some owner \<Longrightarrow> Fault S 0 \<noteq> None"
    | (taken) row where "map_of (tbl_notification_outbox db) k = Some row" and "outbox_lease_owner row = Some owner"
      and "db' = db\<lparr>tbl_notification_outbox :=
             gput k (outbox_completed at later err row) (tbl_notification_outbox db)\<rparr>"
      and "Fault S 0 = None \<Longrightarrow> x = Inr ()"
proof (cases "\<exists>row. map_of (tbl_notification_outbox db) k = Some row \<and> outbox_lease_owner row = Some owner")
  case False
  then have "update_row k (\<lambda>row. outbox_lease_owner row = Some owner) (outbox_completed at later err)
      (tbl_notification_outbox db) = (None, tbl_notification_outbox db)"
    by (auto simp: update_row_def split: option.split)
  then have "db' = db"
    using assms by (auto simp: pg_CompleteOutbox_def autocommit_def split: option.splits if_splits)
  then show ?thesis using False kept by blast
next
  case True
  then obtain row where row: "map_of (tbl_notification_outbox db) k = Some row"
    "outbox_lease_owner row = Some owner" by blast
  define db1 where "db1 = db\<lparr>tbl_notification_outbox :=
    gput k (outbox_completed at later err row) (tbl_notification_outbox db)\<rparr>"
  have "pg_CompleteOutbox S k owner at later err db = (case Fault S 0 of None \<Rightarrow> (Inr (), db1)
      | Some msg \<Rightarrow> (Inl (OtherError msg), if Ack_lost S then db1 else db))"
    using row
    by (cases "Fault S 0") (simp_all add: pg_CompleteOutbox_def autocommit_def update_row_def db1_def)
  then have "db' = db1 \<and> (Fault S 0 = None \<longrightarrow> x = Inr ()) \<or> db' = db \<and> Fault S 0 \<noteq> None"
    unfolding assms by (cases "Fault S 0"; cases "Ack_lost S") simp_all
  then show ?thesis
    using kept taken [OF row] unfolding db1_def by blast
qed

interpretation pg_deliveries:
  delivery_repository "pg_delivery Ss" outbox_wf pg_outbox "\<lambda>j. Fault (Ss j) 0 = None"
  for Ss
proof (unfold_locales, goal_cases)
  case (1 j now n owner until r x r')
  let ?r = "outbox_claimed (Ss j) now n owner until r"
  have "pg_outbox ?r k = pg_outbox r k \<or> (\<exists>m. pg_outbox r k = Some m \<and> message_due now m \<and>
      pg_outbox ?r k = Some (leased_message owner until m))" for k
  proof (cases "k \<in> set (outbox_keys (Ss j) now n r)")
    case True
    then obtain m where "pg_outbox r k = Some m" and "message_due now m"
      using outbox_keys_due [OF 1(2)] by metis
    then show ?thesis using True by (simp add: outbox_claimed_lookup)
  qed (simp add: outbox_claimed_lookup)
  then have "outbox_wf ?r \<and> (\<forall>k. pg_outbox ?r k = pg_outbox r k \<or> (\<exists>m. pg_outbox r k = Some m \<and>
      message_due now m \<and> pg_outbox ?r k = Some (leased_message owner until m)))"
    using outbox_claimed_wf [OF 1(2)] by blast
  moreover have "pg_ClaimOutbox (Ss j) now n owner until r = (x, r')" using 1(1) by simp
  then have "r' = ?r \<or> r' = r" by (rule pg_ClaimOutbox_cases) auto
  ultimately show ?case using 1(2) by auto
next
  case (2 j now n owner until r ms r')
  then have r': "r' = outbox_claimed (Ss j) now n owner until r"
    and ms: "ms = map scanOutbox (fst (claim_rows (outbox_keys (Ss j) now n r) (outbox_lease owner until)
             (tbl_notification_outbox r)))"
    by (auto elim: pg_ClaimOutbox_cases)
  note m = outbox_claimed_messages [OF 2(2) ms]
  have ids: "Outbox_ID ` set ms = set (outbox_keys (Ss j) now n r)" by (metis m(1) set_map)
  have "length ms \<le> nat n" using length_due_keys by (metis length_map m(1) outbox_keys_def)
  moreover have "distinct (map Outbox_ID ms)"
    using 2(2) distinct_due_keys [of "tbl_notification_outbox r"]
    by (simp add: m(1) outbox_keys_def outbox_wf_def keyed_def)
  moreover have "pg_outbox r' (Outbox_ID x) = Some x \<and> (\<exists>m0. pg_outbox r (Outbox_ID x) = Some m0 \<and>
      message_due now m0 \<and> x = leased_message owner until m0)" if x: "x \<in> set ms" for x
  proof -
    obtain m0 where "pg_outbox r (Outbox_ID x) = Some m0" and "message_due now m0"
      and "x = leased_message owner until m0" using m(2) [OF x] by blast
    moreover have "Outbox_ID x \<in> set (outbox_keys (Ss j) now n r)" using ids x by blast
    ultimately show ?thesis unfolding r' outbox_claimed_lookup by simp
  qed
  ultimately show ?case using ids by (simp add: r' outbox_claimed_lookup)
next
  case (3 j k owner at later err r y r')
  then have "pg_CompleteOutbox (Ss j) k owner at later err r = (y, r')" by simp
  then show ?case
  proof (cases rule: pg_CompleteOutbox_cases)
    case kept
    then show ?thesis using 3(2) by simp
  next
    case (taken row)
    have "Outbox_LeaseOwner (scanOutbox row) = owner" using taken(2) by (simp add: scanOutbox_def)
    moreover have "outbox_wf r'"
      using 3(2) taken(1) by (auto simp: outbox_wf_def taken(3) intro!: keyed_gput dest: keyedD)
    ultimately show ?thesis using pg_outbox_row [OF taken(1)] by (simp add: taken(3) pg_outbox_gput)
  qed
next
  case (4 r k m owner j at later err)
  then obtain row where row: "map_of (tbl_notification_outbox r) k = Some row" and m: "m = scanOutbox row"
    by (auto elim: pg_outbox_SomeE)
  have own: "outbox_lease_owner row = Some owner"
    using 4(3,4) by (cases "outbox_lease_owner row") (auto simp: m scanOutbox_def)
  obtain x r' where run: "pg_CompleteOutbox (Ss j) k owner at later err r = (x, r')" by fastforce
  then show ?case
  proof (cases rule: pg_CompleteOutbox_cases)
    case kept
    then show ?thesis using 4(5) row own by blast
  next
    case (taken row')
    then show ?thesis using run row 4(5) by (simp add: m pg_outbox_gput)
  qed
qed

end
