(* ===== verification/Postgres_Properties.thy ===== *)
theory Postgres_Properties
  imports Postgres_Pages Postgres_Delivery Case_Invariants Scenario
begin

text \<open>
  Properties of the system on PostgreSQL: it refines the system on the memory repository, keeps its
  invariants through failures and lost acknowledgements, ingests each transaction once, undoes what
  it does not commit, and delivers queued notifications as the worker's contract says.
\<close>

section \<open>A run with a lost acknowledgement\<close>

text \<open>A session whose \<open>n\<close>-th round trip fails; when that is the commit, only its answer is lost.\<close>

definition losing :: "nat \<Rightarrow> session" where
  "losing n = calm\<lparr>Fault := (\<lambda>k. if k = n then Some ''timeout'' else None), Ack_lost := True\<rparr>"

definition stored1 :: Database where
  "stored1 = snd (Onboard (pg_CreateCustomer calm) (call ''c'' 10) demo_customer empty_database)"
definition stored2 :: Database where
  "stored2 = snd (Review (pg_ReviewCustomer calm) (call ''r'' 20) ''c'' ReviewApprove ''checker'' ''ok'' stored1)"
definition stored3 :: Database where
  "stored3 = snd (Ingest (pg_CreateTransaction (losing 7)) (call ''t'' 30) demo_transaction stored2)"
definition retried :: "IngestTransactionResult result \<times> Database" where
  "retried = Ingest (pg_CreateTransaction calm) (call ''s'' 40) demo_transaction stored3"

definition pg_keys :: "Database \<Rightarrow> string list" where
  "pg_keys db = map fst (tbl_customers db) @ map fst (tbl_transactions db) @ map fst (tbl_alerts db) @
     map fst (tbl_investigation_cases db) @ map fst (tbl_kyc_documents db) @
     map fst (tbl_screening_matches db) @ map fst (tbl_notifications db)"

lemma pg_fresh_call:
  assumes "list_all (\<lambda>k. k \<noteq> [] \<and> hd k \<noteq> c) (pg_keys db)"
  shows "pg_fresh_ids db (call [c] t)"
proof -
  have "inj (\<lambda>n. c # replicate n CHR ''|'')"
    by (rule injI) (metis length_replicate list.inject)
  moreover have "c # replicate n CHR ''|'' \<notin> set (pg_keys db)" for n
    using assms by (force simp: list_all_iff)
  ultimately show ?thesis
    by (auto simp: pg_fresh_ids_def pg_fresh_def call_def pg_keys_def map_of_eq_None_iff)
qed

lemma stored_keys:
  "pg_keys empty_database = []" "pg_keys stored2 = [''c'']" "pg_keys stored3 = [''c'', ''t'', ''t||'']"
  by code_simp+

lemma stored_steps: "pg_step empty_database stored1" "pg_step stored1 stored2" "pg_step stored2 stored3"
proof -
  show "pg_step empty_database stored1" unfolding stored1_def
    by (rule pg_onboard [OF pg_fresh_call prod.collapse [symmetric]]) (simp add: stored_keys)
  show "pg_step stored1 stored2" unfolding stored2_def by (rule pg_review [OF prod.collapse [symmetric]])
  show "pg_step stored2 stored3" unfolding stored3_def
    by (rule pg_ingest [OF pg_fresh_call prod.collapse [symmetric]]) (simp add: stored_keys)
qed

lemma stored_reachable: "pg_reachable stored1" "pg_reachable stored2" "pg_reachable stored3"
  using stored_steps pg_start pg_more by blast+

lemma stored2_customer: "map_option Customer_Status (pg_customer stored2 ''c'') = Some CustomerActive"
  by code_simp

lemma stored3_lost:
  "(case fst (Ingest (pg_CreateTransaction (losing 7)) (call ''t'' 30) demo_transaction stored2) of
      Inl err \<Rightarrow> error_text err | Inr _ \<Rightarrow> []) = ''commit ingest transaction: timeout''"
  "map fst (tbl_transactions stored3) = [''t'']"
  by code_simp+

lemma retried_value:
  "(case fst retried of Inl err \<Rightarrow> None
    | Inr res \<Rightarrow> Some (Transaction_ID (Ingested_Transaction res), Ingested_Replayed res)) = Some (''t'', True)"
  by code_simp

section \<open>Refinement\<close>



text \<open>
  C26. Maker and checker on PostgreSQL: in every reachable database a customer that is no longer
  pending was decided by a named reviewer other than its submitter, and its audit events other than
  side events are one submission and one decision by these two.
\<close>

theorem postgres_maker_checker:
  assumes "pg_reachable db" and "pg_customer db i = Some c"
    and "Customer_Status c \<noteq> CustomerPendingApproval"
  shows "Customer_ReviewedBy c \<noteq> [] \<and> Customer_ReviewedBy c \<noteq> Customer_CreatedBy c \<and>
    (\<exists>sub dec. filter (\<lambda>e. \<not> side_event e) (pg_trail db i) = [sub, dec] \<and>
       Event_Actor sub = Customer_CreatedBy c \<and> Event_Actor dec = Customer_ReviewedBy c \<and>
       Event_EventType dec = decision_event (Customer_Status c))"
proof -
  obtain r where r: "reachable r" and R: "represents db r" using pg_reachable_represents [OF assms(1)] by blast
  have "mem_customer r i = Some c" and "trail r i = pg_trail db i"
    using assms(2) representsD(1,10) [OF R] by metis+
  moreover have "customers_inv r" using reachable_system_inv [OF r] by (simp add: system_inv_def)
  ultimately have "customer_ok (pg_trail db i) c" unfolding customers_inv_def by metis
  then show ?thesis using assms(3) by (auto simp: customer_ok_def)
qed

theorem postgres_maker_checker_witness:
  "\<exists>c. pg_customer stored2 ''c'' = Some c \<and> Customer_ReviewedBy c \<noteq> Customer_CreatedBy c"
proof -
  obtain c where c: "pg_customer stored2 ''c'' = Some c" and "Customer_Status c = CustomerActive"
    using stored2_customer by auto
  then show ?thesis using postgres_maker_checker [OF stored_reachable(2) c] by simp
qed

text \<open>
  C27. The listings do not depend on where the data is kept. In every reachable database each page a
  query returns is the page the memory repository, holding the same data, would return: customers,
  transactions, audit trails, alerts and cases, for every filter, cursor and size.
\<close>

theorem postgres_pages:
  assumes "pg_reachable db" and "Fault S 0 = None"
  shows "\<exists>r. reachable r \<and> represents db r \<and>
    (\<forall>status p. pg_ListCustomers S status p db = mem_ListCustomers status p r) \<and>
    (\<forall>i p. pg_ListCustomerTransactions S i p db = mem_ListCustomerTransactions i p r) \<and>
    (\<forall>i p. pg_ListAuditEventsPage S i p db = mem_ListAuditEventsPage i p r) \<and>
    (\<forall>status p. pg_ListAlertsPage S status p db = mem_ListAlertsPage status p r) \<and>
    (\<forall>status p. pg_ListCasesPage S status p db = mem_ListCasesPage status p r)"
proof -
  obtain r where r: "reachable r" and R: "represents db r"
    using pg_reachable_represents [OF assms(1)] by blast
  from represents_pages [OF R reachable_wf [OF r] assms(2)] r R show ?thesis by blast
qed

theorem postgres_pages_witness:
  "\<exists>r. \<forall>p. pg_ListAlertsPage calm AlertOpen p stored3 = mem_ListAlertsPage AlertOpen p r"
  using postgres_pages [OF stored_reachable(3), of calm] by (auto simp: calm_def)

section \<open>Ingestion through failures\<close>

text \<open>What a successful ingestion over the memory repository leaves under its key.\<close>

lemma Ingest_recorded:
  assumes "reachable r" and "fresh_ids r env" and run: "Ingest mem_CreateTransaction env cmd r = (Inr res, r')"
  shows "mem_recorded r' (TrimSpace (Ingest_IdempotencyKey cmd)) = Some (Ingested_Transaction res)"
proof -
  obtain t e as es t' as' b where req: "Ingest_request env cmd = Inr (t, e, as, es)"
    and create: "mem_CreateTransaction t e as es r = (Inr (t', as', b), r')"
    and res: "Ingested_Transaction res = t'"
    using run by (auto simp: Ingest_def split: sum.splits prod.splits)
  have k: "Transaction_IdempotencyKey t = TrimSpace (Ingest_IdempotencyKey cmd)"
    using req by (rule Ingest_requestE)
  have wf: "transactions_wf r" by (rule repo_wfD(1) [OF reachable_wf [OF assms(1)]])
  show ?thesis
  proof (cases b)
    case True
    obtain i where i: "map_of (repo_idempotency r) (Transaction_IdempotencyKey t) = Some i"
      and "t' = gindex zero_Transaction (repo_transactions r) i" and "r' = r"
      using create True by (auto elim: mem_CreateTransaction_replayE)
    moreover obtain t0 where "map_of (repo_transactions r) i = Some t0" using transactions_wfD(1) [OF wf i] by blast
    ultimately show ?thesis using k res by (simp add: mem_recorded_def)
  next
    case False
    then have "t' = t" and r': "r' = store_transaction t e as es r"
      using create by (auto elim: mem_CreateTransaction_newE)
    have len: "length as = length es" using req by (auto elim: Ingest_requestE)
    have ids: "distinct (map Alert_ID as)" 
      using mem_transactions.new_ids_distinct [OF assms(2) req] by simp
    show ?thesis
      using store_transaction_effects(2,3) [OF len ids r'] k res \<open>t' = t\<close> by (simp add: mem_recorded_def)
  qed
qed

lemma singleton_list: "distinct xs \<Longrightarrow> set xs = {x} \<Longrightarrow> xs = [x]"
  by (cases xs; cases "tl xs") auto

text \<open>A table that represents a keyed map has distinct keys and one row per key.\<close>

lemma one_transaction:
  assumes R: "represents db r" and wf: "transactions_wf r" and "mem_recorded r k = Some t"
  shows "filter (\<lambda>t. Transaction_IdempotencyKey t = k) (gvals (tbl_transactions db)) = [t]"
proof -
  let ?P = "\<lambda>t. Transaction_IdempotencyKey t = k" and ?xs = "gvals (tbl_transactions db)"
  have keyed: "keyed Transaction_ID (tbl_transactions db)"
    using representsD(6,7) [OF R] wf by (simp add: transactions_wf_def keyed_def)
  have same: "x = t" if x: "x \<in> set ?xs" and px: "?P x" for x
  proof -
    obtain i where "map_of (tbl_transactions db) i = Some x"
      by (rule in_gvalsE [OF keyed_okD [OF keyed] x])
    then have "map_of (repo_transactions r) i = Some x" using representsD(6) [OF R] by simp
    then show ?thesis using transactions_wfD(2) [OF wf] px assms(3) by (fastforce simp: mem_recorded_def)
  qed
  obtain i where "map_of (repo_transactions r) i = Some t" and i: "map_of (repo_idempotency r) k = Some i"
    using assms(3) by (rule recorded_SomeE)
  then have t: "map_of (tbl_transactions db) i = Some t" and pt: "?P t"
    using representsD(6) [OF R] transactions_wfD(1) [OF wf i] by auto
  have "t \<in> set ?xs" by (rule in_gvalsI [OF t])
  then have "set (filter ?P ?xs) = {t}" using same pt by force
  moreover have "distinct (filter ?P ?xs)" using distinct_idents [OF keyed] by (simp add: distinct_map)
  ultimately show ?thesis by (rule singleton_list [rotated])
qed

text \<open>
  C30. Exactly once: when an ingestion is answered with success on PostgreSQL, however many attempts
  failed before and whether their commits were lost or not, exactly one stored transaction carries
  the command's idempotency key, and it is the one in the answer.
\<close>

theorem postgres_exactly_once:
  assumes "pg_reachable db" and "pg_fresh_ids db env"
    and "Ingest (pg_CreateTransaction S) env cmd db = (Inr res, db')"
  shows "filter (\<lambda>t. Transaction_IdempotencyKey t = TrimSpace (Ingest_IdempotencyKey cmd))
    (gvals (tbl_transactions db')) = [Ingested_Transaction res]"
proof -
  obtain r where r: "reachable r" and R: "represents db r" using pg_reachable_represents [OF assms(1)] by blast
  note wf = repo_wfD(1) [OF reachable_wf [OF r]] and fresh = represents_fresh [OF R assms(2)]
  obtain t e as es where req: "Ingest_request env cmd = Inr (t, e, as, es)"
    and create: "pg_CreateTransaction S t e as es db =
      (Inr (Ingested_Transaction res, Ingested_Alerts res, Ingested_Replayed res), db')"
    using assms(3) by (auto simp: Ingest_def split: sum.splits prod.splits)
  have "sim same_ingestion represents r (pg_CreateTransaction S t e as es db) (mem_CreateTransaction t e as es r)"
    by (rule pg_CreateTransaction_sim [OF R wf]) (use ingest_request_new [OF req] in auto)
  then obtain as' r' where "mem_CreateTransaction t e as es r =
      (Inr (Ingested_Transaction res, as', Ingested_Replayed res), r')" and R': "represents db' r'"
    unfolding create
    by (cases "mem_CreateTransaction t e as es r"; cases "fst (mem_CreateTransaction t e as es r)")
      (auto simp: sim_def same_ingestion_def)
  then obtain res' where mem: "Ingest mem_CreateTransaction env cmd r = (Inr res', r')"
    and same: "Ingested_Transaction res' = Ingested_Transaction res"
    using req by (simp add: Ingest_def)
  have "reachable r'" by (rule reachable.more [OF r step.ingest [OF fresh mem]])
  then have "transactions_wf r'" by (rule repo_wfD(1) [OF reachable_wf])
  then show ?thesis using one_transaction [OF R'] Ingest_recorded [OF r fresh mem] same by simp
qed

theorem postgres_exactly_once_witness:
  "\<exists>res. retried = (Inr res, snd retried) \<and> Ingested_Replayed res \<and>
     filter (\<lambda>t. Transaction_IdempotencyKey t = ''key'') (gvals (tbl_transactions (snd retried))) =
       [Ingested_Transaction res]"
proof -
  obtain x db' where x: "retried = (x, db')" by fastforce
  then obtain res where "x = Inr res" and "Ingested_Replayed res"
    using retried_value unfolding x by (cases x) auto
  with x have res: "retried = (Inr res, db')" and "Ingested_Replayed res" by simp_all
  moreover have "pg_fresh_ids stored3 (call ''s'' 40)" by (rule pg_fresh_call) (simp add: stored_keys)
  moreover have "TrimSpace (Ingest_IdempotencyKey demo_transaction) = ''key''" by code_simp
  ultimately show ?thesis
    using postgres_exactly_once [OF stored_reachable(3), of "call ''s'' 40" calm demo_transaction res db']
    by (simp add: retried_def)
qed

lemma in_transaction_undone:
  "\<not> Ack_lost S \<Longrightarrow> isl (fst (in_transaction S b w work db)) \<longrightarrow> snd (in_transaction S b w work db) = db"
  using in_transaction_atomic [of S b w work db] by (metis isl_def prod.collapse sum.disc(2))



section \<open>Delivery\<close>

text \<open>
  C32. A message is never marked delivered without a send. Whatever fails during a run of the
  delivery worker, a message that changes was due, and a pending one that comes out delivered was
  handed to the sender, which reported no error, or one without a text.
\<close>

theorem delivered_only_if_sent:
  assumes "outbox_wf db" and "RunDueDeliveries (pg_delivery Ss) sender svc now batch db = (x, db')"
    and "pg_outbox db i = Some m" and "Outbox_Status m = ''pending''"
    and "pg_outbox db' i = Some m'" and "Outbox_Status m' = ''delivered''"
  shows "message_due now m \<and> Outbox_DeliveredAt m' = Some now \<and> Outbox_Payload m' = Outbox_Payload m \<and>
    Outbox_Destination m' = Outbox_Destination m \<and>
    (\<exists>j. case sender j (leased_message (Delivery_workerID svc) (now + 2 * Minute) m) of
        None \<Rightarrow> True | Some err \<Rightarrow> error_text err = [])"
proof -
  have "m' = m \<or> message_due now m \<and>
      (m' = leased_message (Delivery_workerID svc) (now + 2 * Minute) m \<or>
       (\<exists>j. m' = outcome sender now j (leased_message (Delivery_workerID svc) (now + 2 * Minute) m)))"
    using pg_deliveries.run_safe [OF assms(2,1)] assms(3,5) by (metis option.inject)
  then obtain j where "message_due now m"
    and m': "m' = outcome sender now j (leased_message (Delivery_workerID svc) (now + 2 * Minute) m)"
    using assms(4,6) by auto
  then show ?thesis
    using assms(6)
    by (auto simp: outcome_def attempted_def leased_message_def split: option.splits if_splits intro!: exI [of _ j])
qed

text \<open>A queue of two messages, one due and one not yet.\<close>

definition demo_notice :: Notification where
  "demo_notice = \<lparr>Notification_ID = ''n'', Notification_CustomerID = ''c'', Notification_MatchID = ''m'',
     Notification_Type = ''screening_match'', Notification_Title = ''Potential pep match'',
     Notification_Message = ''Ann matched Anne'', Notification_Read = False, Notification_CreatedAt = 50,
     Notification_ReadBy = [], Notification_ReadAt = None\<rparr>"

definition demo_queue :: Database where
  "demo_queue = empty_database\<lparr>tbl_notification_outbox :=
     map (\<lambda>(i, t). (i, \<lparr>outbox_columns = outbox_message i ''email'' ''a@b.c'' demo_notice t,
                        outbox_lease_owner = None\<rparr>)) [(''o1'', 50), (''o2'', 900)]\<rparr>"

definition demo_delivery :: "(int \<times> error option) \<times> Database" where
  "demo_delivery = RunDueDeliveries (pg_delivery (\<lambda>_. calm)) (\<lambda>_ _. None) (NewDeliveryService ''w'') 100 10 demo_queue"

lemma demo_queue_wf: "outbox_wf demo_queue"
  by (simp add: outbox_wf_def keyed_def gomap_ok_def demo_queue_def outbox_message_def)

lemma demo_delivery_values:
  "map_option Outbox_Status (pg_outbox demo_queue ''o1'') = Some ''pending''"
  "map_option Outbox_Status (pg_outbox (snd demo_delivery) ''o1'') = Some ''delivered''"
  "fst demo_delivery = (1, None)"
  by code_simp+

theorem delivered_only_if_sent_witness:
  "\<exists>m. pg_outbox (snd demo_delivery) ''o1'' = Some m \<and> Outbox_DeliveredAt m = Some 100"
proof -
  obtain m m' where m: "pg_outbox demo_queue ''o1'' = Some m" "Outbox_Status m = ''pending''"
    and m': "pg_outbox (snd demo_delivery) ''o1'' = Some m'" "Outbox_Status m' = ''delivered''"
    using demo_delivery_values(1,2) by auto
  have "RunDueDeliveries (pg_delivery (\<lambda>_. calm)) (\<lambda>_ _. None) (NewDeliveryService ''w'') 100 10 demo_queue =
      (fst demo_delivery, snd demo_delivery)" by (simp add: demo_delivery_def)
  from delivered_only_if_sent [OF demo_queue_wf this m m'] m'(1) show ?thesis by blast
qed

text \<open>
  C33. A run of the delivery worker without database failures: it takes at most the asked number of
  messages, all due; each claimed message gets the outcome of its own send (delivered, or pending
  again with one attempt more, the error's text and the backoff delay) and is released; every other
  message is left alone; the count returned is the number of successful sends, and there is an
  error exactly when a send failed.
\<close>

theorem delivery_run:
  assumes "outbox_wf db" and "Delivery_workerID svc \<noteq> []" and "\<And>j. Fault (Ss j) 0 = None"
  shows "\<exists>ms db' err. RunDueDeliveries (pg_delivery Ss) sender svc now batch db =
      ((int (length (filter (\<lambda>(j, m). sender j m = None) (enumerate 0 ms))), err), db') \<and>
    (err = None \<longleftrightarrow> (\<forall>(j, m) \<in> set (enumerate 0 ms). sender j m = None)) \<and>
    length ms \<le> nat batch \<and> distinct (map Outbox_ID ms) \<and>
    (\<forall>(j, m) \<in> set (enumerate 0 ms). pg_outbox db' (Outbox_ID m) = Some (outcome sender now j m) \<and>
       (\<exists>m0. pg_outbox db (Outbox_ID m) = Some m0 \<and> message_due now m0 \<and>
          m = leased_message (Delivery_workerID svc) (now + 2 * Minute) m0)) \<and>
    (\<forall>i. i \<notin> Outbox_ID ` set ms \<longrightarrow> pg_outbox db' i = pg_outbox db i)"
proof -
  let ?w = "Delivery_workerID svc" and ?u = "now + 2 * Minute"
  obtain x db1 where "pg_ClaimOutbox (Ss 0) now batch ?w ?u db = (x, db1)" by fastforce
  moreover have "\<not> isl x"
    using calculation assms(3) [of 0]
    by (auto simp: pg_ClaimOutbox_def autocommit_def Let_def split: prod.splits)
  ultimately obtain ms where claim: "do_ClaimOutbox (pg_delivery Ss 0) now batch ?w ?u db = (Inr ms, db1)"
    by (cases x) auto
  note ok = pg_deliveries.claim_ok [OF claim assms(1)]
  have own: "\<exists>m0. pg_outbox db (Outbox_ID m) = Some m0 \<and> message_due now m0 \<and> m = leased_message ?w ?u m0"
    if "(j, m) \<in> set (enumerate 0 ms)" for j m
    using ok that by (metis enumerate_eq_zip in_set_zipE)
  show ?thesis
  proof (rule pg_deliveries.run_reliable [OF assms(1,2) _ claim, where sender = sender])
    fix db'
    let ?n = "int (length (filter (\<lambda>(j, m). sender j m \<noteq> None) (enumerate 0 ms)))"
    let ?err = "let n = ?n in if 0 < n then Some (OtherError (show_int n @ '' notification deliveries failed'')) else None"
    assume run: "RunDueDeliveries (pg_delivery Ss) sender svc now batch db =
        ((int (length (filter (\<lambda>(j, m). sender j m = None) (enumerate 0 ms))), ?err), db')"
      and out: "\<And>j m. (j, m) \<in> set (enumerate 0 ms) \<Longrightarrow> pg_outbox db' (Outbox_ID m) = Some (outcome sender now j m)"
      and rest: "\<And>i. i \<notin> Outbox_ID ` set ms \<Longrightarrow> pg_outbox db' i = pg_outbox db i"
    have err: "?err = None \<longleftrightarrow> (\<forall>(j, m) \<in> set (enumerate 0 ms). sender j m = None)"
      by (auto simp: Let_def filter_empty_conv case_prod_unfold)
    have each: "\<forall>(j, m) \<in> set (enumerate 0 ms). pg_outbox db' (Outbox_ID m) = Some (outcome sender now j m) \<and>
       (\<exists>m0. pg_outbox db (Outbox_ID m) = Some m0 \<and> message_due now m0 \<and> m = leased_message ?w ?u m0)"
      using out own by blast
    have "length ms \<le> nat batch" and "distinct (map Outbox_ID ms)" using ok by blast+
    then show ?thesis
      by (intro exI [of _ ms] exI [of _ db'] exI [of _ ?err] conjI run err each allI impI rest)
  qed (rule assms(3))
qed

theorem delivery_run_witness:
  "\<exists>ms :: OutboxMessage list. length ms \<le> 10 \<and> (\<forall>i. i \<notin> Outbox_ID ` set ms \<longrightarrow>
     pg_outbox (snd demo_delivery) i = pg_outbox demo_queue i)"
proof -
  have "Delivery_workerID (NewDeliveryService ''w'') \<noteq> []" by (simp add: NewDeliveryService_def)
  moreover have "Fault calm 0 = None" by (simp add: calm_def)
  ultimately obtain ms :: "OutboxMessage list" and db' where
    "snd demo_delivery = db'" and "length ms \<le> 10"
    and "\<forall>i. i \<notin> Outbox_ID ` set ms \<longrightarrow> pg_outbox db' i = pg_outbox demo_queue i"
    using delivery_run [OF demo_queue_wf, of "NewDeliveryService ''w''" "\<lambda>_. calm" "\<lambda>_ _. None" 100 10]
    unfolding demo_delivery_def by (metis nat_numeral snd_conv)
  then show ?thesis by blast
qed

text \<open>
  C34. Leases of the outbox exclude: two claims, the second before the first lease ends, never hand
  the same message to two workers, whatever rows other transactions have locked.
\<close>

theorem outbox_leases_exclude:
  assumes "outbox_wf db" and "pg_ClaimOutbox S now n owner until db = (Inr ms, db1)"
    and "pg_ClaimOutbox S' now' n' owner' until' db1 = (Inr ms', db2)" and "now' < until"
  shows "Outbox_ID ` set ms \<inter> Outbox_ID ` set ms' = {}"
  using pg_deliveries.leases_disjoint [of db "\<lambda>j. if j = 0 then S else S'" 0 now n owner until ms db1
      1 now' n' owner' until' ms' db2] assms by simp

definition demo_claim :: "OutboxMessage list result \<times> Database" where
  "demo_claim = pg_ClaimOutbox calm 100 1 ''w'' 200 demo_queue"

definition demo_reclaim :: "OutboxMessage list result \<times> Database" where
  "demo_reclaim = pg_ClaimOutbox calm 150 5 ''v'' 250 (snd demo_claim)"

theorem outbox_leases_exclude_witness:
  "\<exists>ms ms'. fst demo_claim = Inr ms \<and> fst demo_reclaim = Inr ms' \<and> Outbox_ID ` set ms \<inter> Outbox_ID ` set ms' = {}"
proof -
  have "\<not> isl (fst demo_claim)" and "\<not> isl (fst demo_reclaim)" by code_simp+
  then obtain ms ms' where ms: "fst demo_claim = Inr ms" and ms': "fst demo_reclaim = Inr ms'"
    by (cases "fst demo_claim"; cases "fst demo_reclaim") auto
  have "Outbox_ID ` set ms \<inter> Outbox_ID ` set ms' = {}"
    by (rule outbox_leases_exclude [OF demo_queue_wf, of calm 100 1 "''w''" 200 ms "snd demo_claim"
          calm 150 5 "''v''" 250 ms' "snd demo_reclaim"])
      (use ms ms' in \<open>simp_all add: demo_claim_def demo_reclaim_def prod_eq_iff\<close>)
  with ms ms' show ?thesis by blast
qed

end
