(* ===== verification/Auth.thy ===== *)
theory Auth
  imports Encoding Go_Strings "HOL-Library.Word"
begin

text \<open>
  \<^verbatim>\<open>internal/auth/auth.go\<close>: bearer tokens signed with a shared secret (HS256) or with a key of the
  identity provider's key set (RS256), and the cache of that set. What the code calls of packages
  \<^verbatim>\<open>crypto\<close>, \<^verbatim>\<open>encoding/json\<close> and \<^verbatim>\<open>net/http\<close> is the record \<open>auth_world\<close>: any functions. A call
  reads the clock up to four times: \<open>Clock c 0\<close> and \<open>1\<close> are the readings before the cached keys are
  used and before they are fetched, \<open>2\<close> the one that dates the fetched keys, \<open>3\<close> the one the claims are
  held against.
\<close>

section \<open>Roles, tokens and the authenticator\<close>

type_synonym Role = string
definition RoleAnalyst :: Role where "RoleAnalyst = ''analyst''"
definition RoleReviewer :: Role where "RoleReviewer = ''reviewer''"
definition RoleAdmin :: Role where "RoleAdmin = ''admin''"

lemmas role_defs = RoleAnalyst_def RoleReviewer_def RoleAdmin_def

record Principal =
  Principal_Subject :: string
  Principal_Role :: Role

record claims =
  Claims_Subject :: string
  Claims_Role :: Role
  Claims_Issuer :: string
  Claims_ExpiresAt :: int
  Claims_NotBefore :: int
  Claims_AuthorizedParty :: string
  Claims_RealmRoles :: "Role list"

record header =
  Header_Algorithm :: string
  Header_Type :: string
  Header_KeyID :: string

text \<open>A public key: modulus and exponent.\<close>

record PublicKey =
  Key_N :: nat
  Key_E :: int

record Authenticator =
  auth_secret :: string
  auth_issuer :: string
  auth_jwksURL :: string
  auth_authorizedParties :: "string list"
  auth_keys :: "PublicKey gomap"
  auth_keysExpiresAt :: time

text \<open>An entry of the key set, as the struct in \<^verbatim>\<open>refreshKeys\<close> names its fields.\<close>

record jwk =
  JWK_ID :: string
  JWK_Type :: string
  JWK_Use :: string
  JWK_N :: string
  JWK_E :: string

record auth_world =
  Unmarshal_header :: "string \<Rightarrow> header option"
  Unmarshal_claims :: "string \<Rightarrow> claims option"
  Decode_set :: "string \<Rightarrow> jwk list option"
  HMAC_SHA256 :: "string \<Rightarrow> string \<Rightarrow> string"
  SHA256 :: "string \<Rightarrow> string"
  VerifyPKCS1v15 :: "PublicKey \<Rightarrow> string \<Rightarrow> string \<Rightarrow> bool"

text \<open>One call: the clock, and what a request to a URL answers, a status and a body, or an error.\<close>

record auth_call =
  Clock :: "nat \<Rightarrow> time"
  Fetch :: "string \<Rightarrow> string + int \<times> string"

text \<open>\<^verbatim>\<open>Unix()\<close>: whole seconds since 1970, rounded down.\<close>

definition Unix :: "time \<Rightarrow> int" where
  "Unix t = t div 1000000000 - 62135596800"

definition validRole :: "Role \<Rightarrow> bool" where
  "validRole role \<longleftrightarrow> role = RoleAnalyst \<or> role = RoleReviewer \<or> role = RoleAdmin"

fun add_parties :: "string list \<Rightarrow> string list \<Rightarrow> string list option" where
  "add_parties parties [] = Some parties"
| "add_parties parties (candidate # rest) =
     (let candidate = TrimSpace candidate
      in if candidate = [] then None else add_parties (List.insert candidate parties) rest)"

definition NewJWKSAuthenticator :: "string \<Rightarrow> string \<Rightarrow> string \<Rightarrow> string + Authenticator" where
  "NewJWKSAuthenticator jwksURL issuer authorizedParty =
     (if TrimSpace jwksURL = [] \<or> TrimSpace issuer = [] \<or> TrimSpace authorizedParty = []
      then Inl ''JWT_JWKS_URL, JWT_ISSUER and JWT_AUTHORIZED_PARTY are required''
      else (case add_parties [] (Split CHR '','' authorizedParty) of
          None \<Rightarrow> Inl ''JWT_AUTHORIZED_PARTY contains an empty client ID''
        | Some parties \<Rightarrow> Inr \<lparr>auth_secret = [], auth_issuer = issuer, auth_jwksURL = jwksURL,
            auth_authorizedParties = parties, auth_keys = [], auth_keysExpiresAt = zero_time\<rparr>))"

definition NewAuthenticator :: "string \<Rightarrow> string \<Rightarrow> string + Authenticator" where
  "NewAuthenticator secret issuer =
     (if length secret < 32 then Inl ''JWT_SECRET must contain at least 32 characters''
      else if TrimSpace issuer = [] then Inl ''JWT_ISSUER is required''
      else Inr \<lparr>auth_secret = secret, auth_issuer = issuer, auth_jwksURL = [],
        auth_authorizedParties = [], auth_keys = [], auth_keysExpiresAt = zero_time\<rparr>)"

section \<open>The key set\<close>

text \<open>\<^verbatim>\<open>SetBytes\<close>: big-endian; \<^verbatim>\<open>Int64\<close> keeps the low 64 bits, as a signed number.\<close>

definition SetBytes :: "string \<Rightarrow> nat" where
  "SetBytes bytes = foldl (\<lambda>n b. 256 * n + of_char b) 0 bytes"

definition Int64 :: "nat \<Rightarrow> int" where
  "Int64 n = sint (of_nat n :: 64 word)"

definition add_key :: "PublicKey gomap \<Rightarrow> jwk \<Rightarrow> PublicKey gomap" where
  "add_key keys item =
     (if JWK_Type item \<noteq> ''RSA'' \<or> JWK_ID item = [] then keys
      else (case (RawURL_DecodeString (JWK_N item), RawURL_DecodeString (JWK_E item)) of
          (Some nBytes, Some eBytes) \<Rightarrow>
            (let exponent = Int64 (SetBytes eBytes)
             in if exponent < 2 then keys
                else gput (JWK_ID item) \<lparr>Key_N = SetBytes nBytes, Key_E = exponent\<rparr> keys)
        | _ \<Rightarrow> keys))"

text \<open>The keys an answer of the key set endpoint holds, or the error.\<close>

definition fetched_keys :: "auth_world \<Rightarrow> string + int \<times> string \<Rightarrow> string + PublicKey gomap" where
  "fetched_keys W response =
     (case response of
        Inl err \<Rightarrow> Inl err
      | Inr (status, body) \<Rightarrow>
          if status \<noteq> 200 then Inl (''JWKS endpoint returned '' @ show_int status)
          else (case Decode_set W body of
              None \<Rightarrow> Inl ''invalid JSON''
            | Some items \<Rightarrow>
                (let keys = foldl add_key [] items
                 in if keys = [] then Inl ''JWKS contains no RSA signing keys'' else Inr keys)))"

definition refreshKeys ::
  "auth_world \<Rightarrow> auth_call \<Rightarrow> bool \<Rightarrow> Authenticator \<Rightarrow> string option \<times> Authenticator" where
  "refreshKeys W c force a =
     (if \<not> force \<and> Clock c 1 < auth_keysExpiresAt a \<and> auth_keys a \<noteq> [] then (None, a)
      else (case fetched_keys W (Fetch c (auth_jwksURL a)) of
          Inl err \<Rightarrow> (Some err, a)
        | Inr keys \<Rightarrow>
            (None, a\<lparr>auth_keys := keys, auth_keysExpiresAt := Clock c 2 + 5 * Minute\<rparr>)))"

definition signingKey ::
  "auth_world \<Rightarrow> auth_call \<Rightarrow> string \<Rightarrow> Authenticator \<Rightarrow> (string + PublicKey) \<times> Authenticator" where
  "signingKey W c keyID a =
     (let key = map_of (auth_keys a) keyID; fresh = Clock c 0 < auth_keysExpiresAt a
      in if key \<noteq> None \<and> fresh then (Inr (the key), a)
         else (case refreshKeys W c (key = None) a of
             (Some err, a') \<Rightarrow> (Inl err, a')
           | (None, a') \<Rightarrow>
               (case map_of (auth_keys a') keyID of
                  None \<Rightarrow> (Inl ''signing key not found'', a')
                | Some key \<Rightarrow> (Inr key, a'))))"

section \<open>Authentication\<close>

definition validSignature ::
  "auth_world \<Rightarrow> auth_call \<Rightarrow> header \<Rightarrow> string \<Rightarrow> string \<Rightarrow> Authenticator \<Rightarrow> bool \<times> Authenticator" where
  "validSignature W c header unsigned_part signature a =
     (if Header_Algorithm header = ''HS256'' \<and> auth_secret a \<noteq> []
      then (signature = HMAC_SHA256 W (auth_secret a) unsigned_part, a)
      else if Header_Algorithm header \<noteq> ''RS256'' \<or> Header_KeyID header = [] \<or> auth_jwksURL a = []
      then (False, a)
      else (case signingKey W c (Header_KeyID header) a of
          (Inl err, a') \<Rightarrow> (False, a')
        | (Inr key, a') \<Rightarrow> (VerifyPKCS1v15 W key (SHA256 W unsigned_part) signature, a')))"

definition decodePart :: "(string \<Rightarrow> 'a option) \<Rightarrow> string \<Rightarrow> 'a option" where
  "decodePart unmarshal encoded =
     (case RawURL_DecodeString encoded of None \<Rightarrow> None | Some data \<Rightarrow> unmarshal data)"

text \<open>The role of the token, or the first known role of its realm.\<close>

definition claimed_role :: "claims \<Rightarrow> Role" where
  "claimed_role cl =
     (if validRole (Claims_Role cl) then Claims_Role cl
      else (case find validRole (Claims_RealmRoles cl) of
          None \<Rightarrow> Claims_Role cl
        | Some candidate \<Rightarrow> candidate))"

definition claims_accepted :: "Authenticator \<Rightarrow> int \<Rightarrow> claims \<Rightarrow> bool" where
  "claims_accepted a now cl \<longleftrightarrow>
     \<not> (TrimSpace (Claims_Subject cl) = [] \<or> Claims_Issuer cl \<noteq> auth_issuer a \<or>
        Claims_ExpiresAt cl \<le> now \<or> now < Claims_NotBefore cl \<or> \<not> validRole (claimed_role cl) \<or>
        (0 < length (auth_authorizedParties a) \<and>
         Claims_AuthorizedParty cl \<notin> set (auth_authorizedParties a)))"

text \<open>
  The three parts of the token of an \<^verbatim>\<open>Authorization\<close> header, with the token's header decoded and
  its signature read. \<open>None\<close> here and below is \<^verbatim>\<open>ErrInvalidToken\<close>.
\<close>

definition bearer_token ::
  "auth_world \<Rightarrow> string \<Rightarrow> (header \<times> string \<times> string \<times> string) option" where
  "bearer_token W authorization =
     (case Cut CHR '' '' (TrimSpace authorization) of
        None \<Rightarrow> None
      | Some (scheme, token) \<Rightarrow>
          if \<not> EqualFold scheme ''Bearer'' \<or> TrimSpace token = [] then None
          else (case Split CHR ''.'' token of
              [part0, part1, part2] \<Rightarrow>
                (case decodePart (Unmarshal_header W) part0 of
                   None \<Rightarrow> None
                 | Some tokenHeader \<Rightarrow>
                     if Header_Type tokenHeader \<noteq> [] \<and> Header_Type tokenHeader \<noteq> ''JWT'' then None
                     else (case RawURL_DecodeString part2 of
                         None \<Rightarrow> None
                       | Some signature \<Rightarrow> Some (tokenHeader, part0, part1, signature)))
            | _ \<Rightarrow> None))"

definition Authenticate ::
  "auth_world \<Rightarrow> auth_call \<Rightarrow> string \<Rightarrow> Authenticator \<Rightarrow> Principal option \<times> Authenticator" where
  "Authenticate W c authorization a =
     (case bearer_token W authorization of
        None \<Rightarrow> (None, a)
      | Some (tokenHeader, part0, part1, signature) \<Rightarrow>
          (case validSignature W c tokenHeader (part0 @ ''.'' @ part1) signature a of
             (False, a') \<Rightarrow> (None, a')
           | (True, a') \<Rightarrow>
               (case decodePart (Unmarshal_claims W) part1 of
                  None \<Rightarrow> (None, a')
                | Some cl \<Rightarrow>
                    if claims_accepted a' (Unix (Clock c 3)) cl
                    then (Some \<lparr>Principal_Subject = Claims_Subject cl,
                                Principal_Role = claimed_role cl\<rparr>, a')
                    else (None, a'))))"

section \<open>What an accepted token proves\<close>

text \<open>Calls change nothing but the cached keys, and these come from a fetch of the key set.\<close>

definition same_config :: "Authenticator \<Rightarrow> Authenticator \<Rightarrow> bool" where
  "same_config a b \<longleftrightarrow> auth_secret a = auth_secret b \<and> auth_issuer a = auth_issuer b \<and>
     auth_jwksURL a = auth_jwksURL b \<and> auth_authorizedParties a = auth_authorizedParties b"

definition keys_from :: "auth_world \<Rightarrow> auth_call set \<Rightarrow> Authenticator \<Rightarrow> bool" where
  "keys_from W calls a \<longleftrightarrow> auth_keys a = [] \<or>
     (\<exists>c \<in> calls. fetched_keys W (Fetch c (auth_jwksURL a)) = Inr (auth_keys a) \<and>
        auth_keysExpiresAt a = Clock c 2 + 5 * Minute)"

lemma refreshKeys_effect:
  assumes "refreshKeys W c force a = (err, a')" and "keys_from W calls a"
  shows "same_config a a'" and "keys_from W (insert c calls) a'"
    and "err = None \<Longrightarrow> a' = a \<and> \<not> force \<and> Clock c 1 < auth_keysExpiresAt a \<or>
      fetched_keys W (Fetch c (auth_jwksURL a)) = Inr (auth_keys a')"
  using assms by (auto simp: refreshKeys_def same_config_def keys_from_def split: if_splits sum.splits)

text \<open>A signing key was fetched by this call, or less than five minutes before it was used.\<close>

definition recent_key :: "auth_world \<Rightarrow> auth_call set \<Rightarrow> auth_call \<Rightarrow> string \<Rightarrow> string \<Rightarrow> PublicKey \<Rightarrow> bool" where
  "recent_key W calls c url keyID key \<longleftrightarrow>
     (\<exists>c' \<in> insert c calls. \<exists>keys. fetched_keys W (Fetch c' url) = Inr keys \<and>
        map_of keys keyID = Some key \<and>
        (c' = c \<or> Clock c 0 < Clock c' 2 + 5 * Minute \<or> Clock c 1 < Clock c' 2 + 5 * Minute))"

lemma signingKey_effect:
  assumes run: "signingKey W c keyID a = (res, a')" and keys: "keys_from W calls a"
  shows "same_config a a'" and "keys_from W (insert c calls) a'"
    and "res = Inr key \<Longrightarrow> recent_key W calls c (auth_jwksURL a) keyID key"
proof -
  have mono: "keys_from W (insert c calls) a" using keys by (auto simp: keys_from_def)
  have cached: "recent_key W calls c (auth_jwksURL a) keyID k"
    if "map_of (auth_keys a) keyID = Some k"
      and "Clock c 0 < auth_keysExpiresAt a \<or> Clock c 1 < auth_keysExpiresAt a" for k
    using that keys by (auto simp: keys_from_def recent_key_def)
  obtain err b where refresh: "refreshKeys W c (map_of (auth_keys a) keyID = None) a = (err, b)"
    by fastforce
  note eff = refreshKeys_effect [OF refresh keys]
  show "same_config a a'" and "keys_from W (insert c calls) a'"
    using run refresh eff(1,2) mono
    by (auto simp: signingKey_def Let_def same_config_def split: if_splits option.splits)
  assume res: "res = Inr key"
  show "recent_key W calls c (auth_jwksURL a) keyID key"
  proof (cases "map_of (auth_keys a) keyID \<noteq> None \<and> Clock c 0 < auth_keysExpiresAt a")
    case True
    then show ?thesis using run res cached by (auto simp: signingKey_def)
  next
    case False
    then have err: "err = None" and key: "map_of (auth_keys b) keyID = Some key"
      using run refresh res by (auto simp: signingKey_def Let_def split: option.splits)
    from eff(3) [OF err] show ?thesis
      using key cached by (auto simp: recent_key_def)
  qed
qed

lemma validSignature_effect:
  assumes run: "validSignature W c h text signature a = (ok, a')" and keys: "keys_from W calls a"
  shows "same_config a a'" and "keys_from W (insert c calls) a'"
    and "ok \<Longrightarrow> Header_Algorithm h = ''HS256'' \<and> auth_secret a \<noteq> [] \<and>
        signature = HMAC_SHA256 W (auth_secret a) text \<or>
      Header_Algorithm h = ''RS256'' \<and> auth_jwksURL a \<noteq> [] \<and>
        (\<exists>key. recent_key W calls c (auth_jwksURL a) (Header_KeyID h) key \<and>
           VerifyPKCS1v15 W key (SHA256 W text) signature)"
proof -
  have mono: "keys_from W (insert c calls) a" using keys by (auto simp: keys_from_def)
  obtain res b where key: "signingKey W c (Header_KeyID h) a = (res, b)" by fastforce
  note eff = signingKey_effect [OF key keys]
  show "same_config a a'" and "keys_from W (insert c calls) a'"
    using run key eff(1,2) mono
    by (auto simp: validSignature_def same_config_def split: if_splits sum.splits)
  show "ok \<Longrightarrow> Header_Algorithm h = ''HS256'' \<and> auth_secret a \<noteq> [] \<and>
        signature = HMAC_SHA256 W (auth_secret a) text \<or>
      Header_Algorithm h = ''RS256'' \<and> auth_jwksURL a \<noteq> [] \<and>
        (\<exists>key. recent_key W calls c (auth_jwksURL a) (Header_KeyID h) key \<and>
           VerifyPKCS1v15 W key (SHA256 W text) signature)"
    using run key eff(3)
    by (auto simp: validSignature_def split: if_splits sum.splits)
qed

lemma Authenticate_effect:
  assumes run: "Authenticate W c authorization a = (res, a')" and keys: "keys_from W calls a"
  shows "same_config a a'" and "keys_from W (insert c calls) a'"
proof -
  have mono: "keys_from W (insert c calls) a" using keys by (auto simp: keys_from_def)
  have same: "same_config a a" by (simp add: same_config_def)
  have "same_config a a' \<and> keys_from W (insert c calls) a'"
  proof (cases "bearer_token W authorization")
    case None
    then show ?thesis using run mono same by (simp add: Authenticate_def)
  next
    case (Some t)
    obtain h p0 p1 sig where t: "t = (h, p0, p1, sig)" by (cases t)
    obtain ok b where v: "validSignature W c h (p0 @ ''.'' @ p1) sig a = (ok, b)" by fastforce
    then have "a' = b"
      using run Some t by (auto simp: Authenticate_def split: bool.splits option.splits if_splits)
    then show ?thesis using validSignature_effect(1,2) [OF v keys] by simp
  qed
  then show "same_config a a'" and "keys_from W (insert c calls) a'" by blast+
qed

text \<open>The authenticator after a sequence of calls, oldest first.\<close>

definition auth_after :: "auth_world \<Rightarrow> (auth_call \<times> string) list \<Rightarrow> Authenticator \<Rightarrow> Authenticator" where
  "auth_after W calls a = foldl (\<lambda>a (c, authorization). snd (Authenticate W c authorization a)) a calls"

lemma auth_after_effect:
  assumes "keys_from W {} a"
  shows "same_config a (auth_after W calls a) \<and> keys_from W (fst ` set calls) (auth_after W calls a)"
proof (induction calls rule: rev_induct)
  case (snoc call calls)
  obtain c authorization where call: "call = (c, authorization)" by fastforce
  define b where "b = auth_after W calls a"
  have after: "auth_after W (calls @ [call]) a = snd (Authenticate W c authorization b)"
    by (simp add: auth_after_def b_def call)
  obtain res b' where run: "Authenticate W c authorization b = (res, b')" by fastforce
  from Authenticate_effect [OF run, of "fst ` set calls"] snoc
  have "same_config b b'" and "keys_from W (fst ` set (calls @ [call])) b'"
    unfolding b_def by (simp_all add: call)
  then show ?case using snoc unfolding after run snd_conv
    by (simp add: same_config_def b_def)
qed (use assms in \<open>simp add: auth_after_def same_config_def\<close>)

lemma configured:
  "NewJWKSAuthenticator url issuer party = Inr a \<Longrightarrow>
     auth_secret a = [] \<and> auth_jwksURL a = url \<and> auth_issuer a = issuer \<and> auth_keys a = [] \<and>
     auth_authorizedParties a \<noteq> []"
  "NewAuthenticator secret issuer' = Inr b \<Longrightarrow>
     auth_secret b = secret \<and> auth_jwksURL b = [] \<and> auth_issuer b = issuer' \<and> auth_keys b = [] \<and>
     auth_authorizedParties b = []"
proof -
  have kept: "add_parties ps cs = Some qs \<Longrightarrow> set ps \<subseteq> set qs \<and> (cs \<noteq> [] \<longrightarrow> qs \<noteq> [])" for ps cs qs
    by (induction ps cs rule: add_parties.induct)
      (auto simp: Let_def List.insert_def split: if_splits)
  show "NewJWKSAuthenticator url issuer party = Inr a \<Longrightarrow>
     auth_secret a = [] \<and> auth_jwksURL a = url \<and> auth_issuer a = issuer \<and> auth_keys a = [] \<and>
     auth_authorizedParties a \<noteq> []"
    using kept by (fastforce simp: NewJWKSAuthenticator_def split: if_splits option.splits)
qed (auto simp: NewAuthenticator_def split: if_splits)

lemma Authenticate_SomeE:
  assumes "Authenticate W c authorization a = (Some p, a')"
  obtains h part0 part1 sig cl where
    "bearer_token W authorization = Some (h, part0, part1, sig)"
    and "validSignature W c h (part0 @ ''.'' @ part1) sig a = (True, a')"
    and "decodePart (Unmarshal_claims W) part1 = Some cl"
    and "claims_accepted a' (Unix (Clock c 3)) cl"
    and "p = \<lparr>Principal_Subject = Claims_Subject cl, Principal_Role = claimed_role cl\<rparr>"
  using assms
  by (auto simp: Authenticate_def split: option.splits prod.splits bool.splits if_splits)

section \<open>Properties\<close>

text \<open>
  C28. What an accepted token proves, after any calls, with either kind of authenticator. The header
  is a bearer token of three parts; its claims name the configured issuer and a client that is
  allowed, are not expired and already valid, and the principal is their subject with one of the
  three roles. With a key set the token is signed RS256 by the key its header names, which the
  provider's key set held in an answer to this call or in one dated less than five minutes before
  the key was looked up, so a withdrawn key is soon refused. With a secret it is signed HS256 under
  the secret. The two are never confused.
\<close>

theorem accepted_token:
  assumes "NewJWKSAuthenticator url issuer party = Inr a0 \<or> NewAuthenticator secret issuer = Inr a0"
    and "a = auth_after W calls a0" and "Authenticate W c authorization a = (Some p, a')"
  shows "\<exists>h part0 part1 sig cl.
    bearer_token W authorization = Some (h, part0, part1, sig) \<and>
    decodePart (Unmarshal_claims W) part1 = Some cl \<and>
    Claims_Issuer cl = issuer \<and> Unix (Clock c 3) < Claims_ExpiresAt cl \<and>
    Claims_NotBefore cl \<le> Unix (Clock c 3) \<and> TrimSpace (Claims_Subject cl) \<noteq> [] \<and>
    Principal_Subject p = Claims_Subject cl \<and>
    Principal_Role p \<in> {RoleAnalyst, RoleReviewer, RoleAdmin} \<and>
    (if auth_secret a0 = []
     then Claims_AuthorizedParty cl \<in> set (auth_authorizedParties a0) \<and>
       Header_Algorithm h = ''RS256'' \<and>
       (\<exists>key c' keys. c' \<in> insert c (fst ` set calls) \<and> fetched_keys W (Fetch c' url) = Inr keys \<and>
          map_of keys (Header_KeyID h) = Some key \<and>
          (c' = c \<or> Clock c 0 < Clock c' 2 + 5 * Minute \<or> Clock c 1 < Clock c' 2 + 5 * Minute) \<and>
          VerifyPKCS1v15 W key (SHA256 W (part0 @ ''.'' @ part1)) sig)
     else Header_Algorithm h = ''HS256'' \<and> auth_secret a0 = secret \<and>
       sig = HMAC_SHA256 W secret (part0 @ ''.'' @ part1))"
proof -
  have "keys_from W {} a0" using assms(1) configured by (auto simp: keys_from_def)
  from auth_after_effect [OF this, of calls]
  have same: "same_config a0 a" and keys: "keys_from W (fst ` set calls) a" by (simp_all add: assms(2))
  obtain h part0 part1 sig cl where tok: "bearer_token W authorization = Some (h, part0, part1, sig)"
    and v: "validSignature W c h (part0 @ ''.'' @ part1) sig a = (True, a')"
    and cl: "decodePart (Unmarshal_claims W) part1 = Some cl"
    and ok: "claims_accepted a' (Unix (Clock c 3)) cl"
    and p: "p = \<lparr>Principal_Subject = Claims_Subject cl, Principal_Role = claimed_role cl\<rparr>"
    using assms(3) by (rule Authenticate_SomeE)
  have same': "same_config a0 a'"
    using same validSignature_effect(1) [OF v keys] by (simp add: same_config_def)
  have sig: "if auth_secret a0 = [] then Header_Algorithm h = ''RS256'' \<and>
       (\<exists>key. recent_key W (fst ` set calls) c url (Header_KeyID h) key \<and>
          VerifyPKCS1v15 W key (SHA256 W (part0 @ ''.'' @ part1)) sig)
     else Header_Algorithm h = ''HS256'' \<and> auth_secret a0 = secret \<and>
       sig = HMAC_SHA256 W secret (part0 @ ''.'' @ part1)"
    using validSignature_effect(3) [OF v keys] same assms(1) configured(1) [of url issuer party a0]
      configured(2) [of secret issuer a0]
    by (auto simp: same_config_def)
  have issuer: "auth_issuer a0 = issuer" using assms(1) configured by blast
  have parties: "auth_secret a0 = [] \<Longrightarrow> auth_authorizedParties a0 \<noteq> []"
    using assms(1) configured(1) by (auto simp: NewAuthenticator_def split: if_splits)
  have "Claims_Issuer cl = issuer \<and> Unix (Clock c 3) < Claims_ExpiresAt cl \<and>
    Claims_NotBefore cl \<le> Unix (Clock c 3) \<and> TrimSpace (Claims_Subject cl) \<noteq> [] \<and>
    Principal_Subject p = Claims_Subject cl \<and>
    Principal_Role p \<in> {RoleAnalyst, RoleReviewer, RoleAdmin} \<and>
    (auth_secret a0 = [] \<longrightarrow> Claims_AuthorizedParty cl \<in> set (auth_authorizedParties a0))"
    using ok p same' issuer parties
    by (auto simp: claims_accepted_def same_config_def validRole_def not_le not_less)
  with tok cl sig show ?thesis
    unfolding recent_key_def Bex_def
    by (intro exI [of _ h] exI [of _ part0] exI [of _ part1] exI [of _ sig] exI [of _ cl])
      (cases "auth_secret a0 = []"; simp only: if_True if_False simp_thms; blast)
qed

text \<open>A provider whose key set holds one key, and a token signed with it.\<close>

definition demo_world :: auth_world where
  "demo_world = \<lparr>Unmarshal_header = (\<lambda>_. Some \<lparr>Header_Algorithm = ''RS256'', Header_Type = ''JWT'',
       Header_KeyID = ''k1''\<rparr>),
     Unmarshal_claims = (\<lambda>data. if data = ''a'' then Some \<lparr>Claims_Subject = ''ann'', Claims_Role = [],
       Claims_Issuer = ''idp'', Claims_ExpiresAt = 100, Claims_NotBefore = 0,
       Claims_AuthorizedParty = ''web'', Claims_RealmRoles = [''guest'', ''reviewer'']\<rparr> else None),
     Decode_set = (\<lambda>_. Some [\<lparr>JWK_ID = ''k1'', JWK_Type = ''RSA'', JWK_Use = ''sig'', JWK_N = ''BQ'',
       JWK_E = ''AQAB''\<rparr>]),
     HMAC_SHA256 = (\<lambda>_ _. []), SHA256 = (\<lambda>m. take 1 m),
     VerifyPKCS1v15 = (\<lambda>key digest sig. Key_E key = 65537 \<and> digest = ''Y'' \<and> sig = ''b'')\<rparr>"

definition demo_clock :: auth_call where
  "demo_clock = \<lparr>Clock = (\<lambda>_. 62135596850 * 1000000000), Fetch = (\<lambda>_. Inr (200, ''{}''))\<rparr>"

definition demo_authenticator :: Authenticator where
  "demo_authenticator = \<lparr>auth_secret = [], auth_issuer = ''idp'', auth_jwksURL = ''https://idp/keys'',
     auth_authorizedParties = [''app'', ''web''], auth_keys = [], auth_keysExpiresAt = 0\<rparr>"

lemma demo_decoded:
  "bearer_token demo_world ''bearer YQ.YQ.Yg'' =
     Some (\<lparr>Header_Algorithm = ''RS256'', Header_Type = ''JWT'', Header_KeyID = ''k1''\<rparr>, ''YQ'', ''YQ'', ''b'')"
  "RawURL_DecodeString ''AQAB'' = Some [CHR 0x01, CHR 0x00, CHR 0x01]"
  "RawURL_DecodeString ''BQ'' = Some [CHR 0x05]"
  "decodePart (Unmarshal_claims demo_world) ''YQ'' = Unmarshal_claims demo_world ''a''"
  "TrimSpace ''ann'' = ''ann''"
  by code_simp+

lemma demo_keys_fetched:
  "fetched_keys demo_world (Inr (200, ''{}'')) = Inr [(''k1'', \<lparr>Key_N = 5, Key_E = 65537\<rparr>)]"
  by (simp add: fetched_keys_def demo_world_def add_key_def demo_decoded SetBytes_def Int64_def gput_def)

lemma demo_authentication:
  "NewJWKSAuthenticator ''https://idp/keys'' ''idp'' ''web, app'' = Inr demo_authenticator"
  "fst (Authenticate demo_world demo_clock ''bearer YQ.YQ.Yg'' demo_authenticator) =
     Some \<lparr>Principal_Subject = ''ann'', Principal_Role = RoleReviewer\<rparr>"
proof -
  show "NewJWKSAuthenticator ''https://idp/keys'' ''idp'' ''web, app'' = Inr demo_authenticator"
    by code_simp
  have "validSignature demo_world demo_clock
      \<lparr>Header_Algorithm = ''RS256'', Header_Type = ''JWT'', Header_KeyID = ''k1''\<rparr> ''YQ.YQ'' ''b''
      demo_authenticator =
    (True, demo_authenticator\<lparr>auth_keys := [(''k1'', \<lparr>Key_N = 5, Key_E = 65537\<rparr>)],
       auth_keysExpiresAt := 62135596850 * 1000000000 + 5 * Minute\<rparr>)"
    by (simp add: validSignature_def signingKey_def refreshKeys_def demo_keys_fetched demo_clock_def
        demo_authenticator_def) (simp add: demo_world_def)
  then show "fst (Authenticate demo_world demo_clock ''bearer YQ.YQ.Yg'' demo_authenticator) =
     Some \<lparr>Principal_Subject = ''ann'', Principal_Role = RoleReviewer\<rparr>"
    by (simp add: Authenticate_def demo_decoded)
      (simp add: demo_world_def demo_clock_def demo_authenticator_def claims_accepted_def demo_decoded
        claimed_role_def validRole_def role_defs Unix_def)
qed

theorem accepted_token_witness:
  "\<exists>h part0 part1 sig. bearer_token demo_world ''bearer YQ.YQ.Yg'' = Some (h, part0, part1, sig) \<and>
     Header_Algorithm h = ''RS256''"
proof -
  obtain a' where "Authenticate demo_world demo_clock ''bearer YQ.YQ.Yg'' demo_authenticator =
      (Some \<lparr>Principal_Subject = ''ann'', Principal_Role = RoleReviewer\<rparr>, a')"
    using demo_authentication(2) by (metis prod.collapse)
  from accepted_token [OF disjI1 [OF demo_authentication(1)], of _ demo_world "[]", OF _ this]
  show ?thesis by (auto simp: auth_after_def demo_authenticator_def)
qed

end
