(* ===== verification/Http.thy ===== *)
theory Http
  imports Auth Onboarding Memory_Pages Cases Due_Diligence Transactions Screening
begin

text \<open>
  \<^verbatim>\<open>internal/transport/httpapi/handler.go\<close>: what a handler sees of a request, what it answers, the
  handler's services and the helpers every endpoint uses. A service is the repository operations it
  was made over, with the service functions of the other theories applied to them. Package
  \<^verbatim>\<open>encoding/json\<close> is the record \<open>json_decoders\<close>, one function per request struct; a response body is
  the value that is encoded.
\<close>

section \<open>Requests\<close>

text \<open>
  \<open>Request_Path\<close> is the escaped path of the URL; \<open>Query_Get\<close> and \<open>Header_Get\<close> are the lookups of
  \<^verbatim>\<open>URL.Query()\<close> and \<^verbatim>\<open>Header\<close>, empty for what is absent.
\<close>

record request =
  Request_Method :: string
  Request_Path :: string
  Query_Get :: "string \<Rightarrow> string"
  Header_Get :: "string \<Rightarrow> string"
  Request_Body :: string
  RemoteAddr :: string

text \<open>
  \<^verbatim>\<open>url.PathUnescape\<close>: two hexadecimal digits after a percent sign are one byte. A URL whose path does
  not decode is refused before any handler, so the decoded path needs no error.
\<close>

definition hex_value :: "char \<Rightarrow> nat option" where
  "hex_value c = position (ascii_lower c) ''0123456789abcdef''"

fun PathUnescape :: "string \<Rightarrow> string" where
  "PathUnescape [] = []"
| "PathUnescape [c] = [c]"
| "PathUnescape [c, d] = [c, d]"
| "PathUnescape (c # d # e # s) =
     (case (hex_value d, hex_value e) of
        (Some x, Some y) \<Rightarrow>
          if c = CHR ''%'' then char_of (16 * x + y) # PathUnescape s
          else c # PathUnescape (d # e # s)
      | _ \<Rightarrow> c # PathUnescape (d # e # s))"

definition URL_Path :: "request \<Rightarrow> string" where
  "URL_Path r = PathUnescape (Request_Path r)"

text \<open>A decoder meets a value, the end of the body before any value, or anything else.\<close>

datatype 'a decoded = Decoded 'a | EOF | Malformed

record reviewRequest =
  Review_Reason :: string

record caseRequest =
  CaseRequest_AlertID :: string
  CaseRequest_Title :: string
  CaseRequest_Priority :: CasePriority

record caseTextRequest =
  CaseText_Assignee :: string
  CaseText_Body :: string
  CaseText_Resolution :: string

record documentReviewRequest =
  DocumentReview_Status :: DocumentStatus

record screeningDispositionRequest =
  ScreeningDisposition_Status :: ScreeningMatchStatus
  ScreeningDisposition_Reason :: string

record screeningScheduleRequest =
  ScheduleRequest_Enabled :: bool
  ScheduleRequest_IntervalHours :: int

record notificationPreferenceRequest =
  PreferenceRequest_EmailAddress :: string
  PreferenceRequest_EmailEnabled :: bool

text \<open>
  The strict decoder (\<^verbatim>\<open>DisallowUnknownFields\<close>) per request struct: it reads the given bytes, and
  fails if it needs more and the flag says that the reader then reports an error.
\<close>

type_synonym 'a json_decoder = "string \<Rightarrow> bool \<Rightarrow> 'a decoded"

record json_decoders =
  Decode_OnboardCustomerCommand :: "OnboardCustomerCommand json_decoder"
  Decode_IngestTransactionCommand :: "IngestTransactionCommand json_decoder"
  Decode_reviewRequest :: "reviewRequest json_decoder"
  Decode_caseRequest :: "caseRequest json_decoder"
  Decode_caseTextRequest :: "caseTextRequest json_decoder"
  Decode_CDDProfile :: "CDDProfile json_decoder"
  Decode_BeneficialOwner :: "BeneficialOwner json_decoder"
  Decode_KYCDocument :: "KYCDocument json_decoder"
  Decode_documentReviewRequest :: "documentReviewRequest json_decoder"
  Decode_screeningDispositionRequest :: "screeningDispositionRequest json_decoder"
  Decode_screeningScheduleRequest :: "screeningScheduleRequest json_decoder"
  Decode_notificationPreferenceRequest :: "notificationPreferenceRequest json_decoder"

text \<open>\<^verbatim>\<open>MaxBytesReader\<close>: one MiB of the body, and then an error if there is more.\<close>

definition max_body :: nat where "max_body = 1048576"

definition decode_body :: "'a json_decoder \<Rightarrow> request \<Rightarrow> 'a decoded" where
  "decode_body decode r =
     decode (take max_body (Request_Body r)) (max_body < length (Request_Body r))"

definition decodeJSON :: "'a json_decoder \<Rightarrow> request \<Rightarrow> 'a option" where
  "decodeJSON decode r =
     (case decode_body decode r of Decoded v \<Rightarrow> Some v | EOF \<Rightarrow> None | Malformed \<Rightarrow> None)"

section \<open>Responses\<close>

datatype body =
    Error_JSON string string
  | Status_JSON string
  | Customer_JSON Customer
  | Customer_Page_JSON "Customer Page"
  | Transaction_Page_JSON "Transaction Page"
  | Event_Page_JSON "AuditEvent Page"
  | Ingested_JSON IngestTransactionResult
  | Alert_JSON Alert
  | Alert_Page_JSON "Alert Page"
  | Case_JSON InvestigationCase
  | Case_Page_JSON "InvestigationCase Page"
  | Case_Details_JSON CaseDetails
  | Comment_JSON CaseComment
  | DueDiligence_JSON DueDiligenceDetails
  | Profile_JSON CDDProfile
  | Owner_JSON BeneficialOwner
  | Document_JSON KYCDocument
  | Screening_JSON ScreeningResult
  | Match_JSON ScreeningMatch
  | Match_Items_JSON "ScreeningMatch list"
  | Schedule_JSON ScreeningSchedule
  | Notification_JSON Notification
  | Notification_Items_JSON "Notification list"
  | Preference_JSON NotificationPreference
  | Text string

record response =
  Response_Status :: int
  Response_Headers :: "(string \<times> string) list"
  Response_Body :: body

definition writeJSON :: "int \<Rightarrow> body \<Rightarrow> response" where
  "writeJSON status value = \<lparr>Response_Status = status,
     Response_Headers = [(''Content-Type'', ''application/json'')], Response_Body = value\<rparr>"

definition writeError :: "int \<Rightarrow> string \<Rightarrow> string \<Rightarrow> response" where
  "writeError status code message = writeJSON status (Error_JSON code message)"

definition readError :: response where
  "readError = writeError 500 ''internal_error'' ''Data could not be loaded''"

definition invalidJSON :: response where
  "invalidJSON = writeError 400 ''invalid_json'' ''Request body is not valid''"

definition unauthenticated :: response where
  "unauthenticated = writeError 401 ''unauthenticated'' ''A valid bearer token is required''"

text \<open>
  How the handlers answer a service call: the value, or a response for the error: the first listed
  sentinel error it is, else the default.
\<close>

definition answer_error :: "(error list \<times> response) list \<Rightarrow> response \<Rightarrow> error \<Rightarrow> response" where
  "answer_error known other err =
     (case find (\<lambda>(errs, _). err \<in> set errs) known of Some (_, resp) \<Rightarrow> resp | None \<Rightarrow> other)"

definition answer ::
  "('a \<Rightarrow> response) \<Rightarrow> (error list \<times> response) list \<Rightarrow> response \<Rightarrow> 'a result \<Rightarrow> response" where
  "answer ok known other res =
     (case res of Inl err \<Rightarrow> answer_error known other err | Inr v \<Rightarrow> ok v)"

section \<open>The handler\<close>

record 'r Handler =
  do_CreateCustomer :: "Customer \<Rightarrow> AuditEvent \<Rightarrow> (unit, 'r) repo_op"
  do_ReviewCustomer :: "string \<Rightarrow> ReviewDecision \<Rightarrow> string \<Rightarrow> AuditEvent \<Rightarrow> (Customer, 'r) repo_op"
  do_CreateTransaction :: "Transaction \<Rightarrow> AuditEvent \<Rightarrow> Alert list \<Rightarrow> AuditEvent list \<Rightarrow>
    (Transaction \<times> Alert list \<times> bool, 'r) repo_op"
  do_CloseAlert :: "string \<Rightarrow> string \<Rightarrow> string \<Rightarrow> AuditEvent \<Rightarrow> (Alert, 'r) repo_op"
  do_ListCustomers :: "CustomerStatus \<Rightarrow> PageRequest \<Rightarrow> 'r \<Rightarrow> Customer list result"
  do_ListCustomerTransactions :: "string \<Rightarrow> PageRequest \<Rightarrow> 'r \<Rightarrow> Transaction list result"
  do_ListAuditEventsPage :: "string \<Rightarrow> PageRequest \<Rightarrow> 'r \<Rightarrow> AuditEvent list result"
  do_ListCustomerActivityPage :: "string \<Rightarrow> PageRequest \<Rightarrow> 'r \<Rightarrow> AuditEvent list result"
  do_ListAlertsPage :: "AlertStatus \<Rightarrow> PageRequest \<Rightarrow> 'r \<Rightarrow> Alert list result"
  do_ListCasesPage :: "CaseStatus \<Rightarrow> PageRequest \<Rightarrow> 'r \<Rightarrow> InvestigationCase list result"
  do_CreateCase :: "InvestigationCase \<Rightarrow> AuditEvent \<Rightarrow> (InvestigationCase, 'r) repo_op"
  do_GetCase :: "string \<Rightarrow> 'r \<Rightarrow> InvestigationCase result"
  do_ListCaseComments :: "string \<Rightarrow> 'r \<Rightarrow> CaseComment list result"
  do_ListAuditEvents :: "string \<Rightarrow> 'r \<Rightarrow> AuditEvent list result"
  do_AssignCase :: "string \<Rightarrow> string \<Rightarrow> AuditEvent \<Rightarrow> (InvestigationCase, 'r) repo_op"
  do_AddCaseComment :: "CaseComment \<Rightarrow> AuditEvent \<Rightarrow> (CaseComment, 'r) repo_op"
  do_ResolveCase :: "string \<Rightarrow> string \<Rightarrow> string \<Rightarrow> AuditEvent \<Rightarrow> AuditEvent \<Rightarrow> (InvestigationCase, 'r) repo_op"
  do_UpsertCDDProfile :: "CDDProfile \<Rightarrow> AuditEvent \<Rightarrow> (CDDProfile, 'r) repo_op"
  do_AddBeneficialOwner :: "BeneficialOwner \<Rightarrow> AuditEvent \<Rightarrow> (BeneficialOwner, 'r) repo_op"
  do_AddKYCDocument :: "KYCDocument \<Rightarrow> AuditEvent \<Rightarrow> (KYCDocument, 'r) repo_op"
  do_ReviewKYCDocument :: "string \<Rightarrow> DocumentStatus \<Rightarrow> string \<Rightarrow> AuditEvent \<Rightarrow> (KYCDocument, 'r) repo_op"
  screening_repository :: "'r ScreeningRepository"
  screening_service :: ScreeningService
  JSON :: json_decoders
  Marshal_cursor :: "cursor \<Rightarrow> string"
  Unmarshal_cursor :: "string \<Rightarrow> cursor option"
  ParseAddress :: "string \<Rightarrow> string option"
  Auth_World :: auth_world

text \<open>What one request brings along: clock and identifiers, the token's check, the provider, the database.\<close>

record http_call =
  Call_Env :: call_env
  Call_Auth :: auth_call
  Call_Provider :: ScreeningProvider
  Call_Ping :: "string option"

text \<open>
  A handler function. \<open>pv\<close> is \<^verbatim>\<open>PathValue\<close>, and the principal is the one in the request's context.
\<close>

type_synonym 'r endpoint_handler =
  "http_call \<Rightarrow> request \<Rightarrow> (string \<Rightarrow> string) \<Rightarrow> Principal option \<Rightarrow> 'r \<Rightarrow> response \<times> 'r"

definition principalSubject :: "Principal option \<Rightarrow> string" where
  "principalSubject who = (case who of None \<Rightarrow> [] | Some p \<Rightarrow> Principal_Subject p)"

text \<open>\<^verbatim>\<open>strconv.Atoi\<close>: an optional sign and decimal digits, in the range of \<^verbatim>\<open>int\<close>.\<close>

definition is_digit :: "char \<Rightarrow> bool" where
  "is_digit c \<longleftrightarrow> CHR ''0'' \<le> c \<and> c \<le> CHR ''9''"

definition digits_value :: "string \<Rightarrow> int" where
  "digits_value ds = foldl (\<lambda>n d. 10 * n + (of_char d - 48)) 0 ds"

definition Atoi :: "string \<Rightarrow> int option" where
  "Atoi s =
     (let negative = (case s of c # _ \<Rightarrow> c = CHR ''-'' | [] \<Rightarrow> False);
          ds = (case s of c # rest \<Rightarrow> if c = CHR ''-'' \<or> c = CHR ''+'' then rest else s | [] \<Rightarrow> s);
          v = (if negative then - digits_value ds else digits_value ds)
      in if ds = [] \<or> \<not> list_all is_digit ds \<or> v < - (2 ^ 63) \<or> 2 ^ 63 \<le> v then None else Some v)"

definition pageRequest :: "'r Handler \<Rightarrow> request \<Rightarrow> PageRequest result" where
  "pageRequest h r =
     (let value = Query_Get r ''page_size''
      in if value = [] then NewPageRequest (Unmarshal_cursor h) 0 (Query_Get r ''page_token'')
         else (case Atoi value of
             None \<Rightarrow> Inl ErrInvalidPage
           | Some n \<Rightarrow> NewPageRequest (Unmarshal_cursor h) n (Query_Get r ''page_token'')))"

end
