(* ===== verification/Handlers.thy ===== *)
theory Handlers
  imports Http
begin

text \<open>
  \<^verbatim>\<open>internal/transport/httpapi/handler.go\<close>: the endpoints. Each decodes its request, calls one
  service with the authenticated subject and maps the errors it knows to statuses; every other error
  is a 500. Logging is left out. The path value of a pattern variable is \<open>pv\<close>.
\<close>

section \<open>Customers\<close>

definition onboardCustomer :: "'r Handler \<Rightarrow> 'r endpoint_handler" where
  "onboardCustomer h c r pv who db =
     (case decodeJSON (Decode_OnboardCustomerCommand (JSON h)) r of
        None \<Rightarrow> (invalidJSON, db)
      | Some cmd \<Rightarrow>
          (case who of
             None \<Rightarrow> (unauthenticated, db)
           | Some p \<Rightarrow>
               apfst (answer (\<lambda>customer. writeJSON 201 (Customer_JSON customer))
                   [([ErrInvalidCustomer],
                     writeError 422 ''invalid_customer'' ''Customer data failed validation'')]
                   (writeError 500 ''internal_error'' ''Customer could not be created''))
                 (Onboard (do_CreateCustomer h) (Call_Env c)
                    (cmd\<lparr>Onboard_Actor := Principal_Subject p\<rparr>) db)))"

text \<open>A review may come without a body: the end of the body before any value is no error.\<close>

definition reviewCustomer :: "'r Handler \<Rightarrow> ReviewDecision \<Rightarrow> 'r endpoint_handler" where
  "reviewCustomer h decision c r pv who db =
     (case decode_body (Decode_reviewRequest (JSON h)) r of
        Malformed \<Rightarrow> (invalidJSON, db)
      | dec \<Rightarrow>
          (let request = (case dec of Decoded v \<Rightarrow> v | _ \<Rightarrow> \<lparr>Review_Reason = []\<rparr>)
           in case who of
                None \<Rightarrow> (unauthenticated, db)
              | Some p \<Rightarrow>
                  apfst (answer (\<lambda>customer. writeJSON 200 (Customer_JSON customer))
                      [([ErrCustomerNotFound],
                        writeError 404 ''customer_not_found'' ''Customer was not found''),
                       ([ErrMakerCannotReview],
                        writeError 409 ''maker_checker_violation''
                          ''The customer creator cannot review their own submission''),
                       ([ErrReviewConflict],
                        writeError 409 ''review_conflict'' ''Customer is not pending approval'')]
                      (writeError 500 ''internal_error'' ''Customer review could not be completed''))
                    (Review (do_ReviewCustomer h) (Call_Env c) (pv ''customer_id'') decision
                       (Principal_Subject p) (Review_Reason request) db)))"

text \<open>What the listings share: the page request first, then the query.\<close>

definition invalidPage :: response where
  "invalidPage = writeError 422 ''invalid_page'' ''Pagination parameters are invalid''"

definition customerNotFound :: response where
  "customerNotFound = writeError 404 ''customer_not_found'' ''Customer was not found''"

definition with_page :: "'r Handler \<Rightarrow> request \<Rightarrow> (PageRequest \<Rightarrow> response) \<Rightarrow> response" where
  "with_page h r fetch = (case pageRequest h r of Inl err \<Rightarrow> invalidPage | Inr p \<Rightarrow> fetch p)"

definition listCustomers :: "'r Handler \<Rightarrow> 'r endpoint_handler" where
  "listCustomers h c r pv who db =
     (with_page h r (\<lambda>p. answer (\<lambda>result. writeJSON 200 (Customer_Page_JSON result))
        [([ErrInvalidPage], writeError 422 ''invalid_filter'' ''Customer status is invalid'')] readError
        (ListCustomers (Marshal_cursor h) (do_ListCustomers h) (Query_Get r ''status'') p db)), db)"

definition getCustomer :: "'r Handler \<Rightarrow> 'r endpoint_handler" where
  "getCustomer h c r pv who db =
     (answer (\<lambda>customer. writeJSON 200 (Customer_JSON customer))
        [([ErrCustomerNotFound], customerNotFound)] readError
        (GetCustomer (do_GetCustomer (screening_repository h)) (pv ''customer_id'') db), db)"

definition listCustomerTransactions :: "'r Handler \<Rightarrow> 'r endpoint_handler" where
  "listCustomerTransactions h c r pv who db =
     (with_page h r (\<lambda>p. answer (\<lambda>result. writeJSON 200 (Transaction_Page_JSON result))
        [] readError
        (ListTransactions (Marshal_cursor h) (do_ListCustomerTransactions h) (pv ''customer_id'') p db)), db)"

definition listAuditEvents :: "'r Handler \<Rightarrow> 'r endpoint_handler" where
  "listAuditEvents h c r pv who db =
     (with_page h r (\<lambda>p. answer (\<lambda>result. writeJSON 200 (Event_Page_JSON result))
        [] readError
        (ListAuditEvents (Marshal_cursor h) (do_ListAuditEventsPage h) (pv ''customer_id'') p db)), db)"

definition listCustomerActivity :: "'r Handler \<Rightarrow> 'r endpoint_handler" where
  "listCustomerActivity h c r pv who db =
     (with_page h r (\<lambda>p. answer (\<lambda>result. writeJSON 200 (Event_Page_JSON result))
        [([ErrCustomerNotFound], customerNotFound)] readError
        (ListCustomerActivity (Marshal_cursor h) (do_ListCustomerActivityPage h) (pv ''customer_id'') p db)), db)"

section \<open>Transactions and alerts\<close>

text \<open>A replayed ingestion is answered 200 and marked in a header, a new one 201.\<close>

definition ingested_response :: "IngestTransactionResult \<Rightarrow> response" where
  "ingested_response result =
     (if Ingested_Replayed result
      then (writeJSON 200 (Ingested_JSON result))\<lparr>Response_Headers :=
             [(''Idempotency-Replayed'', ''true''), (''Content-Type'', ''application/json'')]\<rparr>
      else writeJSON 201 (Ingested_JSON result))"

definition ingestTransaction :: "'r Handler \<Rightarrow> 'r endpoint_handler" where
  "ingestTransaction h c r pv who db =
     (case decodeJSON (Decode_IngestTransactionCommand (JSON h)) r of
        None \<Rightarrow> (invalidJSON, db)
      | Some cmd \<Rightarrow>
          (case who of
             None \<Rightarrow> (unauthenticated, db)
           | Some p \<Rightarrow>
               apfst (answer ingested_response
                   [([ErrInvalidTransaction],
                     writeError 422 ''invalid_transaction'' ''Transaction data failed validation''),
                    ([ErrCustomerNotFound], customerNotFound),
                    ([ErrCustomerNotActive],
                     writeError 409 ''customer_not_active''
                       ''Transactions can only be ingested for active customers''),
                    ([ErrIdempotencyConflict],
                     writeError 409 ''idempotency_conflict''
                       ''Idempotency-Key was already used with a different request'')]
                   (writeError 500 ''internal_error'' ''Transaction could not be ingested''))
                 (Ingest (do_CreateTransaction h) (Call_Env c)
                    (cmd\<lparr>Ingest_Actor := Principal_Subject p,
                         Ingest_IdempotencyKey := Header_Get r ''Idempotency-Key''\<rparr>) db)))"

definition listAlerts :: "'r Handler \<Rightarrow> 'r endpoint_handler" where
  "listAlerts h c r pv who db =
     (with_page h r (\<lambda>p. answer (\<lambda>result. writeJSON 200 (Alert_Page_JSON result))
        [([ErrInvalidPage], writeError 422 ''invalid_alert_filter'' ''Alert status filter is not valid'')] (writeError 500 ''internal_error'' ''Alerts could not be listed'')
        (ListAlertsPage (Marshal_cursor h) (do_ListAlertsPage h) (Query_Get r ''status'') p db)), db)"

definition closeAlert :: "'r Handler \<Rightarrow> 'r endpoint_handler" where
  "closeAlert h c r pv who db =
     (case decodeJSON (Decode_reviewRequest (JSON h)) r of
        None \<Rightarrow> (invalidJSON, db)
      | Some request \<Rightarrow>
          (case who of
             None \<Rightarrow> (unauthenticated, db)
           | Some p \<Rightarrow>
               apfst (answer (\<lambda>alert. writeJSON 200 (Alert_JSON alert))
                   [([ErrInvalidAlertReview],
                     writeError 422 ''invalid_alert_review'' ''A closure reason is required''),
                    ([ErrAlertNotFound], writeError 404 ''alert_not_found'' ''Alert was not found''),
                    ([ErrAlertConflict], writeError 409 ''alert_conflict'' ''Alert is not open'')]
                   (writeError 500 ''internal_error'' ''Alert could not be closed''))
                 (CloseAlert (do_CloseAlert h) (Call_Env c) (pv ''alert_id'') (Principal_Subject p)
                    (Review_Reason request) db)))"

section \<open>Cases\<close>

definition listCases :: "'r Handler \<Rightarrow> 'r endpoint_handler" where
  "listCases h c r pv who db =
     (with_page h r (\<lambda>p. answer (\<lambda>result. writeJSON 200 (Case_Page_JSON result))
        [([ErrInvalidPage], writeError 422 ''invalid_filter'' ''Case status is invalid'')] readError
        (ListCases (Marshal_cursor h) (do_ListCasesPage h) (Query_Get r ''status'') p db)), db)"

definition caseNotFound :: response where
  "caseNotFound = writeError 404 ''case_not_found'' ''Case was not found''"

definition getCase :: "'r Handler \<Rightarrow> 'r endpoint_handler" where
  "getCase h c r pv who db =
     (answer (\<lambda>result. writeJSON 200 (Case_Details_JSON result))
        [([ErrCaseNotFound], caseNotFound)] readError
        (Details (do_GetCase h) (do_ListCaseComments h) (do_ListAuditEvents h) (pv ''case_id'') db), db)"

text \<open>Decoding the body of a request whose actor is taken from the context, empty if there is none.\<close>

definition with_body ::
  "'a json_decoder \<Rightarrow> request \<Rightarrow> 'r \<Rightarrow> ('a \<Rightarrow> response \<times> 'r) \<Rightarrow> response \<times> 'r" where
  "with_body decode r db act =
     (case decodeJSON decode r of None \<Rightarrow> (invalidJSON, db) | Some request \<Rightarrow> act request)"

definition createCase :: "'r Handler \<Rightarrow> 'r endpoint_handler" where
  "createCase h c r pv who db =
     with_body (Decode_caseRequest (JSON h)) r db (\<lambda>request.
       apfst (answer (\<lambda>result. writeJSON 201 (Case_JSON result))
           [([ErrInvalidCase], writeError 422 ''invalid_case'' ''Case data failed validation''),
            ([ErrAlertNotFound], writeError 404 ''alert_not_found'' ''Alert was not found''),
            ([ErrAlertConflict, ErrAlertHasCase],
             writeError 409 ''case_conflict'' ''Alert cannot be added to a new case'')]
           readError)
         (Create (do_CreateCase h) (Call_Env c) (CaseRequest_AlertID request)
            (CaseRequest_Title request) (CaseRequest_Priority request) (principalSubject who) db))"

definition writeCaseMutation :: "InvestigationCase result \<Rightarrow> response" where
  "writeCaseMutation =
     answer (\<lambda>result. writeJSON 200 (Case_JSON result))
       [([ErrInvalidCase], writeError 422 ''invalid_case'' ''Case update failed validation''),
        ([ErrCaseNotFound], caseNotFound),
        ([ErrCaseConflict, ErrAlertConflict],
         writeError 409 ''case_conflict'' ''Resolved cases cannot be changed'')]
       readError"

definition assignCase :: "'r Handler \<Rightarrow> 'r endpoint_handler" where
  "assignCase h c r pv who db =
     with_body (Decode_caseTextRequest (JSON h)) r db (\<lambda>request.
       apfst writeCaseMutation
         (Assign (do_AssignCase h) (Call_Env c) (pv ''case_id'') (CaseText_Assignee request)
            (principalSubject who) db))"

definition commentCase :: "'r Handler \<Rightarrow> 'r endpoint_handler" where
  "commentCase h c r pv who db =
     with_body (Decode_caseTextRequest (JSON h)) r db (\<lambda>request.
       apfst (answer (\<lambda>result. writeJSON 201 (Comment_JSON result))
           [([ErrInvalidCase], writeError 422 ''invalid_case'' ''Comment is required''),
            ([ErrCaseNotFound], caseNotFound),
            ([ErrCaseConflict], writeError 409 ''case_conflict'' ''Resolved cases cannot be changed'')]
           readError)
         (Comment (do_AddCaseComment h) (Call_Env c) (pv ''case_id'') (CaseText_Body request)
            (principalSubject who) db))"

definition resolveCase :: "'r Handler \<Rightarrow> 'r endpoint_handler" where
  "resolveCase h c r pv who db =
     with_body (Decode_caseTextRequest (JSON h)) r db (\<lambda>request.
       apfst writeCaseMutation
         (Resolve (do_ResolveCase h) (Call_Env c) (pv ''case_id'') (CaseText_Resolution request)
            (principalSubject who) db))"

section \<open>Due diligence\<close>

definition writeCDDResult :: "int \<Rightarrow> DueDiligenceDetails result \<Rightarrow> response" where
  "writeCDDResult status =
     answer (\<lambda>result. writeJSON status (DueDiligence_JSON result))
       [([ErrCustomerNotFound], customerNotFound)] readError"

definition getDueDiligence :: "'r Handler \<Rightarrow> 'r endpoint_handler" where
  "getDueDiligence h c r pv who db =
     (writeCDDResult 200
        (Get (do_GetDueDiligence (screening_repository h)) (pv ''customer_id'') db), db)"

definition updateDueDiligence :: "'r Handler \<Rightarrow> 'r endpoint_handler" where
  "updateDueDiligence h c r pv who db =
     with_body (Decode_CDDProfile (JSON h)) r db (\<lambda>request.
       apfst (answer (\<lambda>result. writeJSON 200 (Profile_JSON result))
           [([ErrInvalidDueDiligence],
             writeError 422 ''invalid_due_diligence'' ''CDD profile failed validation''),
            ([ErrCustomerNotFound], customerNotFound)]
           readError)
         (UpdateProfile (do_UpsertCDDProfile h) (Call_Env c)
            (request\<lparr>Profile_CustomerID := pv ''customer_id''\<rparr>) (principalSubject who) db))"

definition addBeneficialOwner :: "'r Handler \<Rightarrow> 'r endpoint_handler" where
  "addBeneficialOwner h c r pv who db =
     with_body (Decode_BeneficialOwner (JSON h)) r db (\<lambda>request.
       apfst (answer (\<lambda>result. writeJSON 201 (Owner_JSON result))
           [([ErrInvalidDueDiligence],
             writeError 422 ''invalid_beneficial_owner'' ''Beneficial owner failed validation'')]
           readError)
         (AddOwner (do_AddBeneficialOwner h) (Call_Env c)
            (request\<lparr>Owner_CustomerID := pv ''customer_id''\<rparr>) (principalSubject who) db))"

definition addKYCDocument :: "'r Handler \<Rightarrow> 'r endpoint_handler" where
  "addKYCDocument h c r pv who db =
     with_body (Decode_KYCDocument (JSON h)) r db (\<lambda>request.
       apfst (answer (\<lambda>result. writeJSON 201 (Document_JSON result))
           [([ErrInvalidDueDiligence],
             writeError 422 ''invalid_document'' ''KYC document failed validation'')]
           readError)
         (AddDocument (do_AddKYCDocument h) (Call_Env c)
            (request\<lparr>Document_CustomerID := pv ''customer_id''\<rparr>) (principalSubject who) db))"

definition reviewKYCDocument :: "'r Handler \<Rightarrow> 'r endpoint_handler" where
  "reviewKYCDocument h c r pv who db =
     with_body (Decode_documentReviewRequest (JSON h)) r db (\<lambda>request.
       apfst (answer (\<lambda>result. writeJSON 200 (Document_JSON result))
           [([ErrInvalidDueDiligence],
             writeError 422 ''invalid_review'' ''Document review failed validation''),
            ([ErrReviewConflict],
             writeError 409 ''review_conflict'' ''Document is not pending review'')]
           readError)
         (ReviewDocument (do_ReviewKYCDocument h) (Call_Env c) (pv ''document_id'')
            (DocumentReview_Status request) (principalSubject who) db))"

section \<open>Screening\<close>

definition screenCustomer :: "'r Handler \<Rightarrow> 'r endpoint_handler" where
  "screenCustomer h c r pv who db =
     apfst (answer (\<lambda>result. writeJSON 201 (Screening_JSON result))
         [([ErrCustomerNotFound], customerNotFound)] readError)
       (ScreenCustomer (screening_repository h) (screening_service h) (Call_Env c) (Call_Provider c)
          (pv ''customer_id'') (principalSubject who) db)"

definition listScreeningMatches :: "'r Handler \<Rightarrow> 'r endpoint_handler" where
  "listScreeningMatches h c r pv who db =
     (answer (\<lambda>result. writeJSON 200 (Match_Items_JSON result)) [] readError
        (List (screening_repository h) (pv ''customer_id'') db), db)"

definition dispositionScreeningMatch :: "'r Handler \<Rightarrow> 'r endpoint_handler" where
  "dispositionScreeningMatch h c r pv who db =
     with_body (Decode_screeningDispositionRequest (JSON h)) r db (\<lambda>request.
       apfst (answer (\<lambda>result. writeJSON 200 (Match_JSON result))
           [([ErrInvalidScreening],
             writeError 422 ''invalid_disposition'' ''Disposition failed validation''),
            ([ErrReviewConflict],
             writeError 409 ''review_conflict'' ''Match is not pending review'')]
           readError)
         (Disposition (screening_repository h) (Call_Env c) (pv ''match_id'')
            (ScreeningDisposition_Status request) (ScreeningDisposition_Reason request)
            (principalSubject who) db))"

definition getScreeningSchedule :: "'r Handler \<Rightarrow> 'r endpoint_handler" where
  "getScreeningSchedule h c r pv who db =
     (answer (\<lambda>result. writeJSON 200 (Schedule_JSON result))
        [([ErrScreeningScheduleNotFound],
          writeError 404 ''schedule_not_found'' ''Ongoing screening is not configured'')]
        readError
        (GetSchedule (screening_repository h) (pv ''customer_id'') db), db)"

definition updateScreeningSchedule :: "'r Handler \<Rightarrow> 'r endpoint_handler" where
  "updateScreeningSchedule h c r pv who db =
     with_body (Decode_screeningScheduleRequest (JSON h)) r db (\<lambda>request.
       apfst (answer (\<lambda>result. writeJSON 200 (Schedule_JSON result))
           [([ErrInvalidScreening],
             writeError 422 ''invalid_schedule'' ''Interval must be between 1 and 8760 hours''),
            ([ErrCustomerNotFound], customerNotFound)]
           readError)
         (ConfigureSchedule (screening_repository h) (Call_Env c) (pv ''customer_id'')
            (ScheduleRequest_Enabled request) (ScheduleRequest_IntervalHours request)
            (principalSubject who) db))"

section \<open>Notifications\<close>

definition listNotifications :: "'r Handler \<Rightarrow> 'r endpoint_handler" where
  "listNotifications h c r pv who db =
     (answer (\<lambda>items. writeJSON 200 (Notification_Items_JSON items)) [] readError
        (ListNotifications (screening_repository h) 100 db), db)"

definition readNotification :: "'r Handler \<Rightarrow> 'r endpoint_handler" where
  "readNotification h c r pv who db =
     apfst (answer (\<lambda>item. writeJSON 200 (Notification_JSON item))
         [([ErrNotificationNotFound],
           writeError 404 ''notification_not_found'' ''Notification was not found'')]
         readError)
       (ReadNotification (screening_repository h) (Call_Env c) (pv ''notification_id'')
          (principalSubject who) db)"

definition getNotificationPreference :: "'r Handler \<Rightarrow> 'r endpoint_handler" where
  "getNotificationPreference h c r pv who db =
     (answer (\<lambda>preference. writeJSON 200 (Preference_JSON preference)) [] readError
        (GetNotificationPreference (screening_repository h) (principalSubject who) db), db)"

definition updateNotificationPreference :: "'r Handler \<Rightarrow> 'r endpoint_handler" where
  "updateNotificationPreference h c r pv who db =
     with_body (Decode_notificationPreferenceRequest (JSON h)) r db (\<lambda>request.
       apfst (answer (\<lambda>preference. writeJSON 200 (Preference_JSON preference))
           [([ErrInvalidNotificationPreference],
             writeError 400 ''invalid_notification_preference''
               ''A valid email address is required when email notifications are enabled'')]
           readError)
         (ConfigureNotificationPreference (screening_repository h) (ParseAddress h) (Call_Env c)
            (principalSubject who) (PreferenceRequest_EmailAddress request)
            (PreferenceRequest_EmailEnabled request) db))"

section \<open>Health\<close>

definition health :: "'r endpoint_handler" where
  "health c r pv who db = (writeJSON 200 (Status_JSON ''ok''), db)"

definition ready :: "'r endpoint_handler" where
  "ready c r pv who db =
     (case Call_Ping c of
        Some err \<Rightarrow> (writeError 503 ''not_ready'' ''Database is not available'', db)
      | None \<Rightarrow> (writeJSON 200 (Status_JSON ''ready''), db))"

end
