(* ===== verification/Floats.thy ===== *)
theory Floats
  imports Complex_Main "HOL-Library.Log_Nat"
begin

text \<open>
  Go's \<^verbatim>\<open>float64\<close> arithmetic. A finite value is a rational; an operation is the exact one followed
  by \<open>float64\<close>, which rounds to 53 significant bits, to nearest, ties to even. The values of this
  program (durations of a process in seconds, token counts, rates) are far from the ends of the
  exponent range, which is left out.
\<close>

section \<open>Rounding\<close>

definition round_even :: "rat \<Rightarrow> int" where
  "round_even x =
     (let f = \<lfloor>x\<rfloor>; d = x - of_int f
      in if d < 1 / 2 \<or> d = 1 / 2 \<and> even f then f else f + 1)"

lemma round_even_of_int [simp]: "round_even (of_int n) = n"
  by (simp add: round_even_def)

lemma round_even_bounds: "\<lfloor>x\<rfloor> \<le> round_even x" "round_even x \<le> \<lfloor>x\<rfloor> + 1"
  by (simp_all add: round_even_def Let_def)

lemma round_even_mono:
  assumes "x \<le> y"
  shows "round_even x \<le> round_even y"
proof (cases "\<lfloor>x\<rfloor> = \<lfloor>y\<rfloor>")
  case True
  then show ?thesis using assms by (auto simp: round_even_def Let_def)
next
  case False
  then have "\<lfloor>x\<rfloor> + 1 \<le> \<lfloor>y\<rfloor>" using floor_mono [OF assms] by simp
  then show ?thesis using round_even_bounds(2) [of x] round_even_bounds(1) [of y] by linarith
qed

lemma round_even_error: "\<bar>of_int (round_even x) - x\<bar> \<le> 1 / 2"
proof -
  have "of_int \<lfloor>x\<rfloor> \<le> x" "x < of_int \<lfloor>x\<rfloor> + 1" by linarith+
  then show ?thesis by (auto simp: round_even_def Let_def)
qed

text \<open>The binary exponent of a positive number: \<open>2\<close> to it is at most the number, its double more.\<close>

definition exponent :: "rat \<Rightarrow> int" where
  "exponent x =
     (let (p, q) = quotient_of x; k = bitlen p - bitlen q
      in if (2 :: rat) powi k \<le> x then k else k - 1)"

lemma exponent_bounds:
  assumes "0 < x"
  shows "2 powi exponent x \<le> x" and "x < 2 powi (exponent x + 1)"
proof -
  obtain p q where pq: "quotient_of x = (p, q)" by fastforce
  then have x: "x = of_int p / of_int q" and q: "0 < q"
    by (simp_all add: quotient_of_div quotient_of_denom_pos)
  then have p: "0 < p" using assms by (simp add: zero_less_divide_iff)
  define k where "k = bitlen p - bitlen q"
  have ge1: "1 \<le> bitlen p" "1 \<le> bitlen q"
    using p q bitlen_eq_zero_iff [of p] bitlen_eq_zero_iff [of q] bitlen_nonneg [of p] bitlen_nonneg [of q]
    by linarith+
  have powi: "(2 :: rat) powi n = of_int (2 ^ nat n)" if "0 \<le> n" for n
    using that by (simp add: power_int_def)
  have "(2 :: int) ^ nat (bitlen p - 1) \<le> p" "p < 2 ^ nat (bitlen p)"
    using bitlen_bounds [OF p] by auto
  then have bp: "(2 :: rat) powi (bitlen p - 1) \<le> of_int p" "of_int p < (2 :: rat) powi (bitlen p)"
    using ge1 by (simp_all only: powi of_int_le_iff of_int_less_iff)
  have "(2 :: int) ^ nat (bitlen q - 1) \<le> q" "q < 2 ^ nat (bitlen q)"
    using bitlen_bounds [OF q] by auto
  then have bq: "(2 :: rat) powi (bitlen q - 1) \<le> of_int q" "of_int q < (2 :: rat) powi (bitlen q)"
    using ge1 by (simp_all only: powi of_int_le_iff of_int_less_iff)
  have "(2 :: rat) powi (k - 1) * of_int q < 2 powi (k - 1) * 2 powi (bitlen q)"
    using bq(2) by simp
  also have "\<dots> = 2 powi (bitlen p - 1)" by (simp add: k_def flip: power_int_add)
  also have "\<dots> \<le> of_int p" by (rule bp(1))
  finally have low: "2 powi (k - 1) \<le> x" using q by (simp add: x pos_le_divide_eq)
  have "of_int p < (2 :: rat) powi (bitlen p)" by (rule bp(2))
  also have "\<dots> = 2 powi (k + 1) * 2 powi (bitlen q - 1)" by (simp add: k_def flip: power_int_add)
  also have "\<dots> \<le> 2 powi (k + 1) * of_int q" using bq(1) by simp
  finally have high: "x < 2 powi (k + 1)" using q by (simp add: x pos_divide_less_eq)
  show "2 powi exponent x \<le> x" and "x < 2 powi (exponent x + 1)"
    using low high by (auto simp: exponent_def pq k_def [symmetric])
qed

lemma powi_le: "i \<le> j \<Longrightarrow> (2 :: rat) powi i \<le> 2 powi j"
  by (simp add: power_int_increasing)

lemma exponent_mono:
  assumes "0 < x" and "x \<le> y"
  shows "exponent x \<le> exponent y"
proof (cases "exponent y < exponent x")
  case True
  then have "(2 :: rat) powi (exponent y + 1) \<le> 2 powi exponent x" by (intro powi_le) simp
  then show ?thesis
    using exponent_bounds(1) [of x] exponent_bounds(2) [of y] assms by linarith
qed simp

section \<open>Numbers of 53 bits\<close>

text \<open>The distance of the numbers of the binade of \<open>x\<close>, and the rounding to them.\<close>

definition ulp :: "rat \<Rightarrow> rat" where
  "ulp x = 2 powi (exponent x - 52)"

definition float64 :: "rat \<Rightarrow> rat" where
  "float64 x =
     (if x = 0 then 0
      else if 0 < x then of_int (round_even (x / ulp x)) * ulp x
      else - (of_int (round_even (- x / ulp (- x))) * ulp (- x)))"

lemma float64_0 [simp]: "float64 0 = 0"
  by (simp add: float64_def)

lemma ulp_pos: "0 < ulp x"
  by (simp add: ulp_def)

lemma powi_nat: "(2 :: rat) powi (exponent x + 1) = 2 ^ 53 * ulp x" "(2 :: rat) powi exponent x = 2 ^ 52 * ulp x"
proof -
  have "(2 :: rat) powi (53 + (exponent x - 52)) = 2 powi 53 * 2 powi (exponent x - 52)"
    by (rule power_int_add) simp
  then show "(2 :: rat) powi (exponent x + 1) = 2 ^ 53 * ulp x" by (simp add: ulp_def add.commute)
  have "(2 :: rat) powi (52 + (exponent x - 52)) = 2 powi 52 * 2 powi (exponent x - 52)"
    by (rule power_int_add) simp
  then show "(2 :: rat) powi exponent x = 2 ^ 52 * ulp x" by (simp add: ulp_def)
qed

lemma float64_binade:
  assumes "0 < x"
  shows "2 powi exponent x \<le> float64 x" and "float64 x \<le> 2 powi (exponent x + 1)"
proof -
  have low: "(2 :: rat) ^ 52 \<le> x / ulp x" and high: "x / ulp x \<le> 2 ^ 53"
    using exponent_bounds [OF assms] ulp_pos [of x]
    by (simp_all add: powi_nat pos_le_divide_eq pos_divide_le_eq)
  have "round_even (of_int (2 ^ 52)) \<le> round_even (x / ulp x)"
    using low by (intro round_even_mono) simp
  then have "(2 :: rat) ^ 52 \<le> of_int (round_even (x / ulp x))"
    by (simp only: round_even_of_int flip: of_int_le_iff [where 'a = rat]) simp
  then show "2 powi exponent x \<le> float64 x"
    using assms ulp_pos [of x] by (simp add: float64_def powi_nat)
  have "round_even (x / ulp x) \<le> round_even (of_int (2 ^ 53))"
    using high by (intro round_even_mono) simp
  then have "of_int (round_even (x / ulp x)) \<le> (2 :: rat) ^ 53"
    by (simp only: round_even_of_int flip: of_int_le_iff [where 'a = rat]) simp
  then show "float64 x \<le> 2 powi (exponent x + 1)"
    using assms ulp_pos [of x] by (simp add: float64_def powi_nat)
qed

lemma float64_nonneg: "0 \<le> x \<Longrightarrow> 0 \<le> float64 x"
proof (cases "x = 0")
  case False
  assume "0 \<le> x"
  then have "0 < x" using False by simp
  then have "2 powi exponent x \<le> float64 x" by (rule float64_binade)
  moreover have "(0 :: rat) < 2 powi exponent x" by simp
  ultimately show ?thesis by linarith
qed simp

lemma float64_mono:
  assumes "0 \<le> x" and "x \<le> y"
  shows "float64 x \<le> float64 y"
proof (cases "x = 0")
  case True
  then show ?thesis using assms float64_nonneg by simp
next
  case False
  then have pos: "0 < x" "0 < y" using assms by simp_all
  show ?thesis
  proof (cases "exponent x = exponent y")
    case True
    then have "ulp x = ulp y" by (simp add: ulp_def)
    moreover have "round_even (x / ulp y) \<le> round_even (y / ulp y)"
      using assms(2) ulp_pos [of y] by (intro round_even_mono divide_right_mono) simp_all
    ultimately show ?thesis using pos ulp_pos [of y] by (simp add: float64_def mult_right_mono)
  next
    case False
    then have "exponent x + 1 \<le> exponent y" using exponent_mono [OF pos(1) assms(2)] by simp
    then have "(2 :: rat) powi (exponent x + 1) \<le> 2 powi exponent y" by (rule powi_le)
    then show ?thesis using float64_binade(2) [OF pos(1)] float64_binade(1) [OF pos(2)] by linarith
  qed
qed

text \<open>A number of at most 53 bits is not rounded.\<close>

lemma float64_exact:
  assumes "x = of_int m * ulp x" and "0 < x"
  shows "float64 x = x"
proof -
  have "x / ulp x = of_int m" using assms(1) ulp_pos [of x] by (metis nonzero_mult_div_cancel_right less_irrefl)
  then have "float64 x = of_int m * ulp x" using assms(2) by (simp add: float64_def)
  then show ?thesis using assms(1) by simp
qed

lemma float64_scaled:
  assumes "0 \<le> m" and "m < 2 ^ 53"
  shows "float64 (of_int m * 2 powi e) = of_int m * 2 powi e"
proof (cases "m = 0")
  case False
  let ?x = "of_int m * 2 powi e :: rat"
  have pos: "0 < ?x" using False assms(1) by simp
  have "of_int m < (of_int (2 ^ 53) :: rat)" using assms(2) by (simp only: of_int_less_iff)
  then have "?x < 2 ^ 53 * 2 powi e" by (intro mult_strict_right_mono) simp_all
  also have "\<dots> = 2 powi (53 + e)" by (simp add: power_int_add)
  finally have "(2 :: rat) powi exponent ?x < 2 powi (53 + e)"
    using exponent_bounds(1) [OF pos] by linarith
  then have "exponent ?x < 53 + e"
    using powi_le [of "53 + e" "exponent ?x"] by linarith
  then have "0 \<le> e - (exponent ?x - 52)" by simp
  then obtain n where n: "e - (exponent ?x - 52) = int n" using zero_le_imp_eq_int by blast
  then have "e = int n + (exponent ?x - 52)" by linarith
  then have "(2 :: rat) powi e = 2 powi (int n + (exponent ?x - 52))" by (rule arg_cong)
  also have "\<dots> = 2 ^ n * ulp ?x" by (simp add: power_int_add ulp_def)
  finally have "?x = of_int (m * 2 ^ n) * ulp ?x" by simp
  then show ?thesis using pos by (rule float64_exact)
qed simp

lemma float64_of_int: "0 \<le> m \<Longrightarrow> m < 2 ^ 53 \<Longrightarrow> float64 (of_int m) = of_int m"
  using float64_scaled [of m 0] by simp

text \<open>The relative error of a rounding is at most \<open>2 ^ -53\<close>.\<close>

lemma float64_error:
  assumes "0 \<le> x"
  shows "\<bar>float64 x - x\<bar> \<le> x / 2 ^ 53"
proof (cases "x = 0")
  case False
  then have pos: "0 < x" using assms by simp
  have "float64 x - x = (of_int (round_even (x / ulp x)) - x / ulp x) * ulp x"
    using pos ulp_pos [of x] by (simp add: float64_def left_diff_distrib)
  then have "\<bar>float64 x - x\<bar> = \<bar>of_int (round_even (x / ulp x)) - x / ulp x\<bar> * ulp x"
    using ulp_pos [of x] by (simp add: abs_mult)
  also have "\<dots> \<le> 1 / 2 * ulp x"
    using round_even_error ulp_pos [of x] by (intro mult_right_mono) simp_all
  also have "\<dots> \<le> x / 2 ^ 53" using exponent_bounds(1) [OF pos] by (simp add: powi_nat)
  finally show ?thesis .
qed simp

end
