(* ===== verification/Metrics.thy ===== *)
theory Metrics
  imports Floats Http Identifiers
begin

text \<open>
  \<^verbatim>\<open>internal/observability/metrics.go\<close>: the registry of counters and histograms, the middleware
  that observes each request, and the Prometheus text. Counters are 64-bit words, a duration is a
  \<^verbatim>\<open>float64\<close>. The spans of \<^verbatim>\<open>tracing.go\<close> are in theory \<open>Tracing\<close>.
\<close>

section \<open>The registry\<close>

record httpMetric =
  Metric_Count :: "64 word"
  Metric_Duration :: rat
  Metric_Buckets :: "64 word list"

definition httpDurationBuckets :: "rat list" where
  "httpDurationBuckets = map float64
     [5 / 1000, 1 / 100, 25 / 1000, 5 / 100, 1 / 10, 1 / 4, 1 / 2, 1, 5 / 2, 5]"

record Registry =
  reg_http :: "httpMetric gomap"
  reg_workerRuns :: "64 word"
  reg_workerErrors :: "64 word"
  reg_jobsCompleted :: "64 word"
  reg_deliveryRuns :: "64 word"
  reg_deliveryErrors :: "64 word"
  reg_deliveriesCompleted :: "64 word"
  reg_outboxPending :: int
  reg_metricsToken :: string

definition NewRegistry :: Registry where
  "NewRegistry = \<lparr>reg_http = [], reg_workerRuns = 0, reg_workerErrors = 0, reg_jobsCompleted = 0,
     reg_deliveryRuns = 0, reg_deliveryErrors = 0, reg_deliveriesCompleted = 0, reg_outboxPending = 0,
     reg_metricsToken = []\<rparr>"

definition SetMetricsToken :: "string \<Rightarrow> Registry \<Rightarrow> Registry" where
  "SetMetricsToken token r = r\<lparr>reg_metricsToken := TrimSpace token\<rparr>"

definition ObserveDelivery :: "int \<Rightarrow> int \<Rightarrow> error option \<Rightarrow> Registry \<Rightarrow> Registry" where
  "ObserveDelivery completed pending err r =
     r\<lparr>reg_deliveryRuns := reg_deliveryRuns r + 1,
       reg_deliveriesCompleted := reg_deliveriesCompleted r + of_int completed,
       reg_outboxPending := pending,
       reg_deliveryErrors := (if err \<noteq> None then reg_deliveryErrors r + 1 else reg_deliveryErrors r)\<rparr>"

definition ObserveWorker :: "int \<Rightarrow> error option \<Rightarrow> Registry \<Rightarrow> Registry" where
  "ObserveWorker completed err r =
     r\<lparr>reg_workerRuns := reg_workerRuns r + 1,
       reg_jobsCompleted := reg_jobsCompleted r + of_int completed,
       reg_workerErrors := (if err \<noteq> None then reg_workerErrors r + 1 else reg_workerErrors r)\<rparr>"

section \<open>Observing requests\<close>

definition metric_key :: "string \<Rightarrow> string \<Rightarrow> int \<Rightarrow> string" where
  "metric_key verb route status = verb @ [CHR 0x00] @ route @ [CHR 0x00] @ show_int status"

text \<open>A missing entry is the zero metric; its buckets are made with the first observation.\<close>

definition zero_metric :: httpMetric where
  "zero_metric = \<lparr>Metric_Count = 0, Metric_Duration = 0, Metric_Buckets = []\<rparr>"

definition observe :: "rat \<Rightarrow> httpMetric \<Rightarrow> httpMetric" where
  "observe duration m =
     (let buckets = (if Metric_Buckets m = [] then replicate (length httpDurationBuckets) 0
                     else Metric_Buckets m)
      in \<lparr>Metric_Count = Metric_Count m + 1,
          Metric_Duration = float64 (Metric_Duration m + duration),
          Metric_Buckets = map2 (\<lambda>boundary n. if duration \<le> boundary then n + 1 else n)
            httpDurationBuckets buckets\<rparr>)"

definition record_request :: "string \<Rightarrow> rat \<Rightarrow> Registry \<Rightarrow> Registry" where
  "record_request key duration r =
     r\<lparr>reg_http := gput key (observe duration (gindex zero_metric (reg_http r) key)) (reg_http r)\<rparr>"

text \<open>\<^verbatim>\<open>newRequestID\<close>: sixteen random bytes in hexadecimal, or the time if there are none.\<close>

definition newRequestID :: "8 word list option \<Rightarrow> int \<Rightarrow> string" where
  "newRequestID random unixNano =
     (case random of None \<Rightarrow> show_int unixNano | Some value \<Rightarrow> EncodeToString value)"

definition request_id :: "string \<Rightarrow> request \<Rightarrow> string" where
  "request_id fresh r =
     (let given = TrimSpace (Header_Get r ''X-Request-ID'')
      in if given = [] \<or> 128 < length given then fresh else given)"

text \<open>
  The middleware around a handler that also tells the pattern of the route it matched, empty for
  none. \<open>fresh\<close> is the drawn identifier and \<open>duration\<close> the seconds since the request started.
\<close>

definition Metrics_Middleware ::
  "(request \<Rightarrow> Registry \<times> 's \<Rightarrow> response \<times> string \<times> Registry \<times> 's) \<Rightarrow>
   string \<Rightarrow> rat \<Rightarrow> request \<Rightarrow> Registry \<times> 's \<Rightarrow> response \<times> Registry \<times> 's" where
  "Metrics_Middleware next_handler fresh duration r st =
     (case next_handler r st of (resp, pattern, reg, s) \<Rightarrow>
        let route = (if pattern = [] then ''unmatched'' else pattern);
            key = metric_key (Request_Method r) route (Response_Status resp)
        in (resp\<lparr>Response_Headers := (''X-Request-ID'', request_id fresh r) # Response_Headers resp\<rparr>,
            record_request key duration reg, s))"

section \<open>The Prometheus text\<close>

text \<open>\<^verbatim>\<open>%q\<close> on texts of printable ASCII, as the parts of a key are.\<close>

definition quote :: "string \<Rightarrow> string" where
  "quote s = [CHR 0x22] @ concat (map (\<lambda>c. if c = CHR 0x22 \<or> c = CHR 0x5C then [CHR 0x5C, c] else [c]) s) @
     [CHR 0x22]"

definition le_labels :: "string list" where
  "le_labels = [''0.005'', ''0.01'', ''0.025'', ''0.05'', ''0.1'', ''0.25'', ''0.5'', ''1'', ''2.5'', ''5'']"

text \<open>\<^verbatim>\<open>%f\<close>: six decimals of a number that is not negative.\<close>

definition format_f :: "rat \<Rightarrow> string" where
  "format_f x =
     (let n = nat (round_even (x * 1000000)); frac = show_nat (n mod 1000000)
      in show_nat (n div 1000000) @ ''.'' @ replicate (6 - length frac) CHR ''0'' @ frac)"

definition line :: "string \<Rightarrow> string" where
  "line s = s @ [CHR 0x0A]"

definition metric_lines :: "string \<Rightarrow> httpMetric \<Rightarrow> string" where
  "metric_lines key m =
     (let parts = Split CHR 0x00 key;
          labels = ''method='' @ quote (parts ! 0) @ '',route='' @ quote (parts ! 1) @
            '',status='' @ quote (parts ! 2);
          bucket = (\<lambda>le n. line (''fccp_http_request_duration_seconds_bucket{'' @ labels @ '',le='' @
            quote le @ ''} '' @ show_nat (unat n)))
      in line (''fccp_http_requests_total{'' @ labels @ ''} '' @ show_nat (unat (Metric_Count m))) @
         concat (map2 bucket le_labels (Metric_Buckets m)) @
         bucket ''+Inf'' (Metric_Count m) @
         line (''fccp_http_request_duration_seconds_sum{'' @ labels @ ''} '' @ format_f (Metric_Duration m)) @
         line (''fccp_http_request_duration_seconds_count{'' @ labels @ ''} '' @
           show_nat (unat (Metric_Count m))))"

definition counter_lines :: "string \<Rightarrow> string \<Rightarrow> string \<Rightarrow> string \<Rightarrow> string" where
  "counter_lines name help kind shown =
     line (''# HELP '' @ name @ '' '' @ help) @ line (''# TYPE '' @ name @ '' '' @ kind) @
     line (name @ '' '' @ shown)"

definition metrics_text :: "Registry \<Rightarrow> string" where
  "metrics_text r =
     line ''# HELP fccp_http_requests_total Total HTTP requests.'' @
     line ''# TYPE fccp_http_requests_total counter'' @
     line ''# HELP fccp_http_request_duration_seconds HTTP request duration by route.'' @
     line ''# TYPE fccp_http_request_duration_seconds histogram'' @
     concat (map (\<lambda>key. metric_lines key (gindex zero_metric (reg_http r) key)) (sort (map fst (reg_http r)))) @
     counter_lines ''fccp_screening_worker_runs_total'' ''Screening worker polling runs.'' ''counter''
       (show_nat (unat (reg_workerRuns r))) @
     counter_lines ''fccp_screening_worker_errors_total'' ''Screening worker runs with failures.'' ''counter''
       (show_nat (unat (reg_workerErrors r))) @
     counter_lines ''fccp_screening_jobs_completed_total''
       ''Successfully completed recurring screening jobs.'' ''counter''
       (show_nat (unat (reg_jobsCompleted r))) @
     counter_lines ''fccp_notification_delivery_runs_total'' ''Notification delivery worker runs.''
       ''counter'' (show_nat (unat (reg_deliveryRuns r))) @
     counter_lines ''fccp_notification_delivery_errors_total'' ''Notification delivery worker failures.''
       ''counter'' (show_nat (unat (reg_deliveryErrors r))) @
     counter_lines ''fccp_notification_deliveries_completed_total''
       ''Successfully delivered external notifications.'' ''counter''
       (show_nat (unat (reg_deliveriesCompleted r))) @
     counter_lines ''fccp_notification_outbox_pending'' ''Pending notification outbox messages.''
       ''gauge'' (show_int (reg_outboxPending r))"

definition TrimPrefix :: "string \<Rightarrow> string \<Rightarrow> string" where
  "TrimPrefix p s = (if prefix p s then drop (length p) s else s)"

definition Metrics_Handler :: "request \<Rightarrow> Registry \<Rightarrow> response" where
  "Metrics_Handler request r =
     (if reg_metricsToken r \<noteq> [] \<and>
         TrimPrefix ''Bearer '' (Header_Get request ''Authorization'') \<noteq> reg_metricsToken r
      then \<lparr>Response_Status = 401,
            Response_Headers = [(''WWW-Authenticate'', ''Bearer realm='' @ quote ''metrics''),
              (''Content-Type'', ''text/plain; charset=utf-8''), (''X-Content-Type-Options'', ''nosniff'')],
            Response_Body = Text (line ''unauthorized'')\<rparr>
      else \<lparr>Response_Status = 200,
            Response_Headers = [(''Content-Type'', ''text/plain; version=0.0.4; charset=utf-8'')],
            Response_Body = Text (metrics_text r)\<rparr>)"

section \<open>What the histograms count\<close>

lemma length_httpDurationBuckets [simp]: "length httpDurationBuckets = 10"
  by (simp add: httpDurationBuckets_def)

lemma httpDurationBuckets_sorted: "sorted httpDurationBuckets"
  unfolding httpDurationBuckets_def by (simp add: float64_mono)

text \<open>The metric of a list of durations, and the number of them up to a boundary.\<close>

definition metric_of :: "rat list \<Rightarrow> httpMetric" where
  "metric_of ds = fold observe ds zero_metric"

definition at_most :: "rat list \<Rightarrow> rat \<Rightarrow> nat" where
  "at_most ds boundary = length (filter (\<lambda>d. d \<le> boundary) ds)"

lemma metric_of_snoc: "metric_of (ds @ [d]) = observe d (metric_of ds)"
  by (simp add: metric_of_def)

lemma metric_of_counts:
  "Metric_Count (metric_of ds) = of_nat (length ds) \<and>
   (ds \<noteq> [] \<longrightarrow> Metric_Buckets (metric_of ds) = map (\<lambda>b. of_nat (at_most ds b)) httpDurationBuckets) \<and>
   (ds = [] \<longrightarrow> Metric_Buckets (metric_of ds) = [])"
proof (induction ds rule: rev_induct)
  case (snoc d ds)
  have "map2 (\<lambda>b n. if d \<le> b then n + 1 else n) httpDurationBuckets
      (map (\<lambda>b. of_nat (at_most ds b) :: 64 word) httpDurationBuckets) =
    map (\<lambda>b. of_nat (at_most (ds @ [d]) b)) httpDurationBuckets"
    by (rule nth_equalityI) (simp_all add: at_most_def add.commute)
  moreover have "map2 (\<lambda>b n. if d \<le> b then n + 1 else n) httpDurationBuckets
      (replicate (length httpDurationBuckets) (0 :: 64 word)) =
    map (\<lambda>b. of_nat (at_most [d] b)) httpDurationBuckets"
    by (rule nth_equalityI) (simp_all add: at_most_def)
  moreover have "map (\<lambda>b. of_nat (at_most ds b) :: 64 word) httpDurationBuckets \<noteq> []"
    using length_httpDurationBuckets by (metis length_map length_0_conv zero_neq_numeral)
  ultimately show ?case
    using snoc metric_of_snoc [of "[]" d] by (cases "ds = []") (simp_all add: metric_of_snoc observe_def Let_def add.commute)
qed (simp add: metric_of_def zero_metric_def)

text \<open>The registry after a list of observations, each a key and a duration.\<close>

definition recorded :: "(string \<times> rat) list \<Rightarrow> Registry \<Rightarrow> Registry" where
  "recorded obs r = fold (\<lambda>(key, d). record_request key d) obs r"

definition durations :: "string \<Rightarrow> (string \<times> rat) list \<Rightarrow> rat list" where
  "durations key obs = map snd (filter (\<lambda>(k, _). k = key) obs)"

lemma recorded_snoc: "recorded (obs @ [(key, d)]) r = record_request key d (recorded obs r)"
  by (simp add: recorded_def)

lemma recorded_ok: "gomap_ok (reg_http (recorded obs NewRegistry))"
proof (induction obs rule: rev_induct)
  case (snoc ob obs)
  then show ?case by (cases ob) (simp add: recorded_snoc record_request_def)
qed (simp add: recorded_def NewRegistry_def)

lemma recorded_metric:
  "map_of (reg_http (recorded obs NewRegistry)) key =
     (if durations key obs = [] then None else Some (metric_of (durations key obs)))"
proof (induction obs arbitrary: key rule: rev_induct)
  case (snoc ob obs)
  obtain k d where ob: "ob = (k, d)" by fastforce
  have prev: "gindex zero_metric (reg_http (recorded obs NewRegistry)) k = metric_of (durations k obs)"
    using snoc [of k] by (cases "durations k obs = []") (simp_all add: gindex_def metric_of_def)
  have "reg_http (recorded (obs @ [ob]) NewRegistry) =
      gput k (observe d (metric_of (durations k obs))) (reg_http (recorded obs NewRegistry))"
    using prev by (simp add: recorded_def ob record_request_def)
  then show ?case using snoc [of key]
    by (cases "k = key") (simp_all add: durations_def ob flip: metric_of_snoc)
qed (simp add: recorded_def durations_def NewRegistry_def)

lemma at_most_mono: "b \<le> b' \<Longrightarrow> at_most ds b \<le> at_most ds b'"
  unfolding at_most_def by (induction ds) auto

lemma at_most_length: "at_most ds b \<le> length ds"
  by (simp add: at_most_def)

text \<open>
  C40. The histograms are what Prometheus expects. After any observations the series of a key exists
  when it was observed; its count is the number of observations and each bucket the number of those
  that took at most its boundary. As long as the counter does not wrap, the buckets grow with their
  boundaries and none exceeds the count that stands for the bucket without a boundary.
\<close>

theorem histogram_exact:
  assumes "durations key obs \<noteq> []" and "length (durations key obs) < 2 ^ 64"
  shows "\<exists>m. map_of (reg_http (recorded obs NewRegistry)) key = Some m \<and>
    unat (Metric_Count m) = length (durations key obs) \<and>
    map unat (Metric_Buckets m) = map (at_most (durations key obs)) httpDurationBuckets \<and>
    sorted (map unat (Metric_Buckets m)) \<and> (\<forall>n \<in> set (Metric_Buckets m). n \<le> Metric_Count m)"
proof -
  let ?ds = "durations key obs"
  have small: "unat (of_nat n :: 64 word) = n" if "n \<le> length ?ds" for n
    using that assms(2) by (simp add: unat_of_nat take_bit_nat_eq_self)
  have count: "Metric_Count (metric_of ?ds) = of_nat (length ?ds)"
    and buckets: "Metric_Buckets (metric_of ?ds) = map (\<lambda>b. of_nat (at_most ?ds b)) httpDurationBuckets"
    using metric_of_counts [of ?ds] assms(1) by simp_all
  have numbers: "map unat (Metric_Buckets (metric_of ?ds)) = map (at_most ?ds) httpDurationBuckets"
    using small at_most_length by (simp add: buckets)
  have "sorted (map (at_most ?ds) httpDurationBuckets)"
    using httpDurationBuckets_sorted
    by (auto simp: sorted_map intro: sorted_wrt_mono_rel [rotated] at_most_mono)
  moreover have "n \<le> Metric_Count (metric_of ?ds)" if "n \<in> set (Metric_Buckets (metric_of ?ds))" for n
    using that small at_most_length [of ?ds] by (auto simp: buckets count word_le_nat_alt)
  ultimately show ?thesis
    using assms(1) small [of "length ?ds"] numbers by (simp add: recorded_metric count)
qed

theorem histogram_exact_witness:
  "\<exists>m. map_of (reg_http (recorded [(''a'', 1 / 50), (''b'', 9), (''a'', 3)] NewRegistry)) ''a'' = Some m \<and>
     unat (Metric_Count m) = 2"
  using histogram_exact [of "''a''" "[(''a'', 1 / 50), (''b'', 9), (''a'', 3)]"]
  by (auto simp: durations_def)

text \<open>
  The labels of a series hold the method as the client sent it. So a client that sends one unknown
  method after another makes one series each, which the registry keeps for good.
\<close>

lemma series_per_method:
  assumes "distinct verbs"
  shows "length (reg_http (recorded (map (\<lambda>v. (metric_key v ''unmatched'' 404, 0)) verbs) NewRegistry)) =
    length verbs"
proof -
  let ?obs = "map (\<lambda>v. (metric_key v ''unmatched'' 404, 0 :: rat)) verbs"
  have inj: "metric_key v ''unmatched'' 404 = metric_key w ''unmatched'' 404 \<longleftrightarrow> v = w" for v w
    by (auto simp: metric_key_def)
  have "key \<in> set (map fst (reg_http (recorded ?obs NewRegistry))) \<longleftrightarrow> durations key ?obs \<noteq> []" for key
    using recorded_metric [of ?obs key] map_of_eq_None_iff [of "reg_http (recorded ?obs NewRegistry)" key]
    by (simp split: if_splits)
  moreover have "durations key ?obs \<noteq> [] \<longleftrightarrow> key \<in> (\<lambda>v. metric_key v ''unmatched'' 404) ` set verbs" for key
    by (auto simp: durations_def filter_empty_conv)
  ultimately have keys: "set (map fst (reg_http (recorded ?obs NewRegistry))) =
      (\<lambda>v. metric_key v ''unmatched'' 404) ` set verbs" by blast
  have "distinct (map fst (reg_http (recorded ?obs NewRegistry)))"
    using recorded_ok by (simp only: gomap_ok_def)
  from distinct_card [OF this, symmetric]
  have "length (reg_http (recorded ?obs NewRegistry)) =
      card ((\<lambda>v. metric_key v ''unmatched'' 404) ` set verbs)" by (simp only: keys length_map)
  also have "card ((\<lambda>v. metric_key v ''unmatched'' 404) ` set verbs) = length verbs"
    using assms inj by (simp add: card_image inj_on_def distinct_card)
  finally show ?thesis .
qed

end
