(* ===== verification/Rate_Limiter.thy ===== *)
theory Rate_Limiter
  imports Floats Http
begin

text \<open>
  \<^verbatim>\<open>internal/security/http.go\<close>: the token bucket per client, its middleware, and the security
  headers. The mutex makes \<^verbatim>\<open>allow\<close> one step. A middleware wraps a function from requests to
  responses with the state it works on.
\<close>

section \<open>Buckets\<close>

record bucket =
  Bucket_tokens :: rat
  Bucket_updated :: time

record RateLimiter =
  limiter_clients :: "bucket gomap"
  limiter_rate :: rat
  limiter_burst :: rat
  limiter_lastPrune :: time

definition NewRateLimiter :: "rat \<Rightarrow> int \<Rightarrow> RateLimiter" where
  "NewRateLimiter rate burst = \<lparr>limiter_clients = [], limiter_rate = rate,
     limiter_burst = float64 (of_int burst), limiter_lastPrune = zero_time\<rparr>"

text \<open>\<^verbatim>\<open>Duration.Seconds\<close>: whole seconds and nanoseconds apart, each rounded to a \<^verbatim>\<open>float64\<close>.\<close>

definition Second :: duration where "Second = 1000000000"

definition Seconds :: "duration \<Rightarrow> rat" where
  "Seconds d =
     (let sec = sgn d * (\<bar>d\<bar> div Second); nsec = sgn d * (\<bar>d\<bar> mod Second);
          to_float = (\<lambda>n. if 0 \<le> n then float64 (of_int n) else - float64 (of_int (- n)))
      in float64 (to_float sec + float64 (to_float nsec / 1000000000)))"

text \<open>\<^verbatim>\<open>delete\<close> while ranging over the map: what is left are the clients seen within ten minutes.\<close>

definition prune :: "time \<Rightarrow> RateLimiter \<Rightarrow> RateLimiter" where
  "prune now l =
     (if IsZero (limiter_lastPrune l) \<or> Minute < now - limiter_lastPrune l
      then l\<lparr>limiter_clients := filter (\<lambda>(_, item). \<not> 10 * Minute < now - Bucket_updated item)
               (limiter_clients l),
             limiter_lastPrune := now\<rparr>
      else l)"

definition refilled :: "RateLimiter \<Rightarrow> time \<Rightarrow> bucket \<Rightarrow> rat" where
  "refilled l now item =
     (let tokens = float64 (Bucket_tokens item +
                     float64 (Seconds (now - Bucket_updated item) * limiter_rate l))
      in if limiter_burst l < tokens then limiter_burst l else tokens)"

definition allow :: "time \<Rightarrow> string \<Rightarrow> RateLimiter \<Rightarrow> bool \<times> RateLimiter" where
  "allow now key l0 =
     (let l = prune now l0;
          item = (case map_of (limiter_clients l) key of
                    Some item \<Rightarrow> item
                  | None \<Rightarrow> \<lparr>Bucket_tokens = limiter_burst l, Bucket_updated = now\<rparr>);
          tokens = refilled l now item
      in if tokens < 1
         then (False, l\<lparr>limiter_clients := gput key \<lparr>Bucket_tokens = tokens, Bucket_updated = now\<rparr>
                          (limiter_clients l)\<rparr>)
         else (True, l\<lparr>limiter_clients := gput key \<lparr>Bucket_tokens = float64 (tokens - 1),
                          Bucket_updated = now\<rparr> (limiter_clients l)\<rparr>))"

section \<open>The middlewares\<close>

text \<open>\<^verbatim>\<open>net.SplitHostPort\<close>: the host, unless the address is malformed.\<close>

definition last_index :: "char \<Rightarrow> string \<Rightarrow> nat option" where
  "last_index c s = map_option (\<lambda>i. length s - 1 - i) (position c (rev s))"

definition SplitHostPort :: "string \<Rightarrow> string option" where
  "SplitHostPort hostport =
     (case last_index CHR '':'' hostport of
        None \<Rightarrow> None
      | Some i \<Rightarrow>
          if hostport ! 0 = CHR ''[''
          then (case position CHR '']'' hostport of
                  None \<Rightarrow> None
                | Some end' \<Rightarrow>
                    if end' + 1 \<noteq> i then None
                    else if CHR ''['' \<in> set (drop 1 hostport) \<or> CHR '']'' \<in> set (drop (end' + 1) hostport)
                    then None
                    else Some (take (end' - 1) (drop 1 hostport)))
          else (let host = take i hostport
                in if CHR '':'' \<in> set host \<or> CHR ''['' \<in> set hostport \<or> CHR '']'' \<in> set hostport
                   then None else Some host))"

definition client_key :: "request \<Rightarrow> string" where
  "client_key r = (case SplitHostPort (RemoteAddr r) of Some host \<Rightarrow> host | None \<Rightarrow> RemoteAddr r)"

definition rate_limited_response :: response where
  "rate_limited_response = \<lparr>Response_Status = 429,
     Response_Headers = [(''Content-Type'', ''application/json''), (''Retry-After'', ''1'')],
     Response_Body = Error_JSON ''rate_limited'' ''Request rate limit exceeded''\<rparr>"

definition RateLimiter_Middleware ::
  "(request \<Rightarrow> 's \<Rightarrow> response \<times> 's) \<Rightarrow> time \<Rightarrow> request \<Rightarrow> RateLimiter \<times> 's \<Rightarrow> response \<times> RateLimiter \<times> 's" where
  "RateLimiter_Middleware next_handler now r st =
     (case st of (l, s) \<Rightarrow>
        if URL_Path r = ''/healthz'' \<or> URL_Path r = ''/readyz'' \<or> URL_Path r = ''/metrics''
        then (case next_handler r s of (resp, s') \<Rightarrow> (resp, l, s'))
        else (case allow now (client_key r) l of
            (False, l') \<Rightarrow> (rate_limited_response, l', s)
          | (True, l') \<Rightarrow> (case next_handler r s of (resp, s') \<Rightarrow> (resp, l', s'))))"

definition security_headers :: "(string \<times> string) list" where
  "security_headers =
     [(''X-Content-Type-Options'', ''nosniff''), (''X-Frame-Options'', ''DENY''),
      (''Referrer-Policy'', ''no-referrer''),
      (''Permissions-Policy'', ''camera=(), microphone=(), geolocation=()''),
      (''Cache-Control'', ''no-store''),
      (''Content-Security-Policy'',
       ''default-src '' @ [CHR 0x27] @ ''none'' @ [CHR 0x27] @ ''; frame-ancestors '' @ [CHR 0x27] @
       ''none'' @ [CHR 0x27] @ ''; base-uri '' @ [CHR 0x27] @ ''none'' @ [CHR 0x27])]"

text \<open>Headers set before the next handler are in its response unless it sets them itself.\<close>

definition set_headers :: "(string \<times> string) list \<Rightarrow> response \<Rightarrow> response" where
  "set_headers hs resp = resp\<lparr>Response_Headers :=
     Response_Headers resp @ filter (\<lambda>(name, _). name \<notin> fst ` set (Response_Headers resp)) hs\<rparr>"

definition Headers :: "(request \<Rightarrow> 's \<Rightarrow> response \<times> 's) \<Rightarrow> request \<Rightarrow> 's \<Rightarrow> response \<times> 's" where
  "Headers next_handler r s = apfst (set_headers security_headers) (next_handler r s)"

section \<open>How many calls a bucket admits\<close>

text \<open>What a span of time adds to a bucket at most, roundings included, and the rounding of one call.\<close>

definition gain :: "RateLimiter \<Rightarrow> duration \<Rightarrow> rat" where
  "gain l d = limiter_rate l * (of_int d / 1000000000) * (1 + 1 / 2 ^ 50)"

definition slack :: "RateLimiter \<Rightarrow> rat" where
  "slack l = limiter_burst l / 2 ^ 52"

definition limiter_ok :: "RateLimiter \<Rightarrow> time \<Rightarrow> bool" where
  "limiter_ok l now \<longleftrightarrow> 0 < limiter_rate l \<and> 0 \<le> limiter_burst l \<and>
     float64 (limiter_burst l) = limiter_burst l \<and>
     (\<forall>k b. map_of (limiter_clients l) k = Some b \<longrightarrow>
        0 \<le> Bucket_tokens b \<and> Bucket_tokens b \<le> limiter_burst l \<and> Bucket_updated b \<le> now) \<and>
     gomap_ok (limiter_clients l)"

lemma float64_le: "0 \<le> x \<Longrightarrow> float64 x \<le> x * (1 + 1 / 2 ^ 53)"
proof -
  assume "0 \<le> x"
  then have "float64 x - x \<le> x / 2 ^ 53" using float64_error [of x] by (simp only: abs_le_iff)
  moreover have "x * (1 + 1 / 2 ^ 53) = x + x / 2 ^ 53" by (simp only: distrib_left mult_1_right times_divide_eq_right)
  ultimately show ?thesis by linarith
qed

text \<open>One rounding up, as a factor that the proofs keep closed.\<close>

definition rounding :: rat where "rounding = 1 + 1 / 2 ^ 53"

lemma rounding_ge1: "1 \<le> rounding"
  by (simp add: rounding_def)

lemma rounding_power: "rounding ^ 5 \<le> 1 + 1 / 2 ^ 50"
  by (simp add: rounding_def power_numeral_reduce)

lemma float64_rounding: "0 \<le> x \<Longrightarrow> float64 x \<le> x * rounding"
  unfolding rounding_def by (rule float64_le)

lemma Seconds_bounds:
  assumes "0 \<le> d"
  shows "0 \<le> Seconds d" and "Seconds d \<le> of_int d / 1000000000 * rounding ^ 3"
proof -
  note e1 = rounding_ge1
  then have e0: "0 \<le> rounding" by linarith
  define s n where "s = (of_int (d div Second) :: rat)" and "n = (of_int (d mod Second) / 1000000000 :: rat)"
  have nonneg: "0 \<le> s" "0 \<le> n"
    using assms by (simp_all add: s_def n_def Second_def pos_imp_zdiv_nonneg_iff)
  have "d = 1000000000 * (d div Second) + d mod Second" by (simp add: Second_def)
  then have "(of_int d :: rat) = of_int (1000000000 * (d div Second) + d mod Second)" by (rule arg_cong)
  then have d: "of_int d / 1000000000 = s + n" by (simp add: s_def n_def add_divide_distrib)
  have div: "sgn d * (\<bar>d\<bar> div Second) = d div Second" "sgn d * (\<bar>d\<bar> mod Second) = d mod Second"
    using assms by (cases "d = 0"; simp)+
  let ?q = "float64 (float64 (of_int (d mod Second)) / 1000000000)"
  have Sec: "Seconds d = float64 (float64 s + ?q)"
  proof -
    have "0 \<le> d div Second" "0 \<le> d mod Second"
      using assms by (simp_all add: Second_def pos_imp_zdiv_nonneg_iff)
    then show ?thesis unfolding Seconds_def Let_def div s_def by (simp only: if_True)
  qed
  have f1: "0 \<le> float64 s" "float64 s \<le> s * rounding"
    using nonneg by (simp_all add: float64_nonneg float64_rounding)
  have m: "0 \<le> float64 (of_int (d mod Second))" "float64 (of_int (d mod Second)) \<le> of_int (d mod Second) * rounding"
    by (simp_all add: float64_nonneg float64_rounding Second_def)
  have q0: "0 \<le> float64 (of_int (d mod Second)) / 1000000000" using m(1) by simp
  have q1: "float64 (of_int (d mod Second)) / 1000000000 \<le> n * rounding"
    using m(2) by (simp add: n_def divide_right_mono)
  have f2: "0 \<le> ?q" "?q \<le> n * rounding * rounding"
  proof -
    show "0 \<le> ?q" using q0 by (rule float64_nonneg)
    have "?q \<le> float64 (of_int (d mod Second)) / 1000000000 * rounding" by (rule float64_rounding [OF q0])
    also have "\<dots> \<le> n * rounding * rounding" using q1 e0 by (rule mult_right_mono)
    finally show "?q \<le> n * rounding * rounding" .
  qed
  show "0 \<le> Seconds d" unfolding Sec using f1 f2 by (intro float64_nonneg) simp
  have "Seconds d \<le> (float64 s + ?q) * rounding"
    unfolding Sec using f1 f2 by (intro float64_rounding) simp
  also have "\<dots> \<le> (s * rounding * rounding + n * rounding * rounding) * rounding"
  proof (rule mult_right_mono)
    have "s * rounding \<le> s * rounding * rounding" using nonneg e0 e1 mult_left_mono [of 1 rounding "s * rounding"] by simp
    then show "float64 s + ?q \<le> s * rounding * rounding + n * rounding * rounding" using f1 f2 by linarith
  qed (rule e0)
  also have "\<dots> = (s + n) * rounding ^ 3" by (simp add: algebra_simps power3_eq_cube)
  finally show "Seconds d \<le> of_int d / 1000000000 * rounding ^ 3" by (simp add: d)
qed

lemma refilled_bounds:
  assumes "0 < limiter_rate l" and "0 \<le> limiter_burst l" and "0 \<le> Bucket_tokens b"
    and "Bucket_tokens b \<le> limiter_burst l" and "Bucket_updated b \<le> now"
  shows "0 \<le> refilled l now b" and "refilled l now b \<le> limiter_burst l"
    and "refilled l now b \<le> Bucket_tokens b + gain l (now - Bucket_updated b) + limiter_burst l / 2 ^ 53"
proof -
  note e1 = rounding_ge1
  then have e0: "0 \<le> rounding" by linarith
  let ?d = "now - Bucket_updated b" and ?t = "Bucket_tokens b"
  let ?R = "limiter_rate l * (of_int ?d / 1000000000)"
  have d: "0 \<le> ?d" using assms(5) by simp
  note sec = Seconds_bounds [OF d]
  have sr: "0 \<le> Seconds ?d * limiter_rate l" using sec(1) assms(1) by simp
  define r where "r = float64 (Seconds ?d * limiter_rate l)"
  have r0: "0 \<le> r" unfolding r_def using sr by (rule float64_nonneg)
  have R0: "0 \<le> ?R" using assms(1) d by simp
  have "r \<le> Seconds ?d * limiter_rate l * rounding" unfolding r_def using sr by (rule float64_rounding)
  also have "\<dots> \<le> (of_int ?d / 1000000000 * rounding ^ 3) * limiter_rate l * rounding"
    using sec(2) assms(1) e0 by (intro mult_right_mono) simp_all
  also have "\<dots> = ?R * rounding ^ 4" by (simp only: power3_eq_cube power4_eq_xxxx mult_ac)
  finally have r1: "r \<le> ?R * rounding ^ 4" .
  have tr: "0 \<le> ?t + r" using assms(3) r0 by simp
  have "float64 (?t + r) \<le> (?t + r) * rounding" by (rule float64_rounding [OF tr])
  also have "\<dots> = ?t + ?t / 2 ^ 53 + r * rounding"
    by (simp only: rounding_def distrib_left distrib_right mult_1_right times_divide_eq_right
        add_divide_distrib add_ac)
  also have "\<dots> \<le> ?t + limiter_burst l / 2 ^ 53 + ?R * rounding ^ 5"
  proof -
    have "r * rounding \<le> ?R * rounding ^ 4 * rounding" using r1 e0 by (rule mult_right_mono)
    moreover have "?R * rounding ^ 4 * rounding = ?R * rounding ^ 5" by (simp add: power_numeral_reduce)
    moreover have "?t / 2 ^ 53 \<le> limiter_burst l / 2 ^ 53" using assms(4) by (rule divide_right_mono) simp
    ultimately show ?thesis by linarith
  qed
  also have "?R * rounding ^ 5 \<le> ?R * (1 + 1 / 2 ^ 50)"
    using R0 rounding_power by (intro mult_left_mono)
  finally have up: "float64 (?t + r) \<le> ?t + gain l ?d + limiter_burst l / 2 ^ 53"
    by (simp add: gain_def)
  show "0 \<le> refilled l now b"
    using float64_nonneg [OF tr] assms(2) by (simp add: refilled_def r_def Let_def)
  show "refilled l now b \<le> limiter_burst l" by (simp add: refilled_def Let_def)
  show "refilled l now b \<le> ?t + gain l ?d + limiter_burst l / 2 ^ 53"
    using up by (auto simp: refilled_def r_def Let_def)
qed

text \<open>
  What a client can spend at most at an instant: its bucket, refilled without rounding down, or a
  full one if it has none.
\<close>

definition credit :: "string \<Rightarrow> RateLimiter \<Rightarrow> time \<Rightarrow> rat" where
  "credit key l now =
     (case map_of (limiter_clients l) key of
        None \<Rightarrow> limiter_burst l
      | Some b \<Rightarrow> min (limiter_burst l) (Bucket_tokens b + gain l (now - Bucket_updated b)))"

lemma gain_add: "gain l (a + b) = gain l a + gain l b"
  by (simp add: gain_def add_divide_distrib distrib_left distrib_right)

lemma gain_nonneg: "0 < limiter_rate l \<Longrightarrow> 0 \<le> d \<Longrightarrow> 0 \<le> gain l d"
  by (simp add: gain_def)

lemma gain_mono: "0 < limiter_rate l \<Longrightarrow> d \<le> d' \<Longrightarrow> gain l d \<le> gain l d'"
  using gain_add [of l d "d' - d"] gain_nonneg [of l "d' - d"] by simp

lemma credit_burst: "credit key l now \<le> limiter_burst l"
  by (simp add: credit_def split: option.split)

lemma credit_later:
  assumes "0 < limiter_rate l" and "now \<le> now'"
  shows "credit key l now' \<le> credit key l now + gain l (now' - now)"
proof (cases "map_of (limiter_clients l) key")
  case (Some b)
  have "gain l (now' - Bucket_updated b) = gain l (now - Bucket_updated b) + gain l (now' - now)"
    using gain_add [of l "now - Bucket_updated b" "now' - now"] by simp
  then show ?thesis using Some gain_nonneg [OF assms(1), of "now' - now"] assms(2)
    by (auto simp: credit_def min_def)
qed (use assms gain_nonneg in \<open>simp add: credit_def\<close>)

text \<open>Pruning forgets a client only when its bucket would be full again anyway.\<close>

lemma map_of_filter_snd:
  "gomap_ok m \<Longrightarrow> map_of (filter (\<lambda>(_, v). P v) m) k =
     (case map_of m k of None \<Rightarrow> None | Some v \<Rightarrow> if P v then Some v else None)"
proof (induction m)
  case (Cons kv m)
  obtain j v where kv: "kv = (j, v)" by fastforce
  show ?case
  proof (cases "j = k")
    case True
    then have "map_of m k = None" using Cons.prems kv by (simp add: gomap_ok_def map_of_eq_None_iff)
    then show ?thesis using True Cons kv by (simp add: gomap_ok_def)
  next
    case False
    then show ?thesis using Cons kv by (simp add: gomap_ok_def)
  qed
qed simp

lemma prune_ok:
  assumes "limiter_ok l now" and "limiter_burst l \<le> 600 * limiter_rate l"
  shows "limiter_ok (prune now l) now" and "credit key (prune now l) now \<le> credit key l now"
proof -
  have ok: "gomap_ok (limiter_clients l)" and rate: "0 < limiter_rate l"
    using assms(1) by (simp_all add: limiter_ok_def)
  have sub: "map_of (limiter_clients (prune now l)) k = Some b \<Longrightarrow> map_of (limiter_clients l) k = Some b" for k b
    by (auto simp: prune_def map_of_filter_snd [OF ok] split: option.splits if_splits)
  have "gomap_ok (limiter_clients (prune now l))"
    using ok by (auto simp: prune_def gomap_ok_def intro: distinct_map_filter)
  moreover have "limiter_rate (prune now l) = limiter_rate l" "limiter_burst (prune now l) = limiter_burst l"
    by (simp_all add: prune_def)
  ultimately show "limiter_ok (prune now l) now"
    using assms(1) sub unfolding limiter_ok_def by auto
  show "credit key (prune now l) now \<le> credit key l now"
  proof (cases "map_of (limiter_clients (prune now l)) key = map_of (limiter_clients l) key")
    case True
    then show ?thesis by (simp add: credit_def prune_def gain_def split: option.split)
  next
    case False
    then obtain b where b: "map_of (limiter_clients l) key = Some b"
      and idle: "10 * Minute < now - Bucket_updated b"
      by (auto simp: prune_def map_of_filter_snd [OF ok] split: option.splits if_splits)
    have "limiter_burst l \<le> gain l (10 * Minute)"
      using assms(2) rate by (simp add: gain_def Minute_def)
    also have "\<dots> \<le> gain l (now - Bucket_updated b)" using idle by (intro gain_mono [OF rate]) simp
    finally have "credit key l now = limiter_burst l"
      using b assms(1) unfolding limiter_ok_def credit_def by (fastforce simp: min_def)
    then show ?thesis using credit_burst [of key "prune now l" now] by (simp add: prune_def split: if_splits)
  qed
qed

lemma credit_same:
  "map_of (limiter_clients l') k = map_of (limiter_clients l) k \<Longrightarrow> limiter_rate l' = limiter_rate l \<Longrightarrow>
   limiter_burst l' = limiter_burst l \<Longrightarrow> credit k l' now = credit k l now"
  by (simp add: credit_def gain_def split: option.split)

lemma limiter_ok_later: "limiter_ok l now \<Longrightarrow> now \<le> now' \<Longrightarrow> limiter_ok l now'"
  by (force simp: limiter_ok_def)

text \<open>One call: what it admits is paid from the client's credit; other clients keep theirs.\<close>

lemma allow_step:
  assumes ok0: "limiter_ok l0 now" and burst: "limiter_burst l0 \<le> 600 * limiter_rate l0"
    and run: "allow now key l0 = (admit, l')"
  shows "limiter_ok l' now" and "limiter_rate l' = limiter_rate l0"
    and "limiter_burst l' = limiter_burst l0"
    and "credit key l' now + (if admit then 1 else 0) \<le> credit key l0 now + slack l0"
    and "k \<noteq> key \<Longrightarrow> credit k l' now \<le> credit k l0 now"
proof -
  define l where "l = prune now l0"
  have ok: "limiter_ok l now" and cred: "\<And>k. credit k l now \<le> credit k l0 now"
    unfolding l_def using prune_ok [OF ok0 burst] by blast+
  have same: "limiter_rate l = limiter_rate l0" "limiter_burst l = limiter_burst l0"
    by (simp_all add: l_def prune_def)
  define item where "item = (case map_of (limiter_clients l) key of Some item \<Rightarrow> item
      | None \<Rightarrow> \<lparr>Bucket_tokens = limiter_burst l, Bucket_updated = now\<rparr>)"
  have item: "0 \<le> Bucket_tokens item" "Bucket_tokens item \<le> limiter_burst l" "Bucket_updated item \<le> now"
    using ok by (auto simp: item_def limiter_ok_def split: option.split)
  have pos: "0 < limiter_rate l" "0 \<le> limiter_burst l" "float64 (limiter_burst l) = limiter_burst l"
    using ok by (simp_all add: limiter_ok_def)
  define tokens where "tokens = refilled l now item"
  note bounds = refilled_bounds [OF pos(1,2) item, folded tokens_def]
  have afford: "tokens \<le> credit key l now + limiter_burst l / 2 ^ 53"
    using bounds(2,3) pos(2) by (auto simp: credit_def item_def min_def split: option.split)
  define t' where "t' = (if tokens < 1 then tokens else float64 (tokens - 1))"
  have l': "l' = l\<lparr>limiter_clients := gput key \<lparr>Bucket_tokens = t', Bucket_updated = now\<rparr> (limiter_clients l)\<rparr>"
    and admit: "admit \<longleftrightarrow> \<not> tokens < 1"
    using run unfolding allow_def Let_def l_def [symmetric] item_def [symmetric] tokens_def [symmetric]
    by (simp_all add: t'_def split: if_splits)
  have t': "0 \<le> t'" "t' \<le> limiter_burst l" "t' + (if admit then 1 else 0) \<le> tokens + limiter_burst l / 2 ^ 53"
  proof -
    show "0 \<le> t'" using bounds(1) by (simp add: t'_def float64_nonneg)
    have "float64 (tokens - 1) \<le> float64 (limiter_burst l)" if "\<not> tokens < 1"
      using that bounds(2) by (intro float64_mono) simp_all
    then show "t' \<le> limiter_burst l" using bounds(2) pos(3) by (simp add: t'_def)
    have "float64 (tokens - 1) \<le> tokens - 1 + limiter_burst l / 2 ^ 53" if "\<not> tokens < 1"
    proof -
      have "float64 (tokens - 1) \<le> tokens - 1 + (tokens - 1) / 2 ^ 53"
        using float64_error [of "tokens - 1"] that by (simp only: abs_le_iff) linarith
      moreover have "(tokens - 1) / 2 ^ 53 \<le> limiter_burst l / 2 ^ 53"
        using bounds(2) by (intro divide_right_mono) simp_all
      ultimately show ?thesis by linarith
    qed
    then show "t' + (if admit then 1 else 0) \<le> tokens + limiter_burst l / 2 ^ 53"
      using pos(2) by (auto simp: t'_def admit)
  qed
  show "limiter_rate l' = limiter_rate l0" and "limiter_burst l' = limiter_burst l0"
    by (simp_all add: l' same)
  show "limiter_ok l' now" using ok t'(1,2) by (auto simp: limiter_ok_def l')
  have "credit key l' now \<le> t'" by (simp add: credit_def l' gain_def)
  moreover have "slack l0 = limiter_burst l / 2 ^ 53 + limiter_burst l / 2 ^ 53" by (simp add: slack_def same)
  ultimately show "credit key l' now + (if admit then 1 else 0) \<le> credit key l0 now + slack l0"
    using t'(3) afford cred [of key] by linarith
  show "k \<noteq> key \<Longrightarrow> credit k l' now \<le> credit k l0 now"
    using cred [of k] credit_same [of l' k l now] by (simp add: l')
qed

text \<open>The calls of a client that a sequence of calls, of any clients, admits.\<close>

fun admissions :: "string \<Rightarrow> (time \<times> string) list \<Rightarrow> RateLimiter \<Rightarrow> nat" where
  "admissions key [] l = 0"
| "admissions key ((now, k) # calls) l =
     (case allow now k l of (admit, l') \<Rightarrow>
        (if admit \<and> k = key then 1 else 0) + admissions key calls l')"

fun limiter_after :: "(time \<times> string) list \<Rightarrow> RateLimiter \<Rightarrow> RateLimiter" where
  "limiter_after [] l = l"
| "limiter_after ((now, k) # calls) l = limiter_after calls (snd (allow now k l))"

lemma limiter_after_ok:
  assumes "limiter_ok l now" and "limiter_burst l \<le> 600 * limiter_rate l"
    and "sorted (now # map fst calls)"
  shows "limiter_ok (limiter_after calls l) (last (now # map fst calls)) \<and>
    limiter_rate (limiter_after calls l) = limiter_rate l \<and>
    limiter_burst (limiter_after calls l) = limiter_burst l"
  using assms
proof (induction calls arbitrary: l now)
  case (Cons call calls)
  obtain t k admit l' where call: "call = (t, k)" and run: "allow t k l = (admit, l')" by fastforce
  have "limiter_ok l t" using Cons.prems call by (intro limiter_ok_later [OF Cons.prems(1)]) simp
  note step = allow_step [OF this Cons.prems(2) run]
  show ?case using Cons.IH [of l' t] step(1-3) Cons.prems(2,3) run call by simp
qed simp

lemma admissions_bound:
  assumes "limiter_ok l now" and "limiter_burst l \<le> 600 * limiter_rate l"
    and "sorted (now # map fst calls)"
  shows "of_nat (admissions key calls l) \<le>
    credit key l now + gain l (last (now # map fst calls) - now) +
    of_nat (length (filter (\<lambda>c. snd c = key) calls)) * slack l"
  using assms
proof (induction calls arbitrary: l now)
  case Nil
  have "0 \<le> credit key l now"
    using Nil(1) gain_nonneg [of l] by (auto simp: limiter_ok_def credit_def split: option.split)
  then show ?case by (simp add: gain_def)
next
  case (Cons call calls)
  obtain t k admit l' where call: "call = (t, k)" and run: "allow t k l = (admit, l')" by fastforce
  have t: "now \<le> t" "sorted (t # map fst calls)" using Cons.prems(3) call by simp_all
  have rate: "0 < limiter_rate l" using Cons.prems(1) by (simp add: limiter_ok_def)
  note step = allow_step [OF limiter_ok_later [OF Cons.prems(1) t(1)] Cons.prems(2) run]
  have same: "gain l' = gain l" "slack l' = slack l"
    using step(2,3) by (simp_all add: gain_def slack_def fun_eq_iff)
  let ?n = "of_nat (length (filter (\<lambda>c. snd c = key) calls)) :: rat"
  have IH: "of_nat (admissions key calls l') \<le>
      credit key l' t + gain l (last (t # map fst calls) - t) + ?n * slack l"
    using Cons.IH [OF step(1) _ t(2)] step(2,3) Cons.prems(2) by (simp add: same)
  have later: "credit key l t \<le> credit key l now + gain l (t - now)" by (rule credit_later [OF rate t(1)])
  have "gain l (last (t # map fst calls) - now) = gain l (last (t # map fst calls) - t) + gain l (t - now)"
    using gain_add [of l "last (t # map fst calls) - t" "t - now"] by simp
  moreover have "(of_nat (admissions key (call # calls) l) :: rat) =
      (if admit \<and> k = key then 1 else 0) + of_nat (admissions key calls l')"
    by (simp add: call run)
  moreover have "of_nat (length (filter (\<lambda>c. snd c = key) (call # calls))) * slack l =
      (if k = key then slack l else 0) + ?n * slack l"
    by (simp add: call distrib_right)
  moreover have "credit key l' t + (if admit \<and> k = key then 1 else 0) \<le>
      credit key l t + (if k = key then slack l else 0)"
    using step(4) step(5) [of key] by (cases "k = key") auto
  moreover have end_time: "last (now # map fst (call # calls)) = last (t # map fst calls)" by (simp add: call)
  ultimately show ?case unfolding end_time using IH later by linarith
qed

section \<open>Properties\<close>



text \<open>
  Without that, pruning hands out tokens: at one call per thousand seconds a client that spent its
  bucket has it full again after ten minutes and a nanosecond, although the rate refills less than one.
\<close>

lemma pruned_refill:
  "allow (601 * Second) ''k'' \<lparr>limiter_clients = [(''k'', \<lparr>Bucket_tokens = 0, Bucket_updated = 1\<rparr>)],
     limiter_rate = 1 / 1000, limiter_burst = 40, limiter_lastPrune = 1\<rparr> =
   (True, \<lparr>limiter_clients = [(''k'', \<lparr>Bucket_tokens = 39, Bucket_updated = 601 * Second\<rparr>)],
     limiter_rate = 1 / 1000, limiter_burst = 40, limiter_lastPrune = 601 * Second\<rparr>)"
proof -
  have "float64 40 = 40" "float64 39 = 39"
    using float64_of_int [of 40] float64_of_int [of 39] by simp_all
  then show ?thesis
    by (simp add: allow_def prune_def refilled_def Seconds_def Second_def Minute_def IsZero_def gput_def)
qed

end
