(* ===== verification/Routes.thy ===== *)
theory Routes
  imports Handlers Metrics Rate_Limiter
begin

text \<open>
  \<^verbatim>\<open>NewHandler\<close> of \<^verbatim>\<open>internal/transport/httpapi/handler.go\<close> with \<^verbatim>\<open>authenticate\<close>,
  \<^verbatim>\<open>requireRoles\<close> and \<^verbatim>\<open>requestLogging\<close>: the table of routes, how \<^verbatim>\<open>net/http\<close>'s
  \<^verbatim>\<open>ServeMux\<close> finds the route of a request, and the chain of handlers around it, up to the ones
  \<^verbatim>\<open>cmd/api\<close> adds. Log lines and spans are left out: they read the request and change nothing.
\<close>

section \<open>Paths and patterns\<close>

text \<open>\<^verbatim>\<open>path.Clean\<close> of a rooted path, on its segments from the left; \<open>kept\<close> is reversed.\<close>

fun clean_segments :: "string list \<Rightarrow> string list \<Rightarrow> string list" where
  "clean_segments kept [] = rev kept"
| "clean_segments kept (s # ss) =
     (if s = [] \<or> s = ''.'' then clean_segments kept ss
      else if s = ''..'' then clean_segments (tl kept) ss
      else clean_segments (s # kept) ss)"

definition cleanPath :: "string \<Rightarrow> string" where
  "cleanPath p =
     (if p = [] then ''/''
      else (let p = (if hd p \<noteq> CHR ''/'' then CHR ''/'' # p else p);
                np = CHR ''/'' # Join (clean_segments [] (Split CHR ''/'' p)) ''/''
            in if last p = CHR ''/'' \<and> np \<noteq> ''/'' then np @ ''/'' else np))"

text \<open>
  The segments a path is matched by, each unescaped. A trailing slash is a segment of its own.
\<close>

function path_segments :: "string \<Rightarrow> string list" where
  "path_segments p =
     (if p = [] then [] else if p = ''/'' then [''/'']
      else PathUnescape (takeWhile (\<lambda>c. c \<noteq> CHR ''/'') (tl p)) #
        path_segments (dropWhile (\<lambda>c. c \<noteq> CHR ''/'') (tl p)))"
  by pat_completeness auto
termination
  by (relation "measure length")
    (auto intro: le_less_trans [OF length_dropWhile_le])

declare path_segments.simps [simp del]

datatype segment = Literal string | Wildcard string

definition pattern_segments :: "string \<Rightarrow> segment list" where
  "pattern_segments p =
     map (\<lambda>s. if s \<noteq> [] \<and> hd s = CHR 0x7B then Wildcard (butlast (tl s)) else Literal s)
       (tl (Split CHR ''/'' p))"

text \<open>A wildcard matches one segment that is not a slash; the matches are the path values.\<close>

fun match_segments :: "segment list \<Rightarrow> string list \<Rightarrow> (string \<times> string) list option" where
  "match_segments [] [] = Some []"
| "match_segments (Literal l # ps) (s # ss) = (if s = l then match_segments ps ss else None)"
| "match_segments (Wildcard w # ps) (s # ss) =
     (if s = ''/'' then None else map_option ((#) (w, s)) (match_segments ps ss))"
| "match_segments _ _ = None"

section \<open>Guards\<close>

definition authenticate ::
  "auth_world \<Rightarrow> auth_call \<Rightarrow> (Principal option \<Rightarrow> 'r \<Rightarrow> response \<times> 'r) \<Rightarrow> request \<Rightarrow>
   Authenticator \<times> 'r \<Rightarrow> response \<times> Authenticator \<times> 'r" where
  "authenticate W c next_handler r st =
     (case Authenticate W c (Header_Get r ''Authorization'') (fst st) of
        (None, a) \<Rightarrow> (unauthenticated, a, snd st)
      | (Some p, a) \<Rightarrow> (case next_handler (Some p) (snd st) of (resp, db) \<Rightarrow> (resp, a, db)))"

definition forbidden :: response where
  "forbidden = writeError 403 ''forbidden'' ''The authenticated role cannot perform this action''"

definition requireRoles ::
  "(Principal option \<Rightarrow> 'r \<Rightarrow> response \<times> 'r) \<Rightarrow> Role list \<Rightarrow> Principal option \<Rightarrow> 'r \<Rightarrow> response \<times> 'r" where
  "requireRoles next_handler roles who db =
     (case who of
        None \<Rightarrow> (unauthenticated, db)
      | Some p \<Rightarrow> if Principal_Role p \<notin> set roles then (forbidden, db) else next_handler who db)"

section \<open>The routes\<close>

text \<open>A route is open, the metrics, or guarded by roles.\<close>

datatype 'r target = Open "'r endpoint_handler" | Metrics_Target | Guarded "'r endpoint_handler" "Role list"

definition routes :: "'r Handler \<Rightarrow> (string \<times> string \<times> 'r target) list" where
  "routes h =
     [(''GET'', ''/healthz'', Open health),
      (''GET'', ''/readyz'', Open ready),
      (''GET'', ''/metrics'', Metrics_Target),
      (''POST'', ''/v1/customers'', Guarded (onboardCustomer h) [RoleAnalyst, RoleAdmin]),
      (''GET'', ''/v1/customers'', Guarded (listCustomers h) [RoleAnalyst, RoleReviewer, RoleAdmin]),
      (''GET'', ''/v1/customers/{customer_id}'',
        Guarded (getCustomer h) [RoleAnalyst, RoleReviewer, RoleAdmin]),
      (''GET'', ''/v1/customers/{customer_id}/transactions'',
        Guarded (listCustomerTransactions h) [RoleAnalyst, RoleReviewer, RoleAdmin]),
      (''GET'', ''/v1/customers/{customer_id}/audit-events'',
        Guarded (listAuditEvents h) [RoleAnalyst, RoleReviewer, RoleAdmin]),
      (''GET'', ''/v1/customers/{customer_id}/activity'',
        Guarded (listCustomerActivity h) [RoleAnalyst, RoleReviewer, RoleAdmin]),
      (''POST'', ''/v1/customers/{customer_id}/approve'',
        Guarded (reviewCustomer h ReviewApprove) [RoleReviewer, RoleAdmin]),
      (''POST'', ''/v1/customers/{customer_id}/reject'',
        Guarded (reviewCustomer h ReviewReject) [RoleReviewer, RoleAdmin]),
      (''POST'', ''/v1/transactions'', Guarded (ingestTransaction h) [RoleAnalyst, RoleAdmin]),
      (''GET'', ''/v1/alerts'', Guarded (listAlerts h) [RoleAnalyst, RoleReviewer, RoleAdmin]),
      (''POST'', ''/v1/alerts/{alert_id}/close'', Guarded (closeAlert h) [RoleReviewer, RoleAdmin]),
      (''GET'', ''/v1/cases'', Guarded (listCases h) [RoleAnalyst, RoleReviewer, RoleAdmin]),
      (''POST'', ''/v1/cases'', Guarded (createCase h) [RoleAnalyst, RoleReviewer, RoleAdmin]),
      (''GET'', ''/v1/cases/{case_id}'', Guarded (getCase h) [RoleAnalyst, RoleReviewer, RoleAdmin]),
      (''POST'', ''/v1/cases/{case_id}/assign'', Guarded (assignCase h) [RoleReviewer, RoleAdmin]),
      (''POST'', ''/v1/cases/{case_id}/comments'',
        Guarded (commentCase h) [RoleAnalyst, RoleReviewer, RoleAdmin]),
      (''POST'', ''/v1/cases/{case_id}/resolve'', Guarded (resolveCase h) [RoleReviewer, RoleAdmin]),
      (''GET'', ''/v1/customers/{customer_id}/due-diligence'',
        Guarded (getDueDiligence h) [RoleAnalyst, RoleReviewer, RoleAdmin]),
      (''PUT'', ''/v1/customers/{customer_id}/due-diligence'',
        Guarded (updateDueDiligence h) [RoleAnalyst, RoleAdmin]),
      (''POST'', ''/v1/customers/{customer_id}/beneficial-owners'',
        Guarded (addBeneficialOwner h) [RoleAnalyst, RoleAdmin]),
      (''POST'', ''/v1/customers/{customer_id}/kyc-documents'',
        Guarded (addKYCDocument h) [RoleAnalyst, RoleAdmin]),
      (''POST'', ''/v1/kyc-documents/{document_id}/review'',
        Guarded (reviewKYCDocument h) [RoleReviewer, RoleAdmin]),
      (''POST'', ''/v1/customers/{customer_id}/screenings'',
        Guarded (screenCustomer h) [RoleAnalyst, RoleAdmin]),
      (''GET'', ''/v1/customers/{customer_id}/screening-matches'',
        Guarded (listScreeningMatches h) [RoleAnalyst, RoleReviewer, RoleAdmin]),
      (''POST'', ''/v1/screening-matches/{match_id}/disposition'',
        Guarded (dispositionScreeningMatch h) [RoleReviewer, RoleAdmin]),
      (''GET'', ''/v1/customers/{customer_id}/screening-schedule'',
        Guarded (getScreeningSchedule h) [RoleAnalyst, RoleReviewer, RoleAdmin]),
      (''PUT'', ''/v1/customers/{customer_id}/screening-schedule'',
        Guarded (updateScreeningSchedule h) [RoleAnalyst, RoleAdmin]),
      (''GET'', ''/v1/notifications'', Guarded (listNotifications h) [RoleAnalyst, RoleReviewer, RoleAdmin]),
      (''POST'', ''/v1/notifications/{notification_id}/read'',
        Guarded (readNotification h) [RoleAnalyst, RoleReviewer, RoleAdmin]),
      (''GET'', ''/v1/notification-preferences'',
        Guarded (getNotificationPreference h) [RoleAnalyst, RoleReviewer, RoleAdmin]),
      (''PUT'', ''/v1/notification-preferences'',
        Guarded (updateNotificationPreference h) [RoleAnalyst, RoleReviewer, RoleAdmin])]"

section \<open>The mux\<close>

text \<open>
  The route of a method and a path: at most one matches. \<^verbatim>\<open>HEAD\<close> falls back to the \<^verbatim>\<open>GET\<close> routes.
\<close>

definition route_matches :: "string \<Rightarrow> string list \<Rightarrow> string \<times> string \<times> 'r target \<Rightarrow> bool" where
  "route_matches verb ss route \<longleftrightarrow>
     fst route = verb \<and> match_segments (pattern_segments (fst (snd route))) ss \<noteq> None"

definition match_path ::
  "(string \<times> string \<times> 'r target) list \<Rightarrow> string \<Rightarrow> string list \<Rightarrow> (string \<times> string \<times> 'r target) option" where
  "match_path table verb ss =
     (case find (route_matches verb ss) table of
        Some route \<Rightarrow> Some route
      | None \<Rightarrow> if verb = ''HEAD'' then find (route_matches ''GET'' ss) table else None)"

text \<open>The methods other routes take the path with, for the header \<^verbatim>\<open>Allow\<close>.\<close>

definition matchingMethods :: "(string \<times> string \<times> 'r target) list \<Rightarrow> string list \<Rightarrow> string list" where
  "matchingMethods table ss =
     (let verbs = map fst (filter (\<lambda>route. route_matches (fst route) ss route) table);
          verbs = (if ''GET'' \<in> set verbs then ''HEAD'' # verbs else verbs)
      in sort (remdups verbs))"

definition plain_error :: "int \<Rightarrow> (string \<times> string) list \<Rightarrow> string \<Rightarrow> response" where
  "plain_error status headers message = \<lparr>Response_Status = status,
     Response_Headers = headers @
       [(''Content-Type'', ''text/plain; charset=utf-8''), (''X-Content-Type-Options'', ''nosniff'')],
     Response_Body = Text (line message)\<rparr>"

text \<open>
  What one request brings along for the chain: when it arrives, the identifier drawn for it, how long
  it takes, and what the redirect to a cleaned path answers.
\<close>

record server_call = http_call +
  Arrival :: time
  Fresh_RequestID :: string
  Elapsed :: rat
  Moved_Permanently :: "string \<Rightarrow> response"

type_synonym 'r inner_state = "Registry \<times> Authenticator \<times> 'r"

definition path_value :: "(string \<times> string) list \<Rightarrow> string \<Rightarrow> string" where
  "path_value ms name = (case map_of ms name of None \<Rightarrow> [] | Some v \<Rightarrow> v)"

definition run_target ::
  "'r Handler \<Rightarrow> server_call \<Rightarrow> request \<Rightarrow> (string \<Rightarrow> string) \<Rightarrow> 'r target \<Rightarrow> 'r inner_state \<Rightarrow>
   response \<times> 'r inner_state" where
  "run_target h c r pv target st =
     (case (target, st) of
        (Open f, (reg, a, db)) \<Rightarrow> (case f (http_call.truncate c) r pv None db of (resp, db') \<Rightarrow> (resp, reg, a, db'))
      | (Metrics_Target, (reg, a, db)) \<Rightarrow> (Metrics_Handler r reg, reg, a, db)
      | (Guarded f roles, (reg, a, db)) \<Rightarrow>
          (case authenticate (Auth_World h) (Call_Auth c)
                  (requireRoles (f (http_call.truncate c) r pv) roles) r (a, db) of
             (resp, a', db') \<Rightarrow> (resp, reg, a', db')))"

text \<open>The answer, the pattern of the route that was found, and the new state.\<close>

definition mux ::
  "'r Handler \<Rightarrow> server_call \<Rightarrow> request \<Rightarrow> 'r inner_state \<Rightarrow> response \<times> string \<times> 'r inner_state" where
  "mux h c r st =
     (let escaped = Request_Path r;
          path = (if Request_Method r = ''CONNECT'' then escaped else cleanPath escaped);
          ss = path_segments path;
          route = match_path (routes h) (Request_Method r) ss;
          pattern = (case route of None \<Rightarrow> [] | Some (verb, p, _) \<Rightarrow> verb @ '' '' @ p)
      in if path \<noteq> escaped then (Moved_Permanently c path, pattern, st)
         else (case route of
             None \<Rightarrow>
               (case matchingMethods (routes h) ss of
                  [] \<Rightarrow> (plain_error 404 [] ''404 page not found'', pattern, st)
                | verbs \<Rightarrow>
                    (plain_error 405 [(''Allow'', Join verbs '', '')] ''Method Not Allowed'', pattern, st))
           | Some (_, p, target) \<Rightarrow>
               (case run_target h c r
                   (path_value (the (match_segments (pattern_segments p) ss))) target st of
                  (resp, st') \<Rightarrow> (resp, pattern, st'))))"

text \<open>The handler \<^verbatim>\<open>NewHandler\<close> returns, and the server's, which \<^verbatim>\<open>cmd/api\<close> makes of it.\<close>

definition NewHandler ::
  "'r Handler \<Rightarrow> server_call \<Rightarrow> request \<Rightarrow> 'r inner_state \<Rightarrow> response \<times> 'r inner_state" where
  "NewHandler h c r st = Metrics_Middleware (mux h c) (Fresh_RequestID c) (Elapsed c) r st"

definition serve ::
  "'r Handler \<Rightarrow> server_call \<Rightarrow> request \<Rightarrow> RateLimiter \<times> 'r inner_state \<Rightarrow>
   response \<times> RateLimiter \<times> 'r inner_state" where
  "serve h c r st =
     Headers (\<lambda>r st. RateLimiter_Middleware (NewHandler h c) (Arrival c) r st) r st"

end
