(* ===== verification/Access.thy ===== *)
theory Access
  imports Routes
begin

text \<open>
  Who can change what: a request that changes the repository passed the limiter and carried an
  accepted token with a role its route asks for. The locale \<open>customers_backend\<close> is what the handlers
  need of a repository to show that maker and checker are two people with the right roles, over
  any sequence of requests; theories \<open>Memory_Backend\<close> and \<open>Postgres_Backend\<close> give it both repositories.
\<close>

section \<open>What a request can do\<close>

lemma routes_open: "(verb, p, Open f) \<in> set (routes h) \<Longrightarrow> f c r pv who db = (resp, db') \<Longrightarrow> db' = db"
  by (auto simp: routes_def health_def ready_def split: option.splits)

lemma find_SomeD: "find P xs = Some x \<Longrightarrow> x \<in> set xs \<and> P x"
  by (induction xs) (auto split: if_splits)

lemma match_path_SomeD:
  assumes "match_path table verb ss = Some (v, p, target)"
  shows "(v, p, target) \<in> set table" and "v = verb \<or> verb = ''HEAD'' \<and> v = ''GET''"
    and "match_segments (pattern_segments p) ss \<noteq> None"
proof -
  have "(v, p, target) \<in> set table \<and> (route_matches verb ss (v, p, target) \<or>
      verb = ''HEAD'' \<and> route_matches ''GET'' ss (v, p, target))"
    using assms by (auto simp: match_path_def dest!: find_SomeD split: option.splits if_splits)
  then show "(v, p, target) \<in> set table" and "v = verb \<or> verb = ''HEAD'' \<and> v = ''GET''"
    and "match_segments (pattern_segments p) ss \<noteq> None"
    by (auto simp: route_matches_def)
qed

text \<open>
  The request of a guarded route: the route, the path values, and the principal of the token. Nothing
  else reaches the repository, and the authenticator only sees such requests.
\<close>

definition guarded_request ::
  "'r Handler \<Rightarrow> server_call \<Rightarrow> request \<Rightarrow> Authenticator \<Rightarrow> string \<times> 'r endpoint_handler \<times> Role list \<Rightarrow>
   (string \<Rightarrow> string) \<Rightarrow> Principal \<Rightarrow> bool" where
  "guarded_request h c r a route pv p \<longleftrightarrow>
     (case route of (pattern, f, roles) \<Rightarrow>
        (\<exists>verb ms. (verb, pattern, Guarded f roles) \<in> set (routes h) \<and>
           (verb = Request_Method r \<or> Request_Method r = ''HEAD'' \<and> verb = ''GET'') \<and>
           match_segments (pattern_segments pattern) (path_segments (Request_Path r)) = Some ms \<and>
           pv = path_value ms) \<and>
        fst (Authenticate (Auth_World h) (Call_Auth c) (Header_Get r ''Authorization'') a) = Some p \<and>
        Principal_Role p \<in> set roles)"

lemma run_target_cases:
  assumes "run_target h c r pv target (reg, a, db) = (resp, reg', a', db')"
    and "(verb, pattern, target) \<in> set (routes h)"
  shows "a' = a \<or> a' = snd (Authenticate (Auth_World h) (Call_Auth c) (Header_Get r ''Authorization'') a)"
    and "db' = db \<or> (\<exists>f roles p. target = Guarded f roles \<and>
      fst (Authenticate (Auth_World h) (Call_Auth c) (Header_Get r ''Authorization'') a) = Some p \<and>
      Principal_Role p \<in> set roles \<and> (resp, db') = f (http_call.truncate c) r pv (Some p) db)"
proof -
  have "(a' = a \<or> a' = snd (Authenticate (Auth_World h) (Call_Auth c) (Header_Get r ''Authorization'') a)) \<and>
    (db' = db \<or> (\<exists>f roles p. target = Guarded f roles \<and>
      fst (Authenticate (Auth_World h) (Call_Auth c) (Header_Get r ''Authorization'') a) = Some p \<and>
      Principal_Role p \<in> set roles \<and> (resp, db') = f (http_call.truncate c) r pv (Some p) db))"
  proof (cases target)
    case (Open f)
    then show ?thesis using assms routes_open [of verb pattern f h "http_call.truncate c" r pv None db]
      by (auto simp: run_target_def split: prod.splits)
  next
    case Metrics_Target
    then show ?thesis using assms(1) by (auto simp: run_target_def)
  next
    case (Guarded f roles)
    then show ?thesis using assms(1)
      by (auto simp: run_target_def authenticate_def requireRoles_def split: prod.splits option.splits if_splits)
  qed
  then show "a' = a \<or> a' = snd (Authenticate (Auth_World h) (Call_Auth c) (Header_Get r ''Authorization'') a)"
    and "db' = db \<or> (\<exists>f roles p. target = Guarded f roles \<and>
      fst (Authenticate (Auth_World h) (Call_Auth c) (Header_Get r ''Authorization'') a) = Some p \<and>
      Principal_Role p \<in> set roles \<and> (resp, db') = f (http_call.truncate c) r pv (Some p) db)"
    by blast+
qed

lemma mux_cases:
  assumes "mux h c r (reg, a, db) = (resp, pattern, reg', a', db')"
  shows "a' = a \<or> a' = snd (Authenticate (Auth_World h) (Call_Auth c) (Header_Get r ''Authorization'') a)"
    and "db' = db \<or> (\<exists>pattern f roles pv p. guarded_request h c r a (pattern, f, roles) pv p \<and>
      (resp, db') = f (http_call.truncate c) r pv (Some p) db)"
proof -
  define path where "path = (if Request_Method r = ''CONNECT'' then Request_Path r else cleanPath (Request_Path r))"
  define ss where "ss = path_segments path"
  let ?auth = "Authenticate (Auth_World h) (Call_Auth c) (Header_Get r ''Authorization'') a"
  have "(a' = a \<or> a' = snd ?auth) \<and> (db' = db \<or> (\<exists>pattern f roles pv p.
      guarded_request h c r a (pattern, f, roles) pv p \<and> (resp, db') = f (http_call.truncate c) r pv (Some p) db))"
  proof (cases "path = Request_Path r \<and> match_path (routes h) (Request_Method r) ss \<noteq> None")
    case True
    then obtain v p target where m: "match_path (routes h) (Request_Method r) ss = Some (v, p, target)"
      by auto
    let ?pv = "path_value (the (match_segments (pattern_segments p) ss))"
    from m True assms have run: "run_target h c r ?pv target (reg, a, db) = (resp, reg', a', db')"
      unfolding mux_def path_def [symmetric] ss_def [symmetric] Let_def
      by (auto split: prod.splits)
    note cases = run_target_cases [OF run match_path_SomeD(1) [OF m]]
    have "guarded_request h c r a (p, f, roles) ?pv q"
      if "target = Guarded f roles" "fst ?auth = Some q" "Principal_Role q \<in> set roles" for f roles q
      using that match_path_SomeD [OF m] True by (auto simp: guarded_request_def ss_def)
    then show ?thesis using cases by blast
  next
    case False
    then show ?thesis using assms
      unfolding mux_def path_def [symmetric] ss_def [symmetric] Let_def
      by (auto split: if_splits list.splits option.splits)
  qed
  then show "a' = a \<or> a' = snd ?auth" and "db' = db \<or> (\<exists>pattern f roles pv p.
      guarded_request h c r a (pattern, f, roles) pv p \<and> (resp, db') = f (http_call.truncate c) r pv (Some p) db)"
    by blast+
qed

lemma serve_cases:
  assumes "serve h c r (l, reg, a, db) = (resp, l', reg', a', db')"
  shows "a' = a \<or> a' = snd (Authenticate (Auth_World h) (Call_Auth c) (Header_Get r ''Authorization'') a)"
    and "db' = db \<or> (\<exists>pattern f roles pv p resp'. guarded_request h c r a (pattern, f, roles) pv p \<and>
      (resp', db') = f (http_call.truncate c) r pv (Some p) db)"
proof -
  obtain resp1 pattern reg1 a1 db1 where m: "mux h c r (reg, a, db) = (resp1, pattern, reg1, a1, db1)"
    by (metis prod.exhaust)
  have "a' = a \<and> db' = db \<or> a' = a1 \<and> db' = db1"
    using assms m by (auto simp: serve_def Headers_def RateLimiter_Middleware_def NewHandler_def
        Metrics_Middleware_def Let_def apfst_def map_prod_def split: prod.splits if_splits bool.splits)
  then show "a' = a \<or> a' = snd (Authenticate (Auth_World h) (Call_Auth c) (Header_Get r ''Authorization'') a)"
    and "db' = db \<or> (\<exists>pattern f roles pv p resp'. guarded_request h c r a (pattern, f, roles) pv p \<and>
      (resp', db') = f (http_call.truncate c) r pv (Some p) db)"
    using mux_cases [OF m] by blast+
qed

text \<open>What an admitted request with a clean path, a valid token and the right role gets.\<close>

lemma serve_granted:
  assumes "allow (Arrival c) (client_key r) l = (True, l')"
    and "URL_Path r \<notin> {''/healthz'', ''/readyz'', ''/metrics''}"
    and "Request_Method r \<noteq> ''CONNECT''" and "cleanPath (Request_Path r) = Request_Path r"
    and "match_path (routes h) (Request_Method r) (path_segments (Request_Path r)) =
      Some (verb, pattern, Guarded f roles)"
    and "match_segments (pattern_segments pattern) (path_segments (Request_Path r)) = Some ms"
    and "Authenticate (Auth_World h) (Call_Auth c) (Header_Get r ''Authorization'') a = (Some p, a')"
    and "Principal_Role p \<in> set roles"
  obtains resp reg' where "serve h c r (l, reg, a, db) =
    (resp, l', reg', a', snd (f (http_call.truncate c) r (path_value ms) (Some p) db))"
proof -
  obtain resp db' where f: "f (http_call.truncate c) r (path_value ms) (Some p) db = (resp, db')"
    by (metis prod.exhaust)
  have "run_target h c r (path_value ms) (Guarded f roles) (reg, a, db) = (resp, reg, a', db')"
    using assms(7,8) f by (simp add: run_target_def authenticate_def requireRoles_def)
  then have "mux h c r (reg, a, db) = (resp, verb @ '' '' @ pattern, reg, a', db')"
    using assms(3-6) by (simp add: mux_def)
  then obtain resp1 reg1 where "NewHandler h c r (reg, a, db) = (resp1, reg1, a', db')"
    by (simp add: NewHandler_def Metrics_Middleware_def Let_def)
  then have "\<exists>resp2. serve h c r (l, reg, a, db) = (resp2, l', reg1, a', db')"
    using assms(1,2) by (auto simp: serve_def Headers_def RateLimiter_Middleware_def)
  then show ?thesis using that f by auto
qed

section \<open>Reading requests\<close>

lemma routes_get: "(''GET'', p, Guarded f roles) \<in> set (routes h) \<Longrightarrow> snd (f c r pv who db) = db"
  by (auto simp: routes_def listCustomers_def getCustomer_def listCustomerTransactions_def
      listAuditEvents_def listCustomerActivity_def listAlerts_def listCases_def getCase_def
      getDueDiligence_def listScreeningMatches_def getScreeningSchedule_def listNotifications_def
      getNotificationPreference_def)

lemma routes_methods: "(verb, p, target) \<in> set (routes h) \<Longrightarrow> verb \<in> {''GET'', ''POST'', ''PUT''}"
  by (auto simp: routes_def)

section \<open>What services leave alone\<close>

definition keeps :: "('r \<Rightarrow> 'x) \<Rightarrow> ('r \<Rightarrow> 'a \<times> 'r) \<Rightarrow> bool" where
  "keeps look run \<longleftrightarrow> (\<forall>db. look (snd (run db)) = look db)"

lemma keepsD: "keeps look run \<Longrightarrow> look (snd (run db)) = look db"
  by (simp add: keeps_def)

lemma keeps_services:
  "(\<And>t e as es. keeps look (f3 t e as es)) \<Longrightarrow> keeps look (Ingest f3 env icmd)"
  "(\<And>i a w e. keeps look (f4 i a w e)) \<Longrightarrow> keeps look (CloseAlert f4 env ai actor why)"
  "(\<And>cs e. keeps look (f5 cs e)) \<Longrightarrow> keeps look (Create f5 env ai title pr actor)"
  "(\<And>i b e. keeps look (f6 i b e)) \<Longrightarrow> keeps look (Assign f6 env ci who actor)"
  "(\<And>m e. keeps look (f7 m e)) \<Longrightarrow> keeps look (Comment f7 env ci body actor)"
  "(\<And>i x b ce ae. keeps look (f8 i x b ce ae)) \<Longrightarrow> keeps look (Resolve f8 env ci txt actor)"
  "(\<And>p e. keeps look (f9 p e)) \<Longrightarrow> keeps look (UpdateProfile f9 env prof actor)"
  "(\<And>p e. keeps look (g1 p e)) \<Longrightarrow> keeps look (AddOwner g1 env own actor)"
  "(\<And>p e. keeps look (g2 p e)) \<Longrightarrow> keeps look (AddDocument g2 env doc actor)"
  "(\<And>i s b e. keeps look (g3 i s b e)) \<Longrightarrow> keeps look (ReviewDocument g3 env di st actor)"
  by (auto simp: keeps_def Ingest_def CloseAlert_def Create_def Assign_def Comment_def
      Resolve_def UpdateProfile_def AddOwner_def AddDocument_def ReviewDocument_def
      split: prod.split sum.split) (metis snd_conv)+

lemma keeps_screening:
  "(\<And>rs ms ns os es. keeps look (do_SaveScreening repo rs ms ns os es)) \<Longrightarrow>
     keeps look (ScreenCustomer repo svc env provider ci actor)"
  "(\<And>i s w b e. keeps look (do_DispositionScreeningMatch repo i s w b e)) \<Longrightarrow>
     keeps look (Disposition repo env mi st why actor)"
  "(\<And>s e. keeps look (do_UpsertScreeningSchedule repo s e)) \<Longrightarrow>
     keeps look (ConfigureSchedule repo env ci enabled hours actor)"
  "(\<And>i b t. keeps look (do_ReadNotification repo i b t)) \<Longrightarrow>
     keeps look (ReadNotification repo env ni actor)"
  "(\<And>p. keeps look (do_UpsertNotificationPreference repo p)) \<Longrightarrow>
     keeps look (ConfigureNotificationPreference repo parse env actor email on)"
  by (auto simp: keeps_def ScreenCustomer_def Disposition_def ConfigureSchedule_def
      ReadNotification_def ConfigureNotificationPreference_def Let_def
      split: prod.split sum.split) (metis snd_conv)+

section \<open>Customers behind the handlers\<close>

text \<open>
  What a repository promises about customers, for each handler over it (one per request, as the
  database session of a request decides what fails): \<open>customer\<close> looks a customer up, a creation stores
  the given record or nothing, a review stores the decision on a pending customer of another
  submitter or nothing, and no other write touches customers. \<open>background\<close> are the writes of the
  workers.
\<close>

definition reviewed :: "ReviewDecision \<Rightarrow> string \<Rightarrow> Customer \<Rightarrow> Customer \<Rightarrow> bool" where
  "reviewed decision actor old new \<longleftrightarrow>
     Customer_Status old = CustomerPendingApproval \<and> Customer_CreatedBy old \<noteq> actor \<and>
     Customer_CreatedBy new = Customer_CreatedBy old \<and> Customer_ReviewedBy new = actor \<and>
     Customer_Status new = (if decision = ReviewReject then CustomerRejected else CustomerActive)"

text \<open>
  A served request, with the authenticator as it was then; who sent it; and what it takes to have
  submitted a customer, and to have decided on the customer \<open>i\<close> as its record says.
\<close>

record exchange =
  Ex_Request :: request
  Ex_Call :: auth_call
  Ex_Authenticator :: Authenticator

definition sent_by :: "auth_world \<Rightarrow> exchange \<Rightarrow> Principal \<Rightarrow> bool" where
  "sent_by W e p \<longleftrightarrow>
     fst (Authenticate W (Ex_Call e) (Header_Get (Ex_Request e) ''Authorization'') (Ex_Authenticator e)) = Some p"

definition submitted_by :: "auth_world \<Rightarrow> exchange \<Rightarrow> Customer \<Rightarrow> Principal \<Rightarrow> bool" where
  "submitted_by W e c p \<longleftrightarrow> sent_by W e p \<and>
     path_segments (Request_Path (Ex_Request e)) = [''v1'', ''customers''] \<and>
     Principal_Role p \<in> {RoleAnalyst, RoleAdmin} \<and> Customer_CreatedBy c = TrimSpace (Principal_Subject p)"

definition decided_by :: "auth_world \<Rightarrow> exchange \<Rightarrow> string \<Rightarrow> Customer \<Rightarrow> Principal \<Rightarrow> bool" where
  "decided_by W e i c p \<longleftrightarrow> sent_by W e p \<and>
     (\<exists>v. TrimSpace v = i \<and> path_segments (Request_Path (Ex_Request e)) =
        [''v1'', ''customers'', v, if Customer_Status c = CustomerRejected then ''reject'' else ''approve'']) \<and>
     Principal_Role p \<in> {RoleReviewer, RoleAdmin} \<and> Customer_ReviewedBy c = TrimSpace (Principal_Subject p)"

lemma match_Literal:
  "match_segments (Literal l # ps) ss = Some ms \<longleftrightarrow> (\<exists>ss'. ss = l # ss' \<and> match_segments ps ss' = Some ms)"
  by (cases ss) auto

lemma match_Wildcard:
  "match_segments (Wildcard w # ps) ss = Some ms \<longleftrightarrow>
     (\<exists>s ss' ms'. ss = s # ss' \<and> s \<noteq> ''/'' \<and> match_segments ps ss' = Some ms' \<and> ms = (w, s) # ms')"
  by (cases ss) auto

lemma match_empty: "match_segments [] ss = Some ms \<longleftrightarrow> ss = [] \<and> ms = []"
  by (cases ss) auto

lemmas match_iffs = match_Literal match_Wildcard match_empty

lemma customer_patterns:
  "pattern_segments ''/v1/customers'' = [Literal ''v1'', Literal ''customers'']"
  "pattern_segments ''/v1/customers/{customer_id}/approve'' =
     [Literal ''v1'', Literal ''customers'', Wildcard ''customer_id'', Literal ''approve'']"
  "pattern_segments ''/v1/customers/{customer_id}/reject'' =
     [Literal ''v1'', Literal ''customers'', Wildcard ''customer_id'', Literal ''reject'']"
  by (simp_all add: pattern_segments_def)

lemma onboardCustomer_cases:
  assumes "db' = snd (onboardCustomer h c r pv (Some p) db)"
  obtains "db' = db"
    | cmd new ev where "Onboard_request (Call_Env c) cmd = Inr (new, ev)"
        and "Onboard_Actor cmd = Principal_Subject p" and "db' = snd (do_CreateCustomer h new ev db)"
  using assms by (auto simp: onboardCustomer_def Onboard_def split: option.splits sum.splits prod.splits)

lemma reviewCustomer_cases:
  assumes "db' = snd (reviewCustomer h d c r pv (Some p) db)"
  obtains "db' = db"
    | i actor ev where "i = TrimSpace (pv ''customer_id'')" and "actor = TrimSpace (Principal_Subject p)"
        and "db' = snd (do_ReviewCustomer h i d actor ev db)"
  using assms by (auto simp: reviewCustomer_def Review_def Let_def split: decoded.splits option.splits
      sum.splits prod.splits elim!: Review_requestE)

text \<open>The routes that write: submissions, decisions, and the others.\<close>

definition other_writes :: "'r Handler \<Rightarrow> 'r endpoint_handler set" where
  "other_writes h = {ingestTransaction h, closeAlert h, createCase h, assignCase h, commentCase h,
     resolveCase h, updateDueDiligence h, addBeneficialOwner h, addKYCDocument h, reviewKYCDocument h,
     screenCustomer h, dispositionScreeningMatch h, updateScreeningSchedule h, readNotification h,
     updateNotificationPreference h}"

lemma routes_writes:
  assumes "(verb, p, Guarded f roles) \<in> set (routes h)" and "verb \<noteq> ''GET''"
  shows "p = ''/v1/customers'' \<and> roles = [RoleAnalyst, RoleAdmin] \<and> f = onboardCustomer h \<or>
    p = ''/v1/customers/{customer_id}/approve'' \<and> roles = [RoleReviewer, RoleAdmin] \<and> f = reviewCustomer h ReviewApprove \<or>
    p = ''/v1/customers/{customer_id}/reject'' \<and> roles = [RoleReviewer, RoleAdmin] \<and> f = reviewCustomer h ReviewReject \<or>
    f \<in> other_writes h"
  using assms unfolding routes_def other_writes_def
  by (simp only: list.set insert_iff empty_iff prod.inject target.inject target.distinct simp_thms)
    (elim disjE conjE; simp)

text \<open>
  Serving requests, one after another, with the workers' writes in between; the history keeps the
  requests. \<open>vouched\<close> is what the history says for a customer.
\<close>

inductive served ::
  "'r Handler set \<Rightarrow> ('r \<Rightarrow> 'r \<Rightarrow> bool) \<Rightarrow> RateLimiter \<times> 'r inner_state \<Rightarrow> exchange list \<Rightarrow>
   RateLimiter \<times> 'r inner_state \<Rightarrow> bool" for H B st0 where
  start: "served H B st0 [] st0"
| request: "served H B st0 hist (l, reg, a, db) \<Longrightarrow> h \<in> H \<Longrightarrow>
    serve h c r (l, reg, a, db) = (resp, st) \<Longrightarrow>
    served H B st0 (hist @ [\<lparr>Ex_Request = r, Ex_Call = Call_Auth c, Ex_Authenticator = a\<rparr>]) st"
| work: "served H B st0 hist (l, reg, a, db) \<Longrightarrow> B db db' \<Longrightarrow> served H B st0 hist (l, reg', a, db')"

definition vouched :: "auth_world \<Rightarrow> exchange list \<Rightarrow> string \<Rightarrow> Customer \<Rightarrow> bool" where
  "vouched W hist i c \<longleftrightarrow>
     (\<exists>m p. m < length hist \<and> submitted_by W (hist ! m) c p \<and>
        (Customer_Status c = CustomerPendingApproval \<or>
         (\<exists>n q. m < n \<and> n < length hist \<and> decided_by W (hist ! n) i c q \<and>
            TrimSpace (Principal_Subject p) \<noteq> TrimSpace (Principal_Subject q))))"

lemma vouched_append: "vouched W hist i c \<Longrightarrow> vouched W (hist @ hist') i c"
proof -
  have nth: "n < length hist \<Longrightarrow> (hist @ hist') ! n = hist ! n \<and> n < length (hist @ hist')" for n
    by (simp add: nth_append)
  show "vouched W hist i c \<Longrightarrow> vouched W (hist @ hist') i c"
    unfolding vouched_def using nth by metis
qed

lemma vouched_submitted:
  "submitted_by W e c p \<Longrightarrow> Customer_Status c = CustomerPendingApproval \<Longrightarrow> vouched W (hist @ [e]) i c"
  unfolding vouched_def by (metis length_append_singleton lessI nth_append_length)

lemma vouched_decided:
  assumes "vouched W hist i old" and "decided_by W e i new q" and "Customer_CreatedBy new = Customer_CreatedBy old"
    and "Customer_CreatedBy old \<noteq> Customer_ReviewedBy new"
  shows "vouched W (hist @ [e]) i new"
proof -
  obtain m p where "m < length hist" and "submitted_by W (hist ! m) old p"
    using assms(1) by (auto simp: vouched_def)
  moreover from this have "submitted_by W (hist ! m) new p" using assms(3) by (simp add: submitted_by_def)
  moreover have "TrimSpace (Principal_Subject p) \<noteq> TrimSpace (Principal_Subject q)"
    using assms(2,4) calculation(2) by (simp add: submitted_by_def decided_by_def)
  ultimately show ?thesis using assms(2)
    unfolding vouched_def
    by (intro exI [of _ m] exI [of _ p] conjI disjI2 exI [of _ "length hist"] exI [of _ q])
      (simp_all add: nth_append)
qed

locale customers_backend =
  fixes handlers :: "'r Handler set" and W :: auth_world
    and customer :: "'r \<Rightarrow> string \<Rightarrow> Customer option"
    and background :: "'r \<Rightarrow> 'r \<Rightarrow> bool"
  assumes world: "h \<in> handlers \<Longrightarrow> Auth_World h = W"
    and create: "h \<in> handlers \<Longrightarrow> customer (snd (do_CreateCustomer h c e db)) = customer db \<or>
      (\<exists>new. Customer_ID new = Customer_ID c \<and> Customer_CreatedBy new = Customer_CreatedBy c \<and>
         Customer_Status new = Customer_Status c \<and>
         customer (snd (do_CreateCustomer h c e db)) = (customer db)(Customer_ID new \<mapsto> new))"
    and review: "h \<in> handlers \<Longrightarrow> d \<in> {ReviewApprove, ReviewReject} \<Longrightarrow>
      customer (snd (do_ReviewCustomer h i d actor e db)) = customer db \<or>
      (\<exists>old new. customer db i = Some old \<and> reviewed d actor old new \<and>
         customer (snd (do_ReviewCustomer h i d actor e db)) = (customer db)(i \<mapsto> new))"
    and ingest: "h \<in> handlers \<Longrightarrow> keeps customer (do_CreateTransaction h t te als es)"
    and close: "h \<in> handlers \<Longrightarrow> keeps customer (do_CloseAlert h i actor why e)"
    and create_case: "h \<in> handlers \<Longrightarrow> keeps customer (do_CreateCase h cs e)"
    and assign: "h \<in> handlers \<Longrightarrow> keeps customer (do_AssignCase h i b e)"
    and comment: "h \<in> handlers \<Longrightarrow> keeps customer (do_AddCaseComment h m e)"
    and resolve: "h \<in> handlers \<Longrightarrow> keeps customer (do_ResolveCase h i x b e ae)"
    and profile: "h \<in> handlers \<Longrightarrow> keeps customer (do_UpsertCDDProfile h p e)"
    and owner: "h \<in> handlers \<Longrightarrow> keeps customer (do_AddBeneficialOwner h o' e)"
    and document: "h \<in> handlers \<Longrightarrow> keeps customer (do_AddKYCDocument h doc e)"
    and review_document: "h \<in> handlers \<Longrightarrow> keeps customer (do_ReviewKYCDocument h i s b e)"
    and save: "h \<in> handlers \<Longrightarrow> keeps customer (do_SaveScreening (screening_repository h) rs ms ns os es)"
    and dispose: "h \<in> handlers \<Longrightarrow>
      keeps customer (do_DispositionScreeningMatch (screening_repository h) i s x b e)"
    and schedule: "h \<in> handlers \<Longrightarrow> keeps customer (do_UpsertScreeningSchedule (screening_repository h) sc e)"
    and read: "h \<in> handlers \<Longrightarrow> keeps customer (do_ReadNotification (screening_repository h) i b time)"
    and preference: "h \<in> handlers \<Longrightarrow>
      keeps customer (do_UpsertNotificationPreference (screening_repository h) pref)"
    and background: "background db db' \<Longrightarrow> customer db' = customer db"
begin



lemma endpoint_customers:
  assumes "h \<in> handlers" and "(verb, pattern, Guarded f roles) \<in> set (routes h)"
  shows "customer (snd (f c r pv who db)) = customer db \<or>
    pattern = ''/v1/customers'' \<and> roles = [RoleAnalyst, RoleAdmin] \<and> f = onboardCustomer h \<or>
    (\<exists>d. pattern = ''/v1/customers/{customer_id}/'' @ (if d = ReviewReject then ''reject'' else ''approve'') \<and>
       d \<in> {ReviewApprove, ReviewReject} \<and> roles = [RoleReviewer, RoleAdmin] \<and> f = reviewCustomer h d)"
proof (cases "verb = ''GET''")
  case True
  then show ?thesis using routes_get [of pattern f roles h c r pv who db] assms(2) by simp
next
  case False
  note laws = ingest close create_case assign comment resolve profile owner document review_document
    save dispose schedule read preference
  note kept = keeps_services(1) [of customer "do_CreateTransaction h", OF ingest [OF assms(1)]]
    keeps_services(2) [of customer "do_CloseAlert h", OF close [OF assms(1)]]
    keeps_services(3) [of customer "do_CreateCase h", OF create_case [OF assms(1)]]
    keeps_services(4) [of customer "do_AssignCase h", OF assign [OF assms(1)]]
    keeps_services(5) [of customer "do_AddCaseComment h", OF comment [OF assms(1)]]
    keeps_services(6) [of customer "do_ResolveCase h", OF resolve [OF assms(1)]]
    keeps_services(7) [of customer "do_UpsertCDDProfile h", OF profile [OF assms(1)]]
    keeps_services(8) [of customer "do_AddBeneficialOwner h", OF owner [OF assms(1)]]
    keeps_services(9) [of customer "do_AddKYCDocument h", OF document [OF assms(1)]]
    keeps_services(10) [of customer "do_ReviewKYCDocument h", OF review_document [OF assms(1)]]
    keeps_screening(1) [of customer "screening_repository h", OF save [OF assms(1)]]
    keeps_screening(2) [of customer "screening_repository h", OF dispose [OF assms(1)]]
    keeps_screening(3) [of customer "screening_repository h", OF schedule [OF assms(1)]]
    keeps_screening(4) [of customer "screening_repository h", OF read [OF assms(1)]]
    keeps_screening(5) [of customer "screening_repository h", OF preference [OF assms(1)]]
  have other: "f' \<in> other_writes h \<Longrightarrow> customer (snd (f' c r pv who db)) = customer db" for f'
    unfolding other_writes_def
    by (elim insertE; simp add: ingestTransaction_def closeAlert_def createCase_def assignCase_def
        commentCase_def resolveCase_def updateDueDiligence_def addBeneficialOwner_def
        addKYCDocument_def reviewKYCDocument_def screenCustomer_def dispositionScreeningMatch_def
        updateScreeningSchedule_def readNotification_def updateNotificationPreference_def with_body_def
        kept [THEN keepsD] split: option.split)
  have "ReviewApprove \<noteq> ReviewReject" by (simp add: enum_defs)
  with routes_writes [OF assms(2) False] show ?thesis
    by (elim disjE conjE, simp, intro disjI2 exI [of _ ReviewApprove], simp,
        intro disjI2 exI [of _ ReviewReject], simp, intro disjI1 other)
qed

text \<open>What one request does to customers.\<close>

lemma request_customers:
  assumes "h \<in> handlers" and "serve h c r (l, reg, a, db) = (resp, l', reg', a', db')"
    and "e = \<lparr>Ex_Request = r, Ex_Call = Call_Auth c, Ex_Authenticator = a\<rparr>"
  obtains (kept) "customer db' = customer db"
    | (submitted) new p where "submitted_by W e new p" and "Customer_Status new = CustomerPendingApproval"
        and "customer db' = (customer db)(Customer_ID new \<mapsto> new)"
    | (decided) i old new p where "decided_by W e i new p" and "customer db i = Some old"
        and "Customer_Status old = CustomerPendingApproval"
        and "Customer_CreatedBy old \<noteq> Customer_ReviewedBy new"
        and "Customer_CreatedBy new = Customer_CreatedBy old"
        and "customer db' = (customer db)(i \<mapsto> new)"
proof (cases "db' = db")
  case False
  then obtain pattern f roles pv p resp' where g: "guarded_request h c r a (pattern, f, roles) pv p"
    and run: "(resp', db') = f (http_call.truncate c) r pv (Some p) db"
    using serve_cases(2) [OF assms(2)] by blast
  have db': "db' = snd (f (http_call.truncate c) r pv (Some p) db)" using run by (metis snd_conv)
  obtain verb ms where route: "(verb, pattern, Guarded f roles) \<in> set (routes h)"
    and ms: "match_segments (pattern_segments pattern) (path_segments (Request_Path r)) = Some ms"
      "pv = path_value ms"
    and sent: "sent_by W e p" and role: "Principal_Role p \<in> set roles"
    using g assms(3) world [OF assms(1)] by (auto simp: guarded_request_def sent_by_def)
  consider "customer db' = customer db"
    | "pattern = ''/v1/customers''" "roles = [RoleAnalyst, RoleAdmin]" "f = onboardCustomer h"
    | d where "pattern = ''/v1/customers/{customer_id}/'' @ (if d = ReviewReject then ''reject'' else ''approve'')"
       "d \<in> {ReviewApprove, ReviewReject}" "roles = [RoleReviewer, RoleAdmin]" "f = reviewCustomer h d"
    using endpoint_customers [OF assms(1) route, of "http_call.truncate c" r pv "Some p" db] db' by blast
  then show ?thesis
  proof cases
    case 2
    show ?thesis
    proof (rule onboardCustomer_cases [OF db' [unfolded 2(3)]])
      fix cmd new ev
      assume req: "Onboard_request (Call_Env (http_call.truncate c)) cmd = Inr (new, ev)"
        and actor: "Onboard_Actor cmd = Principal_Subject p" and run: "db' = snd (do_CreateCustomer h new ev db)"
      have "Customer_CreatedBy new = TrimSpace (Principal_Subject p)"
        and pending: "Customer_Status new = CustomerPendingApproval"
        using req actor by (auto elim!: Onboard_requestE)
      then have "submitted_by W e stored p" if "Customer_CreatedBy stored = Customer_CreatedBy new" for stored
        using that sent role ms(1) by (auto simp: 2 submitted_by_def customer_patterns match_iffs assms(3))
      with pending show ?thesis using create [OF assms(1), of new ev db] kept submitted run by metis
    qed (use kept in simp)
  next
    case 3
    show ?thesis
    proof (rule reviewCustomer_cases [OF db' [unfolded 3(4)]])
      fix i actor ev
      assume i: "i = TrimSpace (pv ''customer_id'')" and actor: "actor = TrimSpace (Principal_Subject p)"
        and run: "db' = snd (do_ReviewCustomer h i d actor ev db)"
      have "decided_by W e i new p" if "reviewed d actor old new" for old new
        using that sent role ms 3(1,3) i actor assms(3)
        by (auto simp: decided_by_def reviewed_def customer_patterns match_iffs path_value_def enum_defs
            split: if_splits)
      then show ?thesis
        using review [OF assms(1) 3(2), of i actor ev db] kept decided run unfolding reviewed_def by metis
    qed (use kept in simp)
  qed (use kept in simp)
qed (use kept in simp)

text \<open>So each customer is vouched for by the requests served so far.\<close>

lemma served_vouched:
  assumes "served handlers background (l0, reg0, a0, db0) hist st" and "customer db0 = Map.empty"
    and "customer (snd (snd (snd st))) i = Some c"
  shows "vouched W hist i c"
  using assms(1,3)
proof (induction arbitrary: i c rule: served.induct)
  case start
  then show ?case using assms(2) by simp
next
  case (request hist l reg a db h ca r resp st)
  obtain l' reg' a' db' where st: "st = (l', reg', a', db')" by (metis prod.exhaust)
  let ?e = "\<lparr>Ex_Request = r, Ex_Call = Call_Auth ca, Ex_Authenticator = a\<rparr>"
  show ?case
  proof (rule request_customers [OF request.hyps(2) request.hyps(3) [unfolded st] refl])
    assume "customer db' = customer db"
    then show ?thesis using request st vouched_append by simp
  next
    fix new p
    assume "submitted_by W ?e new p" "Customer_Status new = CustomerPendingApproval"
      "customer db' = (customer db)(Customer_ID new \<mapsto> new)"
    then show ?thesis
      using request st vouched_append vouched_submitted by (auto split: if_splits)
  next
    fix j old new p
    assume "decided_by W ?e j new p" "customer db j = Some old"
      "Customer_CreatedBy old \<noteq> Customer_ReviewedBy new" "Customer_CreatedBy new = Customer_CreatedBy old"
      "customer db' = (customer db)(j \<mapsto> new)"
    then show ?thesis
      using request st vouched_append vouched_decided [OF request.IH] by (auto split: if_splits)
  qed
next
  case (work hist l reg a db db' reg')
  then show ?case using background by simp
qed

text \<open>The authenticator has only ever checked tokens since it was made.\<close>

lemma served_authenticator:
  assumes "served handlers background (l0, reg0, a0, db0) hist st"
  shows "(\<exists>calls. fst (snd (snd st)) = auth_after W calls a0) \<and>
    (\<forall>e \<in> set hist. \<exists>calls. Ex_Authenticator e = auth_after W calls a0)"
  using assms
proof (induction rule: served.induct)
  case start
  show ?case by (auto simp: auth_after_def intro: exI [of _ "[]"])
next
  case (request hist l reg a db h ca r resp st)
  obtain l' reg' a' db' where st: "st = (l', reg', a', db')" by (metis prod.exhaust)
  obtain calls where a: "a = auth_after W calls a0" using request.IH by auto
  have "a' = a \<or> a' = auth_after W (calls @ [(Call_Auth ca, Header_Get r ''Authorization'')]) a0"
    using serve_cases(1) [OF request.hyps(3) [unfolded st]] world [OF request.hyps(2)]
    by (auto simp: auth_after_def a)
  then show ?case using request.IH a by (auto simp: st)
qed auto

end

end
