(* ===== verification/Backends.thy ===== *)
theory Backends
  imports Access Postgres_Properties
begin

text \<open>
  The handlers over the two repositories. Both keep the promises of the locale \<open>customers_backend\<close>, so
  on both a decided customer was submitted and decided by two people with the right roles.
\<close>

text \<open>What does not depend on the repository: the service's settings and the parameters.\<close>

record settings =
  set_service :: ScreeningService
  set_JSON :: json_decoders
  set_marshal :: "cursor \<Rightarrow> string"
  set_unmarshal :: "string \<Rightarrow> cursor option"
  set_ParseAddress :: "string \<Rightarrow> string option"
  set_world :: auth_world

section \<open>The memory repository\<close>

definition memory_handler :: "settings \<Rightarrow> Repository Handler" where
  "memory_handler cfg =
     \<lparr>do_CreateCustomer = mem_CreateCustomer, do_ReviewCustomer = mem_ReviewCustomer,
      do_CreateTransaction = mem_CreateTransaction, do_CloseAlert = mem_CloseAlert,
      do_ListCustomers = mem_ListCustomers, do_ListCustomerTransactions = mem_ListCustomerTransactions,
      do_ListAuditEventsPage = mem_ListAuditEventsPage,
      do_ListCustomerActivityPage = mem_ListCustomerActivityPage,
      do_ListAlertsPage = mem_ListAlertsPage, do_ListCasesPage = mem_ListCasesPage,
      do_CreateCase = mem_CreateCase, do_GetCase = mem_GetCase,
      do_ListCaseComments = mem_ListCaseComments, do_ListAuditEvents = mem_ListAuditEvents,
      do_AssignCase = mem_AssignCase, do_AddCaseComment = mem_AddCaseComment,
      do_ResolveCase = mem_ResolveCase, do_UpsertCDDProfile = mem_UpsertCDDProfile,
      do_AddBeneficialOwner = mem_AddBeneficialOwner, do_AddKYCDocument = mem_AddKYCDocument,
      do_ReviewKYCDocument = mem_ReviewKYCDocument, screening_repository = mem_screening,
      screening_service = set_service cfg, JSON = set_JSON cfg, Marshal_cursor = set_marshal cfg,
      Unmarshal_cursor = set_unmarshal cfg, ParseAddress = set_ParseAddress cfg,
      Auth_World = set_world cfg\<rparr>"

inductive mem_background :: "Repository \<Rightarrow> Repository \<Rightarrow> bool" where
  claim: "mem_ClaimDueScreeningSchedules now n owner until r = (ss, r') \<Longrightarrow> mem_background r r'"
| complete: "mem_CompleteScreeningSchedule i owner ranAt nextRun err r = (un, r') \<Longrightarrow> mem_background r r'"
| save: "mem_SaveScreening rs ms ns os es r = (un, r') \<Longrightarrow> mem_background r r'"

section \<open>The PostgreSQL repository\<close>

text \<open>\<^verbatim>\<open>cmd/api\<close> makes every service over it; \<open>Ss\<close> is the session of each method in one request.\<close>

definition pg_handler :: "settings \<Rightarrow> (string \<Rightarrow> session) \<Rightarrow> Database Handler" where
  "pg_handler cfg Ss =
     \<lparr>do_CreateCustomer = pg_CreateCustomer (Ss ''CreateCustomer''),
      do_ReviewCustomer = pg_ReviewCustomer (Ss ''ReviewCustomer''),
      do_CreateTransaction = pg_CreateTransaction (Ss ''CreateTransaction''),
      do_CloseAlert = pg_CloseAlert (Ss ''CloseAlert''),
      do_ListCustomers = pg_ListCustomers (Ss ''ListCustomers''),
      do_ListCustomerTransactions = pg_ListCustomerTransactions (Ss ''ListCustomerTransactions''),
      do_ListAuditEventsPage = pg_ListAuditEventsPage (Ss ''ListAuditEventsPage''),
      do_ListCustomerActivityPage = pg_ListCustomerActivityPage (Ss ''ListCustomerActivityPage''),
      do_ListAlertsPage = pg_ListAlertsPage (Ss ''ListAlertsPage''),
      do_ListCasesPage = pg_ListCasesPage (Ss ''ListCasesPage''),
      do_CreateCase = pg_CreateCase (Ss ''CreateCase''), do_GetCase = pg_GetCase (Ss ''GetCase''),
      do_ListCaseComments = pg_ListCaseComments (Ss ''ListCaseComments''),
      do_ListAuditEvents = pg_ListAuditEvents (Ss ''ListAuditEvents''),
      do_AssignCase = pg_AssignCase (Ss ''AssignCase''),
      do_AddCaseComment = pg_AddCaseComment (Ss ''AddCaseComment''),
      do_ResolveCase = pg_ResolveCase (Ss ''ResolveCase''),
      do_UpsertCDDProfile = pg_UpsertCDDProfile (Ss ''UpsertCDDProfile''),
      do_AddBeneficialOwner = pg_AddBeneficialOwner (Ss ''AddBeneficialOwner''),
      do_AddKYCDocument = pg_AddKYCDocument (Ss ''AddKYCDocument''),
      do_ReviewKYCDocument = pg_ReviewKYCDocument (Ss ''ReviewKYCDocument''),
      screening_repository = pg_screening Ss,
      screening_service = set_service cfg, JSON = set_JSON cfg, Marshal_cursor = set_marshal cfg,
      Unmarshal_cursor = set_unmarshal cfg, ParseAddress = set_ParseAddress cfg,
      Auth_World = set_world cfg\<rparr>"

inductive pg_background :: "Database \<Rightarrow> Database \<Rightarrow> bool" where
  pg_claim: "pg_ClaimDueScreeningSchedules S now n owner until db = (ss, db') \<Longrightarrow> pg_background db db'"
| pg_complete: "pg_CompleteScreeningSchedule S i owner ranAt nextRun err db = (un, db') \<Longrightarrow> pg_background db db'"
| pg_save: "pg_SaveScreening S rs ms ns os es db = (un, db') \<Longrightarrow> pg_background db db'"
| pg_claim_outbox: "pg_ClaimOutbox S now n owner until db = (items, db') \<Longrightarrow> pg_background db db'"
| pg_complete_outbox: "pg_CompleteOutbox S i owner attemptedAt nextAttempt err db = (un, db') \<Longrightarrow> pg_background db db'"

section \<open>Memory keeps the promises\<close>

lemma fold_keeps: "(\<And>x r. look (f x r) = look r) \<Longrightarrow> look (fold f xs r) = look r"
  by (induction xs arbitrary: r) auto

lemma store_keeps:
  "repo_customers (store_transaction t te als es r) = repo_customers r"
  "repo_customers (store_matches ms r) = repo_customers r"
  "repo_customers (store_notifications ns r) = repo_customers r"
  "repo_customers (store_events es r) = repo_customers r"
  by (simp_all add: store_transaction_def Let_def store_matches_def store_notifications_def
      store_events_def fold_keeps)

lemma mem_keeps:
  "keeps mem_customer (mem_CreateTransaction t te als es)" "keeps mem_customer (mem_CloseAlert i actor why e)"
  "keeps mem_customer (mem_CreateCase cs e)" "keeps mem_customer (mem_AssignCase i b e)"
  "keeps mem_customer (mem_AddCaseComment m e)" "keeps mem_customer (mem_ResolveCase i x b e ae)"
  "keeps mem_customer (mem_UpsertCDDProfile p e)" "keeps mem_customer (mem_AddBeneficialOwner o' e)"
  "keeps mem_customer (mem_AddKYCDocument doc e)" "keeps mem_customer (mem_ReviewKYCDocument i s b e)"
  "keeps mem_customer (mem_SaveScreening rs ms ns os es)"
  "keeps mem_customer (mem_DispositionScreeningMatch i s x b e)"
  "keeps mem_customer (mem_UpsertScreeningSchedule sc e)"
  "keeps mem_customer (mem_ReadNotification i b time)"
  "keeps mem_customer (mem_UpsertNotificationPreference pref)"
  "keeps mem_customer (mem_ClaimDueScreeningSchedules now n owner until)"
  "keeps mem_customer (mem_CompleteScreeningSchedule i owner ranAt nextRun err)"
  by (auto simp: keeps_def repo_defs Let_def store_keeps split: option.split)

section \<open>PostgreSQL keeps the promises\<close>

text \<open>What a transaction, and a statement, leaves alone.\<close>

definition tx_keeps :: "('d \<Rightarrow> 'x) \<Rightarrow> ('a, 'd) tx \<Rightarrow> bool" where
  "tx_keeps look m \<longleftrightarrow> (\<forall>k db x k' db'. m k db = Inr (x, k', db') \<longrightarrow> look db' = look db)"

definition statement_keeps :: "('d \<Rightarrow> 'x) \<Rightarrow> ('d \<Rightarrow> string + 'a \<times> 'd) \<Rightarrow> bool" where
  "statement_keeps look f \<longleftrightarrow> (\<forall>db x db'. f db = Inr (x, db') \<longrightarrow> look db' = look db)"

named_theorems keeping

lemma tx_keeps_rules [keeping]:
  "tx_keeps look (tx_return x)"
  "tx_keeps look (tx_fail err)"
  "statement_keeps look f \<Longrightarrow> tx_keeps look (statement S w f)"
  "tx_keeps look m \<Longrightarrow> (\<And>x. tx_keeps look (g x)) \<Longrightarrow> tx_keeps look (tx_then m g)"
  by (auto simp: tx_keeps_def statement_keeps_def tx_defs split: sum.splits option.splits prod.splits)

lemma tx_keeps_each [keeping]: "(\<And>x. tx_keeps look (g x)) \<Longrightarrow> tx_keeps look (tx_each g xs)"
  by (induction xs) (simp_all add: tx_keeps_rules)

lemma tx_keeps_cases [keeping]:
  "tx_keeps look m \<Longrightarrow> (\<And>x. tx_keeps look (g x)) \<Longrightarrow> tx_keeps look (case y of None \<Rightarrow> m | Some x \<Rightarrow> g x)"
  "tx_keeps look m \<Longrightarrow> tx_keeps look m' \<Longrightarrow> tx_keeps look (if b then m else m')"
  "(\<And>a b. tx_keeps look (h a b)) \<Longrightarrow> tx_keeps look (case p of (a, b) \<Rightarrow> h a b)"
  by (auto split: option.split prod.split)

lemma keeps_rules [keeping]:
  "tx_keeps look work \<Longrightarrow> keeps look (in_transaction S beginning committing work)"
  "statement_keeps look f \<Longrightarrow> keeps look (autocommit S w f)"
  by (auto simp: keeps_def tx_keeps_def statement_keeps_def in_transaction_def autocommit_def
      split: sum.splits option.splits prod.splits)

lemma keeps_mapped:
  "keeps look f \<Longrightarrow> (\<And>db. g db = (h db, snd (f db))) \<Longrightarrow> keeps look g"
  by (auto simp: keeps_def)

text \<open>The statements that write no customer.\<close>

lemma statement_customers [keeping]:
  "statement_keeps tbl_customers (insertAuditEvent e)" "statement_keeps tbl_customers (insert_transaction t)"
  "statement_keeps tbl_customers (insert_alert al)" "statement_keeps tbl_customers (insert_case cs)"
  "statement_keeps tbl_customers (update_open_case i f)" "statement_keeps tbl_customers (insert_comment m)"
  "statement_keeps tbl_customers (upsert_profile p)" "statement_keeps tbl_customers (insert_owner o')"
  "statement_keeps tbl_customers (insert_document d)" "statement_keeps tbl_customers (review_document i s a tm)"
  "statement_keeps tbl_customers (insert_run run)" "statement_keeps tbl_customers (insert_match m')"
  "statement_keeps tbl_customers (insert_notification n)" "statement_keeps tbl_customers (insert_outbox om)"
  "statement_keeps tbl_customers (dispose_match i s y a tm)" "statement_keeps tbl_customers (upsert_schedule sc)"
  "statement_keeps tbl_customers (\<lambda>db. Inr (g db, db))"
  "statement_keeps tbl_customers (\<lambda>db. Inr (close_alert_row i tm a y db))"
  by (auto simp: statement_keeps_def insertAuditEvent_def insert_transaction_def insert_alert_def
      insert_case_def update_open_case_def insert_comment_def upsert_profile_def insert_owner_def
      insert_document_def review_document_def insert_run_def insert_match_def insert_notification_def
      insert_outbox_def dispose_match_def upsert_schedule_def close_alert_row_def Let_def violates_def
      split: if_splits option.splits sum.splits prod.splits)

lemma pg_keeps:
  "keeps tbl_customers (pg_CloseAlert S i actor why e)"
  "keeps tbl_customers (pg_CreateCase S cs e)" "keeps tbl_customers (pg_AssignCase S i b e)"
  "keeps tbl_customers (pg_AddCaseComment S m e)" "keeps tbl_customers (pg_ResolveCase S i x b e ae)"
  "keeps tbl_customers (pg_UpsertCDDProfile S p e)" "keeps tbl_customers (pg_AddBeneficialOwner S o' e)"
  "keeps tbl_customers (pg_AddKYCDocument S doc e)" "keeps tbl_customers (pg_ReviewKYCDocument S i s b e)"
  "keeps tbl_customers (pg_SaveScreening S rs ms ns os es)"
  "keeps tbl_customers (pg_DispositionScreeningMatch S i s x b e)"
  "keeps tbl_customers (pg_UpsertScreeningSchedule S sc e)"
  unfolding pg_CloseAlert_def pg_CreateCase_def pg_AssignCase_def pg_AddCaseComment_def
    pg_ResolveCase_def pg_UpsertCDDProfile_def pg_AddBeneficialOwner_def pg_AddKYCDocument_def
    pg_ReviewKYCDocument_def pg_SaveScreening_def pg_DispositionScreeningMatch_def
    pg_UpsertScreeningSchedule_def write_with_event_def Let_def caseMutationError_def
  by (rule keeping | simp add: statement_keeps_def split: prod.split)+

lemma pg_CreateTransaction_keeps: "keeps tbl_customers (pg_CreateTransaction S t te als es)"
proof -
  have "keeps tbl_customers (in_transaction S ''begin ingest transaction: '' ''commit ingest transaction: ''
        (tx_then (statement S ''lock idempotency key: '' (\<lambda>db. Inr ((), db))) (\<lambda>_.
         tx_then (statement S ''find idempotent transaction: '' (\<lambda>db.
           Inr (find_idempotent (Transaction_IdempotencyKey t) db, db))) (\<lambda>existing.
         case existing of
           None \<Rightarrow> ingest_new S t te als es
         | Some existing \<Rightarrow>
             if \<not> SameIngestionPayload existing t then tx_fail ErrIdempotencyConflict
             else tx_then (statement S ''query replayed alerts: '' (\<lambda>db.
                    Inr (listAlertsForTransaction (Transaction_ID existing) db, db))) (\<lambda>alrts.
                  tx_return (existing, alrts, True))))))"
    unfolding ingest_new_def store_alert_def by (rule keeping)+
  then show ?thesis by (simp add: keeps_def pg_CreateTransaction_def)
qed

lemma pg_keeps_autocommit:
  "keeps tbl_customers (pg_ReadNotification S i b time)"
  "keeps tbl_customers (pg_UpsertNotificationPreference S pref)"
  "keeps tbl_customers (pg_ClaimDueScreeningSchedules S now n owner until)"
  "keeps tbl_customers (pg_CompleteScreeningSchedule S i owner ranAt nextRun err)"
  "keeps tbl_customers (pg_ClaimOutbox S now n owner until)"
  "keeps tbl_customers (pg_CompleteOutbox S i owner tm tm' err)"
  by (auto simp: keeps_def autocommit_def pg_ReadNotification_def pg_UpsertNotificationPreference_def
      pg_ClaimDueScreeningSchedules_def pg_CompleteScreeningSchedule_def pg_ClaimOutbox_def
      pg_CompleteOutbox_def Let_def violates_def split: sum.splits option.splits prod.splits if_splits)

lemma pg_create_customer:
  "pg_customer (snd (pg_CreateCustomer S c e db)) = pg_customer db \<or>
   pg_customer (snd (pg_CreateCustomer S c e db)) =
     (pg_customer db)(Customer_ID c \<mapsto> c\<lparr>Customer_ReviewedBy := [], Customer_ReviewedAt := None\<rparr>)"
proof -
  have "tbl_customers (snd (pg_CreateCustomer S c e db)) = tbl_customers db \<or>
    (\<exists>db1 db2. insert_customer c db = Inr ((), db1) \<and> insertAuditEvent e db1 = Inr ((), db2) \<and>
       snd (pg_CreateCustomer S c e db) = db2)"
    by (auto simp: pg_CreateCustomer_def in_transaction_def tx_defs split: option.splits sum.splits)
  moreover have "insertAuditEvent e db1 = Inr ((), db2) \<Longrightarrow> tbl_customers db2 = tbl_customers db1" for db1 db2
    using statement_customers(1) [of e] by (auto simp: statement_keeps_def)
  ultimately show ?thesis
    by (auto simp: insert_customer_def scanCustomer_def violates_def split: if_splits sum.splits)
qed

lemma in_transaction_committed:
  "snd (in_transaction S beginning committing work db) = db \<or>
   (\<exists>x k. work 1 db = Inr (x, k, snd (in_transaction S beginning committing work db)))"
  by (auto simp: in_transaction_def split: option.splits sum.splits)

lemma review_work_okE:
  assumes "review_work S i status actor e 1 db = Inr (x, k, db2)"
  obtains row db1 where "map_of (tbl_customers db) i = Some row"
    and "Customer_Status (customer_columns row) = CustomerPendingApproval"
    and "Customer_CreatedBy (customer_columns row) \<noteq> actor"
    and "tbl_customers db1 = gput i (row\<lparr>customer_columns := (customer_columns row)\<lparr>Customer_Status := status,
           Customer_ReviewedAt := Some (Event_OccurredAt e)\<rparr>, customer_reviewed_by := Some actor\<rparr>) (tbl_customers db)"
    and "insertAuditEvent e db1 = Inr ((), db2)"
proof (cases "map_of (tbl_customers db) i")
  case None
  then show ?thesis using assms
    by (simp add: review_work_def tx_defs update_row_def split: option.splits sum.splits prod.splits)
next
  case (Some row)
  show ?thesis
  proof (cases "Customer_Status (customer_columns row) = CustomerPendingApproval \<and>
      Customer_CreatedBy (customer_columns row) \<noteq> actor")
    case True
    let ?new = "row\<lparr>customer_columns := (customer_columns row)\<lparr>Customer_Status := status,
           Customer_ReviewedAt := Some (Event_OccurredAt e)\<rparr>, customer_reviewed_by := Some actor\<rparr>"
    have "insertAuditEvent e (db\<lparr>tbl_customers := gput i ?new (tbl_customers db)\<rparr>) = Inr ((), db2)"
      using assms Some True
      by (auto simp: review_work_def tx_defs update_row_def split: option.splits sum.splits prod.splits)
    then show ?thesis using Some True by (intro that [of row "db\<lparr>tbl_customers := gput i ?new (tbl_customers db)\<rparr>"]) simp_all
  next
    case False
    then have upd: "update_row i (\<lambda>row. Customer_Status (customer_columns row) = CustomerPendingApproval \<and>
        Customer_CreatedBy (customer_columns row) \<noteq> actor) f (tbl_customers db) = (None, tbl_customers db)" for f
      using Some by (auto simp: update_row_def)
    show ?thesis using assms
      by (auto simp: review_work_def tx_defs upd split: option.splits sum.splits if_splits)
  qed
qed

lemma pg_review_customer:
  assumes "d \<in> {ReviewApprove, ReviewReject}"
  shows "pg_customer (snd (pg_ReviewCustomer S i d actor e db)) = pg_customer db \<or>
    (\<exists>old new. pg_customer db i = Some old \<and> reviewed d actor old new \<and>
       pg_customer (snd (pg_ReviewCustomer S i d actor e db)) = (pg_customer db)(i \<mapsto> new))"
proof -
  let ?status = "if d = ReviewReject then CustomerRejected else CustomerActive"
  have run: "pg_ReviewCustomer S i d actor e db = in_transaction S ''begin review customer transaction: ''
      ''commit review customer transaction: '' (review_work S i ?status actor e) db"
    using assms by (auto simp: pg_ReviewCustomer_def)
  have event: "insertAuditEvent e db1 = Inr ((), db2) \<Longrightarrow> tbl_customers db2 = tbl_customers db1" for db1 db2
    using statement_customers(1) [of e] by (auto simp: statement_keeps_def)
  obtain db2 where db2: "snd (pg_ReviewCustomer S i d actor e db) = db2" by simp
  consider "db2 = db" | x k where "review_work S i ?status actor e 1 db = Inr (x, k, db2)"
    using in_transaction_committed [of S "''begin review customer transaction: ''"
      "''commit review customer transaction: ''" "review_work S i ?status actor e" db] db2
    unfolding run by metis
  then show ?thesis
  proof cases
    case 2
    then show ?thesis
    proof (rule review_work_okE)
      fix row :: customers_row and db1
      let ?new = "row\<lparr>customer_columns := (customer_columns row)\<lparr>Customer_Status := ?status,
           Customer_ReviewedAt := Some (Event_OccurredAt e)\<rparr>, customer_reviewed_by := Some actor\<rparr>"
      assume row: "map_of (tbl_customers db) i = Some row"
        "Customer_Status (customer_columns row) = CustomerPendingApproval"
        "Customer_CreatedBy (customer_columns row) \<noteq> actor"
        and "tbl_customers db1 = gput i ?new (tbl_customers db)" "insertAuditEvent e db1 = Inr ((), db2)"
      then have "pg_customer db2 = (pg_customer db)(i \<mapsto> scanCustomer ?new)" using event [of db1 db2] by simp
      moreover have "reviewed d actor (scanCustomer row) (scanCustomer ?new)"
        using row by (simp add: reviewed_def scanCustomer_def)
      moreover have "pg_customer db i = Some (scanCustomer row)" using row(1) by (simp add: scanned_Some)
      ultimately show ?thesis unfolding db2 by (intro disjI2 exI conjI)
    qed
  qed (simp add: db2)
qed

section \<open>The interpretations\<close>

lemma mem_background_keeps: "mem_background r r' \<Longrightarrow> mem_customer r' = mem_customer r"
  by (induction rule: mem_background.induct) (use mem_keeps(11,16,17) in \<open>metis keepsD snd_conv\<close>)+

lemma pg_background_keeps: "pg_background db db' \<Longrightarrow> pg_customer db' = pg_customer db"
  by (induction rule: pg_background.induct)
    (use pg_keeps(10) pg_keeps_autocommit(3-6) in \<open>metis keepsD snd_conv\<close>)+

lemma pg_keeps_lookup: "keeps tbl_customers run \<Longrightarrow> keeps pg_customer run"
  by (simp add: keeps_def)

lemma mem_review_customer:
  assumes "d \<in> {ReviewApprove, ReviewReject}"
  shows "mem_customer (snd (mem_ReviewCustomer i d actor e r)) = mem_customer r \<or>
    (\<exists>old new. mem_customer r i = Some old \<and> reviewed d actor old new \<and>
       mem_customer (snd (mem_ReviewCustomer i d actor e r)) = (mem_customer r)(i \<mapsto> new))"
proof (cases "mem_customer r i")
  case (Some old)
  let ?new = "old\<lparr>Customer_Status := (if d = ReviewReject then CustomerRejected else CustomerActive),
    Customer_ReviewedBy := actor, Customer_ReviewedAt := Some (Event_OccurredAt e)\<rparr>"
  have "mem_customer (snd (mem_ReviewCustomer i d actor e r)) = mem_customer r \<or>
    Customer_Status old = CustomerPendingApproval \<and> Customer_CreatedBy old \<noteq> actor \<and>
    mem_customer (snd (mem_ReviewCustomer i d actor e r)) = (mem_customer r)(i \<mapsto> ?new)"
    using assms Some by (auto simp: mem_ReviewCustomer_def decided_status_def enum_defs Let_def)
  moreover have "reviewed d actor old ?new"
    if "Customer_Status old = CustomerPendingApproval" and "Customer_CreatedBy old \<noteq> actor"
    using that by (simp add: reviewed_def)
  ultimately show ?thesis using Some by blast
qed (simp add: mem_ReviewCustomer_def)

interpretation memory_backend:
  customers_backend "{memory_handler cfg}" "set_world cfg" mem_customer mem_background
  for cfg :: settings
proof (unfold_locales, goal_cases)
  case (3 h d i actor e db)
  then show ?case using mem_review_customer [of d i actor e db] by (simp add: memory_handler_def)
qed (auto simp: memory_handler_def mem_keeps mem_background_keeps mem_CreateCustomer_def)

interpretation postgres_backend:
  customers_backend "range (pg_handler cfg)" "set_world cfg" pg_customer pg_background
  for cfg :: settings
proof (unfold_locales, goal_cases)
  case (2 h c e db)
  then obtain Ss where "h = pg_handler cfg Ss" by auto
  then show ?case using pg_create_customer [of "Ss ''CreateCustomer''" c e db]
    by (auto simp: pg_handler_def intro!: exI [of _ "c\<lparr>Customer_ReviewedBy := [], Customer_ReviewedAt := None\<rparr>"])
next
  case (3 h d i actor e db)
  then obtain Ss where "h = pg_handler cfg Ss" by auto
  then show ?case using 3(2) pg_review_customer [of d "Ss ''ReviewCustomer''" i actor e db]
    by (simp add: pg_handler_def)
qed (auto simp: pg_handler_def pg_screening_def pg_CreateTransaction_keeps [THEN pg_keeps_lookup]
    pg_keeps [THEN pg_keeps_lookup] pg_keeps_autocommit [THEN pg_keeps_lookup] pg_background_keeps)

section \<open>Two requests\<close>

text \<open>A submission by an analyst and its approval by a reviewer, with tokens signed by a shared secret.\<close>

definition two_claims :: "string \<Rightarrow> Role \<Rightarrow> claims" where
  "two_claims name role = \<lparr>Claims_Subject = name, Claims_Role = role, Claims_Issuer = ''idp'',
     Claims_ExpiresAt = 100, Claims_NotBefore = 0, Claims_AuthorizedParty = [], Claims_RealmRoles = []\<rparr>"

definition two_world :: auth_world where
  "two_world = \<lparr>Unmarshal_header = (\<lambda>_. Some \<lparr>Header_Algorithm = ''HS256'', Header_Type = ''JWT'',
       Header_KeyID = []\<rparr>),
     Unmarshal_claims = (\<lambda>data. if data = ''a'' then Some (two_claims ''maker'' RoleAnalyst)
       else if data = ''b'' then Some (two_claims ''checker'' RoleReviewer) else None),
     Decode_set = (\<lambda>_. None), HMAC_SHA256 = (\<lambda>_ _. ''b''), SHA256 = id, VerifyPKCS1v15 = (\<lambda>_ _ _. False)\<rparr>"

definition two_json :: json_decoders where
  "two_json = \<lparr>Decode_OnboardCustomerCommand = (\<lambda>_ _. Decoded demo_customer),
     Decode_IngestTransactionCommand = (\<lambda>_ _. EOF), Decode_reviewRequest = (\<lambda>_ _. Decoded \<lparr>Review_Reason = ''ok''\<rparr>),
     Decode_caseRequest = (\<lambda>_ _. EOF), Decode_caseTextRequest = (\<lambda>_ _. EOF), Decode_CDDProfile = (\<lambda>_ _. EOF),
     Decode_BeneficialOwner = (\<lambda>_ _. EOF), Decode_KYCDocument = (\<lambda>_ _. EOF),
     Decode_documentReviewRequest = (\<lambda>_ _. EOF), Decode_screeningDispositionRequest = (\<lambda>_ _. EOF),
     Decode_screeningScheduleRequest = (\<lambda>_ _. EOF), Decode_notificationPreferenceRequest = (\<lambda>_ _. EOF)\<rparr>"

definition two_config :: settings where
  "two_config = \<lparr>set_service = NewScreeningService ''w'', set_JSON = two_json, set_marshal = (\<lambda>_. []),
     set_unmarshal = (\<lambda>_. None), set_ParseAddress = (\<lambda>_. None), set_world = two_world\<rparr>"

definition two_request :: "string \<Rightarrow> string \<Rightarrow> request" where
  "two_request path token = \<lparr>Request_Method = ''POST'', Request_Path = path, Query_Get = (\<lambda>_. []),
     Header_Get = (\<lambda>name. if name = ''Authorization'' then ''Bearer '' @ token else []),
     Request_Body = [], RemoteAddr = ''a:1''\<rparr>"

definition two_call :: "call_env \<Rightarrow> time \<Rightarrow> server_call" where
  "two_call env now = \<lparr>Call_Env = env, Call_Auth = \<lparr>Clock = (\<lambda>_. 62135596850 * 1000000000), Fetch = (\<lambda>_. Inl [])\<rparr>,
     Call_Provider = \<lparr>Provider_Name = ''demo'', Provider_Screen = (\<lambda>_ _. Inr [])\<rparr>, Call_Ping = None, Arrival = now, Fresh_RequestID = ''f'', Elapsed = 0,
     Moved_Permanently = (\<lambda>_. unauthenticated)\<rparr>"

definition two_authenticator :: Authenticator where
  "two_authenticator = \<lparr>auth_secret = ''s'', auth_issuer = ''idp'', auth_jwksURL = [],
     auth_authorizedParties = [], auth_keys = [], auth_keysExpiresAt = 0\<rparr>"

lemma two_decoded:
  "bearer_token two_world ''Bearer YQ.YQ.Yg'' =
     Some (\<lparr>Header_Algorithm = ''HS256'', Header_Type = ''JWT'', Header_KeyID = []\<rparr>, ''YQ'', ''YQ'', ''b'')"
  "bearer_token two_world ''Bearer YQ.Yg.Yg'' =
     Some (\<lparr>Header_Algorithm = ''HS256'', Header_Type = ''JWT'', Header_KeyID = []\<rparr>, ''YQ'', ''Yg'', ''b'')"
  "decodePart (Unmarshal_claims two_world) ''YQ'' = Unmarshal_claims two_world ''a''"
  "decodePart (Unmarshal_claims two_world) ''Yg'' = Unmarshal_claims two_world ''b''"
  "TrimSpace ''maker'' = ''maker''" "TrimSpace ''checker'' = ''checker''"
  by code_simp+

lemma two_world_sel:
  "Unmarshal_claims two_world ''a'' = Some (two_claims ''maker'' RoleAnalyst)"
  "Unmarshal_claims two_world ''b'' = Some (two_claims ''checker'' RoleReviewer)"
  "HMAC_SHA256 two_world key message = ''b''"
  by (simp_all add: two_world_def)

lemma two_authentication:
  "Authenticate two_world (Call_Auth (two_call env now)) ''Bearer YQ.YQ.Yg'' two_authenticator =
     (Some \<lparr>Principal_Subject = ''maker'', Principal_Role = RoleAnalyst\<rparr>, two_authenticator)"
  "Authenticate two_world (Call_Auth (two_call env now)) ''Bearer YQ.Yg.Yg'' two_authenticator =
     (Some \<lparr>Principal_Subject = ''checker'', Principal_Role = RoleReviewer\<rparr>, two_authenticator)"
  by (simp_all add: Authenticate_def two_decoded two_world_sel two_claims_def two_call_def
      two_authenticator_def validSignature_def claims_accepted_def claimed_role_def validRole_def
      role_defs Unix_def)

lemma two_routes:
  "cleanPath ''/v1/customers'' = ''/v1/customers''"
  "cleanPath ''/v1/customers/c/approve'' = ''/v1/customers/c/approve''"
  "path_segments ''/v1/customers'' = [''v1'', ''customers'']"
  "path_segments ''/v1/customers/c/approve'' = [''v1'', ''customers'', ''c'', ''approve'']"
  by code_simp+

lemma two_matches:
  "match_path (routes h) ''POST'' [''v1'', ''customers''] =
     Some (''POST'', ''/v1/customers'', Guarded (onboardCustomer h) [RoleAnalyst, RoleAdmin])"
  "match_path (routes h) ''POST'' [''v1'', ''customers'', ''c'', ''approve''] =
     Some (''POST'', ''/v1/customers/{customer_id}/approve'',
       Guarded (reviewCustomer h ReviewApprove) [RoleReviewer, RoleAdmin])"
  by (simp_all add: match_path_def routes_def route_matches_def pattern_segments_def)

lemma two_allowed:
  obtains l1 l2 where "allow 10 ''a'' (NewRateLimiter 20 40) = (True, l1)" and "allow 10 ''a'' l1 = (True, l2)"
proof -
  have "fst (allow 10 ''a'' (NewRateLimiter 20 40)) \<and> fst (allow 10 ''a'' (snd (allow 10 ''a'' (NewRateLimiter 20 40))))"
    using float64_of_int [of 40] float64_of_int [of 39]
    by (simp add: allow_def refilled_def prune_def NewRateLimiter_def Let_def Rate_Limiter.Seconds_def
        gput_def zero_time_def IsZero_def duration_defs)
  then show thesis using that by (metis prod.collapse)
qed

lemma two_sel:
  "Request_Method (two_request path token) = ''POST''" "Request_Path (two_request path token) = path"
  "Header_Get (two_request path token) ''Authorization'' = ''Bearer '' @ token"
  "Arrival (two_call env now) = now"
  by (simp_all add: two_request_def two_call_def)

lemma two_paths:
  "URL_Path (two_request ''/v1/customers'' token) = ''/v1/customers''"
  "URL_Path (two_request ''/v1/customers/c/approve'' token) = ''/v1/customers/c/approve''"
  unfolding URL_Path_def two_sel by code_simp+

lemma two_clients: "client_key (two_request path token) = ''a''"
  by (simp add: client_key_def two_request_def) code_simp

text \<open>The two requests leave the database the run of \<open>Postgres_Properties\<close> leaves.\<close>

definition two_handler :: "Database Handler" where
  "two_handler = pg_handler two_config (\<lambda>_. calm)"

definition submission :: request where
  "submission = two_request ''/v1/customers'' ''YQ.YQ.Yg''"

definition approval :: request where
  "approval = two_request ''/v1/customers/c/approve'' ''YQ.Yg.Yg''"

lemma two_requests_served:
  assumes cfg: "set_JSON cfg = two_json"
    and first: "Authenticate (set_world cfg) au ''Bearer YQ.YQ.Yg'' a0 =
      (Some \<lparr>Principal_Subject = ''maker'', Principal_Role = RoleAnalyst\<rparr>, a1)"
    and second: "Authenticate (set_world cfg) au ''Bearer YQ.Yg.Yg'' a1 =
      (Some \<lparr>Principal_Subject = ''checker'', Principal_Role = RoleReviewer\<rparr>, a2)"
  obtains resp1 l1 reg1 resp2 l2 reg2 where
    "serve (pg_handler cfg (\<lambda>_. calm)) ((two_call (call ''c'' 10) 10)\<lparr>Call_Auth := au\<rparr>) submission
       (NewRateLimiter 20 40, reg0, a0, empty_database) = (resp1, l1, reg1, a1, stored1)"
    and "serve (pg_handler cfg (\<lambda>_. calm)) ((two_call (call ''r'' 20) 10)\<lparr>Call_Auth := au\<rparr>) approval
       (l1, reg1, a1, stored1) = (resp2, l2, reg2, a2, stored2)"
proof -
  let ?h = "pg_handler cfg (\<lambda>_. calm)"
  let ?c1 = "(two_call (call ''c'' 10) 10)\<lparr>Call_Auth := au\<rparr>" and ?r1 = "two_request ''/v1/customers'' ''YQ.YQ.Yg''"
  let ?c2 = "(two_call (call ''r'' 20) 10)\<lparr>Call_Auth := au\<rparr>" and ?r2 = "two_request ''/v1/customers/c/approve'' ''YQ.Yg.Yg''"
  let ?maker = "\<lparr>Principal_Subject = ''maker'', Principal_Role = RoleAnalyst\<rparr>"
  let ?checker = "\<lparr>Principal_Subject = ''checker'', Principal_Role = RoleReviewer\<rparr>"
  obtain l1 l2 where l: "allow 10 ''a'' (NewRateLimiter 20 40) = (True, l1)" "allow 10 ''a'' l1 = (True, l2)"
    by (rule two_allowed)
  have W: "Auth_World ?h = set_world cfg" by (simp add: pg_handler_def)
  note sels = two_sel two_paths two_clients two_routes two_matches customer_patterns W first second l
  have db1: "snd (onboardCustomer ?h (http_call.truncate ?c1) ?r1 pv (Some ?maker) empty_database) = stored1" for pv
    by (simp add: onboardCustomer_def decodeJSON_def decode_body_def pg_handler_def cfg
        two_json_def two_call_def stored1_def demo_customer_def http_call.defs)
  have db2: "snd (reviewCustomer ?h ReviewApprove (http_call.truncate ?c2) ?r2 (path_value [(''customer_id'', ''c'')])
      (Some ?checker) stored1) = stored2"
    by (simp add: reviewCustomer_def decode_body_def pg_handler_def cfg path_value_def
        two_json_def two_call_def stored2_def http_call.defs)
  obtain resp1 reg1 where s1: "serve ?h ?c1 ?r1 (NewRateLimiter 20 40, reg0, a0, empty_database) =
      (resp1, l1, reg1, a1, stored1)"
    using serve_granted [of ?c1 ?r1 "NewRateLimiter 20 40" l1 ?h "''POST''" "''/v1/customers''" "onboardCustomer ?h"
      "[RoleAnalyst, RoleAdmin]" "[]" a0 ?maker a1 reg0 empty_database]
    by (simp add: sels db1) blast
  obtain resp2 reg2 where s2: "serve ?h ?c2 ?r2 (l1, reg1, a1, stored1) = (resp2, l2, reg2, a2, stored2)"
    using serve_granted [of ?c2 ?r2 l1 l2 ?h "''POST''" "''/v1/customers/{customer_id}/approve''"
      "reviewCustomer ?h ReviewApprove" "[RoleReviewer, RoleAdmin]" "[(''customer_id'', ''c'')]"
      a1 ?checker a2 reg1 stored1]
    by (simp add: sels db2) blast
  show thesis
    using that s1 s2 unfolding submission_def approval_def by blast
qed

lemma two_serves:
  obtains resp1 l1 reg1 resp2 l2 reg2 where
    "serve two_handler (two_call (call ''c'' 10) 10) submission
       (NewRateLimiter 20 40, NewRegistry, two_authenticator, empty_database) =
     (resp1, l1, reg1, two_authenticator, stored1)"
    and "serve two_handler (two_call (call ''r'' 20) 10) approval (l1, reg1, two_authenticator, stored1) =
     (resp2, l2, reg2, two_authenticator, stored2)"
proof -
  define au where "au = Call_Auth (two_call (call ''c'' 10) 10)"
  have au: "(two_call (call ''c'' 10) 10)\<lparr>Call_Auth := au\<rparr> = two_call (call ''c'' 10) 10"
    "(two_call (call ''r'' 20) 10)\<lparr>Call_Auth := au\<rparr> = two_call (call ''r'' 20) 10"
    by (simp_all add: au_def two_call_def)
  have cfg: "set_JSON two_config = two_json" "set_world two_config = two_world" by (simp_all add: two_config_def)
  have auth: "Authenticate (set_world two_config) au ''Bearer YQ.YQ.Yg'' two_authenticator =
      (Some \<lparr>Principal_Subject = ''maker'', Principal_Role = RoleAnalyst\<rparr>, two_authenticator)"
    "Authenticate (set_world two_config) au ''Bearer YQ.Yg.Yg'' two_authenticator =
      (Some \<lparr>Principal_Subject = ''checker'', Principal_Role = RoleReviewer\<rparr>, two_authenticator)"
    by (simp_all add: cfg au_def two_authentication)
  show thesis
    by (rule two_requests_served [OF cfg(1) auth, of NewRegistry]) (use that in \<open>simp add: au two_handler_def\<close>)
qed

lemma two_served:
  obtains hist l reg where "length hist = 2"
    and "served (range (pg_handler two_config)) pg_background
      (NewRateLimiter 20 40, NewRegistry, two_authenticator, empty_database) hist
      (l, reg, two_authenticator, stored2)"
proof -
  have h: "two_handler \<in> range (pg_handler two_config)" by (simp add: two_handler_def)
  show thesis
    by (rule two_serves, rule that [OF _ served.request [OF served.request [OF served.start h] h]]) simp_all
qed

section \<open>Properties\<close>

text \<open>
  C3. Only an authorized request writes. When serving a request changes the repository, whichever it
  is, the request is a POST or PUT to a guarded route, its bearer token was accepted, and the role of
  the token is one the route asks for. So a request without a valid token or with another role, to an
  unknown path, with another method, or over the rate limit leaves the data as it was.
\<close>

theorem writes_authorized:
  assumes "serve h c r (l, reg, a, db) = (resp, l', reg', a', db')" and "db' \<noteq> db"
  shows "Request_Method r \<in> {''POST'', ''PUT''} \<and>
    (\<exists>pattern f roles p. (Request_Method r, pattern, Guarded f roles) \<in> set (routes h) \<and>
       match_segments (pattern_segments pattern) (path_segments (Request_Path r)) \<noteq> None \<and>
       fst (Authenticate (Auth_World h) (Call_Auth c) (Header_Get r ''Authorization'') a) = Some p \<and>
       Principal_Role p \<in> set roles)"
proof -
  obtain pattern f roles pv p resp' where g: "guarded_request h c r a (pattern, f, roles) pv p"
    and run: "(resp', db') = f (http_call.truncate c) r pv (Some p) db"
    using serve_cases(2) [OF assms(1)] assms(2) by blast
  then obtain verb where route: "(verb, pattern, Guarded f roles) \<in> set (routes h)"
    and verb: "verb = Request_Method r \<or> verb = ''GET''"
    by (auto simp: guarded_request_def)
  have "verb \<noteq> ''GET''"
    using route run assms(2) routes_get [of pattern f roles h "http_call.truncate c" r pv "Some p" db]
    by (metis snd_conv)
  with g route verb routes_methods [OF route] show ?thesis
    by (auto simp: guarded_request_def)
qed

lemma stored1_customers: "map fst (tbl_customers stored1) = [''c'']"
  by code_simp

theorem writes_authorized_witness:
  "\<exists>pattern f roles p. (''POST'', pattern, Guarded f roles) \<in> set (routes two_handler) \<and>
     match_segments (pattern_segments pattern) [''v1'', ''customers''] \<noteq> None \<and>
     fst (Authenticate (Auth_World two_handler) (Call_Auth (two_call (call ''c'' 10) 10)) ''Bearer YQ.YQ.Yg''
       two_authenticator) = Some p \<and> Principal_Role p \<in> set roles"
proof -
  obtain resp1 l1 reg1 where s1: "serve two_handler (two_call (call ''c'' 10) 10) submission
       (NewRateLimiter 20 40, NewRegistry, two_authenticator, empty_database) =
     (resp1, l1, reg1, two_authenticator, stored1)" by (rule two_serves)
  have "tbl_customers stored1 \<noteq> tbl_customers empty_database"
    using stored1_customers by (auto simp: empty_database_def)
  then have "stored1 \<noteq> empty_database" by metis
  from writes_authorized [OF s1 this] show ?thesis by (simp add: submission_def two_sel two_routes)
qed

text \<open>
  Separation of duties, end to end. Start the server on an empty database and let it serve any
  requests, with the workers' writes in between, whatever statements and connections fail: when a
  customer is active or rejected, the record names two people. An earlier request to create a customer
  carried a token the server accepted, for an analyst or an administrator, whose subject is the
  record's submitter; a later request to approve or reject just this customer carried one for a
  reviewer or an administrator, whose subject is the record's reviewer; and the subjects differ. Each
  token was accepted by the authenticator as it came to be from the configured one.
\<close>

theorem two_people:
  assumes "served (range (pg_handler cfg)) pg_background (l0, reg0, a0, empty_database) hist (l, reg, a, db)"
    and "pg_customer db i = Some c" and "Customer_Status c \<noteq> CustomerPendingApproval"
  shows "\<exists>m n p q. m < n \<and> n < length hist \<and> submitted_by (set_world cfg) (hist ! m) c p \<and>
    decided_by (set_world cfg) (hist ! n) i c q \<and>
    TrimSpace (Principal_Subject p) \<noteq> TrimSpace (Principal_Subject q) \<and>
    (\<forall>e \<in> set hist. \<exists>calls. Ex_Authenticator e = auth_after (set_world cfg) calls a0)"
proof -
  have "pg_customer empty_database = Map.empty" by (rule ext) (simp add: empty_database_def scanned_def)
  from postgres_backend.served_vouched [OF assms(1) this, of i c] assms(2,3)
  have "vouched (set_world cfg) hist i c" by simp
  with postgres_backend.served_authenticator [OF assms(1)] assms(3) show ?thesis
    unfolding vouched_def by blast
qed

theorem two_people_witness:
  "\<exists>hist l reg c m n p q. length hist = 2 \<and> pg_customer stored2 ''c'' = Some c \<and>
     served (range (pg_handler two_config)) pg_background
       (NewRateLimiter 20 40, NewRegistry, two_authenticator, empty_database) hist
       (l, reg, two_authenticator, stored2) \<and>
     m < n \<and> n < length hist \<and> submitted_by two_world (hist ! m) c p \<and> decided_by two_world (hist ! n) ''c'' c q"
proof -
  obtain hist l reg where s: "length hist = 2" "served (range (pg_handler two_config)) pg_background
      (NewRateLimiter 20 40, NewRegistry, two_authenticator, empty_database) hist
      (l, reg, two_authenticator, stored2)" by (rule two_served)
  obtain c where c: "pg_customer stored2 ''c'' = Some c" and "Customer_Status c = CustomerActive"
    using stored2_customer by auto
  then have "Customer_Status c \<noteq> CustomerPendingApproval" by (simp add: enum_defs)
  from two_people [OF s(2) c this] obtain m n p q where "m < n" "n < length hist"
    "submitted_by two_world (hist ! m) c p" "decided_by two_world (hist ! n) ''c'' c q"
    by (auto simp: two_config_def)
  with s c show ?thesis by blast
qed

end
