(* ===== verification/Providers.thy ===== *)
theory Providers
  imports Screening Go_Strings Identifiers
begin

text \<open>
  \<^verbatim>\<open>internal/infrastructure/screening\<close>: the demo list and the HTTP provider with its retries and its
  circuit breaker. Sending a request, reading its response, parsing a URL and JSON are parameters.
\<close>

section \<open>The demo list (demo_provider.go)\<close>

record entry =
  entry_name :: string
  entry_kind :: ScreeningListType

definition demoEntries :: "entry list" where
  "demoEntries =
     [\<lparr>entry_name = ''Viktor Petrov'', entry_kind = ScreeningSanctions\<rparr>,
      \<lparr>entry_name = ''Nadia Karim'', entry_kind = ScreeningPEP\<rparr>,
      \<lparr>entry_name = ''Orion Trading Company'', entry_kind = ScreeningSanctions\<rparr>,
      \<lparr>entry_name = ''Marcus Vale'', entry_kind = ScreeningAdverseMedia\<rparr>]"

text \<open>
  \<^verbatim>\<open>strings.Fields\<close>: the parts between runs of white space. \<open>part\<close> is the part read so far, reversed.
\<close>

function fields_from :: "string \<Rightarrow> string \<Rightarrow> string list" where
  "fields_from part s =
     (case s of
        [] \<Rightarrow> if part = [] then [] else [rev part]
      | c # rest \<Rightarrow>
          (case leading space_encodings s of
             Some w \<Rightarrow> (if part = [] then [] else [rev part]) @ fields_from [] (drop (length w) s)
           | None \<Rightarrow> fields_from (c # part) rest))"
  by pat_completeness auto
termination
  by (relation "measure (\<lambda>(part, s). length s)") (auto dest!: leading_SomeD)

declare fields_from.simps [simp del]

definition Fields :: "string \<Rightarrow> string list" where
  "Fields s = fields_from [] s"

text \<open>
  Letters, digits and spaces in lower case, everything else a space. On a text that is not all ASCII
  the result of \<^verbatim>\<open>strings.Map\<close> is given by \<open>uni\<close>.
\<close>

definition fold_rune :: "char \<Rightarrow> char" where
  "fold_rune c =
     (let low = ascii_lower c
      in if CHR ''a'' \<le> low \<and> low \<le> CHR ''z'' \<or> c \<in> set ''0123456789'' \<or> [c] \<in> set space_encodings
         then low else CHR '' '')"

text \<open>Evaluated faster: a letter is told from white space by two bits.\<close>

lemma letter_not_space: "digit6 c \<Longrightarrow> \<not> digit7 c \<Longrightarrow> leading space_encodings (c # rest) = None"
  by (cases c) (simp add: leading_None_iff space_encodings_def)

lemma fields_from_bits [code]:
  "fields_from part s =
     (case s of
        [] \<Rightarrow> if part = [] then [] else [rev part]
      | c # rest \<Rightarrow>
          if (if digit6 c then \<not> digit7 c else False) then fields_from (c # part) rest
          else (case leading space_encodings s of
             Some w \<Rightarrow> (if part = [] then [] else [rev part]) @ fields_from [] (drop (length w) s)
           | None \<Rightarrow> fields_from (c # part) rest))"
  by (subst fields_from.simps) (simp add: letter_not_space split: list.split)

lemma fold_rune_bits [code]:
  "fold_rune c =
     (let low = ascii_lower c
      in if CHR ''a'' \<le> low \<and> low \<le> CHR ''z'' then low
         else if (if digit6 c then \<not> digit7 c else False) then CHR '' ''
         else if c \<in> set ''0123456789'' \<or> [c] \<in> set space_encodings then low else CHR '' '')"
proof -
  have "c \<notin> set ''0123456789'' \<and> [c] \<notin> set space_encodings" if "digit6 c" and "\<not> digit7 c"
    using that by (cases c) (simp add: space_encodings_def)
  then show ?thesis unfolding fold_rune_def Let_def by (simp only: if_False if_True split: if_split) blast
qed

definition normalize :: "(string \<Rightarrow> string) \<Rightarrow> string \<Rightarrow> string" where
  "normalize uni value = Join (Fields (if is_ascii value then map fold_rune value else uni value)) '' ''"

definition similarity :: "(string \<Rightarrow> string) \<Rightarrow> string \<Rightarrow> string \<Rightarrow> int" where
  "similarity uni a b =
     (let a = normalize uni a; b = normalize uni b
      in if a = b then 100
         else if Contains a b \<or> Contains b a then 90
         else (let aa = Fields a; bb = Fields b;
                   matches = int (length (filter (\<lambda>x. x \<in> set bb) aa));
                   denominator = int (length aa + length bb)
               in if denominator = 0 then 0 else 2 * matches * 100 div denominator))"

definition DemoProvider_Screen :: "(string \<Rightarrow> string) \<Rightarrow> string \<Rightarrow> ScreeningCandidate list result" where
  "DemoProvider_Screen uni name =
     Inr (map (\<lambda>item. \<lparr>Candidate_ListType = entry_kind item, Candidate_Name = entry_name item,
              Candidate_Score = similarity uni name (entry_name item),
              Candidate_Reason = ''Normalized name similarity meets the 70% review threshold''\<rparr>)
            (filter (\<lambda>item. 70 \<le> similarity uni name (entry_name item)) demoEntries))"

definition DemoProvider :: "(string \<Rightarrow> string) \<Rightarrow> ScreeningProvider" where
  "DemoProvider uni = \<lparr>Provider_Name = ''fccp-demo-screening-v1'',
     Provider_Screen = (\<lambda>_. DemoProvider_Screen uni)\<rparr>"

text \<open>
  A repeated word counts once for each repetition, so a score can be above 100, which the check on
  \<^verbatim>\<open>screening_matches.score\<close> refuses; and a name without letters or digits is part of every name.
\<close>

lemma demo_score_above_100: "similarity uni ''Viktor Viktor Viktor'' ''Viktor Petrov'' = 120"
  by code_simp

lemma normalize_blank: "normalize uni ''--'' = []"
  by code_simp

lemma blank_name_score:
  assumes "normalize uni a = []" and "normalize uni b \<noteq> []"
  shows "similarity uni a b = 90"
  using assms by (simp add: similarity_def Contains_def)

section \<open>The HTTP provider (http_provider.go)\<close>

record HTTPProvider =
  hp_endpoint :: string
  hp_apiKey :: string
  hp_name :: string
  hp_retries :: int
  hp_openFor :: duration
  hp_failures :: int
  hp_openUntil :: time

definition maxProviderResponseBytes :: nat where "maxProviderResponseBytes = 2 ^ 20"

definition NewHTTPProvider :: "string \<Rightarrow> string \<Rightarrow> int \<Rightarrow> duration \<Rightarrow> HTTPProvider" where
  "NewHTTPProvider endpoint apiKey retries openFor =
     \<lparr>hp_endpoint = TrimRight CHR ''/'' endpoint, hp_apiKey = apiKey,
      hp_name = ''external-http-screening-v1'', hp_retries = retries, hp_openFor = openFor,
      hp_failures = 0, hp_openUntil = zero_time\<rparr>"

text \<open>The request of one attempt, and how it ends: the status, the content type and the body.\<close>

record provider_request =
  Sent_URL :: string
  Sent_Headers :: "(string \<times> string) list"
  Sent_Body :: string

datatype provider_answer =
    Not_Built string
  | Not_Sent string
  | Answered int string string "string option"

definition provider_headers :: "HTTPProvider \<Rightarrow> string \<Rightarrow> (string \<times> string) list" where
  "provider_headers p idempotencyKey =
     [(''Content-Type'', ''application/json''), (''Accept'', ''application/json''),
      (''User-Agent'', ''fccp-screening-adapter/1.0''), (''X-Correlation-ID'', idempotencyKey),
      (''Idempotency-Key'', idempotencyKey)] @
     (if hp_apiKey p \<noteq> [] then [(''Authorization'', ''Bearer '' @ hp_apiKey p)] else [])"

definition valid_candidate :: "ScreeningCandidate \<Rightarrow> bool" where
  "valid_candidate item \<longleftrightarrow>
     \<not> (Candidate_Score item < 0 \<or> 100 < Candidate_Score item \<or> TrimSpace (Candidate_Name item) = [] \<or>
        TrimSpace (Candidate_Reason item) = [] \<or>
        (Candidate_ListType item \<noteq> ScreeningSanctions \<and> Candidate_ListType item \<noteq> ScreeningPEP \<and>
         Candidate_ListType item \<noteq> ScreeningAdverseMedia))"

text \<open>
  What an answer amounts to: candidates, or an error and whether another attempt may help. The strict
  decoder gives the candidates and whether the input ends after them.
\<close>

type_synonym payload_decoder = "string \<Rightarrow> string + ScreeningCandidate list \<times> bool"

definition read_answer ::
  "payload_decoder \<Rightarrow> provider_answer \<Rightarrow> (bool \<times> string) + ScreeningCandidate list" where
  "read_answer decode ans =
     (case ans of
        Not_Built err \<Rightarrow> Inl (False, err)
      | Not_Sent err \<Rightarrow> Inl (True, err)
      | Answered status contentType response_body read_err \<Rightarrow>
          if 500 \<le> status then Inl (True, ''screening provider status '' @ show_int status)
          else if status = 429 then Inl (True, ''screening provider status '' @ show_int status)
          else if status \<noteq> 200 then Inl (False, ''screening provider status '' @ show_int status)
          else if \<not> Contains (map ascii_lower contentType) ''json''
          then Inl (False, ''screening provider returned a non-JSON response'')
          else (case (read_err, length response_body \<le> maxProviderResponseBytes) of
              (Some err, True) \<Rightarrow> Inl (False, ''read screening response: '' @ err)
            | (_, False) \<Rightarrow> Inl (False, ''screening provider response exceeds 1 MiB'')
            | (None, True) \<Rightarrow>
                (case decode response_body of
                   Inl err \<Rightarrow> Inl (False, ''decode screening response: '' @ err)
                 | Inr (candidates, ended) \<Rightarrow>
                     if \<not> ended then Inl (False, ''screening provider returned trailing JSON data'')
                     else if 100 < length candidates
                     then Inl (False, ''screening provider returned too many candidates'')
                     else if \<not> list_all valid_candidate candidates
                     then Inl (False, ''screening provider returned an invalid candidate'')
                     else Inr candidates)))"

text \<open>
  The loop over the attempts: \<open>left\<close> are left, \<open>k\<close> were made, \<open>final\<close> is the error so far. It gives the
  candidates or the last error, if there was any, and the number of attempts made.
\<close>

fun attempt_loop ::
  "nat \<Rightarrow> nat \<Rightarrow> (nat \<Rightarrow> (bool \<times> string) + ScreeningCandidate list) \<Rightarrow> string option \<Rightarrow>
   (string option + ScreeningCandidate list) \<times> nat" where
  "attempt_loop 0 k request final = (Inl final, k)"
| "attempt_loop (Suc left) k request final =
     (case request k of
        Inr candidates \<Rightarrow> (Inr candidates, k + 1)
      | Inl (retry, err) \<Rightarrow>
          if retry then attempt_loop left (k + 1) request (Some err) else (Inl (Some err), k + 1))"

text \<open>
  One screening: the clock at its check and after its last attempt, the name as JSON, the identifier
  of the screening, and what the requests are answered. The result comes with the requests sent.
\<close>

record provider_call =
  Checked_At :: time
  Failed_At :: time
  Marshal_Name :: "string \<Rightarrow> string"
  Decode_Payload :: payload_decoder
  Drawn_Key :: string
  Do_Request :: "nat \<Rightarrow> provider_request \<Rightarrow> provider_answer"

definition ErrCircuitOpen :: error where
  "ErrCircuitOpen = OtherError ''screening provider circuit is open''"

definition HTTPProvider_request :: "provider_call \<Rightarrow> HTTPProvider \<Rightarrow> string \<Rightarrow> provider_request" where
  "HTTPProvider_request c p name =
     \<lparr>Sent_URL = hp_endpoint p @ ''/screen'', Sent_Headers = provider_headers p (Drawn_Key c),
      Sent_Body = Marshal_Name c name\<rparr>"

definition HTTPProvider_Screen ::
  "provider_call \<Rightarrow> string \<Rightarrow> HTTPProvider \<Rightarrow> ScreeningCandidate list result \<times> provider_request list \<times> HTTPProvider" where
  "HTTPProvider_Screen c name p =
     (if Checked_At c < hp_openUntil p then (Inl ErrCircuitOpen, [], p)
      else (let request = HTTPProvider_request c p name;
                attempt = (\<lambda>k. read_answer (Decode_Payload c) (Do_Request c k request))
            in case attempt_loop (nat (hp_retries p + 1)) 0 attempt None of
                 (Inr candidates, n) \<Rightarrow>
                   (Inr candidates, replicate n request, p\<lparr>hp_failures := 0, hp_openUntil := zero_time\<rparr>)
               | (Inl final, n) \<Rightarrow>
                   (case final of None \<Rightarrow> Inr [] | Some err \<Rightarrow> Inl (OtherError err),
                    replicate n request,
                    let failures = hp_failures p + 1
                    in if 3 \<le> failures
                       then p\<lparr>hp_failures := 0, hp_openUntil := Failed_At c + hp_openFor p\<rparr>
                       else p\<lparr>hp_failures := failures\<rparr>)))"

definition newProviderRequestID :: "8 word list option \<Rightarrow> int \<Rightarrow> string" where
  "newProviderRequestID random unixNano =
     (case random of None \<Rightarrow> ''fccp-'' @ show_int unixNano | Some value \<Rightarrow> EncodeToString value)"

section \<open>Configuration\<close>

record url_parts =
  URL_Scheme :: string
  URL_Host :: string
  URL_HasUser :: bool
  URL_RawQuery :: string
  URL_Fragment :: string

record HTTPProviderConfig =
  Config_Endpoint :: string
  Config_APIKey :: string
  Config_Name :: string
  Config_OpenFor :: duration
  Config_Retries :: int
  Config_CAFile :: string
  Config_ClientCertFile :: string
  Config_ClientKeyFile :: string
  Config_AllowInsecureHTTP :: bool

text \<open>The environment: parsing a URL, the system's certificates, files and key pairs (an error or not).\<close>

record tls_world =
  URL_Parse :: "string \<Rightarrow> url_parts option"
  SystemCertPool :: "string option"
  ReadFile :: "string \<Rightarrow> string + string"
  AppendCertsFromPEM :: "string \<Rightarrow> bool"
  LoadX509KeyPair :: "string \<Rightarrow> string \<Rightarrow> string option"

definition load_roots :: "tls_world \<Rightarrow> string \<Rightarrow> string option" where
  "load_roots W file =
     (if file = [] then None
      else (case SystemCertPool W of
          Some err \<Rightarrow> Some (''load system CA pool: '' @ err)
        | None \<Rightarrow>
            (case ReadFile W file of
               Inl err \<Rightarrow> Some (''read screening provider CA: '' @ err)
             | Inr pem \<Rightarrow>
                 if \<not> AppendCertsFromPEM W pem
                 then Some ''screening provider CA file contains no certificates'' else None)))"

definition endpoint_allowed :: "bool \<Rightarrow> url_parts \<Rightarrow> bool" where
  "endpoint_allowed allow_http u \<longleftrightarrow>
     \<not> (URL_Host u = [] \<or> URL_HasUser u \<or> URL_RawQuery u \<noteq> [] \<or> URL_Fragment u \<noteq> [] \<or>
        (URL_Scheme u \<noteq> ''https'' \<and> \<not> (allow_http \<and> URL_Scheme u = ''http'')))"

definition NewConfiguredHTTPProvider :: "tls_world \<Rightarrow> HTTPProviderConfig \<Rightarrow> HTTPProvider result" where
  "NewConfiguredHTTPProvider W config =
     (case URL_Parse W (TrimSpace (Config_Endpoint config)) of
        None \<Rightarrow> Inl (OtherError ''screening provider URL must use HTTPS'')
      | Some endpoint \<Rightarrow>
          if \<not> endpoint_allowed (Config_AllowInsecureHTTP config) endpoint
          then Inl (OtherError ''screening provider URL must use HTTPS'')
          else if (Config_ClientCertFile config = []) \<noteq> (Config_ClientKeyFile config = [])
          then Inl (OtherError
            ''screening provider client certificate and key must be configured together'')
          else (case load_roots W (Config_CAFile config) of
              Some err \<Rightarrow> Inl (OtherError err)
            | None \<Rightarrow>
                (case (if Config_ClientCertFile config \<noteq> []
                       then LoadX509KeyPair W (Config_ClientCertFile config) (Config_ClientKeyFile config)
                       else None) of
                   Some err \<Rightarrow> Inl (OtherError (''load screening provider client certificate: '' @ err))
                 | None \<Rightarrow>
                     (let provider = NewHTTPProvider (Config_Endpoint config) (Config_APIKey config)
                            (Config_Retries config) (Config_OpenFor config);
                          name = TrimSpace (Config_Name config)
                      in Inr (if name \<noteq> [] then provider\<lparr>hp_name := name\<rparr> else provider)))))"

section \<open>Properties\<close>

text \<open>What the loop over the attempts does, whatever they are answered.\<close>

lemma attempt_loop_spec:
  assumes "attempt_loop left k f final = (res, n)"
  shows "k \<le> n \<and> n \<le> k + left \<and> (\<forall>j. k \<le> j \<and> j + 1 < n \<longrightarrow> (\<exists>err. f j = Inl (True, err))) \<and>
    (case res of
       Inr candidates \<Rightarrow> k < n \<and> f (n - 1) = Inr candidates
     | Inl err \<Rightarrow> n = k \<and> left = 0 \<and> err = final \<or>
         k < n \<and> (\<exists>retry msg. err = Some msg \<and> f (n - 1) = Inl (retry, msg) \<and> (retry \<longrightarrow> n = k + left)))"
  using assms
proof (induction left k f final rule: attempt_loop.induct)
  case (2 left k f final)
  show ?case
  proof (cases "f k")
    case (Inr candidates)
    then show ?thesis using "2.prems" by auto
  next
    case (Inl a)
    obtain retry err where a: "a = (retry, err)" by fastforce
    show ?thesis
    proof (cases retry)
      case True
      then have "attempt_loop left (k + 1) f (Some err) = (res, n)" using "2.prems" Inl a by simp
      note IH = "2.IH" [OF Inl a [symmetric] True this]
      have "\<exists>err. f j = Inl (True, err)" if "k \<le> j" "j + 1 < n" for j
        using that IH Inl a True by (cases "j = k") auto
      moreover have "f k = Inl (True, err)" using Inl a True by simp
      ultimately show ?thesis using IH by (auto split: sum.splits)
    next
      case False
      then show ?thesis using "2.prems" Inl a by auto
    qed
  qed
qed auto

lemma provider_attempts:
  assumes "0 \<le> hp_retries p" and "HTTPProvider_Screen c name p = (res, sent, p')"
    and "\<not> Checked_At c < hp_openUntil p"
  defines "answer \<equiv> \<lambda>k. read_answer (Decode_Payload c) (Do_Request c k (HTTPProvider_request c p name))"
  shows "\<exists>n. int n \<le> hp_retries p \<and> sent = replicate (n + 1) (HTTPProvider_request c p name) \<and>
      (\<forall>j < n. \<exists>err. answer j = Inl (True, err)) \<and>
      (case answer n of Inr candidates \<Rightarrow> res = Inr candidates
       | Inl (retry, err) \<Rightarrow> res = Inl (OtherError err) \<and> (retry \<longrightarrow> int n = hp_retries p))"
proof -
  obtain out m where loop: "attempt_loop (nat (hp_retries p + 1)) 0 answer None = (out, m)" by fastforce
  note spec = attempt_loop_spec [OF loop]
  have "0 < m" using spec assms(1) by (auto split: sum.splits)
  then obtain n where m: "m = n + 1" by (metis Suc_eq_plus1 gr0_implies_Suc)
  have run: "res = (case out of Inr candidates \<Rightarrow> Inr candidates | Inl None \<Rightarrow> Inr []
        | Inl (Some err) \<Rightarrow> Inl (OtherError err))"
    and sent: "sent = replicate m (HTTPProvider_request c p name)"
    using assms(2,3) loop unfolding HTTPProvider_Screen_def answer_def
    by (auto simp: Let_def split: sum.splits option.splits if_splits)
  have "int n \<le> hp_retries p" and "\<forall>j < n. \<exists>err. answer j = Inl (True, err)"
    using spec m assms(1) by auto
  moreover have "case answer n of Inr candidates \<Rightarrow> res = Inr candidates
      | Inl (retry, err) \<Rightarrow> res = Inl (OtherError err) \<and> (retry \<longrightarrow> int n = hp_retries p)"
    using spec m run assms(1) by (auto split: sum.splits)
  ultimately show ?thesis using sent m by blast
qed

text \<open>
  C36. A screening by the provider ends after at most one more request than it may retry. While the
  circuit is open it sends none and fails. Otherwise it sends the same request each time, with one
  idempotency key, and only the last answer is not a passing failure. The screening succeeds exactly
  when that one holds candidates, and then there are at most a hundred, each with a score of 0 to 100,
  a name, a reason and a known list; else it fails with the error of the last answer, having used up
  its attempts if another one could have helped.
\<close>

theorem provider_screening:
  assumes "0 \<le> hp_retries p" and "HTTPProvider_Screen c name p = (res, sent, p')"
  defines "answer \<equiv> \<lambda>k. read_answer (Decode_Payload c) (Do_Request c k (HTTPProvider_request c p name))"
  shows "if Checked_At c < hp_openUntil p then sent = [] \<and> res = Inl ErrCircuitOpen \<and> p' = p
    else (\<exists>n. int n \<le> hp_retries p \<and> sent = replicate (n + 1) (HTTPProvider_request c p name) \<and>
      (\<forall>j < n. \<exists>err. answer j = Inl (True, err)) \<and>
      (case answer n of
         Inr candidates \<Rightarrow> res = Inr candidates \<and> length candidates \<le> 100 \<and>
           (\<forall>x \<in> set candidates. 0 \<le> Candidate_Score x \<and> Candidate_Score x \<le> 100 \<and>
              TrimSpace (Candidate_Name x) \<noteq> [] \<and> TrimSpace (Candidate_Reason x) \<noteq> [] \<and>
              Candidate_ListType x \<in> {ScreeningSanctions, ScreeningPEP, ScreeningAdverseMedia})
       | Inl (retry, err) \<Rightarrow> res = Inl (OtherError err) \<and> (retry \<longrightarrow> int n = hp_retries p)))"
proof (cases "Checked_At c < hp_openUntil p")
  case False
  obtain n where n: "int n \<le> hp_retries p" "sent = replicate (n + 1) (HTTPProvider_request c p name)"
    "\<forall>j < n. \<exists>err. answer j = Inl (True, err)"
    and res: "case answer n of Inr candidates \<Rightarrow> res = Inr candidates
      | Inl (retry, err) \<Rightarrow> res = Inl (OtherError err) \<and> (retry \<longrightarrow> int n = hp_retries p)"
    using provider_attempts [OF assms(1,2) False] unfolding answer_def by blast
  have "length candidates \<le> 100 \<and> list_all valid_candidate candidates" if "answer n = Inr candidates" for candidates
    using that by (auto simp: answer_def read_answer_def Let_def
        split: provider_answer.splits if_splits sum.splits option.splits bool.splits)
  then show ?thesis using False n res
    by (auto simp: list_all_iff valid_candidate_def not_less split: sum.splits intro!: exI [of _ n])
qed (use assms in \<open>simp add: HTTPProvider_Screen_def\<close>)

text \<open>A provider that replies with an overloaded status and then with one candidate.\<close>

definition demo_candidate :: ScreeningCandidate where
  "demo_candidate = \<lparr>Candidate_ListType = ScreeningPEP, Candidate_Name = ''Ann'', Candidate_Score = 80,
     Candidate_Reason = ''name''\<rparr>"

definition demo_provider_call :: "time \<Rightarrow> provider_answer list \<Rightarrow> provider_call" where
  "demo_provider_call now replies = \<lparr>Checked_At = now, Failed_At = now + 1, Marshal_Name = id,
     Decode_Payload = (\<lambda>_. Inr ([demo_candidate], True)), Drawn_Key = ''k'', Do_Request = (\<lambda>k _. replies ! k)\<rparr>"

definition recovering :: "provider_answer list" where
  "recovering = [Answered 503 [] [] None, Answered 200 ''application/json'' ''{}'' None]"

lemma recovering_screening:
  "map_prod id (map_prod length hp_failures) (HTTPProvider_Screen (demo_provider_call 5 recovering) ''Ann''
     (NewHTTPProvider ''https://p/'' [] 2 30)) = (Inr [demo_candidate], 2, 0)"
proof -
  have "Contains (map ascii_lower ''application/json'') ''json''" and "valid_candidate demo_candidate"
    by code_simp+
  then show ?thesis
    by (simp add: HTTPProvider_Screen_def NewHTTPProvider_def demo_provider_call_def recovering_def
        read_answer_def zero_time_def maxProviderResponseBytes_def numeral_3_eq_3 Let_def)
qed

theorem provider_screening_witness:
  "\<exists>sent p'. HTTPProvider_Screen (demo_provider_call 5 recovering) ''Ann'' (NewHTTPProvider ''https://p/'' [] 2 30) =
     (Inr [demo_candidate], sent, p') \<and> length sent = 2 \<and> Candidate_Score demo_candidate \<le> 100"
proof -
  let ?c = "demo_provider_call 5 recovering" and ?p = "NewHTTPProvider ''https://p/'' [] 2 30"
  obtain sent p' where run: "HTTPProvider_Screen ?c ''Ann'' ?p = (Inr [demo_candidate], sent, p')"
    and "length sent = 2"
    using recovering_screening by (cases "HTTPProvider_Screen ?c ''Ann'' ?p") auto
  moreover have "0 \<le> hp_retries ?p" and closed: "(Checked_At ?c < hp_openUntil ?p) = False"
    by (simp_all add: NewHTTPProvider_def demo_provider_call_def zero_time_def)
  from provider_screening [OF this(1) run, unfolded closed if_False]
  have "Candidate_Score demo_candidate \<le> 100"
    by (elim exE conjE) (auto split: sum.splits)
  ultimately show ?thesis by blast
qed

section \<open>The circuit breaker\<close>

text \<open>
  The provider after some screenings, and the times of the failures since the last success; a
  screening that is refused because the circuit is open is neither.
\<close>

definition provider_after :: "(provider_call \<times> string) list \<Rightarrow> HTTPProvider \<Rightarrow> HTTPProvider" where
  "provider_after cs p = fold (\<lambda>(c, name) p. snd (snd (HTTPProvider_Screen c name p))) cs p"

fun failure_streak :: "HTTPProvider \<Rightarrow> time list \<Rightarrow> (provider_call \<times> string) list \<Rightarrow> time list" where
  "failure_streak p ts [] = ts"
| "failure_streak p ts ((c, name) # cs) =
     (case HTTPProvider_Screen c name p of
        (res, sent, p') \<Rightarrow>
          failure_streak p' (if sent = [] then ts else if isl res then ts @ [Failed_At c] else []) cs)"

definition breaker_state :: "time list \<Rightarrow> HTTPProvider \<Rightarrow> bool" where
  "breaker_state ts p \<longleftrightarrow> hp_failures p = int (length ts mod 3) \<and>
     hp_openUntil p = (if length ts < 3 then zero_time else ts ! (3 * (length ts div 3) - 1) + hp_openFor p)"

lemma breaker_failure:
  assumes "breaker_state ts p"
  shows "breaker_state (ts @ [t])
    (if 3 \<le> hp_failures p + 1 then p\<lparr>hp_failures := 0, hp_openUntil := t + hp_openFor p\<rparr>
     else p\<lparr>hp_failures := hp_failures p + 1\<rparr>)"
proof (cases "length ts mod 3 = 2")
  case True
  then obtain q where q: "length ts = 3 * q + 2" by (metis mult_div_mod_eq)
  then have "Suc (length ts) mod 3 = 0" "3 * (Suc (length ts) div 3) - 1 = length ts" by presburger+
  then show ?thesis using assms True q by (simp add: breaker_state_def nth_append)
next
  case False
  then have "Suc (length ts) mod 3 = Suc (length ts mod 3)" "Suc (length ts) div 3 = length ts div 3"
    by presburger+
  moreover have "length ts mod 3 < 2" using False by presburger
  moreover have "(ts @ [t]) ! (3 * (length ts div 3) - 1) = ts ! (3 * (length ts div 3) - 1)" if "3 \<le> length ts"
  proof -
    have "3 * (length ts div 3) - 1 < length ts" using that by presburger
    then show ?thesis by (simp add: nth_append)
  qed
  ultimately show ?thesis using assms by (auto simp: breaker_state_def)
qed

lemma screen_effect:
  assumes "0 \<le> hp_retries p" and "HTTPProvider_Screen c name p = (res, sent, p')"
  shows "hp_retries p' = hp_retries p \<and> hp_openFor p' = hp_openFor p \<and>
    (sent = [] \<longleftrightarrow> Checked_At c < hp_openUntil p) \<and> (sent = [] \<longrightarrow> p' = p) \<and>
    (sent \<noteq> [] \<and> \<not> isl res \<longrightarrow> hp_failures p' = 0 \<and> hp_openUntil p' = zero_time) \<and>
    (sent \<noteq> [] \<and> isl res \<longrightarrow> p' = (if 3 \<le> hp_failures p + 1
       then p\<lparr>hp_failures := 0, hp_openUntil := Failed_At c + hp_openFor p\<rparr>
       else p\<lparr>hp_failures := hp_failures p + 1\<rparr>))"
proof (cases "Checked_At c < hp_openUntil p")
  case False
  let ?f = "\<lambda>k. read_answer (Decode_Payload c) (Do_Request c k (HTTPProvider_request c p name))"
  obtain out m where loop: "attempt_loop (nat (hp_retries p + 1)) 0 ?f None = (out, m)" by fastforce
  have "0 < m" and "out \<noteq> Inl None" using attempt_loop_spec [OF loop] assms(1) by (auto split: sum.splits)
  then show ?thesis using assms(2) False loop
    by (cases out) (auto simp: HTTPProvider_Screen_def Let_def)
qed (use assms in \<open>simp add: HTTPProvider_Screen_def\<close>)

lemma breaker_invariant:
  assumes "0 \<le> hp_retries p" and "breaker_state ts p"
  shows "breaker_state (failure_streak p ts cs) (provider_after cs p) \<and>
    hp_retries (provider_after cs p) = hp_retries p \<and> hp_openFor (provider_after cs p) = hp_openFor p"
  using assms
proof (induction cs arbitrary: p ts)
  case (Cons call cs)
  obtain c name where call: "call = (c, name)" by fastforce
  obtain res sent p' where run: "HTTPProvider_Screen c name p = (res, sent, p')" by (metis prod.exhaust)
  note eff = screen_effect [OF Cons.prems(1) run]
  have "breaker_state (if sent = [] then ts else if isl res then ts @ [Failed_At c] else []) p'"
    using eff Cons.prems(2) breaker_failure [OF Cons.prems(2), of "Failed_At c"]
    by (auto simp: breaker_state_def [of "[]"])
  from Cons.IH [OF _ this] show ?case
    using eff Cons.prems(1) by (simp add: call run provider_after_def)
qed (simp add: provider_after_def)

text \<open>
  C37. The circuit breaker, exactly. After any screenings by a new provider, the next one is refused
  without a request exactly when at least three failed since the last success and it starts less than
  the configured time after the last failure that was a third one: the third, the sixth and so on. So
  the circuit opens with every third failure in a row, and closes with a success or after that time.
\<close>

theorem circuit_breaker:
  assumes "0 \<le> retries" and "p0 = NewHTTPProvider endpoint apiKey retries openFor"
    and "ts = failure_streak p0 [] cs" and "0 \<le> Checked_At c"
  shows "fst (snd (HTTPProvider_Screen c name (provider_after cs p0))) = [] \<longleftrightarrow>
    3 \<le> length ts \<and> Checked_At c < ts ! (3 * (length ts div 3) - 1) + openFor"
proof -
  have p0: "0 \<le> hp_retries p0" "breaker_state [] p0" "hp_openFor p0 = openFor"
    using assms(1) by (simp_all add: assms(2) NewHTTPProvider_def breaker_state_def)
  note inv = breaker_invariant [OF p0(1,2), of cs]
  obtain res sent p' where run: "HTTPProvider_Screen c name (provider_after cs p0) = (res, sent, p')"
    by (metis prod.exhaust)
  have "sent = [] \<longleftrightarrow> Checked_At c < hp_openUntil (provider_after cs p0)"
    using screen_effect [OF _ run] inv p0(1) by simp
  then show ?thesis using inv p0(3) assms(4) by (simp add: run breaker_state_def assms(3) zero_time_def)
qed

definition three_failures :: "(provider_call \<times> string) list" where
  "three_failures = replicate 3 (demo_provider_call 5 [Not_Sent ''refused''], ''Ann'')"

theorem circuit_breaker_witness:
  "fst (snd (HTTPProvider_Screen (demo_provider_call 35 []) ''Ann''
     (provider_after three_failures (NewHTTPProvider ''https://p'' [] 0 30)))) = [] \<and>
   failure_streak (NewHTTPProvider ''https://p'' [] 0 30) [] three_failures = [6, 6, 6]"
proof -
  have streak: "failure_streak (NewHTTPProvider ''https://p'' [] 0 30) [] three_failures = [6, 6, 6]"
    by code_simp
  then show ?thesis
    using circuit_breaker [of 0 _ "''https://p''" "[]" 30 _ three_failures "demo_provider_call 35 []" "''Ann''", OF _ refl refl]
    by (simp add: demo_provider_call_def)
qed

text \<open>A provider made with a negative number of retries sends nothing and finds nobody.\<close>

lemma negative_retries:
  "hp_retries p < 0 \<Longrightarrow> \<not> Checked_At c < hp_openUntil p \<Longrightarrow>
   fst (HTTPProvider_Screen c name p) = Inr [] \<and> fst (snd (HTTPProvider_Screen c name p)) = []"
  by (simp add: HTTPProvider_Screen_def Let_def)

end
