(* ===== verification/Migrations.thy ===== *)
theory Migrations
  imports Sql
begin

text \<open>
  \<^verbatim>\<open>migrations/migrations.go\<close>: the schema is brought up to date in one transaction that applies the
  files the ledger does not list, in order. Running the text of a file is a parameter: \<open>run\<close> gives the
  new schema or an error.
\<close>

record 's migrated =
  schema_migrations :: "(int \<times> string) list option"
  schema :: 's

record migration =
  migration_version :: int
  migration_name :: string
  migration_file :: string

definition migrationList :: "migration list" where
  "migrationList = map (\<lambda>(v, n, f). \<lparr>migration_version = v, migration_name = n, migration_file = f\<rparr>)
     [(1, ''initial'', ''000001_initial.up.sql''),
      (2, ''customer_approval'', ''000002_customer_approval.up.sql''),
      (3, ''transaction_ingestion'', ''000003_transaction_ingestion.up.sql''),
      (4, ''monitoring_alerts'', ''000004_monitoring_alerts.up.sql''),
      (5, ''transaction_idempotency'', ''000005_transaction_idempotency.up.sql''),
      (6, ''case_management'', ''000006_case_management.up.sql''),
      (7, ''kyc_cdd'', ''000007_kyc_cdd.up.sql''),
      (8, ''screening'', ''000008_screening.up.sql''),
      (9, ''ongoing_monitoring'', ''000009_ongoing_monitoring.up.sql''),
      (10, ''screening_job_leases'', ''000010_screening_job_leases.up.sql''),
      (11, ''notifications'', ''000011_notifications.up.sql''),
      (12, ''notification_outbox'', ''000012_notification_outbox.up.sql''),
      (13, ''notification_channels'', ''000013_notification_channels.up.sql'')]"

text \<open>The rows of the ledger; it exists once its own statement has run.\<close>

definition ledger :: "'s migrated \<Rightarrow> (int \<times> string) list" where
  "ledger db = (case schema_migrations db of None \<Rightarrow> [] | Some rows \<Rightarrow> rows)"

definition create_ledger :: "'s migrated \<Rightarrow> string + unit \<times> 's migrated" where
  "create_ledger db = Inr ((), db\<lparr>schema_migrations := Some (ledger db)\<rparr>)"

definition record_migration :: "migration \<Rightarrow> 's migrated \<Rightarrow> string + unit \<times> 's migrated" where
  "record_migration m db =
     (if migration_version m \<in> fst ` set (ledger db) then violates ''schema_migrations_pkey''
      else Inr ((), db\<lparr>schema_migrations := Some (ledger db @ [(migration_version m, migration_name m)])\<rparr>))"

definition apply_file :: "(string \<Rightarrow> 's \<Rightarrow> string + 's) \<Rightarrow> migration \<Rightarrow> 's migrated \<Rightarrow> string + unit \<times> 's migrated" where
  "apply_file run m db =
     (case run (migration_file m) (schema db) of Inl msg \<Rightarrow> Inl msg | Inr s \<Rightarrow> Inr ((), db\<lparr>schema := s\<rparr>))"

definition migrate_step ::
  "session \<Rightarrow> (string \<Rightarrow> 's \<Rightarrow> string + 's) \<Rightarrow> migration \<Rightarrow> (unit, 's migrated) tx" where
  "migrate_step S run m =
     (let v = show_int (migration_version m)
      in tx_then (statement S (''check migration '' @ v @ '': '') (\<lambda>db.
           Inr (migration_version m \<in> fst ` set (ledger db), db))) (\<lambda>applied.
         if applied then tx_return ()
         else tx_then (statement S (''apply migration '' @ v @ '' ('' @ migration_name m @ ''): '')
                (apply_file run m)) (\<lambda>_.
              statement S (''record migration '' @ v @ '': '') (record_migration m))))"

definition Up :: "session \<Rightarrow> (string \<Rightarrow> 's \<Rightarrow> string + 's) \<Rightarrow> (unit, 's migrated) repo_op" where
  "Up S run =
     in_transaction S ''begin migrations: '' ''commit migrations: ''
       (tx_then (statement S ''lock migrations: '' (\<lambda>db. Inr ((), db))) (\<lambda>_.
        tx_then (statement S ''create migration ledger: '' create_ledger) (\<lambda>_.
        tx_each (migrate_step S run) migrationList)))"

section \<open>What a run does\<close>

text \<open>Running files one after the other.\<close>

fun run_files :: "(string \<Rightarrow> 's \<Rightarrow> string + 's) \<Rightarrow> string list \<Rightarrow> 's \<Rightarrow> string + 's" where
  "run_files run [] s = Inr s"
| "run_files run (f # fs) s = (case run f s of Inl msg \<Rightarrow> Inl msg | Inr s' \<Rightarrow> run_files run fs s')"

text \<open>The state in which the migrations of \<open>ms\<close> are done, on a schema that was \<open>s0\<close>.\<close>

definition migrated_to :: "(string \<Rightarrow> 's \<Rightarrow> string + 's) \<Rightarrow> 's \<Rightarrow> migration list \<Rightarrow> 's migrated \<Rightarrow> bool" where
  "migrated_to run s0 ms db \<longleftrightarrow>
     schema_migrations db = Some (map (\<lambda>m. (migration_version m, migration_name m)) ms) \<and>
     run_files run (map migration_file ms) s0 = Inr (schema db)"

lemma run_files_append:
  "run_files run (fs @ gs) s = (case run_files run fs s of Inl msg \<Rightarrow> Inl msg | Inr s' \<Rightarrow> run_files run gs s')"
  by (induction fs arbitrary: s) (auto split: sum.split)

lemma migrate_step_done:
  assumes "migrated_to run s0 ms db" and "m \<in> set ms" and "migrate_step S run m k db = Inr (x, k', db')"
  shows "db' = db"
  using assms by (force simp: migrate_step_def Let_def tx_defs migrated_to_def ledger_def
      split: option.splits sum.splits prod.splits if_splits)

lemma migrate_step_new:
  assumes "migrated_to run s0 ms db" and "migration_version m \<notin> migration_version ` set ms"
    and "migrate_step S run m k db = Inr (x, k', db')"
  shows "migrated_to run s0 (ms @ [m]) db'"
proof -
  have new: "migration_version m \<notin> fst ` set (ledger db)"
    using assms(1,2) by (auto simp: migrated_to_def ledger_def)
  then show ?thesis
    using assms(1,3) by (auto simp: migrate_step_def Let_def tx_defs migrated_to_def apply_file_def
        record_migration_def ledger_def run_files_append violates_def
        split: option.splits sum.splits prod.splits if_splits)
qed

lemma migrate_all_done:
  assumes "migrated_to run s0 ms db" and "set todo \<subseteq> set ms"
    and "tx_each (migrate_step S run) todo k db = Inr (x, k', db')"
  shows "db' = db"
  using assms(2,3)
proof (induction todo arbitrary: k)
  case (Cons m todo)
  obtain y k1 db1 where first: "migrate_step S run m k db = Inr (y, k1, db1)"
    and rest: "tx_each (migrate_step S run) todo k1 db1 = Inr (x, k', db')"
    using Cons.prems(2) by (auto simp: tx_then_def split: sum.splits)
  have "db1 = db" using migrate_step_done [OF assms(1) _ first] Cons.prems(1) by simp
  then show ?case using Cons rest by simp
qed (simp add: tx_return_def)

lemma migrate_all_new:
  assumes "migrated_to run s0 ms db" and "distinct (map migration_version (ms @ todo))"
    and "tx_each (migrate_step S run) todo k db = Inr (x, k', db')"
  shows "migrated_to run s0 (ms @ todo) db'"
  using assms
proof (induction todo arbitrary: ms k db)
  case (Cons m todo)
  obtain y k1 db1 where first: "migrate_step S run m k db = Inr (y, k1, db1)"
    and rest: "tx_each (migrate_step S run) todo k1 db1 = Inr (x, k', db')"
    using Cons.prems(3) by (auto simp: tx_then_def split: sum.splits)
  have "migrated_to run s0 (ms @ [m]) db1"
    using migrate_step_new [OF Cons.prems(1) _ first] Cons.prems(2) by auto
  from Cons.IH [OF this _ rest] Cons.prems(2) show ?case by simp
qed (simp add: tx_return_def)

lemma migrationList_versions: "map migration_version migrationList = [1..13]"
  by code_simp

lemma migrationList_distinct: "distinct (map migration_version migrationList)"
  by (simp add: migrationList_versions)

text \<open>A database no migration has run on, and one all have run on.\<close>

definition unmigrated :: "'s \<Rightarrow> 's migrated \<Rightarrow> bool" where
  "unmigrated s0 db \<longleftrightarrow> db = \<lparr>schema_migrations = None, schema = s0\<rparr>"

lemma Up_effect:
  assumes "unmigrated s0 db \<or> migrated_to run s0 migrationList db" and "Up S run db = (res, db')"
  shows "(db' = db \<or> migrated_to run s0 migrationList db') \<and>
    (res = Inr () \<longrightarrow> migrated_to run s0 migrationList db')"
proof -
  let ?work = "tx_then (statement S ''lock migrations: '' (\<lambda>db. Inr ((), db))) (\<lambda>_.
        tx_then (statement S ''create migration ledger: '' create_ledger) (\<lambda>_.
        tx_each (migrate_step S run) migrationList))"
  have "migrated_to run s0 migrationList db2" if work: "?work 1 db = Inr (x, k, db2)" for x k db2
  proof -
    let ?db1 = "db\<lparr>schema_migrations := Some (ledger db)\<rparr>"
    obtain j where each: "tx_each (migrate_step S run) migrationList j ?db1 = Inr (x, k, db2)"
      using work by (auto simp: tx_then_def statement_def create_ledger_def split: option.splits sum.splits)
    show ?thesis
    proof (rule disjE [OF assms(1)])
      assume "unmigrated s0 db"
      then have "migrated_to run s0 [] ?db1" by (simp add: unmigrated_def migrated_to_def ledger_def)
      from migrate_all_new [OF this _ each] show ?thesis using migrationList_distinct by simp
    next
      assume db: "migrated_to run s0 migrationList db"
      then have "?db1 = db" by (simp add: migrated_to_def ledger_def)
      then show ?thesis using migrate_all_done [OF db subset_refl] each db by metis
    qed
  qed
  then show ?thesis using assms
    unfolding Up_def in_transaction_def
    by (auto split: option.splits sum.splits if_splits)
qed

lemma migrated_unique: "migrated_to run s0 ms db \<Longrightarrow> migrated_to run s0 ms db' \<Longrightarrow> db' = db"
  by (cases db; cases db') (simp add: migrated_to_def)

definition Up_runs :: "session list \<Rightarrow> (string \<Rightarrow> 's \<Rightarrow> string + 's) \<Rightarrow> 's migrated \<Rightarrow> 's migrated" where
  "Up_runs Ss run db = fold (\<lambda>S db. snd (Up S run db)) Ss db"

lemma Up_runs_state:
  assumes "unmigrated s0 db"
  shows "unmigrated s0 (Up_runs Ss run db) \<or> migrated_to run s0 migrationList (Up_runs Ss run db)"
proof (induction Ss rule: rev_induct)
  case (snoc S Ss)
  then show ?case
    using Up_effect [OF _ prod.collapse [symmetric], of s0 "Up_runs Ss run db" run S]
    by (auto simp: Up_runs_def)
qed (simp add: Up_runs_def assms)

section \<open>Properties\<close>

text \<open>
  C38. Migrations are applied once, in order, all or none. However often the servers have tried to
  migrate an empty database, and whatever failed, a further run leaves it empty or with all thirteen
  files run, each once and in order, and with exactly their versions and names in the ledger. A run
  that reports success has done this, and a run on a migrated database changes nothing.
\<close>

theorem migrations_once:
  assumes "unmigrated s0 db0" and "db = Up_runs Ss run db0" and "Up S run db = (res, db')"
  shows "(unmigrated s0 db' \<or> migrated_to run s0 migrationList db') \<and>
    (res = Inr () \<longrightarrow> migrated_to run s0 migrationList db') \<and>
    (migrated_to run s0 migrationList db \<longrightarrow> db' = db)"
proof -
  have "unmigrated s0 db \<or> migrated_to run s0 migrationList db"
    using Up_runs_state [OF assms(1)] assms(2) by simp
  from this Up_effect [OF this assms(3)] migrated_unique [of run s0 migrationList db db'] show ?thesis by blast
qed

definition listing :: "string \<Rightarrow> string list \<Rightarrow> string + string list" where
  "listing file s = Inr (s @ [file])"

definition interrupted :: session where
  "interrupted = calm\<lparr>Fault := (\<lambda>k. if k = 7 then Some ''timeout'' else None)\<rparr>"

theorem migrations_once_witness:
  "map_option length (schema_migrations (snd (Up calm listing
     (Up_runs [interrupted] listing \<lparr>schema_migrations = None, schema = []\<rparr>)))) = Some 13"
proof -
  let ?db0 = "\<lparr>schema_migrations = None, schema = []\<rparr>"
  have "isl (fst (Up calm listing (Up_runs [interrupted] listing ?db0))) = False" by code_simp
  then obtain db' where run: "Up calm listing (Up_runs [interrupted] listing ?db0) = (Inr (), db')"
    by (metis (full_types) old.unit.exhaust prod.collapse sum.collapse(2))
  have "migrated_to listing [] migrationList db'"
    using migrations_once [of "[]" ?db0, OF _ refl run] by (simp add: unmigrated_def)
  then show ?thesis by (simp add: run migrated_to_def) code_simp
qed

end
