(* ===== verification/Senders.thy ===== *)
theory Senders
  imports Metrics Delivery
begin

text \<open>
  \<^verbatim>\<open>internal/infrastructure/notification\<close>: the router by channel, the SMTP sender and the webhook.
  What the network answers is a parameter. The SMTP client is the one of \<^verbatim>\<open>net/smtp\<close>: its methods
  send one command each, and \<^verbatim>\<open>Mail\<close> and \<^verbatim>\<open>Rcpt\<close> refuse an address with a line break.
\<close>

section \<open>The router (router.go)\<close>

type_synonym sender = "OutboxMessage \<Rightarrow> error option"

definition Router_Send :: "sender gomap \<Rightarrow> sender" where
  "Router_Send senders message =
     (case map_of senders (Outbox_Channel message) of
        None \<Rightarrow> Some (OtherError (''notification channel '' @ quote (Outbox_Channel message) @ '' is not configured''))
      | Some sender \<Rightarrow> sender message)"

section \<open>The SMTP sender (smtp.go)\<close>

record SMTPConfig =
  SMTP_Host :: string
  SMTP_Port :: int
  SMTP_Username :: string
  SMTP_Password :: string
  SMTP_From :: string
  SMTP_StartTLS :: bool

datatype smtp_command =
    Connect string
  | Greet
  | STARTTLS
  | AUTH string string
  | MAIL string
  | RCPT string
  | DATA
  | Body_Text string
  | End_Data
  | QUIT

definition JoinHostPort :: "string \<Rightarrow> string \<Rightarrow> string" where
  "JoinHostPort host port =
     (if CHR '':'' \<in> set host then ''['' @ host @ '']:'' @ port else host @ '':'' @ port)"

definition headerValue :: "string \<Rightarrow> string" where
  "headerValue s = map (\<lambda>c. if c = CHR 0x0D \<or> c = CHR 0x0A then CHR '' '' else c) s"

text \<open>\<^verbatim>\<open>fmt.Sprint\<close> of a payload value, \<open>show_time\<close> for a time.\<close>

definition Sprint :: "(time \<Rightarrow> string) \<Rightarrow> payload_value option \<Rightarrow> string" where
  "Sprint show_time v =
     (case v of
        None \<Rightarrow> ''<nil>''
      | Some (PString s) \<Rightarrow> s
      | Some (PInt n) \<Rightarrow> show_int n
      | Some (PBool b) \<Rightarrow> if b then ''true'' else ''false''
      | Some (PTime t) \<Rightarrow> show_time t
      | Some PNil \<Rightarrow> ''<nil>'')"

definition crlf :: string where "crlf = [CHR 0x0D, CHR 0x0A]"

definition mail_content :: "(time \<Rightarrow> string) \<Rightarrow> SMTPConfig \<Rightarrow> OutboxMessage \<Rightarrow> string" where
  "mail_content show_time config message =
     (let title = headerValue (Sprint show_time (map_of (Outbox_Payload message) ''title''));
          body = Sprint show_time (map_of (Outbox_Payload message) ''message'')
      in ''From: '' @ SMTP_From config @ crlf @ ''To: '' @ Outbox_Destination message @ crlf @
         ''Subject: '' @ title @ crlf @ ''MIME-Version: 1.0'' @ crlf @
         ''Content-Type: text/plain; charset=UTF-8'' @ crlf @ crlf @ body @ crlf)"

text \<open>The commands of one mail, each with the text its error is wrapped in.\<close>

definition smtp_script :: "(time \<Rightarrow> string) \<Rightarrow> SMTPConfig \<Rightarrow> OutboxMessage \<Rightarrow> (string \<times> smtp_command) list" where
  "smtp_script show_time config message =
     [(''connect SMTP: '', Connect (JoinHostPort (SMTP_Host config) (show_int (SMTP_Port config)))),
      (''create SMTP client: '', Greet)] @
     (if SMTP_StartTLS config then [(''start SMTP TLS: '', STARTTLS)] else []) @
     (if SMTP_Username config \<noteq> []
      then [(''authenticate SMTP: '', AUTH (SMTP_Username config) (SMTP_Password config))] else []) @
     [(''set SMTP sender: '', MAIL (SMTP_From config)),
      (''set SMTP recipient: '', RCPT (Outbox_Destination message)),
      (''open SMTP body: '', DATA),
      (''write SMTP body: '', Body_Text (mail_content show_time config message)),
      (''send SMTP body: '', End_Data),
      ([], QUIT)]"

definition one_line :: "string \<Rightarrow> bool" where
  "one_line s \<longleftrightarrow> CHR 0x0D \<notin> set s \<and> CHR 0x0A \<notin> set s"

definition line_error :: "smtp_command \<Rightarrow> bool" where
  "line_error cmd = (case cmd of MAIL address \<Rightarrow> \<not> one_line address | RCPT address \<Rightarrow> \<not> one_line address | _ \<Rightarrow> False)"

text \<open>
  Running the commands: \<open>net k cmd\<close> is how the \<open>k\<close>-th one fails, if it does. It gives the error and the
  commands that were sent; after a failed write the body is still closed.
\<close>

fun run_script ::
  "(nat \<Rightarrow> smtp_command \<Rightarrow> string option) \<Rightarrow> nat \<Rightarrow> (string \<times> smtp_command) list \<Rightarrow> error option \<times> smtp_command list" where
  "run_script net k [] = (None, [])"
| "run_script net k ((wrapping, cmd) # script) =
     (if line_error cmd
      then (Some (OtherError (wrapping @ ''smtp: A line must not contain CR or LF'')), [])
      else (case net k cmd of
          Some err \<Rightarrow> (Some (OtherError (wrapping @ err)),
            case cmd of Body_Text _ \<Rightarrow> [cmd, End_Data] | _ \<Rightarrow> [cmd])
        | None \<Rightarrow> apsnd ((#) cmd) (run_script net (k + 1) script)))"

definition SMTPSender_Send ::
  "(time \<Rightarrow> string) \<Rightarrow> (nat \<Rightarrow> smtp_command \<Rightarrow> string option) \<Rightarrow> SMTPConfig \<Rightarrow> OutboxMessage \<Rightarrow>
   error option \<times> smtp_command list" where
  "SMTPSender_Send show_time net config message = run_script net 0 (smtp_script show_time config message)"

section \<open>The webhook (webhook.go)\<close>

text \<open>How the request ends: an error on the way, or the status of the response.\<close>

definition WebhookSender_Send ::
  "(payload \<Rightarrow> string + string) \<Rightarrow> (string \<Rightarrow> string \<Rightarrow> string + int) \<Rightarrow> sender" where
  "WebhookSender_Send marshal post message =
     (case marshal (Outbox_Payload message) of
        Inl err \<Rightarrow> Some (OtherError err)
      | Inr request_body \<Rightarrow>
          (case post (Outbox_Destination message) request_body of
             Inl err \<Rightarrow> Some (OtherError err)
           | Inr status \<Rightarrow>
               if status < 200 \<or> 300 \<le> status
               then Some (OtherError (''webhook status '' @ show_int status)) else None))"

section \<open>What is sent\<close>

lemma run_script_sent:
  "cmd \<in> set (snd (run_script net k script)) \<Longrightarrow> cmd \<in> snd ` set script \<or> cmd = End_Data"
  by (induction net k script rule: run_script.induct)
    (auto simp: apsnd_def split: if_splits option.splits smtp_command.splits prod.splits)

text \<open>A command is only sent when those before it in the script passed their checks.\<close>

lemma run_script_passed:
  assumes "cmd \<in> set (snd (run_script net k (before_cmd @ script)))"
    and "cmd \<notin> snd ` set before_cmd" and "cmd \<noteq> End_Data" and "c \<in> snd ` set before_cmd"
  shows "\<not> line_error c"
  using assms
proof (induction before_cmd arbitrary: k)
  case (Cons step steps)
  obtain w x where step: "step = (w, x)" by fastforce
  then show ?case using Cons
    by (auto simp: apsnd_def split: if_splits option.splits smtp_command.splits prod.splits)
qed simp

text \<open>The lines of a mail, split at each carriage return with a line feed.\<close>

fun mail_lines :: "string \<Rightarrow> string list" where
  "mail_lines [] = [[]]"
| "mail_lines [c] = [[c]]"
| "mail_lines (c # d # s) =
     (if c = CHR 0x0D \<and> d = CHR 0x0A then [] # mail_lines s
      else (case mail_lines (d # s) of [] \<Rightarrow> [[c]] | l # ls \<Rightarrow> (c # l) # ls))"

lemma mail_lines_crlf: "one_line a \<Longrightarrow> mail_lines (a @ crlf @ s) = a # mail_lines s"
proof (induction a)
  case (Cons c a)
  obtain d rest where d: "a @ crlf @ s = d # rest" by (cases a) (auto simp: crlf_def)
  have "mail_lines (a @ crlf @ s) = a # mail_lines s" using Cons by (simp add: one_line_def)
  then show ?case using Cons.prems d by (auto simp: one_line_def)
qed (simp add: crlf_def)

lemma one_line_append [simp]: "one_line (a @ b) \<longleftrightarrow> one_line a \<and> one_line b"
  by (auto simp: one_line_def)

lemma one_line_headerValue [simp]: "one_line (headerValue s)"
  by (auto simp: one_line_def headerValue_def)

lemma one_line_list [simp]:
  "one_line []" "one_line (c # s) \<longleftrightarrow> c \<noteq> CHR 0x0D \<and> c \<noteq> CHR 0x0A \<and> one_line s"
  by (auto simp: one_line_def)

lemma mail_lines_all:
  "list_all one_line ls \<Longrightarrow> mail_lines (concat (map (\<lambda>l. l @ crlf) ls) @ rest) = ls @ mail_lines rest"
  by (induction ls) (simp_all add: mail_lines_crlf)

lemma header_lines: "[] \<notin> set hs \<Longrightarrow> takeWhile (\<lambda>l. l \<noteq> []) (hs @ [] # ls) = hs"
  by (induction hs) auto

text \<open>A run whose last command alone fails: the mail is accepted, and an error is reported.\<close>

definition plain_config :: SMTPConfig where
  "plain_config = \<lparr>SMTP_Host = ''mail'', SMTP_Port = 25, SMTP_Username = [], SMTP_Password = [],
     SMTP_From = ''fccp@bank'', SMTP_StartTLS = False\<rparr>"

lemma quit_failure_reported:
  assumes "one_line (Outbox_Destination message)" and "net = (\<lambda>k cmd. if cmd = QUIT then Some ''timeout'' else None)"
  shows "fst (SMTPSender_Send show_time net plain_config message) = Some (OtherError ''timeout'') \<and>
    End_Data \<in> set (snd (SMTPSender_Send show_time net plain_config message))"
  using assms by (simp add: SMTPSender_Send_def smtp_script_def plain_config_def line_error_def one_line_def apsnd_def)

text \<open>With no sender for its channel a message fails, whatever happens: it stays in the outbox for good.\<close>

lemma unconfigured_channel:
  "map_of senders (Outbox_Channel message) = None \<Longrightarrow> Router_Send senders message \<noteq> None"
  by (simp add: Router_Send_def)

section \<open>Properties\<close>

text \<open>
  C39. A notification cannot forge mail headers. Whenever the sender hands a text to the mail server,
  its headers, that is its lines before the first empty one, are exactly the five the code writes, each
  a single line, with the configured sender, the recipient of the message and the cleaned title,
  whatever title and message the notification carries and whatever address it is for.
\<close>

theorem mail_headers:
  assumes "Body_Text content \<in> set (snd (SMTPSender_Send show_time net config message))"
  shows "takeWhile (\<lambda>l. l \<noteq> []) (mail_lines content) =
      [''From: '' @ SMTP_From config, ''To: '' @ Outbox_Destination message,
       ''Subject: '' @ headerValue (Sprint show_time (map_of (Outbox_Payload message) ''title'')),
       ''MIME-Version: 1.0'', ''Content-Type: text/plain; charset=UTF-8''] \<and>
    list_all one_line (takeWhile (\<lambda>l. l \<noteq> []) (mail_lines content))"
proof -
  let ?script = "smtp_script show_time config message"
  have "Body_Text content \<in> snd ` set ?script"
    using run_script_sent [of "Body_Text content" net 0 ?script] assms by (auto simp: SMTPSender_Send_def)
  then have content: "content = mail_content show_time config message"
    by (auto simp: smtp_script_def split: if_splits)
  obtain pre post where script: "?script = pre @ post" "Body_Text content \<notin> snd ` set pre"
    "MAIL (SMTP_From config) \<in> snd ` set pre" "RCPT (Outbox_Destination message) \<in> snd ` set pre"
  proof
    let ?pre = "takeWhile (\<lambda>step. snd step \<noteq> DATA) ?script" and ?post = "dropWhile (\<lambda>step. snd step \<noteq> DATA) ?script"
    show "?script = ?pre @ ?post" by simp
    show "Body_Text content \<notin> snd ` set ?pre" "MAIL (SMTP_From config) \<in> snd ` set ?pre"
      "RCPT (Outbox_Destination message) \<in> snd ` set ?pre"
      by (auto simp: smtp_script_def split: if_splits)
  qed
  have "\<not> line_error (MAIL (SMTP_From config))" "\<not> line_error (RCPT (Outbox_Destination message))"
    using run_script_passed [of "Body_Text content" net 0 pre post] assms script
    by (auto simp: SMTPSender_Send_def)
  then have "one_line (SMTP_From config)" and "one_line (Outbox_Destination message)"
    by (simp_all add: line_error_def)
  moreover define title where "title = headerValue (Sprint show_time (map_of (Outbox_Payload message) ''title''))"
  moreover define headers where "headers = [''From: '' @ SMTP_From config, ''To: '' @ Outbox_Destination message,
      ''Subject: '' @ title, ''MIME-Version: 1.0'', ''Content-Type: text/plain; charset=UTF-8'']"
  ultimately have one: "list_all one_line (headers @ [[]])" by simp
  have "content = concat (map (\<lambda>l. l @ crlf) (headers @ [[]])) @
      Sprint show_time (map_of (Outbox_Payload message) ''message'') @ crlf"
    by (simp add: content mail_content_def headers_def title_def)
  then have "mail_lines content = headers @ [] # mail_lines (Sprint show_time
      (map_of (Outbox_Payload message) ''message'') @ crlf)"
    using mail_lines_all [OF one] by simp
  moreover have "[] \<notin> set headers" by (simp add: headers_def)
  ultimately have "takeWhile (\<lambda>l. l \<noteq> []) (mail_lines content) = headers"
    by (simp add: header_lines)
  then show ?thesis using one by (simp add: headers_def title_def)
qed

definition demo_mail :: OutboxMessage where
  "demo_mail = \<lparr>Outbox_ID = ''o'', Outbox_NotificationID = ''n'', Outbox_Channel = ''email'',
     Outbox_Destination = ''rev@bank'',
     Outbox_Payload = [(''title'', PString (''Match'' @ crlf @ ''Bcc: x'')), (''message'', PString ''Review'')],
     Outbox_Status = ''pending'', Outbox_Attempts = 0, Outbox_NextAttemptAt = 0, Outbox_LastError = [],
     Outbox_LeaseOwner = [], Outbox_LeaseUntil = None, Outbox_CreatedAt = 0, Outbox_DeliveredAt = None\<rparr>"

theorem mail_headers_witness:
  "\<exists>content. Body_Text content \<in> set (snd (SMTPSender_Send (\<lambda>_. []) (\<lambda>_ _. None) plain_config demo_mail)) \<and>
     takeWhile (\<lambda>l. l \<noteq> []) (mail_lines content) ! 2 = ''Subject: Match  Bcc: x''"
proof -
  let ?content = "mail_content (\<lambda>_. []) plain_config demo_mail"
  have "Body_Text ?content \<in> set (snd (SMTPSender_Send (\<lambda>_. []) (\<lambda>_ _. None) plain_config demo_mail))"
    by (simp add: SMTPSender_Send_def smtp_script_def plain_config_def demo_mail_def line_error_def
        one_line_def apsnd_def)
  with mail_headers [OF this] show ?thesis
    by (intro exI [of _ ?content]) (simp add: demo_mail_def Sprint_def headerValue_def crlf_def)
qed

end
