(* ===== verification/Durations.thy ===== *)
theory Durations
  imports Floats Http
begin

text \<open>
  What the commands use of the language to read their environment: \<^verbatim>\<open>time.ParseDuration\<close>,
  \<^verbatim>\<open>strconv.ParseBool\<close>, and \<^verbatim>\<open>float64\<close> values with their infinities and \<^verbatim>\<open>NaN\<close>.
\<close>

section \<open>Durations\<close>

definition unitMap :: "(string \<times> int) list" where
  "unitMap = [(''ns'', 1), (''us'', 1000), ([CHR 0xC2, CHR 0xB5, CHR ''s''], 1000),
     ([CHR 0xCE, CHR 0xBC, CHR ''s''], 1000), (''ms'', 1000000), (''s'', 1000000000),
     (''m'', 60000000000), (''h'', 3600000000000)]"

definition digit_value :: "char \<Rightarrow> int" where
  "digit_value c = of_char c - 48"

text \<open>The digits at the start, with the rest, unless they overflow 63 bits.\<close>

fun leadingInt :: "int \<Rightarrow> string \<Rightarrow> (int \<times> string) option" where
  "leadingInt x [] = Some (x, [])"
| "leadingInt x (c # s) =
     (if \<not> is_digit c then Some (x, c # s)
      else if 2 ^ 63 div 10 < x then None
      else (let x = 10 * x + digit_value c in if 2 ^ 63 < x then None else leadingInt x s))"

text \<open>The digits after the point: their value and scale, without those that would overflow.\<close>

fun leadingFraction :: "bool \<Rightarrow> int \<Rightarrow> rat \<Rightarrow> string \<Rightarrow> int \<times> rat \<times> string" where
  "leadingFraction overflow f scale [] = (f, scale, [])"
| "leadingFraction overflow f scale (c # s) =
     (if \<not> is_digit c then (f, scale, c # s)
      else (let y = 10 * f + digit_value c
            in if overflow \<or> (2 ^ 63 - 1) div 10 < f \<or> 2 ^ 63 < y
               then leadingFraction True f scale s
               else leadingFraction False y (float64 (scale * 10)) s))"

text \<open>One number with its unit, in nanoseconds, and the rest.\<close>

definition in_unit :: "char \<Rightarrow> bool" where
  "in_unit c \<longleftrightarrow> c \<noteq> CHR ''.'' \<and> \<not> is_digit c"

definition parse_fraction :: "string \<Rightarrow> int \<times> rat \<times> string \<times> bool" where
  "parse_fraction s =
     (case s of
        [] \<Rightarrow> (0, 1, [], False)
      | c # rest \<Rightarrow>
          if c = CHR ''.''
          then (case leadingFraction False 0 1 rest of (f, scale, s') \<Rightarrow> (f, scale, s', length s' \<noteq> length rest))
          else (0, 1, s, False))"

definition parse_term :: "string \<Rightarrow> (int \<times> string) option" where
  "parse_term s =
     (case leadingInt 0 s of
        None \<Rightarrow> None
      | Some (v, s1) \<Rightarrow>
          (case parse_fraction s1 of (f, scale, s2, post) \<Rightarrow>
             if length s1 = length s \<and> \<not> post then None
             else (case map_of unitMap (takeWhile in_unit s2) of
                 None \<Rightarrow> None
               | Some unit \<Rightarrow>
                   if 2 ^ 63 div unit < v then None
                   else (let v = v * unit;
                             w = (if 0 < f then v + \<lfloor>float64 (float64 (of_int f) * float64 (of_int unit / scale))\<rfloor>
                                  else v)
                         in if 2 ^ 63 < w then None else Some (w, dropWhile in_unit s2)))))"

lemma leadingInt_shorter: "leadingInt x s = Some (v, s') \<Longrightarrow> length s' \<le> length s"
  by (induction x s rule: leadingInt.induct) (auto simp: Let_def split: if_splits)

lemma leadingFraction_shorter: "leadingFraction b f x s = (v, y, s') \<Longrightarrow> length s' \<le> length s"
  by (induction b f x s rule: leadingFraction.induct) (auto simp: Let_def split: if_splits)

lemma parse_fraction_shorter: "parse_fraction s = (f, x, s', post) \<Longrightarrow> length s' \<le> length s"
  by (auto simp: parse_fraction_def split: list.splits if_splits prod.splits dest: leadingFraction_shorter)

lemma parse_term_shorter:
  assumes "parse_term s = Some (v, s')"
  shows "length s' < length s"
proof -
  obtain v1 s1 f x s2 post unit where "leadingInt 0 s = Some (v1, s1)" "parse_fraction s1 = (f, x, s2, post)"
    and unit: "map_of unitMap (takeWhile in_unit s2) = Some unit" and s': "s' = dropWhile in_unit s2"
    using assms by (auto simp: parse_term_def Let_def split: option.splits prod.splits if_splits)
  then have "length s2 \<le> length s"
    using leadingInt_shorter parse_fraction_shorter by (metis order_trans)
  moreover have "takeWhile in_unit s2 \<noteq> []" using unit by (auto simp: unitMap_def)
  then have "length s' < length s2" unfolding s'
    by (metis length_append length_greater_0_conv less_add_same_cancel2 takeWhile_dropWhile_id)
  ultimately show ?thesis by simp
qed

function parse_terms :: "int \<Rightarrow> string \<Rightarrow> int option" where
  "parse_terms d s =
     (if s = [] then Some d
      else (case parse_term s of
          None \<Rightarrow> None
        | Some (v, rest) \<Rightarrow> if 2 ^ 63 < d + v then None else parse_terms (d + v) rest))"
  by pat_completeness auto
termination by (relation "measure (\<lambda>(d, s). length s)") (auto dest: parse_term_shorter)

declare parse_terms.simps [simp del]

definition ParseDuration :: "string \<Rightarrow> duration option" where
  "ParseDuration s =
     (let negative = (case s of c # _ \<Rightarrow> c = CHR ''-'' | [] \<Rightarrow> False);
          ds = (case s of c # rest \<Rightarrow> if c = CHR ''-'' \<or> c = CHR ''+'' then rest else s | [] \<Rightarrow> s)
      in if ds = ''0'' then Some 0
         else if ds = [] then None
         else (case parse_terms 0 ds of
             None \<Rightarrow> None
           | Some d \<Rightarrow> if negative then Some (- d)
                       else if 2 ^ 63 - 1 < d then None else Some d))"

text \<open>A parsed duration fits its 64 bits.\<close>

lemma digit_value_nonneg: "is_digit c \<Longrightarrow> 0 \<le> digit_value c"
  using of_nat_of_char [of c, where ?'a = int] by (simp add: digit_value_def is_digit_def less_eq_char_def)

lemma leadingInt_nonneg: "leadingInt x s = Some (v, s') \<Longrightarrow> 0 \<le> x \<Longrightarrow> 0 \<le> v"
  by (induction x s rule: leadingInt.induct)
    (auto simp: Let_def dest: digit_value_nonneg split: if_splits)

lemma leadingFraction_nonneg:
  "leadingFraction b f x s = (v, y, s') \<Longrightarrow> 0 \<le> f \<Longrightarrow> 0 \<le> x \<Longrightarrow> 0 \<le> v \<and> 0 \<le> y"
  by (induction b f x s rule: leadingFraction.induct)
    (auto simp: Let_def float64_nonneg dest: digit_value_nonneg split: if_splits)

lemma parse_term_bounds:
  assumes "parse_term s = Some (v, s')"
  shows "0 \<le> v" and "v \<le> 2 ^ 63"
proof -
  obtain v1 s1 f x s2 post unit where v1: "leadingInt 0 s = Some (v1, s1)"
    and frac: "parse_fraction s1 = (f, x, s2, post)" and unit: "map_of unitMap (takeWhile in_unit s2) = Some unit"
    and v: "v = (if 0 < f then v1 * unit + \<lfloor>float64 (float64 (of_int f) * float64 (of_int unit / x))\<rfloor> else v1 * unit)"
    and le: "v \<le> 2 ^ 63"
    using assms by (auto simp: parse_term_def Let_def split: option.splits prod.splits if_splits)
  have "0 \<le> f \<and> 0 \<le> x"
    using frac leadingFraction_nonneg by (auto simp: parse_fraction_def split: list.splits if_splits prod.splits)
  moreover have "0 \<le> unit" using map_of_SomeD [OF unit] by (auto simp: unitMap_def)
  moreover have "0 \<le> v1" using leadingInt_nonneg [OF v1] by simp
  ultimately show "0 \<le> v" unfolding v by (simp add: float64_nonneg)
  show "v \<le> 2 ^ 63" by (fact le)
qed

lemma parse_terms_bounds: "parse_terms d s = Some n \<Longrightarrow> 0 \<le> d \<Longrightarrow> d \<le> 2 ^ 63 \<Longrightarrow> 0 \<le> n \<and> n \<le> 2 ^ 63"
proof (induction d s rule: parse_terms.induct)
  case (1 d s)
  show ?case
  proof (cases "s = []")
    case False
    then obtain v rest where "parse_term s = Some (v, rest)" "\<not> 2 ^ 63 < d + v" "parse_terms (d + v) rest = Some n"
      using "1.prems"(1) by (subst (asm) parse_terms.simps) (auto split: option.splits if_splits)
    then show ?thesis using "1.IH" [OF False] "1.prems" parse_term_bounds by (smt (verit))
  qed (use 1 in \<open>simp add: parse_terms.simps\<close>)
qed

lemma ParseDuration_bounds: "ParseDuration s = Some d \<Longrightarrow> - (2 ^ 63) \<le> d \<and> d < 2 ^ 63"
  by (auto simp: ParseDuration_def Let_def split: if_splits option.splits list.splits dest: parse_terms_bounds)

lemma ParseDuration_examples:
  "ParseDuration ''5s'' = Some 5000000000"
  "ParseDuration ''1h15m30s'' = Some 4530000000000"
  "ParseDuration ''-2ms'' = Some (-2000000)"
  "ParseDuration ''10'' = None"
  "ParseDuration ''s'' = None"
  by code_simp+

section \<open>Truth values and floating-point numbers\<close>

definition ParseBool :: "string \<Rightarrow> bool option" where
  "ParseBool s =
     (if s \<in> {''1'', ''t'', ''T'', ''TRUE'', ''true'', ''True''} then Some True
      else if s \<in> {''0'', ''f'', ''F'', ''FALSE'', ''false'', ''False''} then Some False
      else None)"

text \<open>A \<^verbatim>\<open>float64\<close>: a number, an infinity (negative or not), or \<^verbatim>\<open>NaN\<close>, which every comparison denies.\<close>

datatype go_float = Finite rat | Infinite bool | NaN

fun float_le :: "go_float \<Rightarrow> rat \<Rightarrow> bool" where
  "float_le (Finite x) b = (x \<le> b)"
| "float_le (Infinite negative) b = negative"
| "float_le NaN b = False"

fun float_gt :: "go_float \<Rightarrow> rat \<Rightarrow> bool" where
  "float_gt (Finite x) b = (b < x)"
| "float_gt (Infinite negative) b = (\<not> negative)"
| "float_gt NaN b = False"

end
