(* ===== verification/Startup.thy ===== *)
theory Startup
  imports Durations Auth Rate_Limiter Metrics Providers Senders Migrations Screening
begin

text \<open>
  \<^verbatim>\<open>cmd/api/main.go\<close> up to the handler: the environment is read and checked, the database connected
  and migrated, the services, the screening provider and the senders are configured. The environment
  is a function (\<^verbatim>\<open>os.Getenv\<close> gives the empty text for an unset name); parsing a number as
  \<^verbatim>\<open>float64\<close>, the URL of the database, its pool and the trace exporter are parameters.
\<close>

section \<open>Checks in sequence\<close>

definition checked :: "string + 'a \<Rightarrow> ('a \<Rightarrow> string + 'b) \<Rightarrow> string + 'b" where
  "checked m f = (case m of Inl msg \<Rightarrow> Inl msg | Inr x \<Rightarrow> f x)"

definition ensure :: "bool \<Rightarrow> string \<Rightarrow> string + unit" where
  "ensure b msg = (if b then Inr () else Inl msg)"

definition wrapped :: "string \<Rightarrow> string option \<Rightarrow> string + unit" where
  "wrapped wrapping err = (case err of None \<Rightarrow> Inr () | Some msg \<Rightarrow> Inl (wrapping @ msg))"

lemma checked_Inr_iff [simp]: "checked m f = Inr y \<longleftrightarrow> (\<exists>x. m = Inr x \<and> f x = Inr y)"
  by (simp add: checked_def split: sum.split)

lemma checked_simps [simp]: "checked (Inr x) f = f x" "checked (Inl msg) f = Inl msg"
  by (simp_all add: checked_def)

lemma ensure_Inr_iff [simp]: "ensure b msg = Inr u \<longleftrightarrow> b"
  by (simp add: ensure_def)

lemma wrapped_Inr_iff [simp]: "wrapped w err = Inr u \<longleftrightarrow> err = None"
  by (simp add: wrapped_def split: option.split)

section \<open>Variables\<close>

type_synonym environment = "string \<Rightarrow> string"

definition envString :: "environment \<Rightarrow> string \<Rightarrow> string \<Rightarrow> string" where
  "envString Getenv name fallback = (if Getenv name \<noteq> [] then Getenv name else fallback)"

definition envDuration :: "environment \<Rightarrow> string \<Rightarrow> duration \<Rightarrow> string + duration" where
  "envDuration Getenv name fallback =
     (if Getenv name = [] then Inr fallback
      else (case ParseDuration (Getenv name) of
          None \<Rightarrow> Inl (name @ '' must be a positive duration'')
        | Some d \<Rightarrow> if d \<le> 0 then Inl (name @ '' must be a positive duration'') else Inr d))"

definition envInt :: "environment \<Rightarrow> string \<Rightarrow> int \<Rightarrow> string + int" where
  "envInt Getenv name fallback =
     (if Getenv name = [] then Inr fallback
      else (case Atoi (Getenv name) of
          None \<Rightarrow> Inl (name @ '' must be between 0 and 10000'')
        | Some n \<Rightarrow> if n < 0 \<or> 10000 < n then Inl (name @ '' must be between 0 and 10000'') else Inr n))"

definition envFloat ::
  "(string \<Rightarrow> go_float option) \<Rightarrow> environment \<Rightarrow> string \<Rightarrow> rat \<Rightarrow> string + go_float" where
  "envFloat ParseFloat Getenv name fallback =
     (if Getenv name = [] then Inr (Finite fallback)
      else (case ParseFloat (Getenv name) of
          None \<Rightarrow> Inl (name @ '' must be a positive number up to 10000'')
        | Some x \<Rightarrow> if float_le x 0 \<or> float_gt x 10000
                    then Inl (name @ '' must be a positive number up to 10000'') else Inr x))"

definition envBool :: "environment \<Rightarrow> string \<Rightarrow> bool \<Rightarrow> string + bool" where
  "envBool Getenv name fallback =
     (if Getenv name = [] then Inr fallback
      else (case ParseBool (Getenv name) of
          None \<Rightarrow> Inl (name @ '' must be true or false'')
        | Some b \<Rightarrow> Inr b))"

lemma envDuration_pos: "envDuration Getenv name fallback = Inr d \<Longrightarrow> 0 < fallback \<Longrightarrow> 0 < d"
  by (auto simp: envDuration_def split: if_splits option.splits)

lemma envInt_bounds: "envInt Getenv name fallback = Inr n \<Longrightarrow> 0 \<le> fallback \<Longrightarrow> fallback \<le> 10000 \<Longrightarrow> 0 \<le> n \<and> n \<le> 10000"
  by (auto simp: envInt_def split: if_splits option.splits)

text \<open>A rate that is not in range is \<^verbatim>\<open>NaN\<close>, which passes both comparisons.\<close>

lemma envFloat_bounds:
  "envFloat ParseFloat Getenv name fallback = Inr x \<Longrightarrow> 0 < fallback \<Longrightarrow> fallback \<le> 10000 \<Longrightarrow>
   x = NaN \<or> (\<exists>q. x = Finite q \<and> 0 < q \<and> q \<le> 10000)"
  by (cases x) (auto simp: envFloat_def split: if_splits option.splits)

section \<open>The first part: before the database\<close>

record startup_world =
  Getenv :: environment
  Parse_Float :: "string \<Rightarrow> go_float option"
  Init_Tracing :: "string \<Rightarrow> string \<Rightarrow> string option"
  Parse_Config :: "string \<Rightarrow> string option"
  New_Pool :: "string option"
  Ping_Pool :: "string option"
  TLS_World :: tls_world
  Parse_Address :: "string \<Rightarrow> string option"

record process_settings =
  proc_databaseURL :: string
  proc_authenticator :: Authenticator
  proc_readHeaderTimeout :: duration
  proc_shutdownTimeout :: duration
  proc_workerInterval :: duration
  proc_workerLease :: duration
  proc_providerTimeout :: duration
  proc_providerRetries :: int
  proc_rateLimit :: go_float
  proc_rateBurst :: int
  proc_address :: string

definition read_settings :: "startup_world \<Rightarrow> string + process_settings" where
  "read_settings W =
     (let env = Getenv W
      in checked (ensure (env ''DATABASE_URL'' \<noteq> []) ''DATABASE_URL is required'') (\<lambda>_.
         checked (wrapped ''configure tracing: '' (Init_Tracing W (env ''OTEL_EXPORTER_OTLP_ENDPOINT'')
                   (envString env ''OTEL_SERVICE_NAME'' ''fccp-api''))) (\<lambda>_.
         checked (case NewJWKSAuthenticator (env ''JWT_JWKS_URL'') (env ''JWT_ISSUER'')
                         (envString env ''JWT_AUTHORIZED_PARTY'' ''fccp-web'') of
                    Inl msg \<Rightarrow> Inl (''configure authentication: '' @ msg) | Inr a \<Rightarrow> Inr a) (\<lambda>authenticator.
         checked (envDuration env ''HTTP_READ_HEADER_TIMEOUT'' (5 * Second)) (\<lambda>readHeaderTimeout.
         checked (envDuration env ''HTTP_SHUTDOWN_TIMEOUT'' (10 * Second)) (\<lambda>shutdownTimeout.
         checked (envDuration env ''SCREENING_WORKER_INTERVAL'' Minute) (\<lambda>workerInterval.
         checked (envDuration env ''SCREENING_JOB_LEASE'' (5 * Minute)) (\<lambda>workerLease.
         checked (envDuration env ''SCREENING_PROVIDER_TIMEOUT'' (5 * Second)) (\<lambda>providerTimeout.
         checked (envInt env ''SCREENING_PROVIDER_RETRIES'' 2) (\<lambda>providerRetries.
         checked (ensure (providerRetries \<le> 10) ''SCREENING_PROVIDER_RETRIES must be between 0 and 10'') (\<lambda>_.
         checked (envFloat (Parse_Float W) env ''HTTP_RATE_LIMIT_RPS'' 20) (\<lambda>rateLimit.
         checked (envInt env ''HTTP_RATE_LIMIT_BURST'' 40) (\<lambda>rateBurst.
         checked (ensure (1 \<le> rateBurst) ''HTTP_RATE_LIMIT_BURST must be positive'') (\<lambda>_.
         Inr \<lparr>proc_databaseURL = env ''DATABASE_URL'', proc_authenticator = authenticator,
              proc_readHeaderTimeout = readHeaderTimeout, proc_shutdownTimeout = shutdownTimeout,
              proc_workerInterval = workerInterval, proc_workerLease = workerLease,
              proc_providerTimeout = providerTimeout, proc_providerRetries = providerRetries,
              proc_rateLimit = rateLimit, proc_rateBurst = rateBurst,
              proc_address = envString env ''HTTP_ADDR'' '':8080''\<rparr>))))))))))))))"

section \<open>The second part: after the migrations\<close>

text \<open>\<open>None\<close> is the demo provider.\<close>

definition configured_provider :: "startup_world \<Rightarrow> process_settings \<Rightarrow> string + HTTPProvider option" where
  "configured_provider W s =
     (let env = Getenv W; endpoint = env ''SCREENING_PROVIDER_URL''
      in if endpoint = [] then Inr None
         else checked (envBool env ''SCREENING_PROVIDER_ALLOW_HTTP'' False) (\<lambda>allowHTTP.
              case NewConfiguredHTTPProvider (TLS_World W)
                     \<lparr>Config_Endpoint = endpoint, Config_APIKey = env ''SCREENING_PROVIDER_API_KEY'',
                      Config_Name = envString env ''SCREENING_PROVIDER_NAME'' ''external-http-screening-v1'',
                      Config_OpenFor = 30 * Second, Config_Retries = proc_providerRetries s,
                      Config_CAFile = env ''SCREENING_PROVIDER_CA_FILE'',
                      Config_ClientCertFile = env ''SCREENING_PROVIDER_CLIENT_CERT_FILE'',
                      Config_ClientKeyFile = env ''SCREENING_PROVIDER_CLIENT_KEY_FILE'',
                      Config_AllowInsecureHTTP = allowHTTP\<rparr> of
                Inl err \<Rightarrow> Inl (''configure screening provider: '' @ error_text err)
              | Inr provider \<Rightarrow> Inr (Some provider)))"

text \<open>The SMTP settings, and whether mail is sent at all, which is when a host is configured.\<close>

definition configured_mail :: "startup_world \<Rightarrow> string + SMTPConfig option" where
  "configured_mail W =
     (let env = Getenv W; smtpHost = env ''SMTP_HOST''; smtpFrom = env ''SMTP_FROM'';
          portError = ''SMTP_PORT must be between 1 and 65535''
      in checked (case envInt env ''SMTP_PORT'' 587 of
             Inl _ \<Rightarrow> Inl portError
           | Inr n \<Rightarrow> if n < 1 \<or> 65535 < n then Inl portError else Inr n) (\<lambda>smtpPort.
         checked (envBool env ''SMTP_STARTTLS'' True) (\<lambda>smtpStartTLS.
         checked (ensure (\<not> (smtpHost \<noteq> [] \<and> smtpFrom = [])) ''SMTP_FROM is required when SMTP_HOST is configured'') (\<lambda>_.
         checked (ensure (smtpFrom = [] \<or> Parse_Address W smtpFrom = Some smtpFrom)
                   ''SMTP_FROM must be a valid bare email address'') (\<lambda>_.
         Inr (if smtpHost = [] then None
              else Some \<lparr>SMTP_Host = smtpHost, SMTP_Port = smtpPort, SMTP_Username = env ''SMTP_USERNAME'',
                SMTP_Password = env ''SMTP_PASSWORD'', SMTP_From = smtpFrom, SMTP_StartTLS = smtpStartTLS\<rparr>))))))"

record api =
  api_process :: process_settings
  api_provider :: "HTTPProvider option"
  api_screening :: ScreeningService
  api_webhookURL :: string
  api_smtp :: "SMTPConfig option"
  api_metrics :: Registry

definition configured_api :: "startup_world \<Rightarrow> string \<Rightarrow> process_settings \<Rightarrow> string + api" where
  "configured_api W workerID s =
     checked (configured_provider W s) (\<lambda>provider.
     let webhookURL = Getenv W ''NOTIFICATION_WEBHOOK_URL'';
         screeningService = SetNotificationWebhook webhookURL
           (SetLeaseDuration (proc_workerLease s) (NewScreeningService workerID))
     in checked (configured_mail W) (\<lambda>smtp.
        Inr \<lparr>api_process = s, api_provider = provider, api_screening = screeningService,
             api_webhookURL = webhookURL, api_smtp = smtp,
             api_metrics = SetMetricsToken (Getenv W ''METRICS_TOKEN'') NewRegistry\<rparr>))"

definition connect :: "startup_world \<Rightarrow> string \<Rightarrow> string + unit" where
  "connect W databaseURL =
     checked (wrapped ''parse database config: '' (Parse_Config W databaseURL)) (\<lambda>_.
     checked (wrapped ''configure database: '' (New_Pool W)) (\<lambda>_.
     wrapped ''connect to database: '' (Ping_Pool W)))"

text \<open>\<^verbatim>\<open>run\<close> until the server listens, with the database afterwards.\<close>

definition start_api ::
  "startup_world \<Rightarrow> session \<Rightarrow> (string \<Rightarrow> 's \<Rightarrow> string + 's) \<Rightarrow> string \<Rightarrow> 's migrated \<Rightarrow>
   (string + api) \<times> 's migrated" where
  "start_api W S run_file workerID db =
     (case checked (read_settings W) (\<lambda>s. checked (connect W (proc_databaseURL s)) (\<lambda>_. Inr s)) of
        Inl msg \<Rightarrow> (Inl msg, db)
      | Inr s \<Rightarrow>
          (case Up S run_file db of
             (Inl err, db') \<Rightarrow> (Inl (''migrate database: '' @ error_text err), db')
           | (Inr _, db') \<Rightarrow> (configured_api W workerID s, db')))"

section \<open>What it starts\<close>

text \<open>The senders by channel; the network's answers are those of \<open>Senders\<close>.\<close>

definition api_senders ::
  "(time \<Rightarrow> string) \<Rightarrow> (nat \<Rightarrow> smtp_command \<Rightarrow> string option) \<Rightarrow> (payload \<Rightarrow> string + string) \<Rightarrow>
   (string \<Rightarrow> string \<Rightarrow> string + int) \<Rightarrow> api \<Rightarrow> sender gomap" where
  "api_senders show_time net marshal post a =
     (let senders = (if api_webhookURL a \<noteq> [] then gput ''webhook'' (WebhookSender_Send marshal post) [] else [])
      in case api_smtp a of
           None \<Rightarrow> senders
         | Some config \<Rightarrow> gput ''email'' (\<lambda>m. fst (SMTPSender_Send show_time net config m)) senders)"

text \<open>How \<^verbatim>\<open>run\<close> ends: the server stopped, or a signal shut it down; the result is the error.\<close>

datatype server_end = Server_Closed | Server_Failed string | Signalled "string option"

fun run_result :: "server_end \<Rightarrow> string option" where
  "run_result Server_Closed = None"
| "run_result (Server_Failed msg) = Some (''serve HTTP: '' @ msg)"
| "run_result (Signalled None) = None"
| "run_result (Signalled (Some msg)) = Some (''shutdown HTTP server: '' @ msg)"

section \<open>What a start guarantees\<close>

lemma envDuration_range:
  assumes "envDuration env name fallback = Inr d" and "0 < fallback" and "fallback < 2 ^ 63"
  shows "0 < d \<and> d < 2 ^ 63"
  using assms ParseDuration_bounds [of "env name" d]
  by (auto simp: envDuration_def split: if_splits option.splits)

lemma add_parties_set:
  "add_parties parties cs = Some ps \<Longrightarrow> set ps = set parties \<union> TrimSpace ` set cs \<and> [] \<notin> TrimSpace ` set cs"
  by (induction parties cs rule: add_parties.induct) (auto simp: Let_def split: if_splits)

lemma NewJWKSAuthenticator_ok:
  assumes "NewJWKSAuthenticator url issuer party = Inr a"
  shows "auth_secret a = [] \<and> auth_jwksURL a = url \<and> TrimSpace url \<noteq> [] \<and> auth_issuer a = issuer \<and>
    TrimSpace issuer \<noteq> [] \<and> auth_authorizedParties a \<noteq> [] \<and> [] \<notin> set (auth_authorizedParties a)"
proof -
  obtain ps where ps: "add_parties [] (Split CHR '','' party) = Some ps" "auth_authorizedParties a = ps"
    using assms by (auto simp: NewJWKSAuthenticator_def split: if_splits option.splits)
  from add_parties_set [OF ps(1)] have "set ps \<noteq> {}" "[] \<notin> set ps"
    using Split_not_Nil [of "CHR '',''" party] by auto
  then show ?thesis using assms ps(2) by (auto simp: NewJWKSAuthenticator_def split: if_splits option.splits)
qed

definition sound_settings :: "startup_world \<Rightarrow> process_settings \<Rightarrow> bool" where
  "sound_settings W s \<longleftrightarrow>
     auth_secret (proc_authenticator s) = [] \<and>
     auth_issuer (proc_authenticator s) = Getenv W ''JWT_ISSUER'' \<and> TrimSpace (Getenv W ''JWT_ISSUER'') \<noteq> [] \<and>
     auth_jwksURL (proc_authenticator s) = Getenv W ''JWT_JWKS_URL'' \<and>
     auth_authorizedParties (proc_authenticator s) \<noteq> [] \<and> [] \<notin> set (auth_authorizedParties (proc_authenticator s)) \<and>
     (\<forall>d \<in> {proc_readHeaderTimeout s, proc_shutdownTimeout s, proc_workerInterval s, proc_workerLease s,
        proc_providerTimeout s}. 0 < d \<and> d < 2 ^ 63) \<and>
     0 \<le> proc_providerRetries s \<and> proc_providerRetries s \<le> 10 \<and>
     1 \<le> proc_rateBurst s \<and> proc_rateBurst s \<le> 10000 \<and>
     (proc_rateLimit s = NaN \<or> (\<exists>q. proc_rateLimit s = Finite q \<and> 0 < q \<and> q \<le> 10000))"

lemma read_settings_sound:
  assumes "read_settings W = Inr s"
  shows "sound_settings W s"
proof -
  note durations = duration_defs Second_def
  obtain a where auth: "NewJWKSAuthenticator (Getenv W ''JWT_JWKS_URL'') (Getenv W ''JWT_ISSUER'')
      (envString (Getenv W) ''JWT_AUTHORIZED_PARTY'' ''fccp-web'') = Inr a" "proc_authenticator s = a"
    and ds: "envDuration (Getenv W) ''HTTP_READ_HEADER_TIMEOUT'' (5 * Second) = Inr (proc_readHeaderTimeout s)"
      "envDuration (Getenv W) ''HTTP_SHUTDOWN_TIMEOUT'' (10 * Second) = Inr (proc_shutdownTimeout s)"
      "envDuration (Getenv W) ''SCREENING_WORKER_INTERVAL'' Minute = Inr (proc_workerInterval s)"
      "envDuration (Getenv W) ''SCREENING_JOB_LEASE'' (5 * Minute) = Inr (proc_workerLease s)"
      "envDuration (Getenv W) ''SCREENING_PROVIDER_TIMEOUT'' (5 * Second) = Inr (proc_providerTimeout s)"
    and retries: "envInt (Getenv W) ''SCREENING_PROVIDER_RETRIES'' 2 = Inr (proc_providerRetries s)"
      "proc_providerRetries s \<le> 10"
    and rate: "envFloat (Parse_Float W) (Getenv W) ''HTTP_RATE_LIMIT_RPS'' 20 = Inr (proc_rateLimit s)"
    and burst: "envInt (Getenv W) ''HTTP_RATE_LIMIT_BURST'' 40 = Inr (proc_rateBurst s)" "1 \<le> proc_rateBurst s"
    using assms by (auto simp: read_settings_def Let_def split: sum.splits)
  have "\<forall>d \<in> {proc_readHeaderTimeout s, proc_shutdownTimeout s, proc_workerInterval s, proc_workerLease s,
        proc_providerTimeout s}. 0 < d \<and> d < 2 ^ 63"
    using ds [THEN envDuration_range] by (simp add: durations)
  then show ?thesis
    using NewJWKSAuthenticator_ok [OF auth(1)] auth(2) envInt_bounds [OF retries(1)] retries(2)
      envFloat_bounds [OF rate] envInt_bounds [OF burst(1)] burst(2)
    by (simp add: sound_settings_def)
qed

text \<open>Mail: with a host there is a bare sender address, and the port is within the bounds of \<^verbatim>\<open>envInt\<close>.\<close>

definition sound_mail :: "startup_world \<Rightarrow> SMTPConfig \<Rightarrow> bool" where
  "sound_mail W c \<longleftrightarrow> SMTP_Host c \<noteq> [] \<and> SMTP_From c \<noteq> [] \<and> Parse_Address W (SMTP_From c) = Some (SMTP_From c) \<and>
     1 \<le> SMTP_Port c \<and> SMTP_Port c \<le> 10000"

lemma configured_mail_sound: "configured_mail W = Inr (Some c) \<Longrightarrow> sound_mail W c"
  using envInt_bounds [of "Getenv W" "''SMTP_PORT''" 587]
  by (auto simp: configured_mail_def Let_def sound_mail_def split: sum.splits if_splits)

text \<open>So a port above 10000 is refused, though the message allows it.\<close>

lemma smtp_port_refused:
  "Getenv W ''SMTP_PORT'' = ''25025'' \<Longrightarrow> configured_mail W = Inl ''SMTP_PORT must be between 1 and 65535''"
  by (simp add: configured_mail_def Let_def envInt_def) code_simp

text \<open>A screening provider has the configured retries and an endpoint over HTTPS, or HTTP if that is allowed.\<close>

definition sound_provider :: "startup_world \<Rightarrow> process_settings \<Rightarrow> HTTPProvider \<Rightarrow> bool" where
  "sound_provider W s p \<longleftrightarrow> hp_retries p = proc_providerRetries s \<and> hp_failures p = 0 \<and>
     (\<exists>u allow_http. envBool (Getenv W) ''SCREENING_PROVIDER_ALLOW_HTTP'' False = Inr allow_http \<and>
        URL_Parse (TLS_World W) (TrimSpace (Getenv W ''SCREENING_PROVIDER_URL'')) = Some u \<and> URL_Host u \<noteq> [] \<and>
        (URL_Scheme u = ''https'' \<or> allow_http \<and> URL_Scheme u = ''http''))"

lemma configured_provider_sound: "configured_provider W s = Inr (Some p) \<Longrightarrow> sound_provider W s p"
  by (auto simp: configured_provider_def Let_def sound_provider_def NewConfiguredHTTPProvider_def
      NewHTTPProvider_def endpoint_allowed_def split: if_splits sum.splits option.splits)


definition demo_environment :: environment where
  "demo_environment name =
     (case map_of [(''DATABASE_URL'', ''postgres://db''), (''JWT_JWKS_URL'', ''https://idp/keys''),
        (''JWT_ISSUER'', ''https://idp''), (''SCREENING_JOB_LEASE'', ''90s''), (''SMTP_HOST'', ''mail''),
        (''SMTP_FROM'', ''a@b''), (''HTTP_RATE_LIMIT_RPS'', ''nan'')] name of
        None \<Rightarrow> [] | Some v \<Rightarrow> v)"

definition demo_startup :: startup_world where
  "demo_startup = \<lparr>Getenv = demo_environment, Parse_Float = (\<lambda>s. if s = ''nan'' then Some NaN else None),
     Init_Tracing = (\<lambda>_ _. None), Parse_Config = (\<lambda>_. None), New_Pool = None, Ping_Pool = None,
     TLS_World = \<lparr>URL_Parse = (\<lambda>_. None), SystemCertPool = None, ReadFile = (\<lambda>_. Inr []),
       AppendCertsFromPEM = (\<lambda>_. True), LoadX509KeyPair = (\<lambda>_ _. None)\<rparr>, Parse_Address = Some\<rparr>"

text \<open>The environment starts a server, with a rate that limits nothing.\<close>

lemma nan_rate_accepted:
  "envFloat (Parse_Float demo_startup) demo_environment ''HTTP_RATE_LIMIT_RPS'' 20 = Inr NaN"
  by code_simp


end
