(* ===== verification/Process.thy ===== *)
theory Process
  imports Backends Startup
begin

text \<open>
  \<^verbatim>\<open>cmd/api\<close> as a process: the two workers tick, requests are served, in any order, on the
  configuration that \<open>Startup\<close> reads. Each worker and each request works on the same repository and
  metrics; a step is one tick or one request.
\<close>

section \<open>The workers\<close>

definition screening_tick ::
  "'r ScreeningRepository \<Rightarrow> ScreeningService \<Rightarrow> time \<Rightarrow> (nat \<Rightarrow> call_env) \<Rightarrow> (nat \<Rightarrow> ScreeningProvider) \<Rightarrow>
   Registry \<times> 'r \<Rightarrow> Registry \<times> 'r" where
  "screening_tick repo svc now envs providers st =
     (case RunDue repo svc now envs providers 25 (snd st) of
        ((n, err), db) \<Rightarrow> (ObserveWorker n err (fst st), db))"

text \<open>\<open>counting\<close> is the repository as \<^verbatim>\<open>Pending\<close> meets it; without an answer the count is zero.\<close>

definition delivery_tick ::
  "(nat \<Rightarrow> 'r DeliveryRepository) \<Rightarrow> 'r DeliveryRepository \<Rightarrow> (nat \<Rightarrow> sender) \<Rightarrow> DeliveryService \<Rightarrow> time \<Rightarrow>
   Registry \<times> 'r \<Rightarrow> Registry \<times> 'r" where
  "delivery_tick repo counting sender svc now st =
     (case RunDueDeliveries repo sender svc now 25 (snd st) of
        ((n, err), db) \<Rightarrow>
          (case Pending counting db of
             Inl pendingErr \<Rightarrow>
               (ObserveDelivery n 0 (if err = None then Some pendingErr else err) (fst st), db)
           | Inr pending \<Rightarrow> (ObserveDelivery n pending err (fst st), db)))"

text \<open>A worker ticks until it is told to stop.\<close>

datatype 'e worker_event = Tick 'e | Done

fun run_worker :: "('e \<Rightarrow> 's \<Rightarrow> 's) \<Rightarrow> 'e worker_event list \<Rightarrow> 's \<Rightarrow> 's" where
  "run_worker tick [] st = st"
| "run_worker tick (Done # events) st = st"
| "run_worker tick (Tick e # events) st = run_worker tick events (tick e st)"

section \<open>Ticks are background writes\<close>

lemma ScreenCustomer_background:
  "ScreenCustomer (pg_screening Ss) svc env provider i actor db = (x, db') \<Longrightarrow> pg_background\<^sup>*\<^sup>* db db'"
  by (auto simp: ScreenCustomer_def Let_def pg_screening_def split: if_splits sum.splits prod.splits
      intro: pg_save)

lemma run_schedules_background:
  "run_schedules (pg_screening Ss) svc now envs providers k ss good bad db = (x, db') \<Longrightarrow>
   pg_background\<^sup>*\<^sup>* db db'"
proof (induction ss arbitrary: k good bad db)
  case (Cons s ss)
  obtain run db1 where run: "ScreenCustomer (pg_screening Ss) svc (envs k) (providers k) (Schedule_CustomerID s)
      ''ongoing-monitoring-worker'' db = (run, db1)" by fastforce
  define msg where "msg = (case run of Inl err \<Rightarrow> error_text err | Inr _ \<Rightarrow> [])"
  define nextRun where "nextRun = (case run of Inl _ \<Rightarrow> now + screeningRetryBackoff (Schedule_FailureCount s + 1)
      | Inr _ \<Rightarrow> now + Schedule_IntervalHours s * Hour)"
  obtain y db2 where complete: "do_CompleteScreeningSchedule (pg_screening Ss) (Schedule_CustomerID s)
      (Service_workerID svc) now nextRun msg db1 = (y, db2)" by fastforce
  have "pg_background db1 db2" using complete by (auto simp: pg_screening_def intro: pg_complete)
  then have to_db2: "pg_background\<^sup>*\<^sup>* db db2" using ScreenCustomer_background [OF run] by simp
  show ?case
  proof (cases y)
    case Inl
    then show ?thesis using Cons.prems run complete to_db2
      by (simp add: msg_def [symmetric] nextRun_def [symmetric])
  next
    case Inr
    then obtain c f where "run_schedules (pg_screening Ss) svc now envs providers (k + 1) ss c f db2 = (x, db')"
      using Cons.prems run complete
      by (simp add: msg_def [symmetric] nextRun_def [symmetric] split: sum.splits)
    from Cons.IH [OF this] show ?thesis using to_db2 by simp
  qed
qed simp

lemma screening_tick_background:
  assumes "screening_tick (pg_screening Ss) svc now envs providers (reg, db) = (reg', db')"
  shows "pg_background\<^sup>*\<^sup>* db db'"
proof -
  obtain y db1 where claim: "do_ClaimDueScreeningSchedules (pg_screening Ss) now 25 (Service_workerID svc)
      (now + Service_leaseDuration svc) db = (y, db1)" by fastforce
  have one: "pg_background db db1" using claim by (auto simp: pg_screening_def intro: pg_claim)
  show ?thesis
  proof (cases y)
    case Inl
    then show ?thesis using assms claim one by (simp add: screening_tick_def RunDue_def)
  next
    case (Inr ss)
    obtain x db2 where run: "run_schedules (pg_screening Ss) svc now envs providers 0 ss 0 0 db1 = (x, db2)"
      by fastforce
    have "db' = db2" using assms claim Inr run
      by (auto simp: screening_tick_def RunDue_def split: prod.splits option.splits)
    then show ?thesis using one run_schedules_background [OF run] by (simp add: converse_rtranclp_into_rtranclp)
  qed
qed

lemma deliver_items_background:
  "deliver_items (pg_delivery Ss) sender worker now k ms delivered failed db = (x, db') \<Longrightarrow>
   pg_background\<^sup>*\<^sup>* db db'"
proof (induction ms arbitrary: k delivered failed db)
  case (Cons m ms)
  let ?err = "case sender k m of None \<Rightarrow> [] | Some err \<Rightarrow> error_text err"
  let ?later = "case sender k m of None \<Rightarrow> now | Some _ \<Rightarrow> now + deliveryBackoff (Outbox_Attempts m + 1)"
  obtain y db1 where complete: "pg_CompleteOutbox (Ss (k + 1)) (Outbox_ID m) worker now ?later ?err db = (y, db1)"
    by fastforce
  then have one: "pg_background db db1" by (rule pg_complete_outbox)
  show ?case
  proof (cases y)
    case Inl
    then show ?thesis using Cons.prems complete one by (simp add: Let_def)
  next
    case Inr
    then obtain d f where "deliver_items (pg_delivery Ss) sender worker now (k + 1) ms d f db1 = (x, db')"
      using Cons.prems complete by (simp add: Let_def)
    from Cons.IH [OF this] show ?thesis using one by (simp add: converse_rtranclp_into_rtranclp)
  qed
qed simp

lemma delivery_tick_background:
  assumes "delivery_tick (pg_delivery Ss) counting sender svc now (reg, db) = (reg', db')"
  shows "pg_background\<^sup>*\<^sup>* db db'"
proof -
  obtain x db1 where run: "RunDueDeliveries (pg_delivery Ss) sender svc now 25 db = (x, db1)" by fastforce
  obtain y db2 where claim: "pg_ClaimOutbox (Ss 0) now 25 (Delivery_workerID svc) (now + 2 * Minute) db = (y, db2)"
    by fastforce
  have "pg_background\<^sup>*\<^sup>* db db1"
  proof (cases y)
    case Inl
    then show ?thesis using run claim by (auto simp: RunDueDeliveries_def intro: pg_claim_outbox)
  next
    case (Inr items)
    then have "deliver_items (pg_delivery Ss) sender (Delivery_workerID svc) now 0 items 0 0 db2 = (x, db1)"
      using run claim by (simp add: RunDueDeliveries_def)
    from deliver_items_background [OF this] pg_claim_outbox [OF claim] show ?thesis
      by (simp add: converse_rtranclp_into_rtranclp)
  qed
  moreover have "db' = db1" using assms run by (auto simp: delivery_tick_def split: prod.splits sum.splits)
  ultimately show ?thesis by simp
qed

section \<open>The process\<close>

text \<open>
  The settings of a process: what its environment decided, the rest (JSON, the clients' tokens) given
  by \<open>P\<close>. It starts on empty tables. The process of a rate that is \<^verbatim>\<open>NaN\<close> is left out.
\<close>

definition api_settings :: "settings \<Rightarrow> api \<Rightarrow> settings" where
  "api_settings P a = P\<lparr>set_service := api_screening a\<rparr>"

definition api_state :: "api \<Rightarrow> rat \<Rightarrow> RateLimiter \<times> Database inner_state" where
  "api_state a q = (NewRateLimiter q (proc_rateBurst (api_process a)), api_metrics a,
     proc_authenticator (api_process a), empty_database)"

inductive process_run ::
  "settings \<Rightarrow> api \<Rightarrow> exchange list \<Rightarrow> RateLimiter \<times> Database inner_state \<Rightarrow> bool" for P a where
  listening: "proc_rateLimit (api_process a) = Finite q \<Longrightarrow> process_run P a [] (api_state a q)"
| request: "process_run P a hist (l, reg, au, db) \<Longrightarrow>
    serve (pg_handler (api_settings P a) Ss) c r (l, reg, au, db) = (resp, st) \<Longrightarrow>
    process_run P a (hist @ [\<lparr>Ex_Request = r, Ex_Call = Call_Auth c, Ex_Authenticator = au\<rparr>]) st"
| screening: "process_run P a hist (l, reg, au, db) \<Longrightarrow>
    screening_tick (pg_screening Ss) (api_screening a) now envs providers (reg, db) = (reg', db') \<Longrightarrow>
    process_run P a hist (l, reg', au, db')"
| delivery: "process_run P a hist (l, reg, au, db) \<Longrightarrow>
    delivery_tick (pg_delivery Sd) (pg_delivery Sp 0)
      (\<lambda>k. Router_Send (api_senders show_time (net k) marshal (post k) a)) (NewDeliveryService worker) now
      (reg, db) = (reg', db') \<Longrightarrow>
    process_run P a hist (l, reg', au, db')"

lemma pg_background_refl: "pg_background db db"
proof (rule pg_claim)
  show "pg_ClaimDueScreeningSchedules (calm\<lparr>Fault := (\<lambda>_. Some [])\<rparr>) 0 0 [] 0 db = (Inl (OtherError []), db)"
    by (simp add: pg_ClaimDueScreeningSchedules_def autocommit_def calm_def split: prod.split)
qed

lemma served_works:
  assumes "pg_background\<^sup>*\<^sup>* db db'" and "served H pg_background st0 hist (l, reg, au, db)"
  shows "served H pg_background st0 hist (l, reg', au, db')"
  using assms
proof (induction arbitrary: reg' rule: rtranclp_induct)
  case base
  then show ?case by (rule served.work) (rule pg_background_refl)
next
  case (step db1 db2)
  then show ?case by (blast intro: served.work)
qed

lemma process_served:
  assumes "process_run P a hist st"
  obtains q where "proc_rateLimit (api_process a) = Finite q"
    and "served (range (pg_handler (api_settings P a))) pg_background (api_state a q) hist st"
proof -
  have "\<exists>q. proc_rateLimit (api_process a) = Finite q \<and>
      served (range (pg_handler (api_settings P a))) pg_background (api_state a q) hist st"
    using assms
  proof (induction rule: process_run.induct)
    case (listening q)
    then show ?case by (blast intro: served.start)
  next
    case request
    then show ?case by (blast intro: served.request)
  next
    case screening
    then show ?case by (blast intro: served_works screening_tick_background)
  next
    case delivery
    then show ?case by (blast intro: served_works delivery_tick_background)
  qed
  then show thesis using that by blast
qed

section \<open>Properties\<close>

text \<open>What the configuration of an accepted authenticator keeps.\<close>

lemma auth_after_config:
  assumes "auth_keys a = []"
  shows "same_config a (auth_after W calls a)"
proof -
  have "keys_from W {} a" using assms by (simp add: keys_from_def)
  from auth_after_effect [OF this, of calls] show ?thesis by simp
qed

lemma read_settings_keys:
  "read_settings W = Inr s \<Longrightarrow> auth_keys (proc_authenticator s) = []"
  by (auto simp: read_settings_def Let_def NewJWKSAuthenticator_def split: sum.splits if_splits option.splits)

lemma start_api_settings:
  assumes "start_api W S run_file workerID mdb = (Inr a, mdb')"
  shows "read_settings W = Inr (api_process a)"
  using assms by (auto simp: start_api_def configured_api_def Let_def split: sum.splits prod.splits)

text \<open>
  C2. Separation of duties in the running process. Start \<^verbatim>\<open>cmd/api\<close> from any environment, and let the
  workers tick and requests be served in any order, whatever the screening provider, the network and
  the database do: when a customer is active or rejected, an earlier request to create a customer
  carried an accepted token of an analyst or administrator whose subject is the record's submitter, a
  later request to decide just this customer carried one of a reviewer or administrator whose subject
  is the record's reviewer, and the subjects differ. All the while tokens are checked against the
  issuer and the key set address of the environment, and never against a shared secret.
\<close>

theorem process_separation:
  assumes "start_api W S run_file workerID mdb = (Inr a, mdb')"
    and "process_run P a hist (l, reg, au, db)"
    and "pg_customer db i = Some c" and "Customer_Status c \<noteq> CustomerPendingApproval"
  shows "(\<exists>m n p q. m < n \<and> n < length hist \<and> submitted_by (set_world P) (hist ! m) c p \<and>
       decided_by (set_world P) (hist ! n) i c q \<and>
       TrimSpace (Principal_Subject p) \<noteq> TrimSpace (Principal_Subject q)) \<and>
     (\<forall>e \<in> set hist. auth_secret (Ex_Authenticator e) = [] \<and>
       auth_issuer (Ex_Authenticator e) = Getenv W ''JWT_ISSUER'' \<and>
       auth_jwksURL (Ex_Authenticator e) = Getenv W ''JWT_JWKS_URL'')"
proof -
  obtain q where run: "served (range (pg_handler (api_settings P a))) pg_background (api_state a q) hist (l, reg, au, db)"
    using process_served [OF assms(2)] by blast
  note run = run [unfolded api_state_def]
  have world: "set_world (api_settings P a) = set_world P" by (simp add: api_settings_def)
  have "pg_customer empty_database = Map.empty" by (rule ext) (simp add: empty_database_def scanned_def)
  from postgres_backend.served_vouched [OF run this, of i c] assms(3,4)
  have vouched: "vouched (set_world P) hist i c" by (simp add: world)
  have settings: "read_settings W = Inr (api_process a)" by (rule start_api_settings [OF assms(1)])
  have config: "same_config (proc_authenticator (api_process a)) (auth_after (set_world P) calls (proc_authenticator (api_process a)))"
    for calls by (rule auth_after_config) (rule read_settings_keys [OF settings])
  have "\<forall>e \<in> set hist. same_config (proc_authenticator (api_process a)) (Ex_Authenticator e)"
    using postgres_backend.served_authenticator [OF run] config by (metis world)
  moreover from read_settings_sound [OF settings] have "auth_secret (proc_authenticator (api_process a)) = [] \<and>
      auth_issuer (proc_authenticator (api_process a)) = Getenv W ''JWT_ISSUER'' \<and>
      auth_jwksURL (proc_authenticator (api_process a)) = Getenv W ''JWT_JWKS_URL''"
    by (simp add: sound_settings_def)
  ultimately show ?thesis using vouched assms(4) unfolding vouched_def same_config_def by fastforce
qed

text \<open>The two requests of \<open>Backends\<close>, with tokens signed by a key of the key set.\<close>

definition signed_world :: auth_world where
  "signed_world = two_world\<lparr>Unmarshal_header := (\<lambda>_. Some \<lparr>Header_Algorithm = ''RS256'', Header_Type = ''JWT'',
       Header_KeyID = ''k''\<rparr>),
     Unmarshal_claims := (\<lambda>data. map_option (\<lambda>cl. cl\<lparr>Claims_AuthorizedParty := ''fccp-web''\<rparr>)
       (Unmarshal_claims two_world data)),
     Decode_set := (\<lambda>_. Some [\<lparr>JWK_ID = ''k'', JWK_Type = ''RSA'', JWK_Use = ''sig'', JWK_N = ''BQ'', JWK_E = ''AQAB''\<rparr>]),
     VerifyPKCS1v15 := (\<lambda>key digest signature. signature = ''b'')\<rparr>"

definition signed_call :: auth_call where
  "signed_call = \<lparr>Clock = (\<lambda>_. 62135596850 * 1000000000), Fetch = (\<lambda>_. Inr (200, ''set''))\<rparr>"

definition signed_environment :: environment where
  "signed_environment name =
     (case map_of [(''DATABASE_URL'', ''postgres://db''), (''JWT_JWKS_URL'', ''https://idp/keys''),
        (''JWT_ISSUER'', ''idp'')] name of None \<Rightarrow> [] | Some v \<Rightarrow> v)"

definition signed_startup :: startup_world where
  "signed_startup = demo_startup\<lparr>Getenv := signed_environment\<rparr>"

definition signed_settings :: settings where
  "signed_settings = two_config\<lparr>set_world := signed_world\<rparr>"

definition signed_authenticator :: Authenticator where
  "signed_authenticator = \<lparr>auth_secret = [], auth_issuer = ''idp'', auth_jwksURL = ''https://idp/keys'',
     auth_authorizedParties = [''fccp-web''], auth_keys = [], auth_keysExpiresAt = zero_time\<rparr>"

lemma signed_start:
  obtains a mdb' where "start_api signed_startup calm listing ''w'' \<lparr>schema_migrations = None, schema = []\<rparr> = (Inr a, mdb')"
    and "proc_rateLimit (api_process a) = Finite 20" and "proc_rateBurst (api_process a) = 40"
    and "proc_authenticator (api_process a) = signed_authenticator"
proof -
  let ?run = "start_api signed_startup calm listing ''w'' \<lparr>schema_migrations = None, schema = []\<rparr>"
  have "isl (fst ?run) = False" by code_simp
  then obtain a mdb' where run: "?run = (Inr a, mdb')" by (metis prod.collapse sum.collapse(2))
  from start_api_settings [OF run] have "read_settings signed_startup = Inr (api_process a)" .
  then have "proc_rateLimit (api_process a) = Finite 20 \<and> proc_rateBurst (api_process a) = 40 \<and>
      NewJWKSAuthenticator ''https://idp/keys'' ''idp'' ''fccp-web'' = Inr (proc_authenticator (api_process a))"
    by (auto simp: read_settings_def Let_def signed_startup_def signed_environment_def envInt_def envFloat_def
        envString_def split: sum.splits dest!: sym [of _ "api_process a"])
  moreover have "NewJWKSAuthenticator ''https://idp/keys'' ''idp'' ''fccp-web'' = Inr signed_authenticator"
    by code_simp
  ultimately show thesis using that run by simp
qed

definition cached_authenticator :: Authenticator where
  "cached_authenticator = signed_authenticator\<lparr>auth_keys := [(''k'', \<lparr>Key_N = 5, Key_E = 65537\<rparr>)],
     auth_keysExpiresAt := 62135596850 * 1000000000 + 5 * Minute\<rparr>"

definition signed_header :: header where
  "signed_header = \<lparr>Header_Algorithm = ''RS256'', Header_Type = ''JWT'', Header_KeyID = ''k''\<rparr>"

lemma signed_decoded:
  "bearer_token signed_world ''Bearer YQ.YQ.Yg'' = Some (signed_header, ''YQ'', ''YQ'', ''b'')"
  "bearer_token signed_world ''Bearer YQ.Yg.Yg'' = Some (signed_header, ''YQ'', ''Yg'', ''b'')"
  "decodePart (Unmarshal_claims signed_world) ''YQ'' = Unmarshal_claims signed_world ''a''"
  "decodePart (Unmarshal_claims signed_world) ''Yg'' = Unmarshal_claims signed_world ''b''"
  by code_simp+

lemma signed_keys_fetched:
  "fetched_keys signed_world (Inr (200, ''set'')) = Inr [(''k'', \<lparr>Key_N = 5, Key_E = 65537\<rparr>)]"
  by (simp add: fetched_keys_def signed_world_def add_key_def demo_decoded SetBytes_def Int64_def gput_def)

lemma signed_signature:
  "validSignature signed_world signed_call signed_header m ''b'' signed_authenticator = (True, cached_authenticator)"
  "validSignature signed_world signed_call signed_header m ''b'' cached_authenticator = (True, cached_authenticator)"
  by (simp_all add: validSignature_def signingKey_def refreshKeys_def signed_keys_fetched signed_call_def
      signed_authenticator_def cached_authenticator_def signed_header_def)
    (simp_all add: signed_world_def duration_defs)

lemma signed_claims:
  "Unmarshal_claims signed_world ''a'' = Some ((two_claims ''maker'' RoleAnalyst)\<lparr>Claims_AuthorizedParty := ''fccp-web''\<rparr>)"
  "Unmarshal_claims signed_world ''b'' = Some ((two_claims ''checker'' RoleReviewer)\<lparr>Claims_AuthorizedParty := ''fccp-web''\<rparr>)"
  by (simp_all add: signed_world_def two_world_sel)

lemma signed_authentication:
  "Authenticate signed_world signed_call ''Bearer YQ.YQ.Yg'' signed_authenticator =
     (Some \<lparr>Principal_Subject = ''maker'', Principal_Role = RoleAnalyst\<rparr>, cached_authenticator)"
  "Authenticate signed_world signed_call ''Bearer YQ.Yg.Yg'' cached_authenticator =
     (Some \<lparr>Principal_Subject = ''checker'', Principal_Role = RoleReviewer\<rparr>, cached_authenticator)"
  by (simp_all add: Authenticate_def signed_decoded signed_signature signed_claims)
    (simp_all add: two_claims_def claims_accepted_def claimed_role_def validRole_def role_defs Unix_def
      two_decoded signed_call_def cached_authenticator_def signed_authenticator_def)

theorem process_separation_witness:
  "\<exists>a mdb' hist st c m n p q.
     start_api signed_startup calm listing ''w'' \<lparr>schema_migrations = None, schema = []\<rparr> = (Inr a, mdb') \<and>
     process_run signed_settings a hist st \<and> length hist = 2 \<and> pg_customer stored2 ''c'' = Some c \<and>
     m < n \<and> n < length hist \<and> submitted_by signed_world (hist ! m) c p \<and> decided_by signed_world (hist ! n) ''c'' c q"
proof -
  obtain a mdb' where start: "start_api signed_startup calm listing ''w'' \<lparr>schema_migrations = None, schema = []\<rparr> = (Inr a, mdb')"
    and rate: "proc_rateLimit (api_process a) = Finite 20" "proc_rateBurst (api_process a) = 40"
    and auth: "proc_authenticator (api_process a) = signed_authenticator" by (rule signed_start)
  let ?au = cached_authenticator
  have cfg: "set_JSON (api_settings signed_settings a) = two_json"
    "set_world (api_settings signed_settings a) = signed_world"
    by (simp_all add: api_settings_def signed_settings_def two_config_def)
  obtain resp1 l1 reg1 resp2 l2 reg2 where
    "serve (pg_handler (api_settings signed_settings a) (\<lambda>_. calm)) ((two_call (call ''c'' 10) 10)\<lparr>Call_Auth := signed_call\<rparr>)
       submission (NewRateLimiter 20 40, api_metrics a, signed_authenticator, empty_database) = (resp1, l1, reg1, ?au, stored1)"
    and "serve (pg_handler (api_settings signed_settings a) (\<lambda>_. calm)) ((two_call (call ''r'' 20) 10)\<lparr>Call_Auth := signed_call\<rparr>)
       approval (l1, reg1, ?au, stored1) = (resp2, l2, reg2, ?au, stored2)"
    by (rule two_requests_served [OF cfg(1), of signed_call signed_authenticator ?au ?au "api_metrics a"])
      (simp_all add: cfg signed_authentication)
  note served = this
  have "process_run signed_settings a [] (NewRateLimiter 20 40, api_metrics a, signed_authenticator, empty_database)"
    using process_run.listening [OF rate(1)] by (simp add: api_state_def rate auth)
  from process_run.request [OF process_run.request [OF this served(1)] served(2)]
  obtain hist where hist: "process_run signed_settings a hist (l2, reg2, ?au, stored2)" "length hist = 2" by simp
  obtain c where c: "pg_customer stored2 ''c'' = Some c" and "Customer_Status c = CustomerActive"
    using stored2_customer by auto
  then have "Customer_Status c \<noteq> CustomerPendingApproval" by (simp add: enum_defs)
  from process_separation [OF start hist(1) c this] have "\<exists>m n p q. m < n \<and> n < length hist \<and>
      submitted_by signed_world (hist ! m) c p \<and> decided_by signed_world (hist ! n) ''c'' c q"
    by (simp add: signed_settings_def two_config_def) blast
  with start hist c show ?thesis by blast
qed

end
