(* ===== verification/Demo_Seed.thy ===== *)
theory Demo_Seed
  imports Backends Providers Migrations
begin

text \<open>
  \<^verbatim>\<open>cmd/demoseed/main.go\<close>: three customers and what belongs to them, written through the services into
  a database that has none of them. Step \<open>k\<close> has its own handler \<open>hs k\<close>, that is its own database
  sessions, and its own clock and identifiers \<open>envs k\<close>.
\<close>

section \<open>The data set\<close>

definition demoRefs :: "string list" where
  "demoRefs = [''demo-pending-001'', ''demo-orion-001'', ''demo-nadia-001'']"

definition seed_step ::
  "string \<Rightarrow> ('a, 'r) repo_op \<Rightarrow> ('a \<Rightarrow> 'r \<Rightarrow> (string + 'b) \<times> 'r) \<Rightarrow> 'r \<Rightarrow> (string + 'b) \<times> 'r" where
  "seed_step wrapping run continue r =
     (case run r of
        (Inl err, r') \<Rightarrow> (Inl (wrapping @ error_text err), r')
      | (Inr x, r') \<Rightarrow> continue x r')"

definition seed_factors :: "CountryRisk \<Rightarrow> bool \<Rightarrow> bool \<Rightarrow> RiskFactors" where
  "seed_factors country pep complex =
     \<lparr>Factors_CountryRisk = country, Factors_PEP = pep, Factors_SanctionsPotentialMatch = False,
      Factors_HighRiskIndustry = False, Factors_ComplexOwnership = complex,
      Factors_SourceOfFundsVerified = True\<rparr>"

definition harbour :: OnboardCustomerCommand where
  "harbour = \<lparr>Onboard_ExternalRef = ''demo-pending-001'', Onboard_Type = CustomerCompany,
     Onboard_LegalName = ''Harbour Design Studio'', Onboard_CountryCode = ''GB'',
     Onboard_RiskFactors = seed_factors CountryRiskLow False False, Onboard_Actor = ''demo-analyst''\<rparr>"

definition orion_command :: OnboardCustomerCommand where
  "orion_command = \<lparr>Onboard_ExternalRef = ''demo-orion-001'', Onboard_Type = CustomerCompany,
     Onboard_LegalName = ''Orion Trading Company'', Onboard_CountryCode = ''GB'',
     Onboard_RiskFactors = seed_factors CountryRiskMedium False True, Onboard_Actor = ''demo-analyst''\<rparr>"

definition nadia_command :: OnboardCustomerCommand where
  "nadia_command = \<lparr>Onboard_ExternalRef = ''demo-nadia-001'', Onboard_Type = CustomerIndividual,
     Onboard_LegalName = ''Nadia Karim'', Onboard_CountryCode = ''AE'',
     Onboard_RiskFactors = seed_factors CountryRiskMedium True False, Onboard_Actor = ''demo-analyst''\<rparr>"

definition demo_profile :: "string \<Rightarrow> string \<Rightarrow> string \<Rightarrow> int \<Rightarrow> CDDStatus \<Rightarrow> time \<Rightarrow> CDDProfile" where
  "demo_profile customerID wealth purpose volume status nextReview =
     \<lparr>Profile_CustomerID = customerID, Profile_SourceOfWealth = wealth, Profile_BusinessPurpose = purpose,
      Profile_ExpectedMonthlyVolumeMinor = volume, Profile_Currency = ''GBP'', Profile_Status = status,
      Profile_NextReviewAt = Some nextReview, Profile_UpdatedBy = [], Profile_UpdatedAt = zero_time\<rparr>"

definition orion_owner :: "string \<Rightarrow> BeneficialOwner" where
  "orion_owner customerID = \<lparr>Owner_ID = [], Owner_CustomerID = customerID, Owner_FullName = ''Elena Morris'',
     Owner_OwnershipPercent = 75, Owner_CountryCode = ''GB'', Owner_PEP = False, Owner_CreatedBy = [],
     Owner_CreatedAt = zero_time\<rparr>"

definition orion_document :: "string \<Rightarrow> KYCDocument" where
  "orion_document customerID = \<lparr>Document_ID = [], Document_CustomerID = customerID,
     Document_Type = ''company_registry_extract'', Document_Reference = ''DEMO-ORION-REG-2026'',
     Document_Status = [], Document_ExpiresAt = None, Document_CreatedBy = [],
     Document_CreatedAt = zero_time, Document_VerifiedBy = [], Document_VerifiedAt = None\<rparr>"

definition orion_payment :: "string \<Rightarrow> time \<Rightarrow> IngestTransactionCommand" where
  "orion_payment customerID occurredAt = \<lparr>Ingest_ExternalRef = ''demo-payment-001'',
     Ingest_CustomerID = customerID, Ingest_Direction = TransactionOutbound, Ingest_AmountMinor = 2500000,
     Ingest_Currency = ''GBP'', Ingest_CounterpartyCountry = ''IR'', Ingest_OccurredAt = occurredAt,
     Ingest_Actor = ''demo-analyst'', Ingest_IdempotencyKey = ''demo-payment-001''\<rparr>"

text \<open>\<open>nextReview\<close> is the time a year later (\<^verbatim>\<open>AddDate\<close>), \<open>now\<close> the clock at the payment.\<close>

definition seed ::
  "(nat \<Rightarrow> 'r Handler) \<Rightarrow> (nat \<Rightarrow> call_env) \<Rightarrow> ScreeningService \<Rightarrow> ScreeningProvider \<Rightarrow> time \<Rightarrow> time \<Rightarrow>
   'r \<Rightarrow> (string + unit) \<times> 'r" where
  "seed hs envs svc provider nextReview now =
     seed_step ''create pending customer: '' (Onboard (do_CreateCustomer (hs 0)) (envs 0) harbour) (\<lambda>_.
     seed_step ''create Orion customer: '' (Onboard (do_CreateCustomer (hs 1)) (envs 1) orion_command) (\<lambda>orion.
     let orionID = Customer_ID orion in
     seed_step ''approve Orion customer: '' (Review (do_ReviewCustomer (hs 2)) (envs 2) orionID ReviewApprove
       ''demo-reviewer'' ''Demo maker-checker approval'') (\<lambda>_.
     seed_step ''create Orion CDD profile: '' (UpdateProfile (do_UpsertCDDProfile (hs 3)) (envs 3)
       (demo_profile orionID ''Documented wholesale trading revenue'' ''Cross-border wholesale settlement''
          25000000 CDDComplete nextReview) ''demo-analyst'') (\<lambda>_.
     seed_step ''add Orion beneficial owner: '' (AddOwner (do_AddBeneficialOwner (hs 4)) (envs 4)
       (orion_owner orionID) ''demo-analyst'') (\<lambda>_.
     seed_step ''add Orion document: '' (AddDocument (do_AddKYCDocument (hs 5)) (envs 5)
       (orion_document orionID) ''demo-analyst'') (\<lambda>document.
     seed_step ''verify Orion document: '' (ReviewDocument (do_ReviewKYCDocument (hs 6)) (envs 6)
       (Document_ID document) DocumentVerified ''demo-reviewer'') (\<lambda>_.
     seed_step ''ingest Orion transaction: '' (Ingest (do_CreateTransaction (hs 7)) (envs 7)
       (orion_payment orionID (now - 2 * Hour))) (\<lambda>ingestion.
     case Ingested_Alerts ingestion of
       [] \<Rightarrow> (\<lambda>r. (Inl ''demo transaction unexpectedly created no alerts'', r))
     | alert # _ \<Rightarrow>
     seed_step ''create Orion investigation case: '' (Create (do_CreateCase (hs 8)) (envs 8) (Alert_ID alert)
       ''Review Orion high-value cross-border payment'' CasePriorityHigh ''demo-analyst'') (\<lambda>item.
     seed_step ''assign Orion case: '' (Assign (do_AssignCase (hs 9)) (envs 9) (Case_ID item)
       ''demo-analyst'' ''demo-reviewer'') (\<lambda>_.
     seed_step ''comment on Orion case: '' (Comment (do_AddCaseComment (hs 10)) (envs 10) (Case_ID item)
       ''Escalated for source-of-funds and counterparty verification.'' ''demo-analyst'') (\<lambda>_.
     seed_step ''screen Orion customer: '' (ScreenCustomer (Handler.screening_repository (hs 11)) svc (envs 11) provider
       orionID ''demo-analyst'') (\<lambda>_.
     seed_step ''schedule Orion screening: '' (ConfigureSchedule (Handler.screening_repository (hs 12)) (envs 12)
       orionID True 24 ''demo-reviewer'') (\<lambda>_.
     seed_step ''create Nadia customer: '' (Onboard (do_CreateCustomer (hs 13)) (envs 13) nadia_command) (\<lambda>nadia.
     let nadiaID = Customer_ID nadia in
     seed_step ''approve Nadia customer: '' (Review (do_ReviewCustomer (hs 14)) (envs 14) nadiaID ReviewApprove
       ''demo-reviewer'' ''Demo enhanced-due-diligence approval'') (\<lambda>_.
     seed_step ''create Nadia CDD profile: '' (UpdateProfile (do_UpsertCDDProfile (hs 15)) (envs 15)
       (demo_profile nadiaID ''Declared professional income'' ''Personal investment account'' 500000
          CDDInReview nextReview) ''demo-analyst'') (\<lambda>_.
     seed_step ''screen Nadia customer: '' (ScreenCustomer (Handler.screening_repository (hs 16)) svc (envs 16) provider
       nadiaID ''demo-analyst'') (\<lambda>_ r. (Inr (), r))))))))))))))))))"

section \<open>The command\<close>

text \<open>The number of demo customers, as \<^verbatim>\<open>demoState\<close> counts them.\<close>

definition customer_refs :: "Database \<Rightarrow> string list" where
  "customer_refs db = map (\<lambda>row. Customer_ExternalRef (customer_columns row)) (gvals (tbl_customers db))"

definition demoState :: "session \<Rightarrow> Database \<Rightarrow> int result" where
  "demoState S = query S [] (\<lambda>db. int (length (filter (\<lambda>ref. ref \<in> set demoRefs) (customer_refs db))))"

datatype demo_outcome = Fatal string | Printed string

record seed_world =
  Demo_Getenv :: "string \<Rightarrow> string"
  Demo_Pool :: "string option"
  Demo_Ping :: "string option"
  Demo_Migrating :: session
  Demo_Counting :: session
  Demo_Sessions :: "nat \<Rightarrow> string \<Rightarrow> session"
  Demo_Settings :: settings
  Demo_Envs :: "nat \<Rightarrow> call_env"
  Demo_Unicode :: "string \<Rightarrow> string"
  Demo_WorkerID :: string
  Demo_NextReview :: time
  Demo_Now :: time

definition seed_run :: "seed_world \<Rightarrow> Database \<Rightarrow> (string + unit) \<times> Database" where
  "seed_run w = seed (\<lambda>k. pg_handler (Demo_Settings w) (Demo_Sessions w k)) (Demo_Envs w)
     (NewScreeningService (Demo_WorkerID w)) (DemoProvider (Demo_Unicode w)) (Demo_NextReview w) (Demo_Now w)"

definition demo_created :: string where
  "demo_created = ''Demo dataset created: 3 customers, an approval, CDD evidence, monitoring alerts, a case, screening matches, notifications, and audit events.''"

definition demo_present :: string where
  "demo_present = ''Demo dataset already present; no changes made.''"

definition demo_main ::
  "seed_world \<Rightarrow> (string \<Rightarrow> 's \<Rightarrow> string + 's) \<Rightarrow> 's migrated \<times> Database \<Rightarrow> demo_outcome \<times> 's migrated \<times> Database" where
  "demo_main w run_file st =
     (if Demo_Getenv w ''CONFIRM_DEMO_SEED'' \<noteq> ''seed''
      then (Fatal ''refusing to write demo data: set CONFIRM_DEMO_SEED=seed'', st)
      else if Demo_Getenv w ''DATABASE_URL'' = [] then (Fatal ''DATABASE_URL is required'', st)
      else (case Demo_Pool w of Some msg \<Rightarrow> (Fatal (''connect to PostgreSQL: '' @ msg), st) | None \<Rightarrow>
           (case Demo_Ping w of Some msg \<Rightarrow> (Fatal (''ping PostgreSQL: '' @ msg), st) | None \<Rightarrow>
           (case Up (Demo_Migrating w) run_file (fst st) of
              (Inl err, mdb) \<Rightarrow> (Fatal (''apply migrations: '' @ error_text err), mdb, snd st)
            | (Inr _, mdb) \<Rightarrow>
           (case demoState (Demo_Counting w) (snd st) of
              Inl err \<Rightarrow> (Fatal (''inspect demo data: '' @ error_text err), mdb, snd st)
            | Inr state \<Rightarrow>
                if state = int (length demoRefs) then (Printed demo_present, mdb, snd st)
                else if state \<noteq> 0
                then (Fatal (''partial demo dataset found ('' @ show_int state @ ''/'' @ show_int (int (length demoRefs)) @
                        '' customers); use a fresh database instead of overwriting data''), mdb, snd st)
                else (case seed_run w (snd st) of
                    (Inl msg, db) \<Rightarrow> (Fatal (''seed demo data: '' @ msg), mdb, db)
                  | (Inr _, db) \<Rightarrow> (Printed demo_created, mdb, db)))))))"

section \<open>What the seed writes\<close>

text \<open>
  A computation adds the customers \<open>xs\<close>: it appends a prefix of them to the table, and all of them
  when it succeeds. A failed step may have written, as a commit can lose its answer.
\<close>

definition adds :: "string list \<Rightarrow> (Database \<Rightarrow> ('e + 'a) \<times> Database) \<Rightarrow> bool" where
  "adds xs m \<longleftrightarrow> (\<forall>db. \<exists>k \<le> length xs. customer_refs (snd (m db)) = customer_refs db @ take k xs \<and>
     (\<not> isl (fst (m db)) \<longrightarrow> k = length xs))"

lemma keeps_adds: "keeps tbl_customers run \<Longrightarrow> adds [] run"
  by (simp add: keeps_def adds_def customer_refs_def)

lemma seed_step_adds:
  assumes "adds xs run" and "\<And>x. adds ys (continue x)"
  shows "adds (xs @ ys) (seed_step w run continue)"
  unfolding adds_def
proof
  fix db
  obtain y db1 where run: "run db = (y, db1)" by fastforce
  then obtain k where k: "k \<le> length xs" "customer_refs db1 = customer_refs db @ take k xs"
    "\<not> isl y \<Longrightarrow> k = length xs" using assms(1) unfolding adds_def by (metis fst_conv snd_conv)
  let ?goal = "\<lambda>j r. j \<le> length (xs @ ys) \<and> customer_refs (snd r) = customer_refs db @ take j (xs @ ys) \<and>
      (\<not> isl (fst r) \<longrightarrow> j = length (xs @ ys))"
  show "\<exists>j \<le> length (xs @ ys). customer_refs (snd (seed_step w run continue db)) = customer_refs db @ take j (xs @ ys) \<and>
      (\<not> isl (fst (seed_step w run continue db)) \<longrightarrow> j = length (xs @ ys))"
  proof (cases y)
    case Inl
    then show ?thesis using k run by (intro exI [of _ k]) (simp add: seed_step_def)
  next
    case (Inr x)
    from assms(2) [of x] obtain j where "j \<le> length ys"
      "customer_refs (snd (continue x db1)) = customer_refs db1 @ take j ys"
      "\<not> isl (fst (continue x db1)) \<longrightarrow> j = length ys" unfolding adds_def by blast
    then show ?thesis using k Inr run by (intro exI [of _ "length xs + j"]) (simp add: seed_step_def)
  qed
qed

lemmas seed_step_keeps = seed_step_adds [of "[]", simplified]

lemma customer_refs_update:
  "map_of (tbl_customers db) i = Some row \<Longrightarrow>
   Customer_ExternalRef (customer_columns row') = Customer_ExternalRef (customer_columns row) \<Longrightarrow>
   tbl_customers db' = gput i row' (tbl_customers db) \<Longrightarrow> customer_refs db' = customer_refs db"
  by (simp add: customer_refs_def map_gvals_gput [where f = "\<lambda>row. Customer_ExternalRef (customer_columns row)"])

lemma event_customers: "insertAuditEvent e db = Inr ((), db') \<Longrightarrow> tbl_customers db' = tbl_customers db"
  using statement_customers(1) [of e] by (auto simp: statement_keeps_def)

lemma pg_CreateCustomer_refs:
  "adds [Customer_ExternalRef c] (pg_CreateCustomer S c e)"
  unfolding adds_def
proof
  fix db
  obtain y db' where run: "pg_CreateCustomer S c e db = (y, db')" by fastforce
  have inserted: "customer_refs db2 = customer_refs db @ [Customer_ExternalRef c]"
    if "insert_customer c db = Inr ((), db1)" and "insertAuditEvent e db1 = Inr ((), db2)" for db1 db2
    using that event_customers [OF that(2)]
    by (auto simp: insert_customer_def customer_refs_def insert_row_def violates_def gvals_gput_new
        split: if_splits option.splits sum.splits)
  define work where "work = tx_then (statement S ''insert customer: '' (insert_customer c))
    (\<lambda>_. statement S ''insert audit event: '' (insertAuditEvent e))"
  have tx: "(y, db') = in_transaction S ''begin create customer transaction: ''
      ''commit create customer transaction: '' work db"
    using run by (simp add: pg_CreateCustomer_def work_def)
  have worked: "customer_refs db2 = customer_refs db @ [Customer_ExternalRef c]"
    if work: "work 1 db = Inr (x, k, db2)" for x k db2
  proof -
    obtain db1 where "insert_customer c db = Inr ((), db1)" and "insertAuditEvent e db1 = Inr ((), db2)"
      using work by (auto simp: work_def tx_defs split: option.splits sum.splits)
    then show ?thesis by (rule inserted)
  qed
  from tx have "db' = db \<and> isl y \<or> (\<exists>x k. work 1 db = Inr (x, k, db'))"
    by (auto simp: in_transaction_def split: option.splits sum.splits)
  with worked have "customer_refs db' = customer_refs db \<and> isl y \<or>
      customer_refs db' = customer_refs db @ [Customer_ExternalRef c]" by blast
  then show "\<exists>k \<le> length [Customer_ExternalRef c]. customer_refs (snd (pg_CreateCustomer S c e db)) =
      customer_refs db @ take k [Customer_ExternalRef c] \<and>
      (\<not> isl (fst (pg_CreateCustomer S c e db)) \<longrightarrow> k = length [Customer_ExternalRef c])"
    unfolding run fst_conv snd_conv by (elim disjE) (auto intro: exI [of _ 0] exI [of _ 1])
qed

lemma Onboard_adds:
  assumes "TrimSpace (Onboard_ExternalRef cmd) = ref"
  shows "adds [ref] (Onboard (pg_CreateCustomer S) env cmd)"
proof (cases "Onboard_request env cmd")
  case Inl
  then show ?thesis by (auto simp: adds_def Onboard_def intro: exI [of _ 0])
next
  case (Inr ce)
  obtain c e where ce: "ce = (c, e)" by fastforce
  have "Customer_ExternalRef c = ref"
    using Inr assms ce by (auto simp: Onboard_request_def Let_def split: if_splits)
  moreover have "snd (Onboard (pg_CreateCustomer S) env cmd db) = snd (pg_CreateCustomer S c e db) \<and>
      isl (fst (Onboard (pg_CreateCustomer S) env cmd db)) = isl (fst (pg_CreateCustomer S c e db))" for db
    using Inr ce by (simp add: Onboard_def split: prod.split sum.split)
  ultimately show ?thesis using pg_CreateCustomer_refs [of c S e] by (simp add: adds_def)
qed

lemma pg_ReviewCustomer_adds: "adds [] (pg_ReviewCustomer S i d actor e)"
proof -
  have "customer_refs (snd (pg_ReviewCustomer S i d actor e db)) = customer_refs db" for db
  proof (cases "d \<in> {ReviewApprove, ReviewReject}")
    case True
    let ?status = "if d = ReviewReject then CustomerRejected else CustomerActive"
    have run: "pg_ReviewCustomer S i d actor e db = in_transaction S ''begin review customer transaction: ''
        ''commit review customer transaction: '' (review_work S i ?status actor e) db"
      using True by (auto simp: pg_ReviewCustomer_def)
    obtain db2 where db2: "snd (pg_ReviewCustomer S i d actor e db) = db2" by simp
    consider "db2 = db" | x k where "review_work S i ?status actor e 1 db = Inr (x, k, db2)"
      using in_transaction_committed [of S "''begin review customer transaction: ''"
        "''commit review customer transaction: ''" "review_work S i ?status actor e" db] db2
      unfolding run by metis
    then show ?thesis
    proof cases
      case 2
      then show ?thesis unfolding db2
      proof (rule review_work_okE)
        fix row :: customers_row and db1
        assume row: "map_of (tbl_customers db) i = Some row"
          and db1: "tbl_customers db1 = gput i (row\<lparr>customer_columns := (customer_columns row)\<lparr>Customer_Status := ?status,
           Customer_ReviewedAt := Some (Event_OccurredAt e)\<rparr>, customer_reviewed_by := Some actor\<rparr>) (tbl_customers db)"
          and "insertAuditEvent e db1 = Inr ((), db2)"
        then show "customer_refs db2 = customer_refs db"
          using customer_refs_update [OF row _ db1] event_customers [of e db1 db2] by (simp add: customer_refs_def)
      qed
    qed (simp add: db2)
  qed (auto simp: pg_ReviewCustomer_def)
  then show ?thesis by (simp add: adds_def)
qed

lemma Review_adds: "adds [] (Review (pg_ReviewCustomer S) env i d actor why)"
proof (cases "Review_request env i d actor why")
  case (Inr r)
  obtain i' a e where "r = (i', a, e)" by (metis prod.exhaust)
  then show ?thesis using Inr pg_ReviewCustomer_adds [of S i' d a e] by (simp add: adds_def Review_def)
qed (simp add: adds_def Review_def)

lemma services_add:
  "adds [] (Ingest (pg_CreateTransaction S) env icmd)" "adds [] (Create (pg_CreateCase S) env ai title pr actor)"
  "adds [] (Assign (pg_AssignCase S) env ci who actor)" "adds [] (Comment (pg_AddCaseComment S) env ci body actor)"
  "adds [] (UpdateProfile (pg_UpsertCDDProfile S) env prof actor)"
  "adds [] (AddOwner (pg_AddBeneficialOwner S) env own actor)"
  "adds [] (AddDocument (pg_AddKYCDocument S) env doc actor)"
  "adds [] (ReviewDocument (pg_ReviewKYCDocument S) env di st actor)"
  "adds [] (ScreenCustomer (pg_screening Ss) svc env provider ci actor)"
  "adds [] (ConfigureSchedule (pg_screening Ss) env ci enabled hours actor)"
  by (rule keeps_adds, rule keeps_services keeps_screening,
      simp add: pg_keeps pg_CreateTransaction_keeps pg_screening_def)+

text \<open>The seed adds its three customers, in this order.\<close>

lemma demo_refs_trimmed:
  "TrimSpace (Onboard_ExternalRef harbour) = ''demo-pending-001''"
  "TrimSpace (Onboard_ExternalRef orion_command) = ''demo-orion-001''"
  "TrimSpace (Onboard_ExternalRef nadia_command) = ''demo-nadia-001''"
  by code_simp+

lemma adds_fail: "adds xs (\<lambda>r. (Inl msg, r))"
  by (auto simp: adds_def intro: exI [of _ 0])

lemma adds_return: "adds [] (\<lambda>r. (Inr x, r))"
  by (simp add: adds_def)

lemma pg_handler_sel:
  "do_CreateCustomer (pg_handler cfg Ss) = pg_CreateCustomer (Ss ''CreateCustomer'')"
  "do_ReviewCustomer (pg_handler cfg Ss) = pg_ReviewCustomer (Ss ''ReviewCustomer'')"
  "do_CreateTransaction (pg_handler cfg Ss) = pg_CreateTransaction (Ss ''CreateTransaction'')"
  "do_CreateCase (pg_handler cfg Ss) = pg_CreateCase (Ss ''CreateCase'')"
  "do_AssignCase (pg_handler cfg Ss) = pg_AssignCase (Ss ''AssignCase'')"
  "do_AddCaseComment (pg_handler cfg Ss) = pg_AddCaseComment (Ss ''AddCaseComment'')"
  "do_UpsertCDDProfile (pg_handler cfg Ss) = pg_UpsertCDDProfile (Ss ''UpsertCDDProfile'')"
  "do_AddBeneficialOwner (pg_handler cfg Ss) = pg_AddBeneficialOwner (Ss ''AddBeneficialOwner'')"
  "do_AddKYCDocument (pg_handler cfg Ss) = pg_AddKYCDocument (Ss ''AddKYCDocument'')"
  "do_ReviewKYCDocument (pg_handler cfg Ss) = pg_ReviewKYCDocument (Ss ''ReviewKYCDocument'')"
  "Handler.screening_repository (pg_handler cfg Ss) = pg_screening Ss"
  by (simp_all add: pg_handler_def)

lemma seed_run_adds: "adds demoRefs (seed_run w)"
proof -
  have alerts: "adds ys (case as of [] \<Rightarrow> (\<lambda>r. (Inl msg, r)) | a # as' \<Rightarrow> f a as')"
    if "\<And>a as'. adds ys (f a as')" for ys msg as and f :: "Alert \<Rightarrow> Alert list \<Rightarrow> Database \<Rightarrow> (string + unit) \<times> Database"
    using that by (cases as) (simp_all add: adds_fail)
  have first: "adds (ref # xs) (seed_step w0 (Onboard (pg_CreateCustomer S) env cmd) continue)"
    if "TrimSpace (Onboard_ExternalRef cmd) = ref" and "\<And>x. adds xs (continue x)"
    for ref xs w0 S env cmd and continue :: "Customer \<Rightarrow> Database \<Rightarrow> (string + unit) \<times> Database"
    using seed_step_adds [OF Onboard_adds [OF that(1)] that(2)] by simp
  show ?thesis
    unfolding seed_run_def seed_def pg_handler_sel Let_def demoRefs_def
    by (rule first demo_refs_trimmed seed_step_keeps services_add Review_adds alerts adds_return)+
qed

section \<open>Properties\<close>

lemma demo_main_cases:
  assumes "demo_main w run_file (mdb, db) = (out, mdb', db')"
  obtains (unchanged) "db' = db" and "out \<noteq> Printed demo_created"
    | (seeded) y where "Demo_Getenv w ''CONFIRM_DEMO_SEED'' = ''seed''"
        and "set demoRefs \<inter> set (customer_refs db) = {}"
        and "seed_run w db = (y, db')" and "out = Printed demo_created \<longleftrightarrow> \<not> isl y"
proof -
  have texts: "demo_present \<noteq> demo_created" by (simp add: demo_present_def demo_created_def)
  have empty: "set demoRefs \<inter> set (customer_refs db) = {}"
    if "demoState S db = Inr 0" for S
    using that by (auto simp: demoState_def query_def filter_empty_conv split: option.splits)
  have "db' = db \<and> out \<noteq> Printed demo_created \<or>
      Demo_Getenv w ''CONFIRM_DEMO_SEED'' = ''seed'' \<and> demoState (Demo_Counting w) db = Inr 0 \<and>
      snd (seed_run w db) = db' \<and> (out = Printed demo_created \<longleftrightarrow> \<not> isl (fst (seed_run w db)))"
    using assms texts unfolding demo_main_def fst_conv snd_conv
    by (auto split: if_splits option.splits sum.splits prod.splits)
  then show thesis
    using empty unchanged seeded [of "fst (seed_run w db)"] by (metis prod.collapse)
qed

text \<open>
  C19. Demo data is written once. Whatever fails, \<^verbatim>\<open>demoseed\<close> changes the rows only when
  \<^verbatim>\<open>CONFIRM_DEMO_SEED\<close> is \<^verbatim>\<open>seed\<close> and the database holds none of the demo customers; of customers it
  then adds a prefix of its three, in order; and when it reports that the data set was created, all
  three are there, and no later run of the command, whatever fails in it, changes a row again.
\<close>

theorem demo_seed_once:
  fixes run_file :: "string \<Rightarrow> 's \<Rightarrow> string + 's"
  assumes "demo_main w run_file (mdb, db) = (out, mdb', db')"
  shows "(db' \<noteq> db \<longrightarrow> Demo_Getenv w ''CONFIRM_DEMO_SEED'' = ''seed'' \<and>
       set demoRefs \<inter> set (customer_refs db) = {}) \<and>
     (\<exists>k \<le> 3. customer_refs db' = customer_refs db @ take k demoRefs) \<and>
     (out = Printed demo_created \<longrightarrow> customer_refs db' = customer_refs db @ demoRefs \<and>
       (\<forall>w2 run2 (mdb2 :: 's migrated). snd (snd (demo_main w2 run2 (mdb2, db'))) = db'))"
  using assms
proof (cases rule: demo_main_cases)
  case unchanged
  then show ?thesis by (auto intro: exI [of _ 0])
next
  case (seeded y)
  have length: "length demoRefs = 3" by (simp add: demoRefs_def)
  from seed_run_adds [of w] seeded(3) obtain k where k: "k \<le> 3"
    "customer_refs db' = customer_refs db @ take k demoRefs" "\<not> isl y \<Longrightarrow> k = 3"
    unfolding adds_def length by (metis fst_conv snd_conv)
  have again: "snd (snd (demo_main w2 run2 (mdb2, db'))) = db'" if "\<not> isl y"
    for w2 run2 and mdb2 :: "'s migrated"
  proof -
    obtain out2 mdb3 db2 where run2: "demo_main w2 run2 (mdb2, db') = (out2, mdb3, db2)" by (metis prod.exhaust)
    then show ?thesis
    proof (cases rule: demo_main_cases)
      case (seeded y')
      have "set demoRefs \<noteq> {}" by (simp add: demoRefs_def)
      then have False using k that seeded(2) length by auto
      then show ?thesis ..
    qed (simp add: run2)
  qed
  have "isl y \<or> customer_refs db' = customer_refs db @ demoRefs" using k length by auto
  with seeded k again show ?thesis by blast
qed

text \<open>A database with the three customers counts as complete, whatever else of the data set is missing.\<close>

lemma demo_present_reported:
  assumes "filter (\<lambda>ref. ref \<in> set demoRefs) (customer_refs db) = demoRefs"
    and "Demo_Getenv w ''CONFIRM_DEMO_SEED'' = ''seed''" and "Demo_Getenv w ''DATABASE_URL'' \<noteq> []"
    and "Demo_Pool w = None" and "Demo_Ping w = None" and "Up (Demo_Migrating w) run_file mdb = (Inr (), mdb')"
    and "Demo_Counting w = calm"
  shows "demo_main w run_file (mdb, db) = (Printed demo_present, mdb', db)"
  using assms by (simp add: demo_main_def demoState_def query_def calm_def)

section \<open>A run of the seed\<close>

text \<open>Operations one after another; each gives a label of its result.\<close>

definition labelled :: "('a \<Rightarrow> string) \<Rightarrow> ('a, 'r) repo_op \<Rightarrow> (string, 'r) repo_op" where
  "labelled key run r = (case run r of (x, r') \<Rightarrow> (map_sum id key x, r'))"

fun run_all :: "(string, 'r) repo_op list \<Rightarrow> 'r \<Rightarrow> string list option" where
  "run_all [] r = Some []"
| "run_all (f # fs) r = (case f r of (Inl _, _) \<Rightarrow> None | (Inr a, r') \<Rightarrow> map_option ((#) a) (run_all fs r'))"

lemma run_all_Some:
  "run_all (labelled key run # fs) r = Some (a # as) \<longleftrightarrow>
     (\<exists>x r'. run r = (Inr x, r') \<and> key x = a \<and> run_all fs r' = Some as)"
  by (cases "run r"; cases "fst (run r)") (auto simp: labelled_def split: option.splits)

definition first_alert :: "IngestTransactionResult \<Rightarrow> string" where
  "first_alert x = (case Ingested_Alerts x of [] \<Rightarrow> [] | a # _ \<Rightarrow> Alert_ID a)"

lemma first_alert_iff: "first_alert x = c # s \<Longrightarrow> \<exists>a as. Ingested_Alerts x = a # as \<and> Alert_ID a = c # s"
  by (auto simp: first_alert_def split: list.splits)

definition sample_env :: "nat \<Rightarrow> call_env" where
  "sample_env k = call [char_of (97 + k)] (20000000000000 + int k)"

definition sample_seed :: seed_world where
  "sample_seed = \<lparr>Demo_Getenv = (\<lambda>name. if name = ''CONFIRM_DEMO_SEED'' then ''seed'' else ''db''), Demo_Pool = None,
     Demo_Ping = None, Demo_Migrating = calm, Demo_Counting = calm, Demo_Sessions = (\<lambda>_ _. calm),
     Demo_Settings = two_config, Demo_Envs = sample_env, Demo_Unicode = id,
     Demo_WorkerID = ''w'', Demo_NextReview = 365, Demo_Now = 10000000000000 + 2 * Hour\<rparr>"

definition sample_ops :: "Database Handler \<Rightarrow> ScreeningService \<Rightarrow> (string, Database) repo_op list" where
  "sample_ops h svc =
     [labelled Customer_ID (Onboard (do_CreateCustomer h) (sample_env 0) harbour),
      labelled Customer_ID (Onboard (do_CreateCustomer h) (sample_env 1) orion_command),
      labelled Customer_ID (Review (do_ReviewCustomer h) (sample_env 2) ''b'' ReviewApprove ''demo-reviewer'' ''Demo maker-checker approval''),
      labelled Profile_CustomerID (UpdateProfile (do_UpsertCDDProfile h) (sample_env 3) (demo_profile ''b'' ''Documented wholesale trading revenue''
         ''Cross-border wholesale settlement'' 25000000 CDDComplete 365) ''demo-analyst''),
      labelled Owner_ID (AddOwner (do_AddBeneficialOwner h) (sample_env 4) (orion_owner ''b'') ''demo-analyst''),
      labelled Document_ID (AddDocument (do_AddKYCDocument h) (sample_env 5) (orion_document ''b'') ''demo-analyst''),
      labelled Document_ID (ReviewDocument (do_ReviewKYCDocument h) (sample_env 6) ''f'' DocumentVerified ''demo-reviewer''),
      labelled first_alert (Ingest (do_CreateTransaction h) (sample_env 7) (orion_payment ''b'' 10000000000000)),
      labelled Case_ID (Create (do_CreateCase h) (sample_env 8) ''h||''
         ''Review Orion high-value cross-border payment'' CasePriorityHigh ''demo-analyst''),
      labelled Case_ID (Assign (do_AssignCase h) (sample_env 9) ''i'' ''demo-analyst'' ''demo-reviewer''),
      labelled Comment_ID (Comment (do_AddCaseComment h) (sample_env 10) ''i''
         ''Escalated for source-of-funds and counterparty verification.'' ''demo-analyst''),
      labelled (\<lambda>_. []) (ScreenCustomer (Handler.screening_repository h) svc (sample_env 11) (DemoProvider id) ''b'' ''demo-analyst''),
      labelled (\<lambda>_. []) (ConfigureSchedule (Handler.screening_repository h) (sample_env 12) ''b'' True 24 ''demo-reviewer''),
      labelled Customer_ID (Onboard (do_CreateCustomer h) (sample_env 13) nadia_command),
      labelled Customer_ID (Review (do_ReviewCustomer h) (sample_env 14) ''n'' ReviewApprove ''demo-reviewer''
         ''Demo enhanced-due-diligence approval''),
      labelled Profile_CustomerID (UpdateProfile (do_UpsertCDDProfile h) (sample_env 15) (demo_profile ''n'' ''Declared professional income''
         ''Personal investment account'' 500000 CDDInReview 365) ''demo-analyst''),
      labelled (\<lambda>_. []) (ScreenCustomer (Handler.screening_repository h) svc (sample_env 16) (DemoProvider id) ''n'' ''demo-analyst'')]"

lemma sample_run:
  "run_all (sample_ops (pg_handler two_config (\<lambda>_. calm)) (NewScreeningService ''w'')) empty_database =
     Some [''a'', ''b'', ''b'', ''b'', ''e'', ''f'', ''f'', ''h||'', ''i'', ''i'', ''k'', [], [], ''n'', ''n'', ''n'', []]"
  by code_simp

lemma sample_seed_run: "\<exists>db'. seed_run sample_seed empty_database = (Inr (), db')"
proof -
  note sample_run [unfolded sample_ops_def run_all_Some]
  then show ?thesis
    by (elim exE conjE)
      (frule first_alert_iff, elim exE conjE, simp add: seed_run_def sample_seed_def seed_def seed_step_def Let_def)
qed

theorem demo_seed_once_witness:
  "\<exists>mdb' db'. demo_main sample_seed listing (\<lparr>schema_migrations = None, schema = []\<rparr>, empty_database) =
       (Printed demo_created, mdb', db') \<and> customer_refs db' = demoRefs \<and>
     (\<forall>w. snd (snd (demo_main w listing (mdb', db'))) = db')"
proof -
  obtain db' where db': "seed_run sample_seed empty_database = (Inr (), db')" using sample_seed_run by blast
  have "isl (fst (Up calm listing \<lparr>schema_migrations = None, schema = []\<rparr>)) = False" by code_simp
  then obtain mdb' where "Up calm listing \<lparr>schema_migrations = None, schema = []\<rparr> = (Inr (), mdb')"
    by (metis (full_types) old.unit.exhaust prod.collapse sum.collapse(2))
  moreover have none: "customer_refs empty_database = []" by (simp add: customer_refs_def empty_database_def)
  then have counting: "demoState calm empty_database = Inr 0" by (simp add: demoState_def query_def calm_def)
  have sel: "Demo_Getenv sample_seed ''CONFIRM_DEMO_SEED'' = ''seed''" "Demo_Getenv sample_seed ''DATABASE_URL'' = ''db''"
    "Demo_Pool sample_seed = None" "Demo_Ping sample_seed = None" "Demo_Migrating sample_seed = calm"
    "Demo_Counting sample_seed = calm"
    by (simp_all add: sample_seed_def)
  ultimately have run: "demo_main sample_seed listing (\<lparr>schema_migrations = None, schema = []\<rparr>, empty_database) =
       (Printed demo_created, mdb', db')"
    by (simp add: demo_main_def sel counting db' demoRefs_def)
  from demo_seed_once [OF run] run show ?thesis by (simp add: none)
qed

end
