(* ===== verification/Provider_Check.thy ===== *)
theory Provider_Check
  imports Durations Providers
begin

text \<open>
  \<^verbatim>\<open>cmd/providercheck/main.go\<close>: one screening by the configured provider, to check that its answers keep
  the contract. The deadline of the whole check is among the failures of a request.
\<close>

definition valueOr :: "(string \<Rightarrow> string) \<Rightarrow> string \<Rightarrow> string \<Rightarrow> string" where
  "valueOr getenv name fallback = (if getenv name \<noteq> [] then getenv name else fallback)"

text \<open>Left the error, right the line that is printed.\<close>

definition check_provider ::
  "(string \<Rightarrow> string) \<Rightarrow> tls_world \<Rightarrow> provider_call \<Rightarrow> string + string" where
  "check_provider getenv W c =
     (let endpoint = getenv ''SCREENING_PROVIDER_URL''; subject = getenv ''SCREENING_PROVIDER_CHECK_NAME''
      in if endpoint = [] \<or> subject = []
         then Inl ''SCREENING_PROVIDER_URL and SCREENING_PROVIDER_CHECK_NAME are required''
         else (case ParseDuration (valueOr getenv ''SCREENING_PROVIDER_TIMEOUT'' ''5s'') of
             None \<Rightarrow> Inl ''SCREENING_PROVIDER_TIMEOUT must be a positive duration''
           | Some timeout \<Rightarrow>
         if timeout \<le> 0 then Inl ''SCREENING_PROVIDER_TIMEOUT must be a positive duration''
         else (case Atoi (valueOr getenv ''SCREENING_PROVIDER_RETRIES'' ''0'') of
             None \<Rightarrow> Inl ''SCREENING_PROVIDER_RETRIES must be between 0 and 10''
           | Some retries \<Rightarrow>
         if retries < 0 \<or> 10 < retries then Inl ''SCREENING_PROVIDER_RETRIES must be between 0 and 10''
         else (case ParseBool (valueOr getenv ''SCREENING_PROVIDER_ALLOW_HTTP'' ''false'') of
             None \<Rightarrow> Inl ''SCREENING_PROVIDER_ALLOW_HTTP must be true or false''
           | Some allowHTTP \<Rightarrow>
         (case NewConfiguredHTTPProvider W
                 \<lparr>Config_Endpoint = endpoint, Config_APIKey = getenv ''SCREENING_PROVIDER_API_KEY'',
                  Config_Name = valueOr getenv ''SCREENING_PROVIDER_NAME'' ''external-http-screening-v1'',
                  Config_OpenFor = 30 * 1000000000, Config_Retries = retries,
                  Config_CAFile = getenv ''SCREENING_PROVIDER_CA_FILE'',
                  Config_ClientCertFile = getenv ''SCREENING_PROVIDER_CLIENT_CERT_FILE'',
                  Config_ClientKeyFile = getenv ''SCREENING_PROVIDER_CLIENT_KEY_FILE'',
                  Config_AllowInsecureHTTP = allowHTTP\<rparr> of
             Inl err \<Rightarrow> Inl (error_text err)
           | Inr provider \<Rightarrow>
               (case HTTPProvider_Screen c subject provider of
                  (Inl err, _) \<Rightarrow> Inl (''provider conformance check failed: '' @ error_text err)
                | (Inr candidates, _) \<Rightarrow>
                    Inr (''provider='' @ hp_name provider @ '' contract=valid candidates='' @
                      show_int (int (length candidates)))))))))"

lemma read_answer_valid:
  "read_answer decode a = Inr candidates \<Longrightarrow> length candidates \<le> 100 \<and> list_all valid_candidate candidates"
  by (auto simp: read_answer_def Let_def split: provider_answer.splits if_splits sum.splits option.splits bool.splits)

text \<open>A check that passes has seen an answer that keeps the contract, after at most ten retries.\<close>

lemma check_provider_passed:
  assumes "check_provider getenv W c = Inr report"
  obtains p n candidates where "n \<le> 10"
    and "read_answer (Decode_Payload c) (Do_Request c n (HTTPProvider_request c p (getenv ''SCREENING_PROVIDER_CHECK_NAME''))) =
      Inr candidates"
    and "length candidates \<le> 100" and "list_all valid_candidate candidates"
    and "report = ''provider='' @ hp_name p @ '' contract=valid candidates='' @ show_int (int (length candidates))"
proof -
  obtain config p where conf: "NewConfiguredHTTPProvider W config = Inr p" "0 \<le> Config_Retries config"
      "Config_Retries config \<le> 10"
    and fst: "\<exists>candidates. fst (HTTPProvider_Screen c (getenv ''SCREENING_PROVIDER_CHECK_NAME'') p) = Inr candidates \<and>
      report = ''provider='' @ hp_name p @ '' contract=valid candidates='' @ show_int (int (length candidates))"
    using assms unfolding check_provider_def Let_def
    by (auto split: if_splits option.splits sum.splits prod.splits)
  have p: "hp_retries p = Config_Retries config" "hp_openUntil p = zero_time"
    using conf(1) by (auto simp: NewConfiguredHTTPProvider_def NewHTTPProvider_def Let_def
        split: option.splits if_splits)
  obtain candidates sent p' where
    run: "HTTPProvider_Screen c (getenv ''SCREENING_PROVIDER_CHECK_NAME'') p = (Inr candidates, sent, p')"
    and report: "report = ''provider='' @ hp_name p @ '' contract=valid candidates='' @ show_int (int (length candidates))"
    using fst by (metis prod.collapse)
  have "\<not> Checked_At c < hp_openUntil p" using run by (auto simp: HTTPProvider_Screen_def)
  let ?answer = "\<lambda>n. read_answer (Decode_Payload c)
      (Do_Request c n (HTTPProvider_request c p (getenv ''SCREENING_PROVIDER_CHECK_NAME'')))"
  have "0 \<le> hp_retries p" using p conf(2) by simp
  from provider_attempts [OF this run \<open>\<not> Checked_At c < hp_openUntil p\<close>]
  obtain n where n: "int n \<le> hp_retries p"
    and res: "case ?answer n of Inr cs \<Rightarrow> (Inr candidates :: ScreeningCandidate list result) = Inr cs
      | Inl (retry, err) \<Rightarrow> (Inr candidates :: ScreeningCandidate list result) = Inl (OtherError err) \<and>
          (retry \<longrightarrow> int n = hp_retries p)" by blast
  from res have answer: "read_answer (Decode_Payload c) (Do_Request c n (HTTPProvider_request c p (getenv ''SCREENING_PROVIDER_CHECK_NAME''))) =
      Inr candidates" by (cases "?answer n") auto
  moreover from read_answer_valid [OF this] have "length candidates \<le> 100" "list_all valid_candidate candidates" by blast+
  moreover have "n \<le> 10" using n p conf(3) by simp
  ultimately show thesis using that report by blast
qed

end
