(* ===== verification/Tracing.thy ===== *)
theory Tracing
  imports Routes
begin

text \<open>
  \<^verbatim>\<open>internal/observability/tracing.go\<close>: what the spans record. A span is the data that is handed to
  OpenTelemetry; sampling, identifiers and export are the library's. The spans of the services carry
  only names and are left out.
\<close>

datatype span_kind = SpanKindServer | SpanKindClient | SpanKindInternal

record trace_span =
  Span_Name :: string
  Span_Kind :: span_kind
  Span_Attributes :: "(string \<times> payload_value) list"
  Span_Recorded :: "string list"
  Span_Error :: "string option"

definition start_span :: "string \<Rightarrow> span_kind \<Rightarrow> (string \<times> payload_value) list \<Rightarrow> trace_span" where
  "start_span name kind attributes = \<lparr>Span_Name = name, Span_Kind = kind, Span_Attributes = attributes,
     Span_Recorded = [], Span_Error = None\<rparr>"

text \<open>Only an exporter that cannot be made is an error; without an endpoint there is none.\<close>

definition InitTracing :: "(string \<Rightarrow> string option) \<Rightarrow> string \<Rightarrow> string \<Rightarrow> string option" where
  "InitTracing new_exporter endpoint service = (if endpoint \<noteq> [] then new_exporter endpoint else None)"

section \<open>Requests\<close>

text \<open>\<open>pattern\<close> is \<^verbatim>\<open>r.Pattern\<close> once the handler has returned, empty when no route matched.\<close>

definition TraceMiddleware ::
  "(request \<Rightarrow> 's \<Rightarrow> response \<times> 's) \<Rightarrow> string \<Rightarrow> request \<Rightarrow> 's \<Rightarrow> (response \<times> 's) \<times> trace_span" where
  "TraceMiddleware next_handler pattern r st =
     (let path = URL_Path r;
          span = start_span (Request_Method r @ '' '' @ path) SpanKindServer
            [(''http.request.method'', PString (Request_Method r)), (''url.path'', PString path)];
          (resp, st') = next_handler r st;
          span = (if pattern \<noteq> []
                  then span\<lparr>Span_Name := pattern,
                            Span_Attributes := Span_Attributes span @ [(''http.route'', PString pattern)]\<rparr>
                  else span);
          status = (if Response_Status resp = 0 then 200 else Response_Status resp);
          span = span\<lparr>Span_Attributes := Span_Attributes span @ [(''http.response.status_code'', PInt status)]\<rparr>;
          span = (if 500 \<le> status then span\<lparr>Span_Error := Some (show_int status)\<rparr> else span)
      in ((resp, st'), span))"

definition traced_handler ::
  "'r Handler \<Rightarrow> server_call \<Rightarrow> request \<Rightarrow> 'r inner_state \<Rightarrow> (response \<times> 'r inner_state) \<times> trace_span" where
  "traced_handler h c r st = TraceMiddleware (NewHandler h c) (fst (snd (mux h c r st))) r st"

text \<open>Tracing changes neither the response nor the state, and a span is an error exactly from status 500.\<close>

lemma traced_handler_transparent: "fst (traced_handler h c r st) = NewHandler h c r st"
  by (simp add: traced_handler_def TraceMiddleware_def Let_def split: prod.split)

lemma traced_handler_error:
  assumes "traced_handler h c r st = ((resp, st'), sp)"
  shows "Span_Error sp \<noteq> None \<longleftrightarrow> 500 \<le> Response_Status resp"
  using assms by (auto simp: traced_handler_def TraceMiddleware_def Let_def start_span_def
      split: prod.splits if_splits)

text \<open>The identifiers a log line carries; \<open>context\<close> is the span context, if it is valid.\<close>

definition TraceIDs :: "(string \<times> string) option \<Rightarrow> string \<times> string" where
  "TraceIDs valid_context = (case valid_context of None \<Rightarrow> ([], []) | Some ids \<Rightarrow> ids)"

section \<open>Statements\<close>

text \<open>The loop over the text: up to the first blank, line end or tab that is not its first character.\<close>

fun scan_operation :: "string \<Rightarrow> nat \<Rightarrow> string \<Rightarrow> string" where
  "scan_operation sql i [] = (if sql = [] then ''unknown'' else sql)"
| "scan_operation sql i (c # rest) =
     (if (c = CHR '' '' \<or> c = CHR 0x0A \<or> c = CHR 0x09) \<and> 0 < i then take i sql
      else scan_operation sql (i + 1) rest)"

definition queryOperation :: "string \<Rightarrow> string" where
  "queryOperation sql = scan_operation sql 0 sql"

definition TraceQueryStart :: "string \<Rightarrow> trace_span" where
  "TraceQueryStart sql = start_span ''postgresql.query'' SpanKindClient
     [(''db.system'', PString ''postgresql''), (''db.operation.name'', PString (queryOperation sql))]"

definition TraceQueryEnd :: "trace_span option \<Rightarrow> string option \<Rightarrow> trace_span option" where
  "TraceQueryEnd started err =
     (case (started, err) of
        (Some sp, Some msg) \<Rightarrow>
          Some (sp\<lparr>Span_Recorded := Span_Recorded sp @ [msg], Span_Error := Some msg\<rparr>)
      | _ \<Rightarrow> started)"

definition StartWorkerSpan :: "string \<Rightarrow> trace_span" where
  "StartWorkerSpan name = start_span name SpanKindInternal []"

definition sql_blank :: "char \<Rightarrow> bool" where
  "sql_blank c \<longleftrightarrow> c = CHR '' '' \<or> c = CHR 0x0A \<or> c = CHR 0x09"

lemma scan_operation_prefix:
  "sql = done_part @ rest \<Longrightarrow> done_part \<noteq> [] \<Longrightarrow>
   scan_operation sql (length done_part) rest = done_part @ takeWhile (\<lambda>c. \<not> sql_blank c) rest"
proof (induction rest arbitrary: done_part)
  case (Cons c rest)
  then show ?case using Cons.IH [of "done_part @ [c]"] by (auto simp: sql_blank_def)
qed simp

text \<open>
  So the operation is the first character with what follows it up to a blank: the verb of a statement
  on one line, but a mere line end for the statements that the repository begins on a line of their
  own and indents.
\<close>

lemma queryOperation_eq:
  "queryOperation [] = ''unknown''"
  "queryOperation (c # rest) = c # takeWhile (\<lambda>c. \<not> sql_blank c) rest"
  using scan_operation_prefix [of "c # rest" "[c]" rest] by (simp_all add: queryOperation_def)

lemma queryOperation_indented: "queryOperation (CHR 0x0A # CHR 0x09 # sql) = [CHR 0x0A]"
  by (simp add: queryOperation_eq sql_blank_def)

end
