(* ===== verification/Spec2Isabelle.thy ===== *)
theory Spec2Isabelle
  imports Screening_Properties Memory_Pages Identifiers Postgres_Properties Auth Backends Providers Migrations Senders Process Demo_Seed Provider_Check Tracing
begin

text \<open>
  A verification library of the financial crime compliance platform, a Go service that onboards
  customers under a maker-checker rule, ingests and monitors transactions, works alerts in cases,
  keeps due diligence records, screens customers against lists and delivers notifications.

  \<^bold>\<open>The program and the theories.\<close> The program is in layers, and each theory follows one of its files.
  \<^item> \<open>Prelude\<close>, \<open>Go_Strings\<close>, \<open>Encoding\<close> and \<open>Floats\<close> hold what is used of the language and its
    library: byte strings, instants, maps as association lists, sorting, base64, \<^verbatim>\<open>float64\<close>.
  \<^item> \<^verbatim>\<open>internal/domain\<close>: \<open>Domain\<close> (records and string enums, one field prefix per type, sentinel errors
    as constructors of \<open>error\<close>), \<open>Risk\<close> (the risk engine), \<open>Monitoring\<close> (the rules on transactions).
  \<^item> \<^verbatim>\<open>internal/application\<close>: \<open>Onboarding\<close>, \<open>Transactions\<close>, \<open>Cases\<close>, \<open>Due_Diligence\<close>, \<open>Queries\<close> with
    \<open>Pages\<close>, \<open>Screening\<close> with \<open>Backoff\<close> and \<open>Ongoing_Monitoring\<close>, \<open>Delivery\<close>, \<open>Identifiers\<close>. A service
    function takes the repository operations it calls, a call environment (the clock, the identifiers
    drawn) and its arguments, and returns a result (\<open>Inl\<close> an error) and the repository afterwards.
  \<^item> \<^verbatim>\<open>internal/infrastructure/memory\<close>: \<open>Memory\<close>, \<open>Memory_Screening\<close>, \<open>Memory_Pages\<close>; \<open>Memory_Contracts\<close>
    interprets the services' locales on it. The mutex makes each operation one step.
  \<^item> \<^verbatim>\<open>internal/infrastructure/postgres\<close> and \<^verbatim>\<open>migrations\<close>: \<open>Sql\<close> (statements, transactions, constraint
    violations, and sessions that decide which round trips fail and whether the answer of a commit is
    lost), \<open>Postgres\<close>, \<open>Postgres_Screening\<close>, \<open>Postgres_Queues\<close>, \<open>Postgres_Pages\<close>, \<open>Leases\<close>,
    \<open>Postgres_Delivery\<close>.
  \<^item> \<^verbatim>\<open>internal/auth\<close>: \<open>Auth\<close>, bearer tokens and the cache of the identity provider's keys.
  \<^item> \<^verbatim>\<open>internal/transport/httpapi\<close>: \<open>Http\<close> (requests, responses, what JSON decoding gives), \<open>Handlers\<close> (one
    definition per endpoint), \<open>Routes\<close> (the table of routes, \<^verbatim>\<open>ServeMux\<close>, authentication, roles).
  \<^item> \<^verbatim>\<open>internal/security\<close>: \<open>Rate_Limiter\<close>, in \<^verbatim>\<open>float64\<close> arithmetic; \<^verbatim>\<open>internal/observability\<close>: \<open>Metrics\<close> and
    \<open>Tracing\<close>.
  \<^item> \<^verbatim>\<open>internal/infrastructure/screening\<close> and \<^verbatim>\<open>notification\<close>: \<open>Providers\<close> (the demo list, the HTTP provider
    with retries and circuit breaker) and \<open>Senders\<close> (router, SMTP, webhook); \<^verbatim>\<open>migrations\<close>: \<open>Migrations\<close>.
  \<^item> \<^verbatim>\<open>cmd\<close>: \<open>Durations\<close> and \<open>Startup\<close> (environment and configuration of \<^verbatim>\<open>api\<close>), \<open>Process\<close> (its workers
    and the running process), \<open>Demo_Seed\<close>, \<open>Provider_Check\<close>.

  \<^bold>\<open>What is shown.\<close> \<open>Workflow\<close> makes every call of a service one step of a transition system over the
  memory repository and classifies what a step can change; \<open>Invariants\<close> and \<open>Case_Invariants\<close> prove the
  invariants of the reachable states, \<open>Scenario\<close> is a concrete run for the witnesses, and this theory
  and \<open>Screening_Properties\<close> draw the properties: maker and checker, final decisions, the alert life
  cycle, replayed ingestion, cases and their alerts, audit trails, exactness of monitoring and
  screening, leases of schedules. \<open>Refinement\<close>, \<open>Refinement_Core\<close> and \<open>Refinement_Screening\<close> show that
  each PostgreSQL operation simulates its memory counterpart; \<open>Postgres_Workflow\<close> lifts this to runs,
  with failures and lost acknowledgements at any point, and \<open>Postgres_Properties\<close> transfers the
  invariants and adds atomicity, exactly-once ingestion, delivery and leases.
  \<open>Auth\<close> shows what an accepted token proves, \<open>Rate_Limiter\<close> bounds what is admitted, \<open>Metrics\<close> that
  histograms count exactly. \<open>Access\<close> proves over the locale \<open>customers_backend\<close> what serving requests can
  do to customers, \<open>Backends\<close> interprets it on both repositories, and \<open>Process\<close> composes it with the
  start of \<^verbatim>\<open>cmd/api\<close> and its workers: each tick is a run of the background writes the locale allows.
  \<open>Providers\<close>, \<open>Senders\<close>, \<open>Migrations\<close>, \<open>Startup\<close> and \<open>Demo_Seed\<close> hold the properties of their parts:
  retries end and the circuit opens exactly when it should, no header is injected into a mail,
  migrations run once, a start is configured soundly, demo data is written once.

  \<^bold>\<open>Interfaces.\<close> A service's repository is a locale (\<open>customer_repository\<close>, \<open>transaction_repository\<close>,
  \<open>case_repository\<close>, \<open>screening_repository\<close>, \<open>delivery_repository\<close>, \<open>paged_source\<close> and others) whose laws
  the memory or PostgreSQL operations discharge by interpretation.

  \<^bold>\<open>Parameters and bounds.\<close> Left as parameters, with no or only documented hypotheses: the screening
  provider's answers, the sender of a delivery, \<^verbatim>\<open>mail.ParseAddress\<close>, the JSON text inside a page token,
  Unicode case tables beyond ASCII, the database's choice of row order among ties and its failures,
  the cryptographic primitives and the fetch of the key set, \<^verbatim>\<open>encoding/json\<close>, URL and
  certificate parsing, \<^verbatim>\<open>strconv.ParseFloat\<close>, the answers of the network, the text of a migration
  file.
  Walking a listing uses fuel: one page per item and one more, which \<open>walk_all\<close> shows to be enough. The
  two doubling loops recurse on the attempts left. Timestamps are nanoseconds since year 1, and
  columns are taken at the resolution of their clock. Identifiers are texts; the cast of a malformed
  UUID is one of the failures a session may report.

  \<^bold>\<open>Not modelled.\<close> Log lines, exit codes and the delivery of signals; OpenTelemetry itself, and the spans
  the services start, which carry only names; what a \<^verbatim>\<open>context\<close> cancels, other than as a failure of the
  call it is passed to; the rate limiter with a rate that is \<^verbatim>\<open>NaN\<close>, and overlapping steps: a method of a
  repository, a request and a tick of a worker are one step each. The interfaces and constructors that
  only store what they are given have no definition of their own.
\<close>

section \<open>Stability of what was stored\<close>

lemma steps_reachable: "rtranclp step r r' \<Longrightarrow> reachable r \<Longrightarrow> reachable r'"
  by (induction rule: rtranclp_induct) (auto intro: reachable.more)

lemma steps_induct_reachable:
  assumes "rtranclp step r r'" and "reachable r" and "P r"
    and "\<And>s s'. reachable s \<Longrightarrow> change s s' \<Longrightarrow> P s \<Longrightarrow> P s'"
  shows "P r'"
  using assms(1)
proof (induction rule: rtranclp_induct)
  case base
  then show ?case by (rule assms(3))
next
  case (step y z)
  have "reachable y" by (rule steps_reachable [OF step.hyps(1) assms(2)])
  then show ?case using assms(4) step reachable_change by blast
qed

lemma change_decided_kept:
  assumes "change r r'" and wf: "repo_wf r" and ap: "apart r"
    and c: "mem_customer r i = Some c" and "Customer_Status c \<noteq> CustomerPendingApproval"
  shows "mem_customer r' i = Some c"
  using assms(1)
proof (cases rule: change.cases)
  case (submit env cmd c1 e)
  have "Customer_ID c1 = Env_IDs env 0" using submit(2) by (rule Onboard_requestE)
  then show ?thesis using submit(3) c fresh_idsD(1) [OF submit(1), of 0] by auto
next
  case (ingest env icmd t te as es)
  then show ?thesis using c ingest_effects(1) [OF ingest(1,2,5)] by simp
qed (use c assms(5) in \<open>auto simp: side_def\<close>)

lemma change_recorded_kept:
  assumes "change r r'" and wf: "repo_wf r" and t: "mem_recorded r k = Some t"
  shows "mem_recorded r' k = Some t"
  using assms(1)
proof (cases rule: change.cases)
  case (ingest env icmd t1 te as es)
  obtain i where i: "map_of (repo_idempotency r) k = Some i" "mem_transaction r i = Some t"
    using t by (rule recorded_SomeE)
  have len: "length as = length es" using ingest(2) by (auto elim: Ingest_requestE)
  have ids: "distinct (map Alert_ID as)"
    using mem_transactions.new_ids_distinct [OF ingest(1,2)] by simp
  have "k \<noteq> Transaction_IdempotencyKey t1" using i(1) ingest(3) by auto
  moreover have "i \<noteq> Transaction_ID t1" using i(2) ingest_effects(4) [OF ingest(1,2,5)] by auto
  ultimately show ?thesis
    using i store_transaction_effects(2,3) [OF len ids ingest(5)] by (simp add: mem_recorded_def)
qed (use t in \<open>auto simp: side_def mem_recorded_def\<close>)

lemma change_stuck_kept:
  assumes "change r r'" and inv: "system_inv r"
    and c: "mem_case r i = Some c" "Case_Status c \<noteq> CaseResolved"
    and a: "mem_alert r (Case_AlertID c) = Some a" "Alert_Status a = AlertClosed"
  shows "\<exists>c'. mem_case r' i = Some c' \<and> Case_Status c' \<noteq> CaseResolved \<and>
    Case_AlertID c' = Case_AlertID c \<and> mem_alert r' (Case_AlertID c) = Some a"
proof -
  have kept: "mem_alert r' (Case_AlertID c) = Some a"
    by (rule change_alert_kept [OF assms(1) a(1)]) (use a(2) in auto)
  show ?thesis
    using assms(1)
  proof (cases rule: change.cases)
    case (ingest env icmd t te as es)
    then show ?thesis using c kept ingest_effects(2) [OF ingest(1,2,5)] by simp
  next
    case (open_case env cs al e)
    then show ?thesis using c kept fresh_idsD(4) [OF open_case(1), of 0] by auto
  next
    case (touch_case j cs cs' e m)
    then show ?thesis using c kept by (cases "i = j") auto
  next
    case (resolve j cs al actor why ce ae cs' al')
    then show ?thesis using c kept a by (cases "i = j") auto
  qed (use c kept in \<open>auto simp: side_def\<close>)
qed

section \<open>Properties of the system\<close>

text \<open>
  C1. Maker and checker. In every reachable state, a customer that is no longer pending was
  decided (active or rejected) by a named reviewer who is not the person who submitted it, and
  apart from side events its audit trail is exactly one submission by the maker followed by one
  decision by the reviewer, of the matching type and time; its risk assessment is the engine's.
\<close>

theorem maker_checker:
  assumes "reachable r" and "mem_customer r i = Some c"
    and "Customer_Status c \<noteq> CustomerPendingApproval"
  shows "Customer_Status c \<in> {CustomerActive, CustomerRejected} \<and>
    Customer_ReviewedBy c \<noteq> [] \<and> Customer_ReviewedBy c \<noteq> Customer_CreatedBy c \<and>
    Customer_RiskAssessment c = Assess (Customer_RiskFactors c) (Customer_CreatedAt c) \<and>
    (\<exists>sub dec. filter (\<lambda>e. \<not> side_event e) (trail r i) = [sub, dec] \<and>
       Event_EventType sub = ''customer.submitted'' \<and> Event_Actor sub = Customer_CreatedBy c \<and>
       Event_EventType dec = decision_event (Customer_Status c) \<and>
       Event_Actor dec = Customer_ReviewedBy c \<and>
       Customer_ReviewedAt c = Some (Event_OccurredAt dec))"
proof -
  have "customer_ok (trail r i) c"
    using reachable_system_inv [OF assms(1)] assms(2) by (simp add: system_inv_def customers_inv_def)
  then show ?thesis using assms(3) by (auto simp: customer_ok_def)
qed

theorem maker_checker_witness:
  "\<exists>c. mem_customer demo8 ''c'' = Some c \<and> Customer_ReviewedBy c \<noteq> Customer_CreatedBy c"
proof (rule demo8_facts)
  fix c
  assume "mem_customer demo8 ''c'' = Some c" and "Customer_Status c = CustomerActive"
  then show ?thesis using maker_checker [OF demo_reachable(8), of "''c''" c] by simp
qed

text \<open>
  C4. Decisions are final: once a customer is active or rejected, no sequence of service calls
  changes its record again.
\<close>

theorem decision_final:
  assumes "reachable r" and "mem_customer r i = Some c"
    and "Customer_Status c \<noteq> CustomerPendingApproval" and "rtranclp step r r'"
  shows "mem_customer r' i = Some c"
  using assms(4,1,2)
proof (rule steps_induct_reachable)
  fix s s'
  assume "reachable s" and "change s s'" and "mem_customer s i = Some c"
  then show "mem_customer s' i = Some c"
    using change_decided_kept [of s s' i c] reachable_wf reachable_apart assms(3) by blast
qed

theorem decision_final_witness: "mem_customer demo8 ''c'' = mem_customer demo2 ''c''"
proof -
  obtain c where "mem_customer demo2 ''c'' = Some c" and "Customer_Status c = CustomerActive"
    using demo2_customer by auto
  then show ?thesis
    using decision_final [OF demo_reachable(2) _ _ demo_path(1), of "''c''" c] by simp
qed

text \<open>
  C12. The audit trail is append-only, and consistent: a service call only adds events at the end
  of a trail, and every event filed under an identifier names that identifier.
\<close>

theorem audit_append_only:
  assumes "reachable r" and "step r r'"
  shows "prefix (trail r k) (trail r' k) \<and> (\<forall>e \<in> set (trail r' k). Event_AggregateID e = k)"
proof -
  have filed: "\<forall>e \<in> set (trail s k). Event_AggregateID e = k" if "reachable s" for s
    using that
  proof (induction rule: reachable.induct)
    case start
    then show ?case by (simp add: NewRepository_def)
  next
    case (more s s')
    then show ?case using change_trail [OF step_change, of s s' k] reachable_wf by force
  qed
  have "prefix (trail r k) (trail r' k)"
    using change_trail [OF step_change [OF assms(2)], of k] reachable_wf [OF assms(1)]
    by (auto simp: prefix_def)
  then show ?thesis using filed [OF reachable.more [OF assms]] by simp
qed

theorem audit_append_only_witness: "prefix (trail demo7 ''s||'') (trail demo8 ''s||'')"
  using audit_append_only [OF demo_reachable(7) demo_steps(8)] by simp

text \<open>
  C6. Ingestion is idempotent for good: after a transaction has been accepted, any later ingestion
  of the same command, whatever happened in between, returns the same transaction marked as a
  replay, with alerts of that transaction only, and changes nothing.
\<close>

theorem ingest_replay_forever:
  assumes "reachable r" and "fresh_ids r env"
    and "Ingest mem_CreateTransaction env cmd r = (Inr res, r1)" and "\<not> Ingested_Replayed res"
    and "rtranclp step r1 r2" and "Env_Upper env' = Env_Upper env"
  shows "Ingest mem_CreateTransaction env' cmd r2 =
    (Inr \<lparr>Ingested_Transaction = Ingested_Transaction res,
          Ingested_Alerts = alerts_of_transaction (Transaction_ID (Ingested_Transaction res)) r2,
          Ingested_Replayed = True\<rparr>, r2)"
proof -
  let ?t = "Ingested_Transaction res" and ?k = "Transaction_IdempotencyKey (Ingested_Transaction res)"
  have r1: "reachable r1" by (rule reachable.more [OF assms(1) step.ingest [OF assms(2,3)]])
  obtain t e as es t' as' b where req: "Ingest_request env cmd = Inr (t, e, as, es)"
    and run: "mem_CreateTransaction t e as es r = (Inr (t', as', b), r1)"
    and res: "res = \<lparr>Ingested_Transaction = t', Ingested_Alerts = as', Ingested_Replayed = b\<rparr>"
    using assms(3) by (auto simp: Ingest_def split: sum.splits prod.splits)
  have "mem_CreateTransaction t e as es r = (Inr (t', as', False), r1)" using run res assms(4) by simp
  then have t: "t' = t" and stored: "r1 = store_transaction t e as es r"
    by (auto elim: mem_CreateTransaction_newE)
  have len: "length as = length es" using req by (auto elim: Ingest_requestE)
  have ids: "distinct (map Alert_ID as)"
    using mem_transactions.new_ids_distinct [OF assms(2) req] by simp
  have "mem_recorded r1 ?k = Some ?t"
    using store_transaction_effects(2,3) [OF len ids stored] by (simp add: mem_recorded_def res t)
  with assms(5) r1 have known: "mem_recorded r2 ?k = Some ?t"
  proof (rule steps_induct_reachable)
    fix s s'
    assume "reachable s" and "change s s'" and "mem_recorded s ?k = Some ?t"
    then show "mem_recorded s' ?k = Some ?t" using change_recorded_kept reachable_wf by blast
  qed
  obtain t2 e2 as2 es2 where req2: "Ingest_request env' cmd = Inr (t2, e2, as2, es2)"
    and same: "SameIngestionPayload t t2"
    and key: "Transaction_IdempotencyKey t2 = Transaction_IdempotencyKey t"
    by (rule Ingest_request_same [OF req assms(6)])
  have "transactions_wf r2" by (rule repo_wfD(1) [OF reachable_wf [OF steps_reachable [OF assms(5) r1]]])
  then show ?thesis
    using mem_transactions.Ingest_known [OF _ req2] known same key by (simp add: res t)
qed

theorem ingest_replay_forever_witness:
  "\<exists>res. Ingest mem_CreateTransaction (call ''z'' 99) demo_transaction demo8 = (Inr res, demo8)"
proof -
  obtain res r1 where run: "Ingest mem_CreateTransaction (call ''t'' 30) demo_transaction demo2 = (res, r1)"
    by fastforce
  have "(\<lambda>x. case x of Inl e \<Rightarrow> None | Inr y \<Rightarrow> Some (Ingested_Replayed y))
      (fst (Ingest mem_CreateTransaction (call ''t'' 30) demo_transaction demo2)) = Some False"
    by code_simp
  then obtain y where y: "res = Inr y" "\<not> Ingested_Replayed y" using run by (cases res) auto
  have "r1 = demo3" using run by (simp add: demo3_def)
  moreover note demo_path(2)
  moreover have "fresh_ids demo2 (call ''t'' 30)"
    by (rule fresh_call) (simp add: demo_keys)
  ultimately show ?thesis
    using ingest_replay_forever [OF demo_reachable(2), of "call ''t'' 30" demo_transaction y demo3
        demo8 "call ''z'' 99"] run y
    by (auto simp: call_def)
qed

text \<open>
  C13. A reused idempotency key is refused: if a valid command carries the key of a stored
  transaction but another payload, the answer is a conflict and nothing changes.
\<close>

theorem ingest_conflict:
  assumes "reachable r" and "mem_transaction r i = Some t0"
    and "Ingest_request env cmd = Inr (t, e, as, es)"
    and "Transaction_IdempotencyKey t = Transaction_IdempotencyKey t0"
    and "\<not> SameIngestionPayload t0 t"
  shows "Ingest mem_CreateTransaction env cmd r = (Inl ErrIdempotencyConflict, r)"
proof -
  have wf: "transactions_wf r" by (rule repo_wfD(1) [OF reachable_wf [OF assms(1)]])
  have "mem_recorded r (Transaction_IdempotencyKey t) = Some t0"
    using transactions_wfD(2) [OF wf assms(2)] assms(2,4) by (simp add: mem_recorded_def)
  then show ?thesis using mem_transactions.Ingest_known [OF wf assms(3)] assms(5) by simp
qed

definition other_amount :: IngestTransactionCommand where
  "other_amount = demo_transaction\<lparr>Ingest_AmountMinor := 6\<rparr>"

theorem ingest_conflict_witness:
  "Ingest mem_CreateTransaction (call ''z'' 99) other_amount demo8 = (Inl ErrIdempotencyConflict, demo8)"
proof (rule demo8_facts)
  fix t0
  assume t0: "mem_transaction demo8 ''t'' = Some t0" and key: "Transaction_IdempotencyKey t0 = ''key''"
    and amount: "Transaction_AmountMinor t0 = 5"
  have "(\<lambda>x. case x of Inl e \<Rightarrow> None | Inr (t, _) \<Rightarrow> Some (Transaction_IdempotencyKey t, Transaction_AmountMinor t))
      (Ingest_request (call ''z'' 99) other_amount) = Some (''key'', 6)"
    by code_simp
  then obtain t e as es where "Ingest_request (call ''z'' 99) other_amount = Inr (t, e, as, es)"
    and "Transaction_IdempotencyKey t = ''key''" and "Transaction_AmountMinor t = 6"
    by (auto split: sum.splits prod.splits)
  then show ?thesis
    using ingest_conflict [OF demo_reachable(8) t0] key amount by (auto simp: SameIngestionPayload_def)
qed



text \<open>
  C5. The life of an alert: the audit trail of an alert is its creation alone while it is open,
  and its creation followed by one closing once it is closed; the record names the actor and the
  time of that closing and gives a reason. So no alert is closed twice, reopened, or closed
  without a trace.
\<close>

theorem alert_lifecycle:
  assumes "reachable r" and "mem_alert r i = Some a"
  shows "\<exists>new. Event_EventType new = ''alert.created'' \<and>
    (Alert_Status a = AlertOpen \<and> Alert_ClosedAt a = None \<and> trail r i = [new] \<or>
     Alert_Status a = AlertClosed \<and> Alert_ClosedBy a \<noteq> [] \<and> Alert_ClosureReason a \<noteq> [] \<and>
       (\<exists>fin. trail r i = [new, fin] \<and> Event_EventType fin = ''alert.closed'' \<and>
          Event_Actor fin = Alert_ClosedBy a \<and> Alert_ClosedAt a = Some (Event_OccurredAt fin)))"
proof -
  have "alert_ok (trail r i) a"
    using reachable_system_inv [OF assms(1)] assms(2) by (simp add: system_inv_def alerts_inv_def)
  then show ?thesis by (auto simp: alert_ok_def)
qed

theorem alert_lifecycle_witness: "length (trail demo8 ''s||'') = 2"
proof (rule demo8_facts)
  fix al
  assume "mem_alert demo8 ''s||'' = Some al" and "Alert_Status al = AlertClosed"
  then show ?thesis using alert_lifecycle [OF demo_reachable(8), of "''s||''" al] by auto
qed

text \<open>
  C8. Cases and alerts: an alert never has two cases, a case carries the customer of its alert,
  and a resolved case has a closed alert with the same actor, time and text.
\<close>

theorem case_alert_consistent:
  assumes "reachable r" and "mem_case r i = Some c"
  shows "(\<exists>a. mem_alert r (Case_AlertID c) = Some a \<and> Case_CustomerID c = Alert_CustomerID a \<and>
      (Case_Status c = CaseResolved \<longrightarrow>
        Alert_Status a = AlertClosed \<and> Alert_ClosedBy a = Case_ResolvedBy c \<and>
        Alert_ClosedAt a = Case_ResolvedAt c \<and> Alert_ClosureReason a = Case_Resolution c)) \<and>
    (\<forall>j d. mem_case r j = Some d \<longrightarrow> Case_AlertID d = Case_AlertID c \<longrightarrow> j = i)"
proof -
  have inv: "cases_inv r" using reachable_system_inv [OF assms(1)] by (simp add: system_inv_def)
  obtain a where "mem_alert r (Case_AlertID c) = Some a" and "case_ok c a"
    by (rule cases_invD [OF inv assms(2)])
  moreover have "\<forall>j d. mem_case r j = Some d \<longrightarrow> Case_AlertID d = Case_AlertID c \<longrightarrow> j = i"
    using inv assms(2) unfolding cases_inv_def by metis
  ultimately show ?thesis by (auto simp: case_ok_def)
qed

theorem case_alert_consistent_witness:
  "\<exists>c a. mem_case demo8 ''k'' = Some c \<and> mem_alert demo8 ''t||'' = Some a \<and>
     Alert_ClosedBy a = Case_ResolvedBy c"
proof (rule demo8_facts)
  fix k
  assume k: "mem_case demo8 ''k'' = Some k" "Case_Status k = CaseResolved" "Case_AlertID k = ''t||''"
  obtain a where "mem_alert demo8 (Case_AlertID k) = Some a" and "Alert_ClosedBy a = Case_ResolvedBy k"
    using case_alert_consistent [OF demo_reachable(8) k(1)] k(2) by blast
  then show ?thesis using k by simp
qed

text \<open>
  C7. A case can be stranded: if the alert of an unresolved case is closed directly, then whatever
  happens later the case stays unresolved, and every attempt to resolve it is refused.
\<close>

theorem stranded_case:
  assumes "reachable r" and "mem_case r (TrimSpace i) = Some c" and "Case_Status c \<noteq> CaseResolved"
    and "mem_alert r (Case_AlertID c) = Some a" and "Alert_Status a = AlertClosed"
    and "rtranclp step r r'"
  shows "(\<exists>err. Resolve mem_ResolveCase env i text actor r' = (Inl err, r')) \<and>
    (\<exists>c'. mem_case r' (TrimSpace i) = Some c' \<and> Case_Status c' \<noteq> CaseResolved)"
proof -
  let ?stuck = "\<lambda>s. \<exists>c'. mem_case s (TrimSpace i) = Some c' \<and> Case_Status c' \<noteq> CaseResolved \<and>
      Case_AlertID c' = Case_AlertID c \<and> mem_alert s (Case_AlertID c) = Some a"
  from assms(6,1) have "?stuck r'"
  proof (rule steps_induct_reachable)
    show "?stuck r" using assms(2-4) by blast
    fix s s'
    assume s: "reachable s" "change s s'" and "?stuck s"
    then obtain c' where "mem_case s (TrimSpace i) = Some c'" and "Case_Status c' \<noteq> CaseResolved"
      and eq: "Case_AlertID c' = Case_AlertID c" and "mem_alert s (Case_AlertID c') = Some a"
      by auto
    from change_stuck_kept [OF s(2) reachable_system_inv [OF s(1)] this(1,2,4) assms(5)]
    show "?stuck s'" by (auto simp: eq)
  qed
  then show ?thesis
    using mem_cases.Resolve_stuck [of r' i] assms(5) by fastforce
qed

theorem stranded_case_witness:
  "\<exists>err. Resolve mem_ResolveCase (call ''y'' 99) ''m'' ''done'' ''ana'' demo8 = (Inl err, demo8)"
proof (rule demo8_facts)
  fix m al
  assume "mem_case demo8 ''m'' = Some m" and "Case_Status m = CaseOpen" and "Case_AlertID m = ''s||''"
    and "mem_alert demo8 ''s||'' = Some al" and "Alert_Status al = AlertClosed"
  moreover have "TrimSpace ''m'' = ''m''" by code_simp
  ultimately show ?thesis
    using stranded_case [OF demo_reachable(8), of "''m''" m al demo8] by simp
qed

end
